(* ===== verification/Dispatcher_Prelude.thy ===== *)
theory Dispatcher_Prelude
  imports Main "HOL-Library.Word" "HOL-Library.Char_ord" "HOL-Library.List_Lexorder"
begin

text \<open>
  The part of the Go language and of its standard library that the program uses on plain data,
  and the lemmas the other theories share.  A Go string is a list of bytes, that is an Isabelle
  \<open>string\<close>; an \<open>int64\<close> is a 64-bit word read with \<open>sint\<close>; a \<open>time.Duration\<close> is an \<open>int64\<close>
  number of nanoseconds, with the wrap-around of Go's multiplication.

  Modelled here: \<open>strconv.ParseInt(s, 10, 64)\<close> and the decimal printing of an \<open>int64\<close>,
  \<open>strings.TrimSpace\<close> (with the Unicode white space, as UTF-8 byte patterns), the ASCII part of
  \<open>strings.ToLower\<close>, \<open>strings.Split\<close> and \<open>strings.Join\<close>, and \<open>time.Duration.Seconds\<close>
  truncated to an \<open>int64\<close>.
\<close>

named_theorems go_eval \<open>definitional equations that evaluate the model on concrete input\<close>

declare Let_def [simp]

section \<open>Bytes and integers\<close>

type_synonym i64 = "64 word"

abbreviation byte :: "char \<Rightarrow> nat" where
  "byte c \<equiv> of_char c"

abbreviation dquote :: char where "dquote \<equiv> CHR 0x22"
abbreviation bslash :: char where "bslash \<equiv> CHR 0x5C"

definition is_digit :: "char \<Rightarrow> bool" where
  "is_digit c \<longleftrightarrow> 48 \<le> byte c \<and> byte c \<le> 57"

definition digit_val :: "char \<Rightarrow> nat" where
  "digit_val c = byte c - 48"

definition digit_char :: "nat \<Rightarrow> char" where
  "digit_char n = char_of (48 + n)"

text \<open>Decimal printing of a natural number, most significant digit first.\<close>

fun show_nat :: "nat \<Rightarrow> string" where
  "show_nat n = (if n < 10 then [digit_char n] else show_nat (n div 10) @ [digit_char (n mod 10)])"

declare show_nat.simps [simp del]

definition digits_val :: "string \<Rightarrow> nat" where
  "digits_val ds = foldl (\<lambda>a c. 10 * a + digit_val c) 0 ds"

definition show_i64 :: "i64 \<Rightarrow> string" where
  "show_i64 w = (if sint w < 0 then CHR ''-'' # show_nat (nat (- sint w)) else show_nat (nat (sint w)))"

text \<open>
  \<open>strconv.ParseInt(s, 10, 64)\<close>: an optional sign, then one or more decimal digits, the value in
  the range of an \<open>int64\<close>; \<open>None\<close> is a non-nil error (syntax or range).
\<close>

definition parse_i64 :: "string \<Rightarrow> i64 option" where
  "parse_i64 s =
     (let neg = (s \<noteq> [] \<and> hd s = CHR ''-'');
          ds = (if s \<noteq> [] \<and> (hd s = CHR ''-'' \<or> hd s = CHR ''+'') then tl s else s)
      in if ds = [] \<or> \<not> list_all is_digit ds then None
         else let v = (if neg then - int (digits_val ds) else int (digits_val ds))
              in if - (2 ^ 63) \<le> v \<and> v < 2 ^ 63 then Some (word_of_int v) else None)"

lemma byte_digit_char: "n < 10 \<Longrightarrow> byte (digit_char n) = 48 + n"
  by (simp add: digit_char_def)

lemma is_digit_digit_char [simp]: "n < 10 \<Longrightarrow> is_digit (digit_char n)"
  by (simp add: is_digit_def byte_digit_char)

lemma digit_val_digit_char [simp]: "n < 10 \<Longrightarrow> digit_val (digit_char n) = n"
  by (simp add: digit_val_def byte_digit_char)

lemma show_nat_nonempty [simp]: "show_nat n \<noteq> []"
  by (subst show_nat.simps) simp

lemma show_nat_digits: "list_all is_digit (show_nat n)"
proof (induction n rule: show_nat.induct)
  case (1 n)
  then show ?case by (subst show_nat.simps) simp
qed

lemma digits_val_snoc: "digits_val (ds @ [c]) = 10 * digits_val ds + digit_val c"
  by (simp add: digits_val_def)

lemma digits_val_show_nat: "digits_val (show_nat n) = n"
proof (induction n rule: show_nat.induct)
  case (1 n)
  show ?case
  proof (cases "n < 10")
    case True
    then show ?thesis by (subst show_nat.simps) (simp add: digits_val_def)
  next
    case False
    with 1 show ?thesis by (subst show_nat.simps) (simp add: digits_val_snoc)
  qed
qed

lemma not_digit_signs [simp]: "\<not> is_digit CHR ''-''" "\<not> is_digit CHR ''+''" "\<not> is_digit CHR ''.''"
  "\<not> is_digit CHR ''e''" "\<not> is_digit CHR ''E''"
  by (simp_all add: is_digit_def)

lemma show_nat_hd: "is_digit (hd (show_nat n))"
  using show_nat_digits [of n] show_nat_nonempty [of n] by (cases "show_nat n") auto

lemma show_nat_hd_zero: "hd (show_nat n) = CHR ''0'' \<Longrightarrow> n = 0"
proof (induction n rule: show_nat.induct)
  case (1 n)
  show ?case
  proof (cases "n < 10")
    case True
    with "1.prems" have "digit_char n = CHR ''0''" by (subst (asm) show_nat.simps) simp
    with True byte_digit_char [of n] show ?thesis by simp
  next
    case False
    with "1.prems" have "hd (show_nat (n div 10)) = CHR ''0''"
      by (subst (asm) show_nat.simps) simp
    with False "1.IH" have "n div 10 = 0" by simp
    with False show ?thesis by simp
  qed
qed

text \<open>Printing an \<open>int64\<close> and parsing the text gives the number back.\<close>

lemma sint_i64_bounds: "- (2 ^ 63) \<le> sint (w :: i64)" "sint (w :: i64) < 2 ^ 63"
  using sint_range_size [of w] by (simp_all add: word_size)

lemma parse_show_i64 [simp]: "parse_i64 (show_i64 w) = Some w"
proof (cases "sint w < 0")
  case True
  then have "show_i64 w = CHR ''-'' # show_nat (nat (- sint w))" by (simp add: show_i64_def)
  moreover from True sint_i64_bounds [of w] have "int (nat (- sint w)) = - sint w" by simp
  ultimately show ?thesis
    using show_nat_digits [of "nat (- sint w)"] sint_i64_bounds [of w]
    by (simp add: parse_i64_def digits_val_show_nat)
next
  case False
  have "hd (show_nat n) \<noteq> CHR ''-''" "hd (show_nat n) \<noteq> CHR ''+''" for n
    using show_nat_hd [of n] by (metis not_digit_signs(1), metis not_digit_signs(2))
  then show ?thesis
    using False show_nat_digits [of "nat (sint w)"] sint_i64_bounds [of w]
    by (simp add: parse_i64_def show_i64_def digits_val_show_nat)
qed

section \<open>Durations\<close>

definition nanosecond_per_ms :: i64 where "nanosecond_per_ms = 1000000"
definition nanosecond_per_s :: i64 where "nanosecond_per_s = 1000000000"

text \<open>
  \<open>int64(d.Seconds())\<close>.  \<open>Seconds\<close> goes through a \<open>float64\<close>; the truncation of the quotient is
  the same number whenever \<open>d\<close> is a whole number of seconds, and every duration the program
  applies it to is a number of seconds multiplied by \<open>time.Second\<close> (it stops being whole only
  where that multiplication has wrapped around).
\<close>

definition duration_seconds :: "i64 \<Rightarrow> i64" where
  "duration_seconds d = word_of_int (sgn (sint d) * (\<bar>sint d\<bar> div 1000000000))"

lemma sint_word_of_int_i64 [simp]:
  "- (2 ^ 63) \<le> k \<Longrightarrow> k < 2 ^ 63 \<Longrightarrow> sint (word_of_int k :: i64) = k"
  by (simp add: sint_sbintrunc' signed_take_bit_int_eq_self)

lemma sint_mult_i64:
  assumes "- (2 ^ 63) \<le> sint a * sint b" "sint a * sint b < 2 ^ 63"
  shows "sint (a * b :: i64) = sint a * sint b"
proof -
  have "a * b = word_of_int (sint a * sint b)" by (simp add: wi_hom_mult [symmetric])
  then show ?thesis using assms by (simp only: sint_word_of_int_i64)
qed

lemma sint_minus_i64:
  assumes "- (2 ^ 63) \<le> sint a - sint b" "sint a - sint b < 2 ^ 63"
  shows "sint (a - b :: i64) = sint a - sint b"
proof -
  have "a - b = word_of_int (sint a - sint b)" by (simp add: wi_hom_sub [symmetric])
  then show ?thesis using assms by (simp only: sint_word_of_int_i64)
qed

lemma duration_seconds_of_seconds:
  assumes "\<bar>sint n\<bar> \<le> 9223372036"
  shows "duration_seconds (n * nanosecond_per_s) = n"
proof -
  have "sint (n * nanosecond_per_s) = sint n * 1000000000"
    using assms by (subst sint_mult_i64) (auto simp: nanosecond_per_s_def)
  then show ?thesis
    by (simp add: duration_seconds_def sgn_mult abs_mult mult_sgn_abs)
qed

section \<open>Strings\<close>

text \<open>
  \<open>strings.TrimSpace\<close>: the white space of \<open>unicode.IsSpace\<close> in UTF-8, by the number of bytes of a
  white-space rune at the front of a string (0 where there is none) and at its end.
\<close>

definition ascii_space :: "char \<Rightarrow> bool" where
  "ascii_space c \<longleftrightarrow> (9 \<le> byte c \<and> byte c \<le> 13) \<or> byte c = 32"

definition space2 :: "string \<Rightarrow> bool" where
  "space2 s \<longleftrightarrow> List.member [[0xC2, 0x85], [0xC2, 0xA0]] (map byte s :: nat list)"

definition space3 :: "string \<Rightarrow> bool" where
  "space3 s \<longleftrightarrow> List.member
     ([[0xE1, 0x9A, 0x80], [0xE2, 0x80, 0xA8], [0xE2, 0x80, 0xA9], [0xE2, 0x80, 0xAF],
       [0xE2, 0x81, 0x9F], [0xE3, 0x80, 0x80]] @ map (\<lambda>n. [0xE2, 0x80, n]) [0x80 ..< 0x8B])
     (map byte s :: nat list)"

definition leading_space :: "string \<Rightarrow> nat" where
  "leading_space s =
     (if s = [] then 0 else if ascii_space (hd s) then 1
      else if space2 (take 2 s) then 2 else if space3 (take 3 s) then 3 else 0)"

definition trailing_space :: "string \<Rightarrow> nat" where
  "trailing_space s =
     (if s = [] then 0 else if ascii_space (last s) then 1
      else if space2 (drop (length s - 2) s) then 2
      else if space3 (drop (length s - 3) s) then 3 else 0)"

lemma leading_space_nonempty: "0 < leading_space s \<Longrightarrow> 0 < length s"
  by (auto simp: leading_space_def)

lemma trailing_space_nonempty: "0 < trailing_space s \<Longrightarrow> 0 < length s"
  by (auto simp: trailing_space_def)

function trim_left :: "string \<Rightarrow> string" where
  "trim_left s = (if leading_space s = 0 then s else trim_left (drop (leading_space s) s))"
  by pat_completeness auto
termination
  by (relation "measure length") (auto simp del: length_greater_0_conv intro!: diff_less leading_space_nonempty)

function trim_right :: "string \<Rightarrow> string" where
  "trim_right s =
     (if trailing_space s = 0 then s else trim_right (take (length s - trailing_space s) s))"
  by pat_completeness auto
termination
  by (relation "measure length") (auto simp del: length_greater_0_conv intro!: diff_less trailing_space_nonempty)

declare trim_left.simps [simp del] trim_right.simps [simp del]

definition trim_space :: "string \<Rightarrow> string" where
  "trim_space s = trim_right (trim_left s)"

lemma trim_left_no_leading: "leading_space (trim_left s) = 0"
proof (induction s rule: trim_left.induct)
  case (1 s)
  then show ?case by (subst trim_left.simps) simp
qed

lemma trim_right_no_trailing: "trailing_space (trim_right s) = 0"
proof (induction s rule: trim_right.induct)
  case (1 s)
  then show ?case by (subst trim_right.simps) simp
qed

text \<open>
  The ASCII part of \<open>strings.ToLower\<close>.  Its only use is in a comparison with the words
  \<open>1\<close>, \<open>true\<close> and \<open>yes\<close>; no rune outside ASCII has a lower case among their letters.
\<close>

definition ascii_lower :: "string \<Rightarrow> string" where
  "ascii_lower s = map (\<lambda>c. if 65 \<le> byte c \<and> byte c \<le> 90 then char_of (byte c + 32) else c) s"

text \<open>\<open>strings.Split\<close> with a separator of one byte, and the joining it undoes.\<close>

fun split_on :: "char \<Rightarrow> string \<Rightarrow> string list" where
  "split_on sep [] = [[]]"
| "split_on sep (c # cs) =
     (if c = sep then [] # split_on sep cs
      else (c # hd (split_on sep cs)) # tl (split_on sep cs))"

fun join_with :: "string \<Rightarrow> string list \<Rightarrow> string" where
  "join_with sep [] = []"
| "join_with sep [s] = s"
| "join_with sep (s # t # ss) = s @ sep @ join_with sep (t # ss)"

lemma split_on_nonempty [simp]: "split_on sep s \<noteq> []"
  by (cases s) auto

lemma join_split: "join_with [sep] (split_on sep s) = s"
proof (induction s)
  case Nil
  then show ?case by simp
next
  case (Cons c cs)
  then show ?case by (cases "split_on sep cs"; cases "tl (split_on sep cs)") auto
qed

lemma split_on_sep: "sep \<notin> set a \<Longrightarrow> split_on sep (a @ sep # s) = a # split_on sep s"
  by (induction a) auto

lemma split_on_none: "sep \<notin> set a \<Longrightarrow> split_on sep a = [a]"
  by (induction a) auto

lemma split_on_snoc: "split_on sep (s @ [sep]) = split_on sep s @ [[]]"
  by (induction s) simp_all

lemma split_join:
  "es \<noteq> [] \<Longrightarrow> list_all (\<lambda>e. sep \<notin> set e) es \<Longrightarrow> split_on sep (join_with [sep] es) = es"
  by (induction "[sep]" es rule: join_with.induct) (simp_all add: split_on_sep split_on_none)

lemma split_on_no_sep: "part \<in> set (split_on sep s) \<Longrightarrow> sep \<notin> set part"
proof (induction s arbitrary: part)
  case Nil
  then show ?case by simp
next
  case (Cons c cs)
  then show ?case by (cases "split_on sep cs") (auto split: if_splits)
qed

end
