(* ===== verification/Go_Json.thy ===== *)
theory Go_Json
  imports Dispatcher_Prelude
begin

text \<open>
  What the program uses of \<open>encoding/json\<close> (Go 1.22).  A JSON text is parsed into, and printed
  from, a syntax tree \<open>json\<close>; a number keeps its literal.  \<open>json_text\<close> is the compact output of the
  encoder (HTML-safe quoting, invalid UTF-8 replaced by the escape of U+FFFD); \<open>json_parse\<close> is the scanner and
  the string unquoting of the decoder, with its nesting limit of 10000.

  \<open>goval\<close> is a value of type \<open>interface{}\<close>.  A \<open>float64\<close> is the text the encoder prints for it; the
  conversion of a number literal to that text (\<open>strconv.ParseFloat\<close> and the shortest formatting of
  the result) is the parameter \<open>fl\<close> of the decoder, \<open>None\<close> where the literal is out of range.
  \<open>GOther\<close> is any value the encoder rejects (a channel, a function, a NaN).
\<close>

section \<open>Syntax trees and their text\<close>

datatype json = JNull | JBool bool | JNum string | JStr string | JArr "json list"
  | JObj "(string \<times> json) list"

text \<open>The number of bytes of the valid UTF-8 sequence at the front of a string, 0 if there is none.\<close>

definition cont :: "char \<Rightarrow> bool" where
  "cont c \<longleftrightarrow> 0x80 \<le> byte c \<and> byte c \<le> 0xBF"

fun utf8_len :: "string \<Rightarrow> nat" where
  "utf8_len [] = 0"
| "utf8_len (a # s) =
     (let n = byte a in
      if n < 0x80 then 1
      else if 0xC2 \<le> n \<and> n \<le> 0xDF then
        (case s of b # _ \<Rightarrow> if cont b then 2 else 0 | _ \<Rightarrow> 0)
      else if 0xE0 \<le> n \<and> n \<le> 0xEF then
        (case s of b # c # _ \<Rightarrow>
           if cont b \<and> cont c \<and> (n = 0xE0 \<longrightarrow> 0xA0 \<le> byte b) \<and> (n = 0xED \<longrightarrow> byte b \<le> 0x9F)
           then 3 else 0
         | _ \<Rightarrow> 0)
      else if 0xF0 \<le> n \<and> n \<le> 0xF4 then
        (case s of b # c # d # _ \<Rightarrow>
           if cont b \<and> cont c \<and> cont d \<and> (n = 0xF0 \<longrightarrow> 0x90 \<le> byte b) \<and> (n = 0xF4 \<longrightarrow> byte b \<le> 0x8F)
           then 4 else 0
         | _ \<Rightarrow> 0)
      else 0)"

definition hex_char :: "nat \<Rightarrow> char" where
  "hex_char n = (if n < 10 then char_of (48 + n) else char_of (87 + n))"

definition hex_val :: "char \<Rightarrow> nat option" where
  "hex_val c = (if is_digit c then Some (byte c - 48)
     else if 97 \<le> byte c \<and> byte c \<le> 102 then Some (byte c - 87)
     else if 65 \<le> byte c \<and> byte c \<le> 70 then Some (byte c - 55) else None)"

text \<open>One ASCII byte inside a JSON string, as the encoder writes it.\<close>

definition quote_ascii :: "char \<Rightarrow> string" where
  "quote_ascii c =
     (if c = dquote \<or> c = bslash then [bslash, c]
      else if byte c = 8 then [bslash, CHR ''b'']
      else if byte c = 12 then [bslash, CHR ''f'']
      else if byte c = 10 then [bslash, CHR ''n'']
      else if byte c = 13 then [bslash, CHR ''r'']
      else if byte c = 9 then [bslash, CHR ''t'']
      else if byte c < 0x20 \<or> c = CHR ''<'' \<or> c = CHR ''>'' \<or> c = CHR ''&'' then
        [bslash, CHR ''u'', CHR ''0'', CHR ''0'', hex_char (byte c div 16), hex_char (byte c mod 16)]
      else [c])"

definition quote_rune :: "string \<Rightarrow> string" where
  "quote_rune r =
     (if (map byte r :: nat list) = [0xE2, 0x80, 0xA8] then bslash # ''u2028''
      else if (map byte r :: nat list) = [0xE2, 0x80, 0xA9] then bslash # ''u2029''
      else r)"

fun quote_chars :: "string \<Rightarrow> string" where
  "quote_chars [] = []"
| "quote_chars (c # cs) =
     (if byte c < (0x80::nat) then quote_ascii c @ quote_chars cs
      else if utf8_len (c # cs) = 0 then bslash # ''ufffd'' @ quote_chars cs
      else quote_rune (take (utf8_len (c # cs)) (c # cs))
             @ quote_chars (drop (utf8_len (c # cs) - 1) cs))"

definition json_quote :: "string \<Rightarrow> string" where
  "json_quote s = dquote # quote_chars s @ [dquote]"

fun json_text :: "json \<Rightarrow> string" where
  "json_text JNull = ''null''"
| "json_text (JBool b) = (if b then ''true'' else ''false'')"
| "json_text (JNum n) = n"
| "json_text (JStr s) = json_quote s"
| "json_text (JArr js) = CHR ''['' # join_with '','' (map json_text js) @ '']''"
| "json_text (JObj kvs) =
     CHR ''{'' # join_with '','' (map (\<lambda>kv. json_quote (fst kv) @ CHR '':'' # json_text (snd kv)) kvs) @ ''}''"

section \<open>Parsing\<close>

definition json_ws :: "char \<Rightarrow> bool" where
  "json_ws c \<longleftrightarrow> c = CHR '' '' \<or> byte c = 9 \<or> byte c = 10 \<or> byte c = 13"

definition skip_ws :: "string \<Rightarrow> string" where
  "skip_ws s = dropWhile json_ws s"

text \<open>The raw body of a string literal up to its closing quote, and what follows the quote.\<close>

definition simple_escape :: "char \<Rightarrow> bool" where
  "simple_escape c \<longleftrightarrow> c = dquote \<or> c = bslash \<or> List.member ''/bfnrt'' c"

fun scan_string :: "string \<Rightarrow> (string \<times> string) option" where
  "scan_string [] = None"
| "scan_string (c # cs) =
     (if c = dquote then Some ([], cs)
      else if c = bslash then
        (case cs of
           [] \<Rightarrow> None
         | e # es \<Rightarrow>
             if simple_escape e then map_option (\<lambda>(a, r). (c # e # a, r)) (scan_string es)
             else if e = CHR ''u'' \<and> 4 \<le> length es \<and> list_all (\<lambda>h. hex_val h \<noteq> None) (take 4 es) then
               map_option (\<lambda>(a, r). (c # e # take 4 es @ a, r)) (scan_string (drop 4 es))
             else None)
      else if byte c < (0x20::nat) then None
      else map_option (\<lambda>(a, r). (c # a, r)) (scan_string cs))"

definition hex4 :: "string \<Rightarrow> nat" where
  "hex4 s = foldl (\<lambda>a c. 16 * a + (case hex_val c of Some v \<Rightarrow> v | None \<Rightarrow> 0)) 0 (take 4 s)"

definition utf8_encode :: "nat \<Rightarrow> string" where
  "utf8_encode n =
     map char_of
      (if n < 0x80 then [n]
       else if n < 0x800 then [0xC0 + n div 64, 0x80 + n mod 64]
       else if n < 0x10000 then [0xE0 + n div 4096, 0x80 + n div 64 mod 64, 0x80 + n mod 64]
       else [0xF0 + n div 262144, 0x80 + n div 4096 mod 64, 0x80 + n div 64 mod 64, 0x80 + n mod 64])"

definition replacement :: string where
  "replacement = utf8_encode 0xFFFD"

definition unescape :: "char \<Rightarrow> char" where
  "unescape e =
     (if e = CHR ''b'' then char_of (8::nat) else if e = CHR ''f'' then char_of (12::nat)
      else if e = CHR ''n'' then char_of (10::nat) else if e = CHR ''r'' then char_of (13::nat)
      else if e = CHR ''t'' then char_of (9::nat) else e)"

text \<open>
  \<open>unquote\<close> on a body the scanner has accepted.  A surrogate pair is one rune, a lone surrogate is
  U+FFFD, and so is every byte that is not part of valid UTF-8.
\<close>

definition low_surrogate_next :: "string \<Rightarrow> bool" where
  "low_surrogate_next s \<longleftrightarrow> 6 \<le> length s \<and> s ! 0 = bslash \<and> s ! 1 = CHR ''u''
     \<and> 0xDC00 \<le> hex4 (drop 2 s) \<and> hex4 (drop 2 s) < 0xE000"

fun unquote :: "string \<Rightarrow> string" where
  "unquote [] = []"
| "unquote (c # cs) =
     (if c = bslash then
        (case cs of
           [] \<Rightarrow> []
         | e # es \<Rightarrow>
             if e = CHR ''u'' then
               (let n = hex4 es in
                if 0xD800 \<le> n \<and> n < 0xE000 then
                  if n < 0xDC00 \<and> low_surrogate_next (drop 4 es)
                  then utf8_encode ((n - 0xD800) * 1024 + (hex4 (drop 6 es) - 0xDC00) + 0x10000)
                         @ unquote (drop 10 es)
                  else replacement @ unquote (drop 4 es)
                else utf8_encode n @ unquote (drop 4 es))
             else unescape e # unquote es)
      else if utf8_len (c # cs) = 0 then replacement @ unquote cs
      else take (utf8_len (c # cs)) (c # cs) @ unquote (drop (utf8_len (c # cs) - 1) cs))"

text \<open>A number literal at the front of a string: sign, integer part, fraction, exponent.\<close>

definition scan_digits :: "string \<Rightarrow> string \<times> string" where
  "scan_digits s = (takeWhile is_digit s, dropWhile is_digit s)"

definition scan_int :: "string \<Rightarrow> (string \<times> string) option" where
  "scan_int s =
     (case s of
        [] \<Rightarrow> None
      | c # cs \<Rightarrow> if c = CHR ''0'' then Some ([c], cs)
                  else if is_digit c then Some (scan_digits s) else None)"

definition scan_frac :: "string \<Rightarrow> (string \<times> string) option" where
  "scan_frac s =
     (case s of
        c # cs \<Rightarrow>
          if c = CHR ''.'' then
            if fst (scan_digits cs) = [] then None
            else Some (c # fst (scan_digits cs), snd (scan_digits cs))
          else Some ([], s)
      | [] \<Rightarrow> Some ([], []))"

definition scan_exp :: "string \<Rightarrow> (string \<times> string) option" where
  "scan_exp s =
     (case s of
        c # cs \<Rightarrow>
          if c = CHR ''e'' \<or> c = CHR ''E'' then
            let sg = (if cs \<noteq> [] \<and> (hd cs = CHR ''+'' \<or> hd cs = CHR ''-'') then take 1 cs else []);
                rest = drop (length sg) cs
            in if fst (scan_digits rest) = [] then None
               else Some (c # sg @ fst (scan_digits rest), snd (scan_digits rest))
          else Some ([], s)
      | [] \<Rightarrow> Some ([], []))"

definition scan_number :: "string \<Rightarrow> (string \<times> string) option" where
  "scan_number s =
     (let sg = (if s \<noteq> [] \<and> hd s = CHR ''-'' then take 1 s else [])
      in case scan_int (drop (length sg) s) of
           None \<Rightarrow> None
         | Some (i, r1) \<Rightarrow>
             (case scan_frac r1 of
                None \<Rightarrow> None
              | Some (f, r2) \<Rightarrow>
                  (case scan_exp r2 of
                     None \<Rightarrow> None
                   | Some (x, r3) \<Rightarrow> Some (sg @ i @ f @ x, r3))))"

text \<open>
  Values, array elements and object members.  The first argument is fuel (the length of the text is
  enough), the second the nesting the scanner still allows.
\<close>

fun parse_value :: "nat \<Rightarrow> nat \<Rightarrow> string \<Rightarrow> (json \<times> string) option"
and parse_elems :: "nat \<Rightarrow> nat \<Rightarrow> string \<Rightarrow> (json list \<times> string) option"
and parse_members :: "nat \<Rightarrow> nat \<Rightarrow> string \<Rightarrow> ((string \<times> json) list \<times> string) option"
where
  "parse_value 0 d s = None"
| "parse_value (Suc f) d s =
     (case s of
        [] \<Rightarrow> None
      | c # cs \<Rightarrow>
          if c = dquote then map_option (\<lambda>(a, r). (JStr (unquote a), r)) (scan_string cs)
          else if c = CHR ''['' then
            if d = 0 then None
            else if skip_ws cs \<noteq> [] \<and> hd (skip_ws cs) = CHR '']'' then Some (JArr [], tl (skip_ws cs))
            else map_option (\<lambda>(a, r). (JArr a, r)) (parse_elems f (d - 1) (skip_ws cs))
          else if c = CHR ''{'' then
            if d = 0 then None
            else if skip_ws cs \<noteq> [] \<and> hd (skip_ws cs) = CHR ''}'' then Some (JObj [], tl (skip_ws cs))
            else map_option (\<lambda>(a, r). (JObj a, r)) (parse_members f (d - 1) (skip_ws cs))
          else if take 4 s = ''null'' then Some (JNull, drop 4 s)
          else if take 4 s = ''true'' then Some (JBool True, drop 4 s)
          else if take 5 s = ''false'' then Some (JBool False, drop 5 s)
          else map_option (\<lambda>(a, r). (JNum a, r)) (scan_number s))"
| "parse_elems 0 d s = None"
| "parse_elems (Suc f) d s =
     (case parse_value f d s of
        None \<Rightarrow> None
      | Some (v, r) \<Rightarrow>
          (case skip_ws r of
             [] \<Rightarrow> None
           | c # cs \<Rightarrow>
               if c = CHR '']'' then Some ([v], cs)
               else if c = CHR '','' then
                 map_option (\<lambda>(a, r'). (v # a, r')) (parse_elems f d (skip_ws cs))
               else None))"
| "parse_members 0 d s = None"
| "parse_members (Suc f) d s =
     (case s of
        [] \<Rightarrow> None
      | c0 # cs0 \<Rightarrow>
          if c0 \<noteq> dquote then None
          else (case scan_string cs0 of
                  None \<Rightarrow> None
                | Some (k, r0) \<Rightarrow>
                    (case skip_ws r0 of
                       [] \<Rightarrow> None
                     | c1 # cs1 \<Rightarrow>
                         if c1 \<noteq> CHR '':'' then None
                         else (case parse_value f d (skip_ws cs1) of
                                 None \<Rightarrow> None
                               | Some (v, r) \<Rightarrow>
                                   (case skip_ws r of
                                      [] \<Rightarrow> None
                                    | c # cs \<Rightarrow>
                                        if c = CHR ''}'' then Some ([(unquote k, v)], cs)
                                        else if c = CHR '','' then
                                          map_option (\<lambda>(a, r'). ((unquote k, v) # a, r'))
                                            (parse_members f d (skip_ws cs))
                                        else None)))))"

definition max_nesting :: nat where "max_nesting = 10000"

definition json_parse :: "string \<Rightarrow> json option" where
  "json_parse s =
     (case parse_value (Suc (length s)) max_nesting (skip_ws s) of
        None \<Rightarrow> None
      | Some (v, r) \<Rightarrow> if skip_ws r = [] then Some v else None)"

end
