(* ===== verification/Go_Values.thy ===== *)
theory Go_Values
  imports Go_Json
begin

text \<open>
  Go values of type \<open>interface{}\<close>, their encoding by \<open>json.Marshal\<close> and their decoding by
  \<open>json.Unmarshal\<close>, and the pieces from which the decoding of the structs is built.  A Go map is an
  association list with strictly increasing keys, the order in which the encoder writes it.
\<close>

section \<open>Values and maps\<close>

datatype goval = GNil | GBool bool | GInt i64 | GFloat string | GStr string
  | GList "goval list" | GMap "(string \<times> goval) list" | GOther

fun gmap_put :: "string \<Rightarrow> 'v \<Rightarrow> (string \<times> 'v) list \<Rightarrow> (string \<times> 'v) list" where
  "gmap_put k v [] = [(k, v)]"
| "gmap_put k v ((a, b) # m) =
     (if k < a then (k, v) # (a, b) # m else if k = a then (k, v) # m else (a, b) # gmap_put k v m)"

text \<open>A map literal, or the members of a JSON object: a later entry replaces an earlier one.\<close>

definition gmap_of :: "(string \<times> 'v) list \<Rightarrow> (string \<times> 'v) list" where
  "gmap_of kvs = foldl (\<lambda>m kv. gmap_put (fst kv) (snd kv) m) [] kvs"

definition gmap_wf :: "(string \<times> 'v) list \<Rightarrow> bool" where
  "gmap_wf m \<longleftrightarrow> sorted_wrt (<) (map fst m)"

lemma gmap_wf_simps [simp]:
  "gmap_wf []"
  "gmap_wf ((k, v) # m) \<longleftrightarrow> (\<forall>k' \<in> fst ` set m. k < k') \<and> gmap_wf m"
  by (simp_all add: gmap_wf_def)

lemma fst_gmap_put: "fst ` set (gmap_put k v m) = insert k (fst ` set m)"
  by (induction k v m rule: gmap_put.induct) auto

lemma gmap_wf_put: "gmap_wf m \<Longrightarrow> gmap_wf (gmap_put k v m)"
  by (induction k v m rule: gmap_put.induct) (auto simp: fst_gmap_put)

lemma map_of_gmap_put [simp]: "map_of (gmap_put k v m) = (map_of m)(k \<mapsto> v)"
  by (induction k v m rule: gmap_put.induct) auto

lemma gmap_of_snoc: "gmap_of (kvs @ [(k, v)]) = gmap_put k v (gmap_of kvs)"
  by (simp add: gmap_of_def)

lemma gmap_wf_of: "gmap_wf (gmap_of kvs)"
  by (induction kvs rule: rev_induct) (auto simp: gmap_of_snoc gmap_wf_put gmap_of_def [of "[]"])

lemma map_of_gmap_of: "map_of (gmap_of kvs) = map_of (rev kvs)"
  by (induction kvs rule: rev_induct) (auto simp: gmap_of_snoc gmap_of_def [of "[]"])

lemma gmap_put_last: "(\<forall>k' \<in> fst ` set m. k' < k) \<Longrightarrow> gmap_put k v m = m @ [(k, v)]"
  by (induction k v m rule: gmap_put.induct) (auto simp: not_less_iff_gr_or_eq)

text \<open>A well-formed map is read back unchanged.\<close>

lemma gmap_wf_snoc: "gmap_wf (m @ [(k, v)]) \<longleftrightarrow> gmap_wf m \<and> (\<forall>k' \<in> fst ` set m. k' < k)"
  by (auto simp: gmap_wf_def sorted_wrt_append)

lemma gmap_of_wf [simp]: "gmap_wf m \<Longrightarrow> gmap_of m = m"
proof (induction m rule: rev_induct)
  case Nil
  then show ?case by (simp add: gmap_of_def)
next
  case (snoc kv m)
  then show ?case by (cases kv) (simp add: gmap_wf_snoc gmap_of_snoc gmap_put_last)
qed

section \<open>json.Marshal on interface values\<close>

fun goval_json :: "goval \<Rightarrow> json option" where
  "goval_json GNil = Some JNull"
| "goval_json (GBool b) = Some (JBool b)"
| "goval_json (GInt w) = Some (JNum (show_i64 w))"
| "goval_json (GFloat t) = Some (JNum t)"
| "goval_json (GStr s) = Some (JStr s)"
| "goval_json (GList vs) = map_option JArr (those (map goval_json vs))"
| "goval_json (GMap m) =
     map_option JObj (those (map (\<lambda>kv. map_option (Pair (fst kv)) (goval_json (snd kv))) m))"
| "goval_json GOther = None"

definition marshal :: "goval \<Rightarrow> string option" where
  "marshal v = map_option json_text (goval_json v)"

section \<open>json.Unmarshal into an interface value\<close>

text \<open>\<open>fl\<close> maps a number literal to the text of the \<open>float64\<close> it denotes, \<open>None\<close> out of range.\<close>

fun json_goval :: "(string \<Rightarrow> string option) \<Rightarrow> json \<Rightarrow> goval option" where
  "json_goval fl JNull = Some GNil"
| "json_goval fl (JBool b) = Some (GBool b)"
| "json_goval fl (JNum n) = map_option GFloat (fl n)"
| "json_goval fl (JStr s) = Some (GStr s)"
| "json_goval fl (JArr js) = map_option GList (those (map (json_goval fl) js))"
| "json_goval fl (JObj kvs) =
     map_option (\<lambda>m. GMap (gmap_of m))
       (those (map (\<lambda>kv. map_option (Pair (fst kv)) (json_goval fl (snd kv))) kvs))"

text \<open>The values a decoder can have produced: no \<open>GInt\<close>, no \<open>GOther\<close>, floats in printed form.\<close>

fun decoded :: "(string \<Rightarrow> string option) \<Rightarrow> goval \<Rightarrow> bool" where
  "decoded fl GNil \<longleftrightarrow> True"
| "decoded fl (GBool b) \<longleftrightarrow> True"
| "decoded fl (GInt w) \<longleftrightarrow> False"
| "decoded fl (GFloat t) \<longleftrightarrow> fl t = Some t"
| "decoded fl (GStr s) \<longleftrightarrow> True"
| "decoded fl (GList vs) \<longleftrightarrow> (\<forall>v \<in> set vs. decoded fl v)"
| "decoded fl (GMap m) \<longleftrightarrow> gmap_wf m \<and> (\<forall>kv \<in> set m. decoded fl (snd kv))"
| "decoded fl GOther \<longleftrightarrow> False"

lemma those_map_cong_Some: "(\<And>x. x \<in> set xs \<Longrightarrow> f x = Some (g x)) \<Longrightarrow> those (map f xs) = Some (map g xs)"
  by (induction xs) auto

lemma those_SomeD: "those xs = Some ys \<Longrightarrow> xs = map Some ys"
  by (induction xs arbitrary: ys) (auto split: option.splits)

lemma those_map_roundtrip:
  assumes "\<And>x. x \<in> set xs \<Longrightarrow> \<exists>y. f x = Some y \<and> g y = Some x"
  shows "\<exists>ys. those (map f xs) = Some ys \<and> those (map g ys) = Some xs"
  using assms
proof (induction xs)
  case Nil
  then show ?case by simp
next
  case (Cons x xs)
  then obtain y ys where "f x = Some y" "g y = Some x"
    "those (map f xs) = Some ys" "those (map g ys) = Some xs"
    by (metis list.set_intros)
  then show ?case by auto
qed

lemma goval_json_roundtrip: "decoded fl v \<Longrightarrow> \<exists>j. goval_json v = Some j \<and> json_goval fl j = Some v"
proof (induction v)
  case (GList vs)
  then obtain js where "those (map goval_json vs) = Some js" "those (map (json_goval fl) js) = Some vs"
    using those_map_roundtrip [of vs goval_json "json_goval fl"] by auto
  then show ?case by simp
next
  case (GMap m)
  have "\<exists>kj. map_option (Pair (fst kv)) (goval_json (snd kv)) = Some kj
      \<and> map_option (Pair (fst kj)) (json_goval fl (snd kj)) = Some kv" if "kv \<in> set m" for kv
    using GMap.IH [of kv "snd kv"] GMap.prems that by (cases kv) auto
  then obtain js where
    "those (map (\<lambda>kv. map_option (Pair (fst kv)) (goval_json (snd kv))) m) = Some js"
    "those (map (\<lambda>kv. map_option (Pair (fst kv)) (json_goval fl (snd kv))) js) = Some m"
    using those_map_roundtrip [of m "\<lambda>kv. map_option (Pair (fst kv)) (goval_json (snd kv))"
        "\<lambda>kv. map_option (Pair (fst kv)) (json_goval fl (snd kv))"] by blast
  with GMap.prems show ?case by simp
qed simp_all

section \<open>Decoding struct fields\<close>

text \<open>
  A JSON \<open>null\<close> leaves a string, number or boolean field as it is and empties a slice; any other
  type mismatch is an \<open>UnmarshalTypeError\<close>.  An array is decoded into the elements the slice already has.
\<close>

definition dec_string :: "json \<Rightarrow> string \<Rightarrow> string option" where
  "dec_string j old = (case j of JNull \<Rightarrow> Some old | JStr s \<Rightarrow> Some s | _ \<Rightarrow> None)"

definition dec_bool :: "json \<Rightarrow> bool \<Rightarrow> bool option" where
  "dec_bool j old = (case j of JNull \<Rightarrow> Some old | JBool b \<Rightarrow> Some b | _ \<Rightarrow> None)"

definition dec_i64 :: "json \<Rightarrow> i64 \<Rightarrow> i64 option" where
  "dec_i64 j old = (case j of JNull \<Rightarrow> Some old | JNum n \<Rightarrow> parse_i64 n | _ \<Rightarrow> None)"

fun dec_elems :: "json list \<Rightarrow> string list \<Rightarrow> string list option" where
  "dec_elems [] old = Some []"
| "dec_elems (j # js) old =
     (case dec_string j (if old = [] then '''' else hd old) of
        None \<Rightarrow> None
      | Some s \<Rightarrow> map_option (Cons s) (dec_elems js (tl old)))"

definition dec_strings :: "json \<Rightarrow> string list \<Rightarrow> string list option" where
  "dec_strings j old = (case j of JNull \<Rightarrow> Some [] | JArr js \<Rightarrow> dec_elems js old | _ \<Rightarrow> None)"

lemma dec_simps [simp]:
  "dec_string (JStr s) old = Some s" "dec_bool (JBool b) old' = Some b"
  "dec_i64 (JNum n) old'' = parse_i64 n"
  by (simp_all add: dec_string_def dec_bool_def dec_i64_def)

lemma dec_elems_strings [simp]: "dec_elems (map JStr ss) old = Some ss"
  by (induction ss arbitrary: old) auto

lemma dec_strings_strings [simp]: "dec_strings (JArr (map JStr ss)) old = Some ss"
  by (simp add: dec_strings_def)

text \<open>
  The decoder's folding of a member name (\<open>foldName\<close>): ASCII letters in upper case, and the two
  runes outside ASCII whose case orbit holds an ASCII letter (U+017F and U+212A).
\<close>

fun fold_name :: "string \<Rightarrow> string" where
  "fold_name [] = []"
| "fold_name (c # cs) =
     (if take 2 (map byte (c # cs)) = [0xC5 :: nat, 0xBF] then CHR ''S'' # fold_name (drop 1 cs)
      else if take 3 (map byte (c # cs)) = [0xE2 :: nat, 0x84, 0xAA] then CHR ''K'' # fold_name (drop 2 cs)
      else (if (97::nat) \<le> byte c \<and> byte c \<le> (122::nat) then char_of (byte c - (32::nat)) else c) # fold_name cs)"

text \<open>Members are stored one after the other; a failing one makes \<open>Unmarshal\<close> return an error.\<close>

fun dec_fields :: "(string \<Rightarrow> json \<Rightarrow> 'a \<Rightarrow> 'a option) \<Rightarrow> (string \<times> json) list \<Rightarrow> 'a \<Rightarrow> 'a option" where
  "dec_fields setf [] x = Some x"
| "dec_fields setf ((k, j) # kvs) x =
     (case setf k j x of None \<Rightarrow> None | Some y \<Rightarrow> dec_fields setf kvs y)"

lemma dec_fields_append:
  "dec_fields setf (xs @ ys) x =
     (case dec_fields setf xs x of None \<Rightarrow> None | Some y \<Rightarrow> dec_fields setf ys y)"
  by (induction setf xs x rule: dec_fields.induct) (auto split: option.splits)

end
