(* ===== verification/Models.thy ===== *)
theory Models
  imports Go_Values
begin

text \<open>
  The message types of \<open>internal/models/message.go\<close> with their JSON form.  A nil-able pointer is an
  \<open>option\<close>; a nil and an empty slice are both the empty list (no struct tells them apart in JSON,
  since every slice field has \<open>omitempty\<close>).  The decoding follows the struct tags, with the decoder's
  case-insensitive member names; unknown members are dropped.
\<close>

section \<open>The structs\<close>

record EventData =
  ed_QueueName :: string
  ed_RoutingKey :: string
  ed_RequestTimestamp :: i64
  ed_PageName :: string
  ed_CompanySchema :: string
  ed_MonitorID :: string
  ed_StartDate :: string
  ed_EndDate :: string
  ed_Filters :: goval
  ed_Language :: string
  ed_DataSource :: string
  ed_DataSourceName :: string
  ed_Metrics :: goval
  ed_SelectedWidgets :: "string list"
  ed_StreamTech :: string
  ed_CompanyID :: string
  ed_Product :: string
  ed_PageAlertNotification :: string
  ed_ExportXLSX :: bool
  ed_ExporterID :: string
  ed_JobID :: string
  ed_IsLiveDashboard :: bool
  ed_IsNewsletterReport :: bool
  ed_IsExportEngagements :: bool
  ed_Extra :: "(string \<times> goval) list"

record IncomingMessage =
  im_EventName :: string
  im_EventData :: "EventData option"
  im_SelectedWidgets :: "string list"

record OutgoingMessage =
  om_EventName :: string
  om_EventData :: goval
  om_MonitorID :: string
  om_DataSource :: string
  om_Metadata :: goval
  om_StreamTech :: string
  om_QueueName :: string
  om_ExporterID :: string
  om_JobID :: string
  om_Language :: string
  om_ProjectNameEN :: string
  om_AIProductNameEN :: string
  om_ProjectNameAR :: string
  om_AIProductNameAR :: string
  om_PoweredBy :: string
  om_LegalName :: string
  om_PoweredBySentence :: string
  om_DisclaimerAR :: string
  om_ContactEmail :: string
  om_AssumeResponsibility :: "bool option"
  om_AIProductPPTLogo :: string

record SenderQueueItemData =
  sd_Message :: "OutgoingMessage option"
  sd_RoutingKey :: string
  sd_Exchange :: string
  sd_ExporterID :: string
  sd_AlertID :: string
  sd_StaciActive :: bool
  sd_JobID :: string
  sd_IsLiveDashboard :: bool
  sd_IsNewsletterReport :: bool
  sd_IsExportEngagements :: bool
  sd_CompletionMarker :: bool

record SenderQueueItem =
  sq_Metadata :: "(string \<times> string) list"
  sq_Carrier :: "(string \<times> string) list"
  sq_Data :: "SenderQueueItemData option"

text \<open>The zero values, from which every composite literal of the program starts.\<close>

definition zero_EventData :: EventData where
  "zero_EventData = \<lparr>
    ed_QueueName = '''', ed_RoutingKey = '''', ed_RequestTimestamp = 0, ed_PageName = '''',
    ed_CompanySchema = '''', ed_MonitorID = '''', ed_StartDate = '''', ed_EndDate = '''',
    ed_Filters = GNil, ed_Language = '''', ed_DataSource = '''', ed_DataSourceName = '''',
    ed_Metrics = GNil, ed_SelectedWidgets = [], ed_StreamTech = '''', ed_CompanyID = '''',
    ed_Product = '''', ed_PageAlertNotification = '''', ed_ExportXLSX = False, ed_ExporterID = '''',
    ed_JobID = '''', ed_IsLiveDashboard = False, ed_IsNewsletterReport = False,
    ed_IsExportEngagements = False, ed_Extra = []\<rparr>"

definition zero_IncomingMessage :: IncomingMessage where
  "zero_IncomingMessage = \<lparr>im_EventName = '''', im_EventData = None, im_SelectedWidgets = []\<rparr>"

definition zero_OutgoingMessage :: OutgoingMessage where
  "zero_OutgoingMessage = \<lparr>
    om_EventName = '''', om_EventData = GNil, om_MonitorID = '''', om_DataSource = '''',
    om_Metadata = GNil, om_StreamTech = '''', om_QueueName = '''', om_ExporterID = '''',
    om_JobID = '''', om_Language = '''', om_ProjectNameEN = '''', om_AIProductNameEN = '''',
    om_ProjectNameAR = '''', om_AIProductNameAR = '''', om_PoweredBy = '''', om_LegalName = '''',
    om_PoweredBySentence = '''', om_DisclaimerAR = '''', om_ContactEmail = '''',
    om_AssumeResponsibility = None, om_AIProductPPTLogo = ''''\<rparr>"

definition zero_SenderQueueItemData :: SenderQueueItemData where
  "zero_SenderQueueItemData = \<lparr>
    sd_Message = None, sd_RoutingKey = '''', sd_Exchange = '''', sd_ExporterID = '''',
    sd_AlertID = '''', sd_StaciActive = False, sd_JobID = '''', sd_IsLiveDashboard = False,
    sd_IsNewsletterReport = False, sd_IsExportEngagements = False, sd_CompletionMarker = False\<rparr>"

definition zero_SenderQueueItem :: SenderQueueItem where
  "zero_SenderQueueItem = \<lparr>sq_Metadata = [], sq_Carrier = [], sq_Data = None\<rparr>"

lemmas zero_values [go_eval] = zero_EventData_def zero_IncomingMessage_def zero_OutgoingMessage_def
  zero_SenderQueueItemData_def zero_SenderQueueItem_def

section \<open>Encoding\<close>

text \<open>A member of an \<open>omitempty\<close> field is written unless the field has its empty value.\<close>

definition m_str :: "string \<Rightarrow> string \<Rightarrow> (string \<times> json) list" where
  "m_str k s = (if s = '''' then [] else [(k, JStr s)])"

definition m_i64 :: "string \<Rightarrow> i64 \<Rightarrow> (string \<times> json) list" where
  "m_i64 k n = (if n = 0 then [] else [(k, JNum (show_i64 n))])"

definition m_bool :: "string \<Rightarrow> bool \<Rightarrow> (string \<times> json) list" where
  "m_bool k b = (if b then [(k, JBool b)] else [])"

definition m_strs :: "string \<Rightarrow> string list \<Rightarrow> (string \<times> json) list" where
  "m_strs k ss = (if ss = [] then [] else [(k, JArr (map JStr ss))])"

definition m_boolp :: "string \<Rightarrow> bool option \<Rightarrow> (string \<times> json) list" where
  "m_boolp k p = (case p of None \<Rightarrow> [] | Some b \<Rightarrow> [(k, JBool b)])"

definition m_val :: "string \<Rightarrow> goval \<Rightarrow> json \<Rightarrow> (string \<times> json) list" where
  "m_val k v j = (if v = GNil then [] else [(k, j)])"

definition EventData_members :: "EventData \<Rightarrow> json \<Rightarrow> json \<Rightarrow> (string \<times> json) list" where
  "EventData_members e jFilters jMetrics =
       [(''queue_name'', JStr (ed_QueueName e))] @
       [(''routing_key'', JStr (ed_RoutingKey e))] @
       m_i64 ''request_timestamp'' (ed_RequestTimestamp e) @
       m_str ''page_name'' (ed_PageName e) @
       m_str ''company_schema'' (ed_CompanySchema e) @
       m_str ''monitor_id'' (ed_MonitorID e) @
       m_str ''start_date'' (ed_StartDate e) @
       m_str ''end_date'' (ed_EndDate e) @
       m_val ''filters'' (ed_Filters e) jFilters @
       m_str ''language'' (ed_Language e) @
       m_str ''data_source'' (ed_DataSource e) @
       m_str ''data_source_name'' (ed_DataSourceName e) @
       m_val ''metrics'' (ed_Metrics e) jMetrics @
       m_strs ''selected_widgets'' (ed_SelectedWidgets e) @
       m_str ''stream_tech'' (ed_StreamTech e) @
       m_str ''company_id'' (ed_CompanyID e) @
       m_str ''product'' (ed_Product e) @
       m_str ''page_alert_notification'' (ed_PageAlertNotification e) @
       m_bool ''export_xlsx'' (ed_ExportXLSX e) @
       m_str ''exporter_id'' (ed_ExporterID e) @
       m_str ''job_id'' (ed_JobID e) @
       m_bool ''is_live_dashboard'' (ed_IsLiveDashboard e) @
       m_bool ''is_newsletter_report'' (ed_IsNewsletterReport e) @
       m_bool ''is_export_engagements'' (ed_IsExportEngagements e)"

definition EventData_json :: "EventData \<Rightarrow> json option" where
  "EventData_json e =
     (case (goval_json (ed_Filters e), goval_json (ed_Metrics e)) of
        (Some jFilters, Some jMetrics) \<Rightarrow> Some (JObj (EventData_members e jFilters jMetrics))
      | _ \<Rightarrow> None)"

definition OutgoingMessage_members :: "OutgoingMessage \<Rightarrow> json \<Rightarrow> json \<Rightarrow> (string \<times> json) list" where
  "OutgoingMessage_members m jEventData jMetadata =
       [(''eventName'', JStr (om_EventName m))] @
       [(''eventData'', jEventData)] @
       m_str ''monitor_id'' (om_MonitorID m) @
       m_str ''data_source'' (om_DataSource m) @
       m_val ''metadata'' (om_Metadata m) jMetadata @
       m_str ''stream_tech'' (om_StreamTech m) @
       m_str ''queue_name'' (om_QueueName m) @
       m_str ''exporter_id'' (om_ExporterID m) @
       m_str ''job_id'' (om_JobID m) @
       m_str ''language'' (om_Language m) @
       m_str ''project_name_en'' (om_ProjectNameEN m) @
       m_str ''ai_product_name_en'' (om_AIProductNameEN m) @
       m_str ''project_name_ar'' (om_ProjectNameAR m) @
       m_str ''ai_product_name_ar'' (om_AIProductNameAR m) @
       m_str ''powered_by'' (om_PoweredBy m) @
       m_str ''legal_name'' (om_LegalName m) @
       m_str ''powered_by_sentence'' (om_PoweredBySentence m) @
       m_str ''disclaimer_ar'' (om_DisclaimerAR m) @
       m_str ''contact_email'' (om_ContactEmail m) @
       m_boolp ''assume_responsibility'' (om_AssumeResponsibility m) @
       m_str ''ai_product_ppt_logo'' (om_AIProductPPTLogo m)"

definition OutgoingMessage_json :: "OutgoingMessage \<Rightarrow> json option" where
  "OutgoingMessage_json m =
     (case (goval_json (om_EventData m), goval_json (om_Metadata m)) of
        (Some jEventData, Some jMetadata) \<Rightarrow> Some (JObj (OutgoingMessage_members m jEventData jMetadata))
      | _ \<Rightarrow> None)"

text \<open>A nil \<open>eventData\<close> pointer is written as \<open>null\<close>: the field has no \<open>omitempty\<close>.\<close>

definition IncomingMessage_json :: "IncomingMessage \<Rightarrow> json option" where
  "IncomingMessage_json m =
     map_option
       (\<lambda>je. JObj ([(''eventName'', JStr (im_EventName m)), (''eventData'', je)]
                  @ m_strs ''selected_widgets'' (im_SelectedWidgets m)))
       (case im_EventData m of None \<Rightarrow> Some JNull | Some e \<Rightarrow> EventData_json e)"

section \<open>Decoding\<close>

definition set_EventData :: "(string \<Rightarrow> string option) \<Rightarrow> string \<Rightarrow> json \<Rightarrow> EventData \<Rightarrow> EventData option" where
  "set_EventData fl k j e =
     (let f = fold_name k in
      if f = ''QUEUE_NAME'' then map_option (\<lambda>v. e\<lparr>ed_QueueName := v\<rparr>) (dec_string j (ed_QueueName e))
      else if f = ''ROUTING_KEY'' then map_option (\<lambda>v. e\<lparr>ed_RoutingKey := v\<rparr>) (dec_string j (ed_RoutingKey e))
      else if f = ''REQUEST_TIMESTAMP'' then map_option (\<lambda>v. e\<lparr>ed_RequestTimestamp := v\<rparr>) (dec_i64 j (ed_RequestTimestamp e))
      else if f = ''PAGE_NAME'' then map_option (\<lambda>v. e\<lparr>ed_PageName := v\<rparr>) (dec_string j (ed_PageName e))
      else if f = ''COMPANY_SCHEMA'' then map_option (\<lambda>v. e\<lparr>ed_CompanySchema := v\<rparr>) (dec_string j (ed_CompanySchema e))
      else if f = ''MONITOR_ID'' then map_option (\<lambda>v. e\<lparr>ed_MonitorID := v\<rparr>) (dec_string j (ed_MonitorID e))
      else if f = ''START_DATE'' then map_option (\<lambda>v. e\<lparr>ed_StartDate := v\<rparr>) (dec_string j (ed_StartDate e))
      else if f = ''END_DATE'' then map_option (\<lambda>v. e\<lparr>ed_EndDate := v\<rparr>) (dec_string j (ed_EndDate e))
      else if f = ''FILTERS'' then map_option (\<lambda>v. e\<lparr>ed_Filters := v\<rparr>) (json_goval fl j)
      else if f = ''LANGUAGE'' then map_option (\<lambda>v. e\<lparr>ed_Language := v\<rparr>) (dec_string j (ed_Language e))
      else if f = ''DATA_SOURCE'' then map_option (\<lambda>v. e\<lparr>ed_DataSource := v\<rparr>) (dec_string j (ed_DataSource e))
      else if f = ''DATA_SOURCE_NAME'' then map_option (\<lambda>v. e\<lparr>ed_DataSourceName := v\<rparr>) (dec_string j (ed_DataSourceName e))
      else if f = ''METRICS'' then map_option (\<lambda>v. e\<lparr>ed_Metrics := v\<rparr>) (json_goval fl j)
      else if f = ''SELECTED_WIDGETS'' then map_option (\<lambda>v. e\<lparr>ed_SelectedWidgets := v\<rparr>) (dec_strings j (ed_SelectedWidgets e))
      else if f = ''STREAM_TECH'' then map_option (\<lambda>v. e\<lparr>ed_StreamTech := v\<rparr>) (dec_string j (ed_StreamTech e))
      else if f = ''COMPANY_ID'' then map_option (\<lambda>v. e\<lparr>ed_CompanyID := v\<rparr>) (dec_string j (ed_CompanyID e))
      else if f = ''PRODUCT'' then map_option (\<lambda>v. e\<lparr>ed_Product := v\<rparr>) (dec_string j (ed_Product e))
      else if f = ''PAGE_ALERT_NOTIFICATION'' then map_option (\<lambda>v. e\<lparr>ed_PageAlertNotification := v\<rparr>) (dec_string j (ed_PageAlertNotification e))
      else if f = ''EXPORT_XLSX'' then map_option (\<lambda>v. e\<lparr>ed_ExportXLSX := v\<rparr>) (dec_bool j (ed_ExportXLSX e))
      else if f = ''EXPORTER_ID'' then map_option (\<lambda>v. e\<lparr>ed_ExporterID := v\<rparr>) (dec_string j (ed_ExporterID e))
      else if f = ''JOB_ID'' then map_option (\<lambda>v. e\<lparr>ed_JobID := v\<rparr>) (dec_string j (ed_JobID e))
      else if f = ''IS_LIVE_DASHBOARD'' then map_option (\<lambda>v. e\<lparr>ed_IsLiveDashboard := v\<rparr>) (dec_bool j (ed_IsLiveDashboard e))
      else if f = ''IS_NEWSLETTER_REPORT'' then map_option (\<lambda>v. e\<lparr>ed_IsNewsletterReport := v\<rparr>) (dec_bool j (ed_IsNewsletterReport e))
      else if f = ''IS_EXPORT_ENGAGEMENTS'' then map_option (\<lambda>v. e\<lparr>ed_IsExportEngagements := v\<rparr>) (dec_bool j (ed_IsExportEngagements e))
      else Some e)"

text \<open>
  \<open>null\<close> sets the pointer to nil; an object is decoded into the struct the pointer already refers
  to, if there is one.
\<close>

definition dec_EventData ::
  "(string \<Rightarrow> string option) \<Rightarrow> json \<Rightarrow> EventData option \<Rightarrow> EventData option option" where
  "dec_EventData fl j old =
     (case j of
        JNull \<Rightarrow> Some None
      | JObj kvs \<Rightarrow>
          map_option Some
            (dec_fields (set_EventData fl) kvs (case old of None \<Rightarrow> zero_EventData | Some e \<Rightarrow> e))
      | _ \<Rightarrow> None)"

definition set_IncomingMessage ::
  "(string \<Rightarrow> string option) \<Rightarrow> string \<Rightarrow> json \<Rightarrow> IncomingMessage \<Rightarrow> IncomingMessage option" where
  "set_IncomingMessage fl k j m =
     (let f = fold_name k in
      if f = ''EVENTNAME'' then map_option (\<lambda>v. m\<lparr>im_EventName := v\<rparr>) (dec_string j (im_EventName m))
      else if f = ''EVENTDATA'' then map_option (\<lambda>v. m\<lparr>im_EventData := v\<rparr>) (dec_EventData fl j (im_EventData m))
      else if f = ''SELECTED_WIDGETS'' then
        map_option (\<lambda>v. m\<lparr>im_SelectedWidgets := v\<rparr>) (dec_strings j (im_SelectedWidgets m))
      else Some m)"

definition dec_IncomingMessage :: "(string \<Rightarrow> string option) \<Rightarrow> json \<Rightarrow> IncomingMessage option" where
  "dec_IncomingMessage fl j =
     (case j of
        JNull \<Rightarrow> Some zero_IncomingMessage
      | JObj kvs \<Rightarrow> dec_fields (set_IncomingMessage fl) kvs zero_IncomingMessage
      | _ \<Rightarrow> None)"

text \<open>\<open>json.Unmarshal(data, &incoming)\<close> and \<open>json.Marshal(incoming)\<close>; \<open>None\<close> is a non-nil error.\<close>

definition unmarshal_IncomingMessage :: "(string \<Rightarrow> string option) \<Rightarrow> string \<Rightarrow> IncomingMessage option" where
  "unmarshal_IncomingMessage fl s = Option.bind (json_parse s) (dec_IncomingMessage fl)"

definition marshal_IncomingMessage :: "IncomingMessage \<Rightarrow> string option" where
  "marshal_IncomingMessage m = map_option json_text (IncomingMessage_json m)"

definition marshal_OutgoingMessage :: "OutgoingMessage \<Rightarrow> string option" where
  "marshal_OutgoingMessage m = map_option json_text (OutgoingMessage_json m)"

end
