(* ===== verification/Services.thy ===== *)
theory Services
  imports Models "HOL-Library.State_Monad"
begin

text \<open>
  The boundary of the program: every call it makes on a service (Redis, Kafka, HTTP), on a channel,
  on a context or on the clock.  None of that code is in the repository, so its answers are the
  argument \<open>W\<close> of type \<open>world\<close>: each component is a function of the whole history of calls, the call
  being answered last.  This leaves every service free to keep any state and to fail at any point, and a
  select free to choose any ready case.

  A program fragment is a value of the library's state monad over the history.  A call appends
  itself with its context and arguments and returns the answer, so the history is at once the record of
  the effects, in order, and the argument that lets two equal calls be answered differently.
\<close>

section \<open>Contexts, errors and calls\<close>

datatype goctx = Background | WithCancel goctx | WithTimeout goctx i64

text \<open>
  The order of derivation: \<open>p \<le> c\<close> when \<open>c\<close> is \<open>p\<close> or was made from it, so that cancelling \<open>p\<close> cancels \<open>c\<close>.
\<close>

fun derived_from :: "goctx \<Rightarrow> goctx \<Rightarrow> bool" where
  "derived_from Background p \<longleftrightarrow> p = Background"
| "derived_from (WithCancel c) p \<longleftrightarrow> p = WithCancel c \<or> derived_from c p"
| "derived_from (WithTimeout c t) p \<longleftrightarrow> p = WithTimeout c t \<or> derived_from c p"

lemma derived_from_refl: "derived_from c c"
  by (cases c) simp_all

lemma derived_from_trans: "derived_from c b \<Longrightarrow> derived_from b a \<Longrightarrow> derived_from c a"
  by (induction c) auto

lemma derived_from_size: "derived_from c p \<Longrightarrow> c = p \<or> size p < size c"
  by (induction c) auto

instantiation goctx :: order
begin

definition less_eq_goctx where
  "p \<le> c \<longleftrightarrow> derived_from c (p :: goctx)"

definition less_goctx where
  "p < c \<longleftrightarrow> p \<le> c \<and> \<not> c \<le> (p :: goctx)"

instance
proof
  fix a b c :: goctx
  show "a \<le> a" by (simp add: less_eq_goctx_def derived_from_refl)
  show "a < b \<longleftrightarrow> a \<le> b \<and> \<not> b \<le> a" by (rule less_goctx_def)
  show "a \<le> b \<Longrightarrow> b \<le> c \<Longrightarrow> a \<le> c"
    unfolding less_eq_goctx_def using derived_from_trans by blast
  show "a \<le> b \<Longrightarrow> b \<le> a \<Longrightarrow> a = b"
    unfolding less_eq_goctx_def using derived_from_size [of a b] derived_from_size [of b a] by auto
qed

end

lemma WithTimeout_le [simp]: "ctx \<le> WithTimeout ctx t" "ctx \<le> WithCancel ctx"
  by (simp_all add: less_eq_goctx_def derived_from_refl)

lemma Background_least [simp]: "Background \<le> ctx"
  unfolding less_eq_goctx_def by (induction ctx) auto

text \<open>\<open>RedisNil\<close> is the sentinel \<open>redis.Nil\<close>; the context errors are those of \<open>ctx.Err()\<close>.\<close>

datatype goerr = RedisNil | CtxCanceled | CtxDeadline | GoErr string

definition error_text :: "goerr \<Rightarrow> string" where
  "error_text e = (case e of RedisNil \<Rightarrow> ''redis: nil'' | CtxCanceled \<Rightarrow> ''context canceled''
     | CtxDeadline \<Rightarrow> ''context deadline exceeded'' | GoErr s \<Rightarrow> s)"

datatype pipe_cmd = HSet string string string | Expire string i64

text \<open>\<open>ro_TLS\<close>: whether \<open>TLSConfig\<close> is non-nil.\<close>

record RedisOptions =
  ro_Addr :: string
  ro_Password :: string
  ro_DB :: int
  ro_TLS :: bool

record KafkaMessage =
  km_Partition :: nat
  km_Offset :: i64
  km_Key :: string
  km_Value :: string

type_synonym stream_values = "(string \<times> goval) list"
type_synonym read_reply = "(string \<times> (string \<times> stream_values) list) list"

datatype call =
    Now
  | CtxPoll
  | Ping RedisOptions
  | XGroupCreateMkStream string string string
  | XReadGroup string string "string list" i64 i64
  | XAck string string "string list"
  | XAdd string "(string \<times> string) list" i64
  | PipelineExec "pipe_cmd list"
  | HIncrBy string string i64
  | HGet string string
  | RedisSet string string i64
  | ChanSelect SenderQueueItem
  | ChanSend SenderQueueItem
  | ChanRecv
  | NewRequest string string
  | HttpDo string string string i64
  | KafkaFetch
  | KafkaCommit KafkaMessage
  | KafkaWrite string string string
  | CloseClient string
  | ListenAndServe string
  | ServerShutdown
  | MongoConnect string "(string \<times> string) option"
  | MongoPing
  | MongoDisconnect
  | MinioNew string string string bool string
  | MinioGetObject string string
  | MinioPutObject string string string i64 string

type_synonym event = "goctx \<times> call"
type_synonym hist = "event list"

datatype recv = RecvDone | RecvClosed | RecvItem "SenderQueueItem option"

text \<open>
  \<open>ChanSelect\<close> is a select between sending an item and \<open>ctx.Done()\<close>; \<open>ChanSend\<close> follows it in the
  history where the send was the case taken.
  \<open>w_err\<close> answers the calls that return only an error, \<open>w_done\<close> a poll of a context, \<open>w_send\<close> a select
  between a send and \<open>ctx.Done()\<close> (\<open>None\<close>: the item was sent; \<open>Some e\<close>: the context was done with
  error \<open>e\<close>), \<open>w_float\<close> the conversion of a number literal (\<open>Go_Values\<close>).
\<close>

record world =
  w_unix :: "hist \<Rightarrow> i64"
  w_done :: "hist \<Rightarrow> goerr option"
  w_err :: "hist \<Rightarrow> goerr option"
  w_int :: "hist \<Rightarrow> goerr + i64"
  w_str :: "hist \<Rightarrow> goerr + string"
  w_read :: "hist \<Rightarrow> goerr + read_reply"
  w_send :: "hist \<Rightarrow> goerr option"
  w_recv :: "hist \<Rightarrow> recv"
  w_fetch :: "hist \<Rightarrow> goerr + KafkaMessage"
  w_status :: "hist \<Rightarrow> goerr + i64"
  w_float :: "string \<Rightarrow> string option"

type_synonym 'a go = "(hist, 'a) state"

abbreviation go_return :: "'a \<Rightarrow> 'a go" where
  "go_return \<equiv> State_Monad.return"

definition perform :: "(hist \<Rightarrow> 'a) \<Rightarrow> goctx \<Rightarrow> call \<Rightarrow> 'a go" where
  "perform answer ctx c = State (\<lambda>h. (answer (h @ [(ctx, c)]), h @ [(ctx, c)]))"

lemma run_perform [simp]:
  "run_state (perform answer ctx c) h = (answer (h @ [(ctx, c)]), h @ [(ctx, c)])"
  by (simp add: perform_def)

text \<open>\<open>select { case senderQueue <- item: ...; case <-ctx.Done(): ... }\<close>; the result is \<open>ctx.Err()\<close>.\<close>

definition select_send :: "world \<Rightarrow> goctx \<Rightarrow> SenderQueueItem \<Rightarrow> goerr option go" where
  "select_send W ctx item = do {
     r \<leftarrow> perform (w_send W) ctx (ChanSelect item);
     case r of
       Some e \<Rightarrow> go_return (Some e)
     | None \<Rightarrow> do { _ \<leftarrow> perform (\<lambda>_. ()) ctx (ChanSend item); go_return None }
   }"

section \<open>Results and traces\<close>

definition result :: "'a go \<Rightarrow> hist \<Rightarrow> 'a" where
  "result m h = fst (run_state m h)"

text \<open>The calls a fragment makes when it runs after history \<open>h\<close>.\<close>

definition trace :: "'a go \<Rightarrow> hist \<Rightarrow> hist" where
  "trace m h = drop (length h) (snd (run_state m h))"

text \<open>A fragment only adds to the history, and every event, or every call, it adds satisfies a predicate.\<close>

definition emits_ev :: "(event \<Rightarrow> bool) \<Rightarrow> 'a go \<Rightarrow> bool" where
  "emits_ev Q m \<longleftrightarrow> (\<forall>h. \<exists>es. snd (run_state m h) = h @ es \<and> list_all Q es)"

abbreviation emits :: "(call \<Rightarrow> bool) \<Rightarrow> 'a go \<Rightarrow> bool" where
  "emits P \<equiv> emits_ev (P \<circ> snd)"

named_theorems emits_intro \<open>structural rules for the events a fragment adds\<close>

lemma emits_return [emits_intro, simp]: "emits_ev Q (go_return x)"
  by (auto simp: emits_ev_def)

lemma emits_perform [emits_intro]: "Q (ctx, c) \<Longrightarrow> emits_ev Q (perform answer ctx c)"
  by (auto simp: emits_ev_def)

lemma emits_bind [emits_intro]:
  assumes "emits_ev Q m" "\<And>x. emits_ev Q (f x)"
  shows "emits_ev Q (State_Monad.bind m f)"
  unfolding emits_ev_def
proof
  fix h
  obtain es where es: "snd (run_state m h) = h @ es" "list_all Q es"
    using assms(1) by (auto simp: emits_ev_def)
  obtain es' where es': "snd (run_state (f (fst (run_state m h))) (h @ es)) = (h @ es) @ es'"
      "list_all Q es'"
    using assms(2) unfolding emits_ev_def by blast
  have "snd (run_state (State_Monad.bind m f) h) = h @ es @ es'"
    using es(1) es'(1) by (simp add: case_prod_beta)
  with es(2) es'(2) show "\<exists>es. snd (run_state (State_Monad.bind m f) h) = h @ es \<and> list_all Q es"
    by (metis list_all_append)
qed

lemma emits_if [emits_intro]: "(b \<Longrightarrow> emits_ev Q m) \<Longrightarrow> (\<not> b \<Longrightarrow> emits_ev Q n) \<Longrightarrow> emits_ev Q (if b then m else n)"
  by simp

lemma emits_option [emits_intro]:
  "(x = None \<Longrightarrow> emits_ev Q m) \<Longrightarrow> (\<And>y. x = Some y \<Longrightarrow> emits_ev Q (f y)) \<Longrightarrow>
   emits_ev Q (case x of None \<Rightarrow> m | Some y \<Rightarrow> f y)"
  by (cases x) auto

lemma emits_sum [emits_intro]:
  "(\<And>e. x = Inl e \<Longrightarrow> emits_ev Q (f e)) \<Longrightarrow> (\<And>y. x = Inr y \<Longrightarrow> emits_ev Q (g y)) \<Longrightarrow>
   emits_ev Q (case x of Inl e \<Rightarrow> f e | Inr y \<Rightarrow> g y)"
  by (cases x) auto

lemma emits_prod [emits_intro]:
  "(\<And>a b. x = (a, b) \<Longrightarrow> emits_ev Q (f a b)) \<Longrightarrow> emits_ev Q (case x of (a, b) \<Rightarrow> f a b)"
  by (cases x) auto

lemma emits_let [emits_intro]: "emits_ev Q (f x) \<Longrightarrow> emits_ev Q (let y = x in f y)"
  by simp

lemma emits_ev_mono: "emits_ev Q m \<Longrightarrow> (\<And>e. Q e \<Longrightarrow> Q' e) \<Longrightarrow> emits_ev Q' m"
  unfolding emits_ev_def by (metis (mono_tags, lifting) list_all_iff)

lemma emits_mono: "emits P m \<Longrightarrow> (\<And>c. P c \<Longrightarrow> P' c) \<Longrightarrow> emits P' m"
  by (erule emits_ev_mono) simp

lemma emits_trace: "emits_ev Q m \<Longrightarrow> snd (run_state m h) = h @ trace m h \<and> list_all Q (trace m h)"
  unfolding emits_ev_def trace_def by (metis append_eq_conv_conj)

lemma run_result_trace: "emits_ev Q m \<Longrightarrow> run_state m h = (result m h, h @ trace m h)"
  using emits_trace [of Q m h] by (cases "run_state m h") (simp add: result_def)

lemma trace_return [simp]: "trace (go_return x) h = []" "result (go_return x) h = x"
  by (simp_all add: trace_def result_def)

lemma trace_perform [simp]: "trace (perform answer ctx c) h = [(ctx, c)]"
  "result (perform answer ctx c) h = answer (h @ [(ctx, c)])"
  by (simp_all add: trace_def result_def)

text \<open>Sequencing concatenates the traces.\<close>

lemma trace_bind:
  assumes "emits_ev Q m" "\<And>x. emits_ev Q' (f x)"
  shows "trace (State_Monad.bind m f) h
      = trace m h @ trace (f (result m h)) (h @ trace m h)"
    and "result (State_Monad.bind m f) h = result (f (result m h)) (h @ trace m h)"
  using run_result_trace [OF assms(1), of h]
    run_result_trace [OF assms(2), of "result m h" "h @ trace m h"]
  by (simp_all add: trace_def [of "State_Monad.bind m f"] result_def [of "State_Monad.bind m f"])

lemma trace_map:
  assumes "emits_ev Q m"
  shows "trace (do { r \<leftarrow> m; go_return (f r) }) h = trace m h"
    and "result (do { r \<leftarrow> m; go_return (f r) }) h = f (result m h)"
  by (simp_all add: trace_bind [OF assms emits_return])

lemma emitsE:
  assumes "emits_ev Q m"
  obtains r es where "run_state m h = (r, h @ es)" "list_all Q es" "result m h = r" "trace m h = es"
  using run_result_trace [OF assms, of h] emits_trace [OF assms, of h] that by auto

abbreviation extends :: "'a go \<Rightarrow> bool" where
  "extends m \<equiv> emits (\<lambda>_. True) m"

lemma emits_extends: "emits_ev Q m \<Longrightarrow> extends m"
  by (erule emits_ev_mono) simp

text \<open>The events under a context: made with a context derived from it.  Reading the clock takes no context.\<close>

definition in_scope :: "goctx \<Rightarrow> event \<Rightarrow> bool" where
  "in_scope ctx e \<longleftrightarrow> snd e = Now \<or> ctx \<le> fst e"

lemma in_scope_simps [simp]:
  "in_scope ctx (ctx, c)" "in_scope ctx (WithTimeout ctx t, c)" "in_scope ctx (c', Now)"
  by (simp_all add: in_scope_def)

lemma in_scope_narrow: "emits_ev (in_scope (WithTimeout ctx t)) m \<Longrightarrow> emits_ev (in_scope ctx) m"
  by (erule emits_ev_mono) (auto simp: in_scope_def intro: order_trans [OF WithTimeout_le(1)])

section \<open>Reading a history\<close>

definition acks :: "hist \<Rightarrow> string list" where
  "acks es = concat (map (\<lambda>e. case snd e of XAck _ _ ids \<Rightarrow> ids | _ \<Rightarrow> []) es)"

definition xadds :: "hist \<Rightarrow> (string \<times> (string \<times> string) list) list" where
  "xadds es = concat (map (\<lambda>e. case snd e of XAdd s vs _ \<Rightarrow> [(s, vs)] | _ \<Rightarrow> []) es)"

definition sends :: "hist \<Rightarrow> SenderQueueItem list" where
  "sends es = concat (map (\<lambda>e. case snd e of ChanSend i \<Rightarrow> [i] | _ \<Rightarrow> []) es)"

definition commits :: "hist \<Rightarrow> KafkaMessage list" where
  "commits es = concat (map (\<lambda>e. case snd e of KafkaCommit m \<Rightarrow> [m] | _ \<Rightarrow> []) es)"

definition kwrites :: "hist \<Rightarrow> (string \<times> string \<times> string) list" where
  "kwrites es = concat (map (\<lambda>e. case snd e of KafkaWrite t k v \<Rightarrow> [(t, k, v)] | _ \<Rightarrow> []) es)"

lemma hist_append [simp]:
  "acks (xs @ ys) = acks xs @ acks ys" "xadds (xs @ ys) = xadds xs @ xadds ys"
  "sends (xs @ ys) = sends xs @ sends ys" "commits (xs @ ys) = commits xs @ commits ys"
  "kwrites (xs @ ys) = kwrites xs @ kwrites ys"
  by (simp_all add: acks_def xadds_def sends_def commits_def kwrites_def)

lemma hist_Nil [simp]: "acks [] = []" "xadds [] = []" "sends [] = []" "commits [] = []" "kwrites [] = []"
  by (simp_all add: acks_def xadds_def sends_def commits_def kwrites_def)

lemma hist_Cons [simp]:
  "acks (e # es) = (case snd e of XAck _ _ ids \<Rightarrow> ids | _ \<Rightarrow> []) @ acks es"
  "xadds (e # es) = (case snd e of XAdd s vs _ \<Rightarrow> [(s, vs)] | _ \<Rightarrow> []) @ xadds es"
  "sends (e # es) = (case snd e of ChanSend i \<Rightarrow> [i] | _ \<Rightarrow> []) @ sends es"
  "commits (e # es) = (case snd e of KafkaCommit m \<Rightarrow> [m] | _ \<Rightarrow> []) @ commits es"
  "kwrites (e # es) = (case snd e of KafkaWrite t k v \<Rightarrow> [(t, k, v)] | _ \<Rightarrow> []) @ kwrites es"
  by (simp_all add: acks_def xadds_def sends_def commits_def kwrites_def)

text \<open>The calls on the sender queue, and what a trace of other calls cannot contain.\<close>

definition chan_call :: "call \<Rightarrow> bool" where
  "chan_call c = (case c of ChanSelect _ \<Rightarrow> True | ChanSend _ \<Rightarrow> True | _ \<Rightarrow> False)"

definition silent_call :: "call \<Rightarrow> bool" where
  "silent_call c = (case c of XAck _ _ _ \<Rightarrow> False | XAdd _ _ _ \<Rightarrow> False | KafkaCommit _ \<Rightarrow> False
     | XReadGroup _ _ _ _ _ \<Rightarrow> False | KafkaFetch \<Rightarrow> False | _ \<Rightarrow> True)"

lemma call_class_simps [simp]:
  "chan_call (ChanSelect i)" "chan_call (ChanSend i)"
  "silent_call Now" "silent_call CtxPoll" "silent_call (RedisSet k v t)" "silent_call (ChanSelect i)"
  "silent_call (ChanSend i)" "silent_call (KafkaWrite tp key v)" "\<not> silent_call (XAck s g ids)"
  by (simp_all add: chan_call_def silent_call_def)

lemma chan_call_silent: "chan_call c \<Longrightarrow> silent_call c"
  by (auto simp: chan_call_def silent_call_def split: call.splits)

lemma silent_trace:
  assumes "list_all (silent_call \<circ> snd) es"
  shows "acks es = [] \<and> xadds es = [] \<and> commits es = []"
  using assms by (induction es) (auto simp: silent_call_def split: call.splits)

lemma emits_silent_trace:
  assumes "emits silent_call m"
  shows "acks (trace m h) = []" "xadds (trace m h) = []" "commits (trace m h) = []"
  using silent_trace emits_trace [OF assms, of h] by auto

lemma emits_select_send [emits_intro]:
  "Q (ctx, ChanSelect item) \<Longrightarrow> Q (ctx, ChanSend item) \<Longrightarrow> emits_ev Q (select_send W ctx item)"
  unfolding select_send_def by (intro emits_intro) simp_all

lemma run_select_send:
  "run_state (select_send W ctx item) h =
     (case w_send W (h @ [(ctx, ChanSelect item)]) of
        Some e \<Rightarrow> (Some e, h @ [(ctx, ChanSelect item)])
      | None \<Rightarrow> (None, h @ [(ctx, ChanSelect item), (ctx, ChanSend item)]))"
  by (simp add: select_send_def split: option.split)

lemma trace_select_send:
  "trace (select_send W ctx item) h =
     (ctx, ChanSelect item) # (if result (select_send W ctx item) h = None then [(ctx, ChanSend item)] else [])"
  by (simp add: trace_def result_def run_select_send split: option.split)

section \<open>Loops that poll a context\<close>

text \<open>
  A body that is repeated until it returns \<open>Some\<close>, with fuel; the two consumer loops are instances.  The
  contract: the body extends the history, it returns once the context it polls is done, and only with the
  error of a poll that is its last call.
\<close>

fun repeat_go :: "nat \<Rightarrow> 'a option go \<Rightarrow> 'a option go" where
  "repeat_go 0 body = go_return None"
| "repeat_go (Suc n) body = do {
     r \<leftarrow> body;
     case r of
       Some e \<Rightarrow> go_return (Some e)
     | None \<Rightarrow> repeat_go n body
   }"

lemma emits_repeat_go [emits_intro]: "emits_ev Q body \<Longrightarrow> emits_ev Q (repeat_go n body)"
  by (induction n) (auto intro!: emits_intro)

locale polling_loop =
  fixes W :: world and body :: "goerr option go" and good :: "hist \<Rightarrow> hist \<Rightarrow> bool"
  assumes body_run: "\<exists>r es. run_state body h = (r, h @ es) \<and> es \<noteq> [] \<and> good h es"
    and body_stops: "(\<And>h'. length h < length h' \<Longrightarrow> w_done W h' \<noteq> None) \<Longrightarrow> result body h \<noteq> None"
    and body_error: "run_state body h = (Some e, h') \<Longrightarrow> w_done W h' = Some e"
    and good_Nil: "good h []"
    and good_append: "good h xs \<Longrightarrow> good (h @ xs) ys \<Longrightarrow> good h (xs @ ys)"
begin

lemma loop_run: "\<exists>r es. run_state (repeat_go n body) h = (r, h @ es) \<and> good h es"
proof (induction n arbitrary: h)
  case 0
  then show ?case by (simp add: good_Nil)
next
  case (Suc n)
  obtain r es where body: "run_state body h = (r, h @ es)" "good h es" using body_run by blast
  obtain r' es' where "run_state (repeat_go n body) (h @ es) = (r', (h @ es) @ es')" "good (h @ es) es'"
    using Suc by blast
  then show ?case using body good_append by (cases r) auto
qed

lemma loop_trace: "snd (run_state (repeat_go n body) h) = h @ trace (repeat_go n body) h"
  and loop_good: "good h (trace (repeat_go n body) h)"
  using loop_run [of n h] by (auto simp: trace_def)

text \<open>Nothing but the end of the context stops the loop.\<close>

lemma loop_error: "result (repeat_go n body) h = Some e \<Longrightarrow> w_done W (h @ trace (repeat_go n body) h) = Some e"
proof -
  have "run_state (repeat_go n body) h = (Some e, h') \<Longrightarrow> w_done W h' = Some e" for h'
  proof (induction n arbitrary: h)
    case (Suc n)
    then show ?case
      by (cases "run_state body h") (auto split: option.splits dest: body_error)
  qed simp
  moreover assume "result (repeat_go n body) h = Some e"
  ultimately show ?thesis
    using loop_trace [of n h] by (cases "run_state (repeat_go n body) h") (simp add: result_def)
qed

text \<open>Once every poll answers "done" from some point on, enough fuel makes the loop return.\<close>

lemma loop_returns:
  assumes stop: "\<And>h'. N \<le> length h' \<Longrightarrow> w_done W h' \<noteq> None"
  shows "N \<le> length h + n \<Longrightarrow> result (repeat_go (Suc n) body) h \<noteq> None"
proof (induction n arbitrary: h)
  case 0
  then have "result body h \<noteq> None" using stop by (intro body_stops) auto
  then show ?case by (auto simp: result_def split: prod.splits option.splits)
next
  case (Suc n)
  obtain r es where body: "run_state body h = (r, h @ es)" "es \<noteq> []" using body_run by blast
  have "result (repeat_go (Suc n) body) (h @ es) \<noteq> None"
    using body(2) Suc.prems by (intro Suc.IH) (cases es; simp)
  then show ?case using body by (cases r) (simp_all add: result_def)
qed

end

end
