(* ===== verification/Config.thy ===== *)
theory Config
  imports Dispatcher_Prelude
begin

text \<open>
  \<open>internal/config/config.go\<close>: the configuration record, its loading from the environment and its
  validation.  The process environment is the argument \<open>env\<close>: \<open>os.Getenv\<close> as a total function, the
  empty string where a variable is unset.  A \<open>time.Duration\<close> field holds nanoseconds; the conversion
  from seconds or milliseconds is Go's wrapping 64-bit multiplication.
\<close>

section \<open>The record\<close>

record Config =
  RedisHost :: string
  RedisPort :: string
  RedisPassword :: string
  RedisTLS :: bool
  RedisIPAddress :: string
  InstFBRedisHost :: string
  InstFBRedisPort :: string
  BackendRedisHost :: string
  BackendRedisPort :: string
  DispatcherInputStream :: string
  DispatcherConsumerGroup :: string
  DispatcherConsumerName :: string
  DispatcherOutputStreamPrefix :: string
  DispatcherDeadletterStream :: string
  DispatcherStreamMaxLen :: i64
  DispatcherClaimMinIdle :: i64
  OverrideOutput :: bool
  OverrideRoutingKey :: string
  KafkaBrokers :: string
  KafkaTopicDispatcherRequests :: string
  KafkaTopicDispatcherOutput :: string
  KafkaTopicCalcDataFetcher :: string
  KafkaConsumerGroupDispatcher :: string
  MongoDBURI :: string
  MongoDBHost :: string
  MongoDBPort :: string
  MongoDBUser :: string
  MongoDBPassword :: string
  MongoDBDBName :: string
  MongoDBTLS :: bool
  MongoDBOptions :: string
  CassandraServer1 :: string
  CassandraServer2 :: string
  CassandraDefaultKeyspace :: string
  MinIOEndpoint :: string
  MinIOAccessKey :: string
  MinIOSecretKey :: string
  MinIORegion :: string
  MinIOUseSSL :: bool
  MinIOWhatsAppBucket :: string
  MinIOEngagementBucket :: string
  DialectsAIAPI :: string
  ThemesAIAPI :: string
  SubThemesAIAPI :: string
  NetSentimentInterpretationAPI :: string
  ChatsTopKeywords :: string
  CDPProfileAPI :: string
  OverallSentimentURL :: string
  AIAPIsTimeout :: i64
  BackendAPIURL :: string
  LiveServiceURL :: string
  EventTimeout :: i64
  MaxTries :: i64
  CrashSleep :: i64
  ForceDisableInactivity :: bool
  ServerEnvironment :: string
  TotalStaciPosts :: i64
  WhitelabelProjectNameEN :: string
  WhitelabelAIProductNameEN :: string
  WhitelabelProjectNameAR :: string
  WhitelabelAIProductNameAR :: string
  WhitelabelPoweredBy :: string
  WhitelabelLegalName :: string
  WhitelabelPoweredBySentence :: string
  WhitelabelDisclaimerAR :: string
  WhitelabelContactEmail :: string
  WhitelabelAssumeResponsibility :: bool
  WhitelabelAIProductPPTLogo :: string
  OTELServiceName :: string
  OTELTracesExporter :: string
  OTELMetricsExporter :: string
  OTELLogsExporter :: string
  OTELExporterOTLPEndpoint :: string
  LogFmt :: bool
  NoSlack :: bool
  HTTPPort :: string

section \<open>Reading variables\<close>

definition getEnv :: "(string \<Rightarrow> string) \<Rightarrow> string \<Rightarrow> string \<Rightarrow> string" where
  "getEnv env key dflt = (if env key \<noteq> '''' then env key else dflt)"

definition parseBool :: "string \<Rightarrow> bool" where
  "parseBool s =
     (let t = trim_space (ascii_lower s) in t = ''1'' \<or> t = ''true'' \<or> t = ''yes'')"

definition parseInt64 :: "string \<Rightarrow> i64 \<Rightarrow> i64" where
  "parseInt64 s dflt =
     (if s = '''' then dflt else case parse_i64 s of None \<Rightarrow> dflt | Some n \<Rightarrow> n)"

section \<open>Loading and validation\<close>

definition load_config :: "(string \<Rightarrow> string) \<Rightarrow> Config" where
  "load_config env =
     (let redisHost = (getEnv env ''APP_REDIS_HOST'' (getEnv env ''APP_BACKEND_REDIS_SERVER'' ''localhost''));
          redisPort = (getEnv env ''APP_REDIS_PORT'' (getEnv env ''APP_BACKEND_REDIS_PORT'' ''6379''))
      in \<lparr>
        RedisHost = redisHost,
        RedisPort = redisPort,
        RedisPassword = env ''APP_REDIS_PASSWORD'',
        RedisTLS = parseBool (env ''APP_REDIS_TLS''),
        RedisIPAddress = getEnv env ''APP_REDIS_IP_ADDRESS'' redisHost,
        InstFBRedisHost = getEnv env ''APP_INST_FB_REDIS_IP_ADDRESS'' redisHost,
        InstFBRedisPort = getEnv env ''APP_INST_FB_REDIS_PORT'' redisPort,
        BackendRedisHost = getEnv env ''APP_BACKEND_REDIS_SERVER'' redisHost,
        BackendRedisPort = getEnv env ''APP_BACKEND_REDIS_PORT'' redisPort,
        DispatcherInputStream = env ''APP_DISPATCHER_INPUT_STREAM'',
        DispatcherConsumerGroup = env ''APP_DISPATCHER_CONSUMER_GROUP'',
        DispatcherConsumerName = env ''APP_DISPATCHER_CONSUMER_NAME'',
        DispatcherOutputStreamPrefix = env ''APP_DISPATCHER_OUTPUT_STREAM_PREFIX'',
        DispatcherDeadletterStream = env ''APP_DISPATCHER_REJECTED_STREAM'',
        DispatcherStreamMaxLen = parseInt64 (env ''APP_DISPATCHER_STREAM_MAXLEN'') 0,
        DispatcherClaimMinIdle = (parseInt64 (env ''APP_DISPATCHER_CLAIM_MIN_IDLE'') 300000) * nanosecond_per_ms,
        OverrideOutput = parseBool (env ''APP_GO_DISPATCHER_OVERRIDE''),
        OverrideRoutingKey = env ''APP_GO_DISPATCHER_OVERRIDE_ROUTING_KEY'',
        KafkaBrokers = env ''KAFKA_BOOTSTRAP_SERVERS'',
        KafkaTopicDispatcherRequests = getEnv env ''STACI_TOPIC_DISPATCHER_REQUESTS'' ''staci.dispatcher.requests'',
        KafkaTopicDispatcherOutput = getEnv env ''STACI_TOPIC_DISPATCHER_OUTPUT'' ''staci.dispatcher.output'',
        KafkaTopicCalcDataFetcher = getEnv env ''STACI_TOPIC_CALC_DATA_FETCHER'' ''staci.calc.data_fetcher'',
        KafkaConsumerGroupDispatcher = getEnv env ''STACI_CONSUMER_GROUP_DISPATCHER'' ''staci-dispatcher'',
        MongoDBURI = env ''APP_MONGODB_URI'',
        MongoDBHost = getEnv env ''APP_MONGODB_HOST'' ''localhost'',
        MongoDBPort = getEnv env ''APP_MONGODB_PORT'' ''27017'',
        MongoDBUser = env ''APP_MONGODB_USER'',
        MongoDBPassword = env ''APP_MONGODB_PASSWORD'',
        MongoDBDBName = env ''APP_MONGODB_DBNAME'',
        MongoDBTLS = parseBool (env ''APP_MONGODB_TLS''),
        MongoDBOptions = env ''APP_MONGODB_OPTIONS'',
        CassandraServer1 = env ''APP_ResearchSSANDRA_SERVER_1'',
        CassandraServer2 = env ''APP_ResearchSSANDRA_SERVER_2'',
        CassandraDefaultKeyspace = env ''APP_ResearchSSANDRA_DEFAULT_KEYSPACE'',
        MinIOEndpoint = env ''APP_MINIO_ENDPOINT'',
        MinIOAccessKey = env ''APP_MINIO_ACCESS_KEY'',
        MinIOSecretKey = env ''APP_MINIO_SECRET_KEY'',
        MinIORegion = getEnv env ''APP_MINIO_REGION'' ''us-east-1'',
        MinIOUseSSL = parseBool (env ''APP_MINIO_USE_SSL''),
        MinIOWhatsAppBucket = env ''APP_MINIO_WHATSAPP_BUCKET'',
        MinIOEngagementBucket = env ''APP_MINIO_ENGAGEMENT_BUCKET'',
        DialectsAIAPI = env ''APP_DIALECTS_AI_API'',
        ThemesAIAPI = env ''APP_THEMES_AI_API'',
        SubThemesAIAPI = env ''APP_SUB_THEMES_AI_API'',
        NetSentimentInterpretationAPI = env ''APP_net_sentiment_interpretation_api'',
        ChatsTopKeywords = env ''APP_CHATS_TOPKEYWORDS'',
        CDPProfileAPI = env ''APP_CDP_PROFILE_API'',
        OverallSentimentURL = env ''APP_OVERALL_SENTIMENT_URL'',
        AIAPIsTimeout = (parseInt64 (env ''APP_AI_APIS_TIMEOUT'') 60) * nanosecond_per_s,
        BackendAPIURL = env ''APP_BACKEND_API_URL'',
        LiveServiceURL = env ''APP_LIVE_SERVICE_URL'',
        EventTimeout = (parseInt64 (env ''APP_GO_DISPATCHER_EVENT_TIMEOUT'') 3600) * nanosecond_per_s,
        MaxTries = parseInt64 (env ''APP_SERVICE_MAX_TRIES'') 0,
        CrashSleep = (parseInt64 (env ''APP_SERVICE_CRASH_SLEEP'') 0) * nanosecond_per_s,
        ForceDisableInactivity = parseBool (env ''APP_FORCE_DISABLE_INACTIVITY_THREAD''),
        ServerEnvironment = env ''APP_SERVER_ENVIRONMENT'',
        TotalStaciPosts = parseInt64 (env ''APP_TOTAL_NUMBER_OF_STACI_POSTS'') 0,
        WhitelabelProjectNameEN = env ''APP_WHITELABEL_PROJECT_NAME_EN'',
        WhitelabelAIProductNameEN = env ''APP_WHITELABEL_AI_PRODUCT_NAME_EN'',
        WhitelabelProjectNameAR = env ''APP_WHITELABEL_PROJECT_NAME_AR'',
        WhitelabelAIProductNameAR = env ''APP_WHITELABEL_AI_PRODUCT_NAME_AR'',
        WhitelabelPoweredBy = env ''APP_WHITELABEL_POWERED_BY'',
        WhitelabelLegalName = env ''APP_WHITELABEL_LEGAL_NAME'',
        WhitelabelPoweredBySentence = env ''APP_WHITELABEL_POWERED_BY_SENTENCE'',
        WhitelabelDisclaimerAR = env ''APP_WHITELABEL_DISCLAIMER_AR'',
        WhitelabelContactEmail = env ''APP_WHITELABEL_CONTACT_EMAIL'',
        WhitelabelAssumeResponsibility = parseBool (env ''APP_WHITELABEL_ASSUME_RESPONSIBILITY''),
        WhitelabelAIProductPPTLogo = env ''APP_WHITELABEL_AI_PRODUCT_PPT_LOGO'',
        OTELServiceName = getEnv env ''OTEL_SERVICE_NAME'' ''dispatcher-engine'',
        OTELTracesExporter = env ''OTEL_TRACES_EXPORTER'',
        OTELMetricsExporter = env ''OTEL_METRICS_EXPORTER'',
        OTELLogsExporter = env ''OTEL_LOGS_EXPORTER'',
        OTELExporterOTLPEndpoint = env ''OTEL_EXPORTER_OTLP_ENDPOINT'',
        LogFmt = parseBool (env ''APP_LOGFMT''),
        NoSlack = parseBool (env ''APP_NO_SLACK''),
        HTTPPort = getEnv env ''PORT'' ''8080''\<rparr>)"

text \<open>The Kafka branch and the Redis branch; \<open>None\<close> is a nil error.\<close>

definition UseKafka :: "Config \<Rightarrow> bool" where
  "UseKafka c \<longleftrightarrow> KafkaBrokers c \<noteq> ''''"

definition validate :: "Config \<Rightarrow> string option" where
  "validate c =
     (let useKafka = (KafkaBrokers c \<noteq> '''') in
      if useKafka then
        if KafkaTopicDispatcherRequests c = '''' then
          Some ''STACI_TOPIC_DISPATCHER_REQUESTS is required when using Kafka''
        else if KafkaTopicDispatcherOutput c = '''' then
          Some ''STACI_TOPIC_DISPATCHER_OUTPUT is required when using Kafka''
        else if KafkaConsumerGroupDispatcher c = '''' then
          Some ''STACI_CONSUMER_GROUP_DISPATCHER is required when using Kafka''
        else None
      else if DispatcherInputStream c = '''' then
        Some ''APP_DISPATCHER_INPUT_STREAM is required (or set KAFKA_BOOTSTRAP_SERVERS)''
      else if DispatcherConsumerGroup c = '''' then
        Some ''APP_DISPATCHER_CONSUMER_GROUP is required''
      else if DispatcherConsumerName c = '''' then
        Some ''APP_DISPATCHER_CONSUMER_NAME is required''
      else if DispatcherOutputStreamPrefix c = '''' then
        Some ''APP_DISPATCHER_OUTPUT_STREAM_PREFIX is required''
      else if DispatcherDeadletterStream c = '''' then
        Some ''APP_DISPATCHER_REJECTED_STREAM is required''
      else None)"

definition Load :: "(string \<Rightarrow> string) \<Rightarrow> Config \<times> string option" where
  "Load env = (let c = load_config env in (c, validate c))"

definition RedisAddr :: "Config \<Rightarrow> string" where
  "RedisAddr c = RedisHost c @ '':'' @ RedisPort c"

definition BackendRedisAddr :: "Config \<Rightarrow> string" where
  "BackendRedisAddr c = BackendRedisHost c @ '':'' @ BackendRedisPort c"

section \<open>Properties\<close>

lemma getEnv_nonempty [simp]: "d \<noteq> '''' \<Longrightarrow> getEnv env k d \<noteq> ''''"
  by (simp add: getEnv_def)

lemma load_config_simps:
  "RedisHost (load_config env) = getEnv env ''APP_REDIS_HOST'' (getEnv env ''APP_BACKEND_REDIS_SERVER'' ''localhost'')"
  "RedisPort (load_config env) = getEnv env ''APP_REDIS_PORT'' (getEnv env ''APP_BACKEND_REDIS_PORT'' ''6379'')"
  "BackendRedisHost (load_config env) = getEnv env ''APP_BACKEND_REDIS_SERVER'' (RedisHost (load_config env))"
  "BackendRedisPort (load_config env) = getEnv env ''APP_BACKEND_REDIS_PORT'' (RedisPort (load_config env))"
  "KafkaBrokers (load_config env) = env ''KAFKA_BOOTSTRAP_SERVERS''"
  "KafkaTopicDispatcherRequests (load_config env) = getEnv env ''STACI_TOPIC_DISPATCHER_REQUESTS'' ''staci.dispatcher.requests''"
  "KafkaTopicDispatcherOutput (load_config env) = getEnv env ''STACI_TOPIC_DISPATCHER_OUTPUT'' ''staci.dispatcher.output''"
  "KafkaConsumerGroupDispatcher (load_config env) = getEnv env ''STACI_CONSUMER_GROUP_DISPATCHER'' ''staci-dispatcher''"
  "DispatcherInputStream (load_config env) = env ''APP_DISPATCHER_INPUT_STREAM''"
  "DispatcherConsumerGroup (load_config env) = env ''APP_DISPATCHER_CONSUMER_GROUP''"
  "DispatcherConsumerName (load_config env) = env ''APP_DISPATCHER_CONSUMER_NAME''"
  "DispatcherOutputStreamPrefix (load_config env) = env ''APP_DISPATCHER_OUTPUT_STREAM_PREFIX''"
  "DispatcherDeadletterStream (load_config env) = env ''APP_DISPATCHER_REJECTED_STREAM''"
  "EventTimeout (load_config env) = parseInt64 (env ''APP_GO_DISPATCHER_EVENT_TIMEOUT'') 3600 * nanosecond_per_s"
  by (simp_all add: load_config_def)

lemma Load_simps [simp]: "fst (Load env) = load_config env" "snd (Load env) = validate (load_config env)"
  by (simp_all add: Load_def)

definition required_keys :: "string list" where
  "required_keys =
     [''APP_DISPATCHER_INPUT_STREAM'', ''APP_DISPATCHER_CONSUMER_GROUP'', ''APP_DISPATCHER_CONSUMER_NAME'',
      ''APP_DISPATCHER_OUTPUT_STREAM_PREFIX'', ''APP_DISPATCHER_REJECTED_STREAM'']"

definition missing_key_error :: "string \<Rightarrow> string" where
  "missing_key_error k = k @ (if k = ''APP_DISPATCHER_INPUT_STREAM''
     then '' is required (or set KAFKA_BOOTSTRAP_SERVERS)'' else '' is required'')"

text \<open>
  C35: Loading fails exactly when Kafka is not configured and one of the five stream variables is unset, and
  the error names the first one missing; with Kafka brokers set it never fails, since every variable the Kafka
  branch checks has a non-empty default.
\<close>

theorem Load_error_spec:
  "snd (Load env) =
     (if env ''KAFKA_BOOTSTRAP_SERVERS'' \<noteq> '''' then None
      else map_option missing_key_error (find (\<lambda>k. env k = '''') required_keys))"
  by (simp add: validate_def load_config_simps required_keys_def missing_key_error_def)

text \<open>
  The broker and the backend address coincide whenever one pair of variables is unset: the broker
  falls back on the backend's host and port, and the backend on the broker's.
\<close>

lemma redis_addresses_fall_back:
  assumes "env ''APP_REDIS_HOST'' = '''' \<and> env ''APP_REDIS_PORT'' = ''''
    \<or> env ''APP_BACKEND_REDIS_SERVER'' = '''' \<and> env ''APP_BACKEND_REDIS_PORT'' = ''''"
  shows "RedisAddr (fst (Load env)) = BackendRedisAddr (fst (Load env))"
  using assms by (auto simp: RedisAddr_def BackendRedisAddr_def load_config_simps getEnv_def)

lemma redis_addresses_fall_back_witness:
  "RedisAddr (fst (Load (\<lambda>k. if k = ''APP_BACKEND_REDIS_SERVER'' then ''cache'' else ''''))) = ''cache:6379''
   \<and> BackendRedisAddr (fst (Load (\<lambda>k. if k = ''APP_BACKEND_REDIS_SERVER'' then ''cache'' else ''''))) = ''cache:6379''"
proof -
  let ?env = "\<lambda>k. if k = ''APP_BACKEND_REDIS_SERVER'' then ''cache'' else ''''"
  have "RedisAddr (fst (Load ?env)) = BackendRedisAddr (fst (Load ?env))"
    by (rule redis_addresses_fall_back) simp
  moreover have "RedisAddr (fst (Load ?env)) = ''cache:6379''"
    by (simp add: RedisAddr_def load_config_simps getEnv_def)
  ultimately show ?thesis by simp
qed

lemma show_i64_nonempty [simp]: "show_i64 n \<noteq> ''''"
  by (simp add: show_i64_def)

lemma parseInt64_show [simp]: "parseInt64 (show_i64 n) d = n"
  by (simp add: parseInt64_def)

text \<open>
  C36: An event timeout given in seconds is the timeout the staleness check compares with, for every value
  whose nanoseconds fit an int64.
\<close>

theorem event_timeout_seconds:
  assumes "env ''APP_GO_DISPATCHER_EVENT_TIMEOUT'' = show_i64 n" "\<bar>sint n\<bar> \<le> 9223372036"
  shows "duration_seconds (EventTimeout (fst (Load env))) = n"
  using assms by (simp add: load_config_simps duration_seconds_of_seconds)

theorem event_timeout_seconds_witness:
  "duration_seconds (EventTimeout (fst (Load (\<lambda>_. show_i64 7200)))) = 7200"
  by (rule event_timeout_seconds [of "\<lambda>_. show_i64 7200" 7200]) simp_all

text \<open>
  Above 9223372036 seconds the multiplication by \<open>time.Second\<close> wraps around: every value up to 18446744073
  gives a negative timeout.
\<close>

lemma sint_wraps_once:
  assumes "2 ^ 63 \<le> k" "k < 2 ^ 64"
  shows "sint (word_of_int k :: i64) = k - 2 ^ 64"
proof -
  have "(word_of_int k :: i64) = word_of_int (k - 2 ^ 64)"
    by (simp add: word_of_int_eq_iff take_bit_eq_mod mod_diff_right_eq)
  moreover have "sint (word_of_int (k - 2 ^ 64) :: i64) = k - 2 ^ 64"
    using assms by (intro sint_word_of_int_i64) simp_all
  ultimately show ?thesis by (simp only:)
qed

lemma event_timeout_wraps:
  assumes "env ''APP_GO_DISPATCHER_EVENT_TIMEOUT'' = show_i64 n" "9223372037 \<le> sint n" "sint n \<le> 18446744073"
  shows "sint (EventTimeout (load_config env)) = sint n * 1000000000 - 2 ^ 64"
proof -
  have "n * nanosecond_per_s = word_of_int (sint n * 1000000000)"
    by (simp add: nanosecond_per_s_def wi_hom_mult [symmetric])
  moreover have "sint (word_of_int (sint n * 1000000000) :: i64) = sint n * 1000000000 - 2 ^ 64"
    using assms(2,3) by (intro sint_wraps_once) simp_all
  moreover have "EventTimeout (load_config env) = n * nanosecond_per_s"
    using assms(1) by (simp add: load_config_simps)
  ultimately show ?thesis by (simp only:)
qed

lemma duration_seconds_negative:
  assumes "sint d < 0"
  shows "sint (duration_seconds d) \<le> 0"
proof -
  let ?k = "\<bar>sint d\<bar> div 1000000000"
  have "sint (word_of_int (- ?k) :: i64) = - ?k"
    using sint_i64_bounds [of d] assms by (intro sint_word_of_int_i64) auto
  then show ?thesis using assms by (simp add: duration_seconds_def del: word_of_int_minus)
qed

end
