(* ===== verification/Http_Server.thy ===== *)
theory Http_Server
  imports Services Config
begin

text \<open>
  \<open>internal/server/http.go\<close> and \<open>cmd/server/main.go\<close>: the health and readiness server.  Of
  \<open>net/http\<close> this models the \<open>ServeMux\<close>: a request whose path is not clean is redirected to its clean path, and
  a clean path is routed by patterns without method, host, wildcard or trailing slash, each of which matches
  exactly its own path.  The requests are those of every method but CONNECT, whose path starts with a slash, has no
  query after it and only characters that are never escaped in a URL.
\<close>

section \<open>Handlers and routing\<close>

record Response =
  rs_Status :: nat
  rs_ContentType :: string
  rs_Body :: string

definition health :: Response where
  "health = \<lparr>rs_Status = 200, rs_ContentType = ''application/json'',
     rs_Body = [CHR ''{'', dquote] @ ''status'' @ [dquote, CHR '':'', dquote] @ ''ok'' @ [dquote, CHR ''}'']\<rparr>"

definition ready :: Response where
  "ready = \<lparr>rs_Status = 200, rs_ContentType = ''application/json'',
     rs_Body = [CHR ''{'', dquote] @ ''ready'' @ [dquote, CHR '':''] @ ''true'' @ [CHR ''}'']\<rparr>"

text \<open>The mux's answer where no pattern matches (\<open>http.NotFound\<close>).\<close>

definition not_found :: Response where
  "not_found = \<lparr>rs_Status = 404, rs_ContentType = ''text/plain; charset=utf-8'',
     rs_Body = ''404 page not found'' @ [CHR 0x0A]\<rparr>"

record Server =
  sv_Addr :: string
  sv_Handler :: "string \<rightharpoonup> Response"
  sv_ReadTimeout :: i64
  sv_WriteTimeout :: i64

definition New :: "string \<Rightarrow> Server" where
  "New addr =
     (let mux = [''/health'' \<mapsto> health, ''/ready'' \<mapsto> ready]
      in \<lparr>sv_Addr = addr, sv_Handler = mux, sv_ReadTimeout = 10 * nanosecond_per_s,
          sv_WriteTimeout = 10 * nanosecond_per_s\<rparr>)"

text \<open>
  \<open>cleanPath\<close>: the path starts with a slash and has no empty, \<open>.\<close> or \<open>..\<close> element, but a slash at its end stays.
  The first argument of \<open>clean_elems\<close> holds the elements kept so far, the last one first.
\<close>

fun clean_elems :: "string list \<Rightarrow> string list \<Rightarrow> string list" where
  "clean_elems kept [] = rev kept"
| "clean_elems kept (e # es) =
     (if e = '''' \<or> e = ''.'' then clean_elems kept es
      else if e = ''..'' then clean_elems (tl kept) es
      else clean_elems (e # kept) es)"

definition rooted :: "string \<Rightarrow> string" where
  "rooted p = (if take 1 p = ''/'' then p else CHR ''/'' # p)"

definition clean_path :: "string \<Rightarrow> string" where
  "clean_path p =
     (let es = clean_elems [] (split_on CHR ''/'' (rooted p)); np = CHR ''/'' # join_with ''/'' es
      in if last (rooted p) = CHR ''/'' \<and> es \<noteq> [] then np @ ''/'' else np)"

definition url_plain :: "char \<Rightarrow> bool" where
  "url_plain c \<longleftrightarrow> (48 \<le> byte c \<and> byte c \<le> 57) \<or> (65 \<le> byte c \<and> byte c \<le> 90) \<or> (97 \<le> byte c \<and> byte c \<le> 122)
     \<or> List.member ''-_.~$&+,/:;=@'' c"

text \<open>The mux's answer: a handler's response, or a redirection (status 301) to a location.\<close>

datatype answer = Answered Response | Redirected string

definition serve :: "Server \<Rightarrow> string \<Rightarrow> answer" where
  "serve s path =
     (if clean_path path \<noteq> path then Redirected (clean_path path)
      else Answered (case sv_Handler s path of Some r \<Rightarrow> r | None \<Rightarrow> not_found))"

definition Start :: "world \<Rightarrow> Server \<Rightarrow> goerr option go" where
  "Start W s = perform (w_err W) Background (ListenAndServe (sv_Addr s))"

definition Shutdown :: "world \<Rightarrow> goctx \<Rightarrow> Server \<Rightarrow> goerr option go" where
  "Shutdown W ctx s = perform (w_err W) ctx ServerShutdown"

section \<open>The server process\<close>

text \<open>\<open>net.JoinHostPort\<close>: a host with a colon or a percent sign is put in brackets.\<close>

definition JoinHostPort :: "string \<Rightarrow> string \<Rightarrow> string" where
  "JoinHostPort host port =
     (if List.member host CHR '':'' \<or> List.member host CHR ''%'' then ''['' @ host @ '']:'' @ port
      else host @ '':'' @ port)"

text \<open>Up to the wait for a signal: \<open>Inl 1\<close> is \<open>os.Exit(1)\<close>.  \<open>Start\<close> runs in a goroutine of its own.\<close>

definition server_main_start :: "(string \<Rightarrow> string) \<Rightarrow> nat + Server" where
  "server_main_start env =
     (let cfg = fst (Load env) in
      if snd (Load env) \<noteq> None then Inl 1 else Inr (New (JoinHostPort ''0.0.0.0'' (HTTPPort cfg))))"

text \<open>The goroutine that serves: it logs every error but the one that tells of a shutdown; \<open>True\<close> is "logged".\<close>

definition ErrServerClosed :: goerr where
  "ErrServerClosed = GoErr ''http: Server closed''"

definition server_goroutine :: "world \<Rightarrow> Server \<Rightarrow> bool go" where
  "server_goroutine W s = do {
     e \<leftarrow> Start W s;
     go_return (case e of None \<Rightarrow> False | Some err \<Rightarrow> err \<noteq> ErrServerClosed)
   }"

definition server_main_stop :: "world \<Rightarrow> Server \<Rightarrow> unit go" where
  "server_main_stop W s = do {
     _ \<leftarrow> Shutdown W (WithTimeout Background (5 * nanosecond_per_s)) s;
     go_return ()
   }"

section \<open>Properties\<close>

text \<open>Cleaning a path twice is cleaning it once, so a redirection is answered when it is followed.\<close>

definition clean_elem :: "string \<Rightarrow> bool" where
  "clean_elem e \<longleftrightarrow> e \<noteq> '''' \<and> e \<noteq> ''.'' \<and> e \<noteq> ''..'' \<and> CHR ''/'' \<notin> set e"

lemma clean_elems_ok:
  assumes "list_all clean_elem kept" "list_all (\<lambda>e. CHR ''/'' \<notin> set e) es"
  shows "list_all clean_elem (clean_elems kept es)"
  using assms
proof (induction kept es rule: clean_elems.induct)
  case (2 kept e es)
  have "list_all clean_elem (tl kept)" using 2(4) by (cases kept) auto
  moreover have "clean_elem e" if "e \<noteq> ''''" "e \<noteq> ''.''" "e \<noteq> ''..''"
    using that 2(5) by (simp add: clean_elem_def)
  ultimately show ?case using 2 by simp
qed (simp add: list_all_iff)

lemma clean_elems_same: "list_all clean_elem es \<Longrightarrow> clean_elems kept (es @ rest) = clean_elems (rev es @ kept) rest"
  by (induction es arbitrary: kept) (auto simp: clean_elem_def)

lemma join_last:
  "list_all clean_elem es \<Longrightarrow> es \<noteq> [] \<Longrightarrow> join_with ''/'' es \<noteq> [] \<and> last (join_with ''/'' es) \<noteq> CHR ''/''"
proof (induction "''/''" es rule: join_with.induct)
  case (2 s)
  then have "s \<noteq> []" "CHR ''/'' \<notin> set s" by (simp_all add: clean_elem_def)
  then show ?case by (metis join_with.simps(2) last_in_set)
qed simp_all

lemma clean_path_of_elems:
  assumes "list_all clean_elem es"
  shows "clean_path (CHR ''/'' # join_with ''/'' es) = CHR ''/'' # join_with ''/'' es"
    and "es \<noteq> [] \<Longrightarrow> clean_path (CHR ''/'' # join_with ''/'' es @ ''/'') = CHR ''/'' # join_with ''/'' es @ ''/''"
proof -
  let ?j = "join_with ''/'' es"
  have split: "split_on CHR ''/'' ?j = es" if "es \<noteq> []"
    using split_join [OF that] assms by (simp add: list_all_iff clean_elem_def)
  have elems: "clean_elems [] es = es" "clean_elems [] (es @ [[]]) = es"
    using clean_elems_same [OF assms, of "[]" "[]"] clean_elems_same [OF assms, of "[]" "[[]]"] by simp_all
  show "clean_path (CHR ''/'' # ?j) = CHR ''/'' # ?j"
    using split elems(1) join_last [OF assms] by (cases "es = []") (simp_all add: clean_path_def rooted_def)
  show "clean_path (CHR ''/'' # ?j @ ''/'') = CHR ''/'' # ?j @ ''/''" if "es \<noteq> []"
    using split [OF that] elems(2) that split_on_snoc [of "CHR ''/''" ?j] by (simp add: clean_path_def rooted_def)
qed

lemma clean_path_idem: "clean_path (clean_path p) = clean_path p"
proof -
  have "list_all clean_elem (clean_elems [] (split_on CHR ''/'' (rooted p)))"
    using split_on_no_sep by (intro clean_elems_ok) (auto simp: list_all_iff)
  note clean_path_of_elems [OF this]
  then show ?thesis by (subst (2 3) clean_path_def) (simp add: Let_def)
qed

lemma probe_responses:
  "health = \<lparr>rs_Status = 200, rs_ContentType = ''application/json'', rs_Body = json_text (JObj [(''status'', JStr ''ok'')])\<rparr>"
  "ready = \<lparr>rs_Status = 200, rs_ContentType = ''application/json'', rs_Body = json_text (JObj [(''ready'', JBool True)])\<rparr>"
proof -
  have "rs_Body health = json_text (JObj [(''status'', JStr ''ok'')])" "rs_Body ready = json_text (JObj [(''ready'', JBool True)])"
    by code_simp+
  then show
    "health = \<lparr>rs_Status = 200, rs_ContentType = ''application/json'', rs_Body = json_text (JObj [(''status'', JStr ''ok'')])\<rparr>"
    "ready = \<lparr>rs_Status = 200, rs_ContentType = ''application/json'', rs_Body = json_text (JObj [(''ready'', JBool True)])\<rparr>"
    by (simp_all add: health_def ready_def del: json_text.simps)
qed

text \<open>
  C40: A request for a path that is not clean is redirected to its clean path, which is answered; of the clean paths,
  the server answers exactly the two probe paths with 200 and the JSON of an object, and every other with 404.
\<close>

theorem server_routes:
  assumes "take 1 path = ''/''" "list_all url_plain path"
  shows "serve (New addr) path =
     (if path = ''/health'' then Answered \<lparr>rs_Status = 200, rs_ContentType = ''application/json'',
        rs_Body = json_text (JObj [(''status'', JStr ''ok'')])\<rparr>
      else if path = ''/ready'' then Answered \<lparr>rs_Status = 200, rs_ContentType = ''application/json'',
        rs_Body = json_text (JObj [(''ready'', JBool True)])\<rparr>
      else if clean_path path = path then Answered not_found
      else Redirected (clean_path path))
   \<and> (\<exists>r. serve (New addr) (clean_path path) = Answered r)"
proof -
  have "clean_path ''/health'' = ''/health''" "clean_path ''/ready'' = ''/ready''" by code_simp+
  then show ?thesis
    by (simp add: serve_def New_def clean_path_idem probe_responses [symmetric] del: json_text.simps)
qed

theorem server_routes_witness:
  "serve (New ''0.0.0.0:8080'') ''/x/..//health'' = Redirected ''/health''"
proof -
  have "clean_path ''/x/..//health'' = ''/health''" by code_simp
  moreover have "list_all url_plain ''/x/..//health''" by code_simp
  ultimately show ?thesis using server_routes [of "''/x/..//health''" "''0.0.0.0:8080''"] by simp
qed

text \<open>
  The server listens on the port of the environment, on 8080 where none is set, and it does not start
  exactly when the configuration of the consumer is incomplete.
\<close>

lemma server_start_spec:
  "server_main_start env =
     (if snd (Load env) \<noteq> None then Inl 1
      else Inr (New (''0.0.0.0:'' @ (if env ''PORT'' = '''' then ''8080'' else env ''PORT''))))"
  by (simp add: server_main_start_def JoinHostPort_def load_config_def getEnv_def)

end
