(* ===== verification/Store.thy ===== *)
theory Store
  imports Services Config
begin

text \<open>
  \<open>internal/store/minio.go\<close> and \<open>internal/store/mongodb.go\<close>: the construction of the two clients, with
  the calls on the client libraries as events of the history, and the accessors.
\<close>

section \<open>MinIO\<close>

record MinIO =
  mi_cfg :: Config

definition NewMinIO :: "world \<Rightarrow> Config \<Rightarrow> (string + MinIO) go" where
  "NewMinIO W cfg =
     (if MinIOEndpoint cfg = '''' \<or> MinIOAccessKey cfg = '''' \<or> MinIOSecretKey cfg = '''' then
        go_return (Inl ''minio config incomplete'')
      else do {
        e \<leftarrow> perform (w_err W) Background
               (MinioNew (MinIOEndpoint cfg) (MinIOAccessKey cfg) (MinIOSecretKey cfg) (MinIOUseSSL cfg) (MinIORegion cfg));
        go_return (case e of Some err \<Rightarrow> Inl (error_text err) | None \<Rightarrow> Inr \<lparr>mi_cfg = cfg\<rparr>)
      })"

definition GetObject :: "world \<Rightarrow> MinIO \<Rightarrow> goctx \<Rightarrow> string \<Rightarrow> string \<Rightarrow> (goerr + string) go" where
  "GetObject W m ctx bucket key = perform (w_str W) ctx (MinioGetObject bucket key)"

definition PutObject ::
  "world \<Rightarrow> MinIO \<Rightarrow> goctx \<Rightarrow> string \<Rightarrow> string \<Rightarrow> string \<Rightarrow> i64 \<Rightarrow> string \<Rightarrow> (goerr + string) go" where
  "PutObject W m ctx bucket key content len contentType =
     perform (w_str W) ctx (MinioPutObject bucket key content len contentType)"

definition WhatsAppBucket :: "MinIO \<Rightarrow> string" where
  "WhatsAppBucket m = MinIOWhatsAppBucket (mi_cfg m)"

definition EngagementBucket :: "MinIO \<Rightarrow> string" where
  "EngagementBucket m = MinIOEngagementBucket (mi_cfg m)"

section \<open>MongoDB\<close>

record MongoDB =
  mg_cfg :: Config

definition mongo_uri :: "Config \<Rightarrow> string" where
  "mongo_uri cfg =
     (if MongoDBURI cfg = '''' then
        ''mongodb://'' @ MongoDBHost cfg @ '':'' @ MongoDBPort cfg
          @ (if MongoDBOptions cfg \<noteq> '''' then ''?'' @ MongoDBOptions cfg else '''')
      else MongoDBURI cfg)"

definition mongo_auth :: "Config \<Rightarrow> (string \<times> string) option" where
  "mongo_auth cfg =
     (if MongoDBUser cfg \<noteq> '''' \<and> MongoDBURI cfg = '''' then Some (MongoDBUser cfg, MongoDBPassword cfg) else None)"

definition NewMongoDB :: "world \<Rightarrow> goctx \<Rightarrow> Config \<Rightarrow> (string + MongoDB) go" where
  "NewMongoDB W ctx cfg = do {
     e \<leftarrow> perform (w_err W) ctx (MongoConnect (mongo_uri cfg) (mongo_auth cfg));
     case e of
       Some err \<Rightarrow> go_return (Inl (error_text err))
     | None \<Rightarrow> do {
         p \<leftarrow> perform (w_err W) (WithTimeout ctx (5 * nanosecond_per_s)) MongoPing;
         case p of
           Some err \<Rightarrow> do {
             _ \<leftarrow> perform (w_err W) ctx MongoDisconnect;
             go_return (Inl (error_text err))
           }
         | None \<Rightarrow> go_return (Inr \<lparr>mg_cfg = cfg\<rparr>)
       }
   }"

text \<open>A handle is the names it was made from.\<close>

definition Database :: "MongoDB \<Rightarrow> string \<Rightarrow> string" where
  "Database m dbName = (if dbName = '''' then MongoDBDBName (mg_cfg m) else dbName)"

definition Collection :: "MongoDB \<Rightarrow> string \<Rightarrow> string \<Rightarrow> string \<times> string" where
  "Collection m dbName collName = (Database m dbName, collName)"

definition MongoDB_Close :: "world \<Rightarrow> MongoDB \<Rightarrow> goctx \<Rightarrow> goerr option go" where
  "MongoDB_Close W m ctx = perform (w_err W) ctx MongoDisconnect"

section \<open>Properties\<close>

text \<open>The connections a trace leaves open: connects that succeeded less disconnects.\<close>

fun mongo_open :: "world \<Rightarrow> hist \<Rightarrow> hist \<Rightarrow> int" where
  "mongo_open W h [] = 0"
| "mongo_open W h (e # es) =
     (case snd e of
        MongoConnect _ _ \<Rightarrow> if w_err W (h @ [e]) = None then 1 else 0
      | MongoDisconnect \<Rightarrow> - 1
      | _ \<Rightarrow> 0)
     + mongo_open W (h @ [e]) es"

text \<open>
  C39: The constructor of the MongoDB client leaks no connection: one is open after it exactly when it returns a
  client, also where the connection was made and the ping failed.
\<close>

theorem NewMongoDB_no_leak:
  "mongo_open W h (trace (NewMongoDB W ctx cfg) h)
     = (case result (NewMongoDB W ctx cfg) h of Inl err \<Rightarrow> 0 | Inr m \<Rightarrow> 1)"
  by (simp add: NewMongoDB_def trace_def result_def split: option.split)

text \<open>
  No client is made from an incomplete MinIO configuration, and the library is not called; otherwise it is
  called once, with the endpoint, the credentials, the TLS flag and the region of the configuration.
\<close>

lemma NewMinIO_calls:
  "map snd (trace (NewMinIO W cfg) h) =
     (if result (NewMinIO W cfg) h = Inl ''minio config incomplete''
         \<and> (MinIOEndpoint cfg = '''' \<or> MinIOAccessKey cfg = '''' \<or> MinIOSecretKey cfg = '''') then []
      else [MinioNew (MinIOEndpoint cfg) (MinIOAccessKey cfg) (MinIOSecretKey cfg) (MinIOUseSSL cfg) (MinIORegion cfg)])"
  by (auto simp: NewMinIO_def trace_def result_def split: option.split)

end
