(* ===== verification/Telemetry.thy ===== *)
theory Telemetry
  imports Main
begin

text \<open>
  \<open>internal/telemetry/tracing.go\<close>: the two wrappers of the OpenTelemetry library.  The library is not part of the
  repository: what it provides are parameters, and its types are type variables.  Nothing in the program
  calls the wrappers.
\<close>

definition StartSpan ::
  "(string \<Rightarrow> 'tracer) \<Rightarrow> ('attr list \<Rightarrow> 'opt) \<Rightarrow> ('tracer \<Rightarrow> 'ctx \<Rightarrow> string \<Rightarrow> 'opt list \<Rightarrow> 'ctx \<times> 'span)
     \<Rightarrow> 'ctx \<Rightarrow> string \<Rightarrow> 'attr list \<Rightarrow> 'ctx \<times> 'span" where
  "StartSpan otel_Tracer trace_WithAttributes tracer_Start ctx name attrs =
     tracer_Start (otel_Tracer ''go-dispatcher'') ctx name [trace_WithAttributes attrs]"

definition SpanFromContext :: "('ctx \<Rightarrow> 'span) \<Rightarrow> 'ctx \<Rightarrow> 'span" where
  "SpanFromContext trace_SpanFromContext ctx = trace_SpanFromContext ctx"

text \<open>
  Where the library's context carries the span it starts, the span read from the returned context is the span that
  was returned.
\<close>

lemma started_span_in_context:
  assumes "\<And>t c n opts. from_ctx (fst (start t c n opts)) = snd (start t c n opts)"
  shows "SpanFromContext from_ctx (fst (StartSpan otel wa start ctx name attrs)) = snd (StartSpan otel wa start ctx name attrs)"
  by (simp add: SpanFromContext_def StartSpan_def assms)

end
