(* ===== verification/Controller.thy ===== *)
theory Controller
  imports Services
begin

text \<open>
  \<open>internal/controller/controller.go\<close> and \<open>internal/strategies/stub.go\<close>: the strategy registry, the
  controller that selects a strategy and runs it, and the stub strategy with its registrations.  A value
  of the Go interface \<open>Strategy\<close> is its one method; the registry is polymorphic in it.  The
  registry's lock is not modelled: every registration happens before the goroutines start.
\<close>

section \<open>The registry\<close>

type_synonym strategy_fun = "goctx \<Rightarrow> EventData \<Rightarrow> goerr option go"

record 's Registry =
  strategies :: "string \<rightharpoonup> 's"

definition NewRegistry :: "'s Registry" where
  "NewRegistry = \<lparr>strategies = Map.empty\<rparr>"

definition strategyKey :: "string \<Rightarrow> string \<Rightarrow> string \<Rightarrow> string" where
  "strategyKey product pageName pageAlertNotification =
     (if pageAlertNotification \<noteq> '''' then product @ ''|'' @ pageName @ ''|'' @ pageAlertNotification
      else if product \<noteq> '''' then product @ ''|'' @ pageName
      else pageName)"

definition Register :: "'s Registry \<Rightarrow> string \<Rightarrow> string \<Rightarrow> string \<Rightarrow> 's \<Rightarrow> 's Registry" where
  "Register r product pageName pageAlertNotification s =
     r\<lparr>strategies := (strategies r)(strategyKey product pageName pageAlertNotification \<mapsto> s)\<rparr>"

definition Get :: "'s Registry \<Rightarrow> string \<Rightarrow> string \<Rightarrow> string \<Rightarrow> 's option" where
  "Get r product pageName pageAlertNotification =
     (case strategies r (strategyKey product pageName pageAlertNotification) of
        Some s \<Rightarrow> Some s
      | None \<Rightarrow> strategies r (strategyKey '''' pageName ''''))"

section \<open>The controller\<close>

text \<open>The page the controller looks up: the alert name for product \<open>Alerts\<close>, \<open>Default\<close> if empty.\<close>

definition selected_page :: "EventData \<Rightarrow> string" where
  "selected_page p =
     (let pageName = (if ed_Product p = ''Alerts'' \<and> ed_PageAlertNotification p \<noteq> ''''
                      then ed_PageAlertNotification p else ed_PageName p)
      in if pageName = '''' then ''Default'' else pageName)"

definition placeholder_item :: "EventData \<Rightarrow> string \<Rightarrow> SenderQueueItem" where
  "placeholder_item p pageName =
     zero_SenderQueueItem\<lparr>sq_Data := Some (zero_SenderQueueItemData\<lparr>
       sd_Message := Some (zero_OutgoingMessage\<lparr>
         om_EventName := ''Dispatcher__Placeholder'',
         om_EventData := GMap (gmap_of [(''status'', GStr ''no_strategy''), (''page'', GStr pageName)])\<rparr>),
       sd_RoutingKey := ed_RoutingKey p\<rparr>)\<rparr>"

definition Controller_Run ::
  "world \<Rightarrow> strategy_fun Registry \<Rightarrow> goctx \<Rightarrow> EventData option \<Rightarrow> goerr option go" where
  "Controller_Run W reg ctx params =
     (case params of
        None \<Rightarrow> go_return None
      | Some p \<Rightarrow>
          (case Get reg (ed_Product p) (selected_page p) (ed_PageAlertNotification p) of
             Some strategy \<Rightarrow> strategy ctx p
           | None \<Rightarrow> select_send W ctx (placeholder_item p (selected_page p))))"

section \<open>The stub strategy\<close>

definition stub_event_name :: "EventData \<Rightarrow> string" where
  "stub_event_name p = (if ed_PageName p \<noteq> '''' then ed_PageName p @ ''__stub'' else ''Stub__Widget'')"

definition stub_item :: "EventData \<Rightarrow> SenderQueueItem" where
  "stub_item p =
     zero_SenderQueueItem\<lparr>sq_Data := Some (zero_SenderQueueItemData\<lparr>
       sd_Message := Some (zero_OutgoingMessage\<lparr>
         om_EventName := stub_event_name p,
         om_EventData := GMap (gmap_of
           [(''placeholder'', GBool True), (''page'', GStr (ed_PageName p)),
            (''routing_key'', GStr (ed_RoutingKey p))]),
         om_QueueName := ed_QueueName p,
         om_StreamTech := ed_StreamTech p\<rparr>),
       sd_RoutingKey := ed_RoutingKey p\<rparr>)\<rparr>"

definition StubStrategy_CallPageData :: "world \<Rightarrow> strategy_fun" where
  "StubStrategy_CallPageData W ctx params = select_send W ctx (stub_item params)"

definition stub_pages :: "string list" where
  "stub_pages =
     [''CustomDashboard'', ''AccountPage'', ''EngagementsPage'', ''CustomerCarePage'', ''PostsPage'',
      ''CommentsMentionsPage'', ''AuthorsPage'', ''QuestionsPage'', ''ResearchInteractionsPage'', ''ResearchInsightsPage'',
      ''ResearchChatsPage'', ''ResearchChatsInteractionsPage'', ''ResearchSingleDataSourceInsightsPage'', ''ResearchSingleDataSourceInteractionsPage'',
      ''CDPProfileInteractionsPage'', ''SurveyPage'', ''SurveyIndividualQuestionsInsightsPage'',
      ''EngagementAnalyticsPage'', ''EngagementsNotesPage'', ''EngagementsSingleInteractionDMHistoryPage'',
      ''EngagementSurveyFeedbackPage'', ''SingleInteractionPage'', ''FulfillmentQuestionsResponsesCountPage'',
      ''FulfillmentQuestionResponsesPage'', ''FulfillmentUserResponsesPage'',
      ''UnifiedAccountPerformancePage'', ''UnifiedAccountContentPage'', ''UnifiedVisualContentPage'',
      ''UnifiedEngagementInsightsPage'', ''UnifiedCustomerCarePerformancePage'', ''UnifiedPostPage'',
      ''UnifiedQuestionsPage'', ''UnifiedAuthorsPage'', ''UnifiedProfilePage'', ''UnifiedDynamicWidgetsPage'',
      ''UnifiedBenchmarkPage'', ''EngagementsProductPage'', ''EngagementAnalyticsPageExport'',
      ''Default'']"

definition stub_dashboards :: "string list" where
  "stub_dashboards =
     [''CustomDashboard'', ''AccountPage'', ''EngagementsPage'', ''CustomerCarePage'', ''PostsPage'',
      ''CommentsMentionsPage'', ''AuthorsPage'', ''QuestionsPage'']"

definition stub_alerts :: "string list" where
  "stub_alerts =
     [''TrendingAlert'', ''NegativePostsAlert'', ''NewPostAlert'', ''HighVolumeReachAlert'',
      ''ViralTweetAlert'', ''InfluencerAlert'', ''VerifiedAuthorAlert'', ''HourlyAlertNotification'']"

definition stub_public_api :: "string list" where
  "stub_public_api =
     [''Account'', ''Engagements'', ''CustomerCare'', ''Posts'', ''Analytics'', ''Chats'',
      ''Interactions'', ''SingleSource'', ''SocialMedia'', ''EngagementAnalytics'']"

text \<open>One \<open>Register\<close> call per name, all with the empty alert notification.\<close>

fun register_all :: "'s \<Rightarrow> string \<Rightarrow> string list \<Rightarrow> 's Registry \<Rightarrow> 's Registry" where
  "register_all s product [] r = r"
| "register_all s product (p # ps) r = register_all s product ps (Register r product p '''' s)"

definition RegisterStubStrategies :: "'s \<Rightarrow> 's Registry \<Rightarrow> 's Registry" where
  "RegisterStubStrategies stub r =
     register_all stub ''PUBLIC_API'' stub_public_api
       (register_all stub ''Alerts'' stub_alerts
         (register_all stub ''Dashboards'' stub_dashboards
           (register_all stub '''' stub_pages r)))"

section \<open>Lookup\<close>

lemma Get_Register_same: "Get (Register r p g n s) p g n = Some s"
  by (simp add: Get_def Register_def)

lemma strategies_register_all:
  "strategies (register_all s product ps r) k =
     (if k \<in> (\<lambda>p. strategyKey product p '''') ` set ps then Some s else strategies r k)"
  by (induction s product ps r rule: register_all.induct) (auto simp: Register_def)

definition stub_registry :: "'s \<Rightarrow> 's Registry" where
  "stub_registry s = RegisterStubStrategies s NewRegistry"

text \<open>The keys under which the stub is registered.\<close>

definition stub_keys :: "string list" where
  "stub_keys = stub_pages @ map (\<lambda>p. ''Dashboards|'' @ p) stub_dashboards
     @ map (\<lambda>p. ''Alerts|'' @ p) stub_alerts @ map (\<lambda>p. ''PUBLIC_API|'' @ p) stub_public_api"

lemma strategyKey_prefix: "product \<noteq> '''' \<Longrightarrow> strategyKey product p '''' = (product @ ''|'') @ p"
  by (simp add: strategyKey_def)

lemma strategyKey_page [simp]: "strategyKey '''' p '''' = p"
  by (simp add: strategyKey_def)

lemma strategies_stub_registry:
  "strategies (stub_registry s) k = (if k \<in> set stub_keys then Some s else None)"
  by (auto simp: stub_registry_def RegisterStubStrategies_def strategies_register_all stub_keys_def
      NewRegistry_def strategyKey_prefix)

lemma Get_stub_registry:
  "Get (stub_registry s) p g n = (if strategyKey p g n \<in> set stub_keys \<or> g \<in> set stub_keys then Some s else None)"
  by (simp add: Get_def strategies_stub_registry)

text \<open>The number of separators in a key: at most one in every key of the stub registry.\<close>

definition bars :: "string \<Rightarrow> nat" where
  "bars k = length (filter (\<lambda>c. c = CHR ''|'') k)"

lemma bars_simps [simp]:
  "bars [] = 0" "bars (c # k) = (if c = CHR ''|'' then 1 else 0) + bars k" "bars (k @ l) = bars k + bars l"
  by (simp_all add: bars_def)

lemma bars_zero: "bars k = 0 \<longleftrightarrow> CHR ''|'' \<notin> set k"
  by (auto simp: bars_def filter_empty_conv)

lemma stub_keys_bars: "list_all (\<lambda>k. bars k \<le> 1) stub_keys"
  by (simp add: stub_keys_def stub_pages_def stub_dashboards_def stub_alerts_def stub_public_api_def)

lemma bars_strategyKey_alert: "n \<noteq> '''' \<Longrightarrow> 2 \<le> bars (strategyKey p g n)"
  by (simp add: strategyKey_def)

lemma alert_key_unregistered: "n \<noteq> '''' \<Longrightarrow> strategyKey p g n \<notin> set stub_keys"
  using bars_strategyKey_alert [of n p g] stub_keys_bars by (auto simp: list_all_iff)

text \<open>Keys of names without the separator are distinct.\<close>

lemma append_sep_eq:
  assumes "c \<notin> set a" "c \<notin> set a'"
  shows "a @ c # b = a' @ c # b' \<longleftrightarrow> a = a' \<and> b = b'"
  using assms
proof (induction a arbitrary: a')
  case Nil
  then show ?case by (cases a') auto
next
  case (Cons x a)
  then show ?case by (cases a') auto
qed

lemma strategyKey_inj:
  assumes "CHR ''|'' \<notin> set p" "CHR ''|'' \<notin> set g" "CHR ''|'' \<notin> set n"
    and "CHR ''|'' \<notin> set p'" "CHR ''|'' \<notin> set g'" "CHR ''|'' \<notin> set n'"
    and eq: "strategyKey p g n = strategyKey p' g' n'"
  shows "p = p' \<and> g = g' \<and> n = n'"
proof -
  have no: "bars p = 0" "bars g = 0" "bars n = 0" "bars p' = 0" "bars g' = 0" "bars n' = 0"
    using assms(1-6) by (simp_all add: bars_zero)
  have "bars (strategyKey p g n) = bars (strategyKey p' g' n')" using eq by simp
  then have "(n = '''' \<longleftrightarrow> n' = '''') \<and> (n = '''' \<longrightarrow> (p = '''' \<longleftrightarrow> p' = ''''))"
    using no by (auto simp: strategyKey_def split: if_splits)
  with eq assms(1-6) show ?thesis
    by (auto simp: strategyKey_def append_sep_eq split: if_splits)
qed

section \<open>Interface: a source of widgets\<close>

text \<open>
  What the consumer relies on when it runs a page: only the sender queue is touched, under the context of
  the request, a nil error means at least one item was queued, and every item queued is a message for the
  routing key of the request.
\<close>

definition widget_for :: "EventData \<Rightarrow> SenderQueueItem \<Rightarrow> bool" where
  "widget_for p i = (case sq_Data i of None \<Rightarrow> False | Some d \<Rightarrow>
     sd_Message d \<noteq> None \<and> sd_RoutingKey d = ed_RoutingKey p \<and> \<not> sd_CompletionMarker d)"

locale widget_source =
  fixes run :: strategy_fun
  assumes chan_only: "emits chan_call (run ctx p)"
    and scoped: "emits_ev (in_scope ctx) (run ctx p)"
    and sends_on_success: "result (run ctx p) h = None \<Longrightarrow> sends (trace (run ctx p) h) \<noteq> []"
    and items_routed: "i \<in> set (sends (trace (run ctx p) h)) \<Longrightarrow> widget_for p i"
begin

lemma silent: "emits silent_call (run ctx p)"
  using chan_only chan_call_silent by (rule emits_mono)

lemma success_queues_widget:
  "result (run ctx p) h = None \<Longrightarrow> \<exists>i. i \<in> set (sends (trace (run ctx p) h)) \<and> widget_for p i"
  using sends_on_success items_routed by (meson last_in_set)

end

lemma widget_source_select_send:
  assumes "\<And>p. widget_for p (item p)"
  shows "widget_source (\<lambda>ctx p. select_send W ctx (item p))"
  by unfold_locales
    (auto simp: trace_select_send assms intro!: emits_intro split: if_splits)

lemma widget_for_stub [simp]: "widget_for p (stub_item p)"
  by (simp add: widget_for_def stub_item_def zero_SenderQueueItemData_def)

lemma widget_for_placeholder [simp]: "widget_for p (placeholder_item p g)"
  by (simp add: widget_for_def placeholder_item_def zero_SenderQueueItemData_def)

interpretation stub: widget_source "StubStrategy_CallPageData W" for W
  unfolding StubStrategy_CallPageData_def [abs_def] by (rule widget_source_select_send) simp

text \<open>A controller whose strategies all honour the contract honours it too.\<close>

locale controller =
  fixes W :: world and reg :: "strategy_fun Registry"
  assumes strategies_ok: "s \<in> ran (strategies reg) \<Longrightarrow> widget_source s"
begin

lemma Get_ok: "Get reg p g n = Some s \<Longrightarrow> widget_source s"
  by (auto simp: Get_def intro!: strategies_ok ranI split: option.splits)

end

sublocale controller \<subseteq> page: widget_source "\<lambda>ctx p. Controller_Run W reg ctx (Some p)"
proof unfold_locales
  fix ctx p h i
  have ph: "widget_source (\<lambda>ctx p. select_send W ctx (placeholder_item p (selected_page p)))"
    by (rule widget_source_select_send) simp
  let ?run = "Controller_Run W reg ctx (Some p)"
  obtain f where f: "widget_source f" "?run = f ctx p"
  proof (cases "Get reg (ed_Product p) (selected_page p) (ed_PageAlertNotification p)")
    case None
    then show ?thesis using ph that by (fastforce simp: Controller_Run_def)
  next
    case (Some s)
    then show ?thesis using Get_ok that by (fastforce simp: Controller_Run_def)
  qed
  show "emits chan_call ?run" using f widget_source.chan_only by metis
  show "emits_ev (in_scope ctx) ?run" using f widget_source.scoped by metis
  show "result ?run h = None \<Longrightarrow> sends (trace ?run h) \<noteq> []"
    using f widget_source.sends_on_success by metis
  show "i \<in> set (sends (trace ?run h)) \<Longrightarrow> widget_for p i"
    using f widget_source.items_routed by metis
qed

interpretation stubs: controller W "stub_registry (StubStrategy_CallPageData W)" for W
  by (rule controller.intro)
    (auto simp: ran_def strategies_stub_registry intro: stub.widget_source_axioms split: if_splits)

section \<open>Properties\<close>

lemma strategyKey_eq_iff:
  assumes "CHR ''|'' \<notin> set p" "CHR ''|'' \<notin> set g" "CHR ''|'' \<notin> set n"
    and "CHR ''|'' \<notin> set p'" "CHR ''|'' \<notin> set g'" "CHR ''|'' \<notin> set n'"
  shows "strategyKey p g n = strategyKey p' g' n' \<longleftrightarrow> p = p' \<and> g = g' \<and> n = n'"
  using strategyKey_inj [OF assms] by blast

text \<open>With the separator in a name the keys of different names collide.\<close>

lemma separator_collision:
  "Get (Register r ''Dashboards'' ''AccountPage'' '''' s) '''' ''Dashboards|AccountPage'' '''' = Some s"
  by (simp add: Get_def Register_def strategyKey_def)

text \<open>
  C38: For names without the character that separates them in a key, a registration changes the lookup of its own
  names only, and, where it has neither product nor alert, the lookups that fall back on its page.
\<close>

theorem registration_frame:
  assumes "CHR ''|'' \<notin> set p" "CHR ''|'' \<notin> set g" "CHR ''|'' \<notin> set n"
    and "CHR ''|'' \<notin> set p'" "CHR ''|'' \<notin> set g'" "CHR ''|'' \<notin> set n'"
  shows "Get (Register r p g n s) p' g' n' =
    (if (p, g, n) = (p', g', n') then Some s
     else if p = '''' \<and> n = '''' \<and> g = g' \<and> strategies r (strategyKey p' g' n') = None then Some s
     else Get r p' g' n')"
proof -
  have same: "strategyKey p g n = strategyKey p' g' n' \<longleftrightarrow> (p, g, n) = (p', g', n')"
    using assms by (simp add: strategyKey_eq_iff)
  have fallback: "strategyKey p g n = g' \<longleftrightarrow> p = '''' \<and> g = g' \<and> n = ''''"
    using strategyKey_eq_iff [of p g n "[]" g' "[]"] assms by (simp add: strategyKey_page)
  show ?thesis
  proof (cases "(p, g, n) = (p', g', n')")
    case True
    then show ?thesis by (simp add: Get_Register_same)
  next
    case False
    then have "strategyKey p g n \<noteq> strategyKey p' g' n'" using same by simp
    then show ?thesis using False fallback by (auto simp: Get_def Register_def split: option.split)
  qed
qed

theorem registration_frame_witness:
  "Get (Register (stub_registry False) '''' ''Reach'' '''' True) ''Dashboards'' ''AccountPage'' '''' = Some False
   \<and> Get (Register (stub_registry False) '''' ''Reach'' '''' True) ''Dashboards'' ''Reach'' '''' = Some True"
proof -
  have "List.member stub_keys (strategyKey ''Dashboards'' ''AccountPage'' '''')"
    "\<not> List.member stub_keys (strategyKey ''Dashboards'' ''Reach'' '''')"
    by code_simp+
  then have old: "Get (stub_registry False) ''Dashboards'' ''AccountPage'' '''' = Some False"
    "strategies (stub_registry False) (strategyKey ''Dashboards'' ''Reach'' '''') = None"
    by (simp_all only: Get_stub_registry strategies_stub_registry if_True if_False simp_thms List.member_iff)
  have "Get (Register (stub_registry False) '''' ''Reach'' '''' True) ''Dashboards'' ''AccountPage'' '''' = Some False"
    by (subst registration_frame) (simp_all add: old(1))
  moreover have "Get (Register (stub_registry False) '''' ''Reach'' '''' True) ''Dashboards'' ''Reach'' '''' = Some True"
    by (subst registration_frame) (simp_all add: old(2))
  ultimately show ?thesis ..
qed

end
