(* ===== verification/Delivery.thy ===== *)
theory Delivery
  imports Services "HOL-Library.Sublist"
begin

text \<open>
  What the two consumer loops owe for the messages they take: each is settled (acknowledged or committed) once,
  in the order of arrival, and before the next is taken, so that wherever the process is stopped at most
  one message is taken and not settled.  And what they owe for the items they queue: a completion marker never
  overtakes the widgets it stands for.
\<close>

section \<open>One message in flight\<close>

text \<open>The calls that neither take a message nor settle one.\<close>

definition idle_call :: "call \<Rightarrow> bool" where
  "idle_call c = (case c of XAck _ _ _ \<Rightarrow> False | KafkaCommit _ \<Rightarrow> False
     | XReadGroup _ _ _ _ _ \<Rightarrow> False | KafkaFetch \<Rightarrow> False | _ \<Rightarrow> True)"

abbreviation idle :: "hist \<Rightarrow> bool" where
  "idle \<equiv> list_all (idle_call \<circ> snd)"

lemma idle_call_simps [simp]:
  "idle_call CtxPoll" "idle_call (XAdd s vs n)" "idle_call (KafkaWrite t k v)"
  by (simp_all add: idle_call_def)

lemma silent_idle: "list_all (silent_call \<circ> snd) es \<Longrightarrow> idle es"
  by (erule list.pred_mono_strong) (auto simp: silent_call_def idle_call_def split: call.splits)

lemma idle_prefix: "idle es \<Longrightarrow> prefix p es \<Longrightarrow> idle p"
  by (auto simp: prefix_def)

text \<open>
  \<open>arrived h es\<close> are the messages the trace \<open>es\<close> took after history \<open>h\<close>, \<open>settled es\<close> those it settled.
\<close>

definition settles :: "(hist \<Rightarrow> hist \<Rightarrow> 'x list) \<Rightarrow> (hist \<Rightarrow> 'x list) \<Rightarrow> hist \<Rightarrow> hist \<Rightarrow> bool" where
  "settles arrived settled h es \<longleftrightarrow>
     arrived h es = settled es
     \<and> (\<forall>p. prefix p es \<longrightarrow> (\<exists>x. arrived h p = settled p @ x \<and> length x \<le> 1))"

lemma settlesD:
  assumes "settles arrived settled h es"
  shows "arrived h es = settled es"
    and "\<exists>x. arrived h (take k es) = settled (take k es) @ x \<and> length x \<le> 1"
  using assms take_is_prefix [of k es] by (auto simp: settles_def)

locale delivery_log =
  fixes arrived :: "hist \<Rightarrow> hist \<Rightarrow> 'x list" and settled :: "hist \<Rightarrow> 'x list"
  assumes arrived_append: "arrived h (xs @ ys) = arrived h xs @ arrived (h @ xs) ys"
    and settled_append: "settled (xs @ ys) = settled xs @ settled ys"
    and idle_log: "idle es \<Longrightarrow> arrived h es = [] \<and> settled es = []"
begin

lemma settles_idle:
  assumes "idle es"
  shows "settles arrived settled h es"
proof -
  have "arrived h p = [] \<and> settled p = []" if "prefix p es" for p
    using idle_prefix [OF assms that] by (rule idle_log)
  then show ?thesis by (simp add: settles_def)
qed

lemma settles_append:
  "settles arrived settled h xs \<Longrightarrow> settles arrived settled (h @ xs) ys \<Longrightarrow> settles arrived settled h (xs @ ys)"
  by (fastforce simp: settles_def arrived_append settled_append prefix_append)

text \<open>A read that brings nothing.\<close>

lemma settles_none: "arrived h [e] = [] \<Longrightarrow> settled [e] = [] \<Longrightarrow> settles arrived settled h [e]"
  using idle_log [of "[]" h] by (auto simp: settles_def prefix_Cons)

text \<open>A message taken by \<open>e\<close> and settled by \<open>s\<close>, with idle calls before and between.\<close>

lemma settles_one:
  assumes "idle pre" "idle mid"
    and e: "arrived (h @ pre) [e] = [x]" "settled [e] = []"
    and s: "arrived (h @ pre @ e # mid) [s] = []" "settled [s] = [x]"
  shows "settles arrived settled h (pre @ e # mid @ [s])"
proof -
  have one: "arrived (h @ pre) (e # p) = x # arrived (h @ pre @ [e]) p" "settled (e # p) = settled p" for p
    using arrived_append [of "h @ pre" "[e]" p] settled_append [of "[e]" p] e by simp_all
  have mid: "arrived h' p = [] \<and> settled p = []" if "prefix p mid" for h' p
    using idle_prefix [OF assms(2) that] by (rule idle_log)
  have done_s: "arrived (h @ pre @ [e]) (mid @ [s]) = [] \<and> settled (mid @ [s]) = [x]"
    using assms(2) s by (simp add: arrived_append settled_append idle_log)
  have "settles arrived settled (h @ pre) (e # mid @ [s])"
    unfolding settles_def
  proof (intro conjI allI impI)
    show "arrived (h @ pre) (e # mid @ [s]) = settled (e # mid @ [s])"
      using done_s by (simp add: one)
  next
    fix p
    assume "prefix p (e # mid @ [s])"
    then consider "p = []" | q where "p = e # q" "prefix q mid" | "p = e # mid @ [s]"
      by (auto simp: prefix_Cons)
    then show "\<exists>x. arrived (h @ pre) p = settled p @ x \<and> length x \<le> 1"
    proof cases
      case 1
      then show ?thesis using idle_log [of "[]" "h @ pre"] by simp
    next
      case 2
      then show ?thesis using mid by (simp add: one)
    next
      case 3
      then show ?thesis using done_s by (simp add: one)
    qed
  qed
  then show ?thesis by (rule settles_append [OF settles_idle [OF assms(1)]])
qed

end

section \<open>Markers do not overtake widgets\<close>

definition widget_of :: "string \<Rightarrow> SenderQueueItem \<Rightarrow> bool" where
  "widget_of rk i = (case sq_Data i of None \<Rightarrow> False | Some d \<Rightarrow>
     sd_Message d \<noteq> None \<and> \<not> sd_CompletionMarker d \<and> sd_RoutingKey d = rk)"

definition marker_of :: "string \<Rightarrow> SenderQueueItem \<Rightarrow> bool" where
  "marker_of rk i = (case sq_Data i of None \<Rightarrow> False | Some d \<Rightarrow> sd_CompletionMarker d \<and> sd_RoutingKey d = rk)"

definition widgets_of :: "string \<Rightarrow> SenderQueueItem list \<Rightarrow> nat" where
  "widgets_of rk is = length (filter (widget_of rk) is)"

definition markers_of :: "string \<Rightarrow> SenderQueueItem list \<Rightarrow> nat" where
  "markers_of rk is = length (filter (marker_of rk) is)"

lemma count_items_simps [simp]:
  "widgets_of rk [] = 0" "markers_of rk [] = 0"
  "widgets_of rk (i # is) = (if widget_of rk i then 1 else 0) + widgets_of rk is"
  "markers_of rk (i # is) = (if marker_of rk i then 1 else 0) + markers_of rk is"
  "widgets_of rk (is @ js) = widgets_of rk is + widgets_of rk js"
  "markers_of rk (is @ js) = markers_of rk is + markers_of rk js"
  by (simp_all add: widgets_of_def markers_of_def)

lemma marker_not_widget: "marker_of rk i \<Longrightarrow> \<not> widget_of rk' i"
  by (auto simp: marker_of_def widget_of_def split: option.splits)

text \<open>At every point, and for every routing key, at least as many widgets as markers have been queued.\<close>

definition markers_covered :: "SenderQueueItem list \<Rightarrow> bool" where
  "markers_covered is \<longleftrightarrow> (\<forall>p rk. prefix p is \<longrightarrow> markers_of rk p \<le> widgets_of rk p)"

lemma markers_covered_Nil [simp]: "markers_covered []"
  by (simp add: markers_covered_def)

lemma markers_covered_append [intro]:
  "markers_covered is \<Longrightarrow> markers_covered js \<Longrightarrow> markers_covered (is @ js)"
  by (auto simp: markers_covered_def prefix_append add_mono)

lemma markers_covered_prefix:
  "markers_covered is \<Longrightarrow> prefix p is \<Longrightarrow> markers_of rk p \<le> widgets_of rk p"
  by (simp add: markers_covered_def)

lemma markers_covered_widgets:
  assumes "list_all (\<lambda>i. \<exists>rk. widget_of rk i) is"
  shows "markers_covered is"
proof -
  have "markers_of rk p = 0" if "prefix p is" for rk p
    using assms set_mono_prefix [OF that] marker_not_widget
    by (fastforce simp: markers_of_def list_all_iff filter_empty_conv)
  then show ?thesis by (simp add: markers_covered_def)
qed

text \<open>The widgets of a page followed by its marker.\<close>

lemma markers_covered_page:
  assumes "list_all (widget_of rk) is" "is \<noteq> []" "marker_of rk m"
  shows "markers_covered (is @ [m])"
proof -
  have "markers_covered is" using assms(1) by (intro markers_covered_widgets) (auto simp: list_all_iff)
  moreover have "markers_of rk' (is @ [m]) \<le> widgets_of rk' (is @ [m])" for rk'
  proof (cases "rk' = rk")
    case True
    have "markers_of rk is = 0" "0 < widgets_of rk is"
      using assms(1,2) marker_not_widget
      by (cases "is"; fastforce simp: markers_of_def widgets_of_def list_all_iff filter_empty_conv)+
    then show ?thesis using True by simp
  next
    case False
    then have "\<not> marker_of rk' m" using assms(3) by (auto simp: marker_of_def split: option.splits)
    then show ?thesis using markers_covered_prefix [OF \<open>markers_covered is\<close>, of "is" rk'] by simp
  qed
  ultimately show ?thesis by (auto simp: markers_covered_def)
qed

text \<open>A fragment whose own items are covered; the rules follow the structure of a fragment.\<close>

definition covers :: "'a go \<Rightarrow> bool" where
  "covers m \<longleftrightarrow> (\<forall>h. \<exists>es. snd (run_state m h) = h @ es \<and> markers_covered (sends es))"

named_theorems covers_intro \<open>structural rules for the items a fragment queues\<close>

lemma covers_trace: "covers m \<Longrightarrow> markers_covered (sends (trace m h))"
  unfolding covers_def trace_def by (metis append_eq_conv_conj)

definition sends_none :: "call \<Rightarrow> bool" where
  "sends_none c = (case c of ChanSend _ \<Rightarrow> False | _ \<Rightarrow> True)"

lemma covers_sends_none: "emits sends_none m \<Longrightarrow> covers m"
proof -
  have "list_all (sends_none \<circ> snd) es \<Longrightarrow> sends es = []" for es
    by (induction es) (auto simp: sends_none_def split: call.splits)
  moreover assume "emits sends_none m"
  ultimately show ?thesis
    unfolding covers_def emits_ev_def by (metis markers_covered_Nil)
qed

lemma covers_return [covers_intro, simp]: "covers (go_return x)"
  by (rule covers_sends_none) simp

lemma covers_perform [covers_intro]: "sends_none c \<Longrightarrow> covers (perform answer ctx c)"
  by (rule covers_sends_none) (simp add: emits_perform)

lemma covers_bind [covers_intro]:
  assumes "covers m" "\<And>x. covers (f x)"
  shows "covers (State_Monad.bind m f)"
  unfolding covers_def
proof
  fix h
  obtain es where es: "snd (run_state m h) = h @ es" "markers_covered (sends es)"
    using assms(1) unfolding covers_def by blast
  obtain es' where es': "snd (run_state (f (fst (run_state m h))) (h @ es)) = (h @ es) @ es'"
      "markers_covered (sends es')"
    using assms(2) unfolding covers_def by blast
  have "snd (run_state (State_Monad.bind m f) h) = h @ es @ es'"
    using es(1) es'(1) by (simp add: case_prod_beta)
  moreover have "markers_covered (sends (es @ es'))"
    using es(2) es'(2) by auto
  ultimately show "\<exists>es. snd (run_state (State_Monad.bind m f) h) = h @ es \<and> markers_covered (sends es)"
    by blast
qed

lemma covers_cases [covers_intro]:
  "(b \<Longrightarrow> covers m) \<Longrightarrow> (\<not> b \<Longrightarrow> covers n) \<Longrightarrow> covers (if b then m else n)"
  "(x = None \<Longrightarrow> covers m) \<Longrightarrow> (\<And>y. x = Some y \<Longrightarrow> covers (f y)) \<Longrightarrow>
   covers (case x of None \<Rightarrow> m | Some y \<Rightarrow> f y)"
  "(\<And>e. s = Inl e \<Longrightarrow> covers (g e)) \<Longrightarrow> (\<And>y. s = Inr y \<Longrightarrow> covers (k y)) \<Longrightarrow>
   covers (case s of Inl e \<Rightarrow> g e | Inr y \<Rightarrow> k y)"
  by (auto split: option.split sum.split)

lemma covers_repeat_go [covers_intro]: "covers body \<Longrightarrow> covers (repeat_go n body)"
  by (induction n) (auto intro!: covers_intro)

end
