(* ===== verification/Redis_Clients.thy ===== *)
theory Redis_Clients
  imports Delivery Config
begin

text \<open>
  \<open>internal/redis/broker.go\<close> (streams) and \<open>internal/redis/backend.go\<close> (the buffer and the event status
  of the stream technology \<open>API\<close>).  Each operation is the calls it makes on the Redis client.
\<close>

section \<open>Broker\<close>

record Broker =
  br_cfg :: Config

definition seconds :: "nat \<Rightarrow> i64" where
  "seconds n = of_nat n * nanosecond_per_s"

text \<open>The options of \<open>NewBroker\<close>; its \<open>if cfg.RedisTLS\<close> assigns nil to a field that is nil already.\<close>

definition broker_options :: "Config \<Rightarrow> RedisOptions" where
  "broker_options cfg =
     (let opts = \<lparr>ro_Addr = RedisAddr cfg, ro_Password = RedisPassword cfg, ro_DB = 0, ro_TLS = False\<rparr>
      in if RedisTLS cfg then opts\<lparr>ro_TLS := False\<rparr> else opts)"

definition NewBroker :: "world \<Rightarrow> Config \<Rightarrow> (string + Broker) go" where
  "NewBroker W cfg = do {
     e \<leftarrow> perform (w_err W) (WithTimeout Background (seconds 5)) (Ping (broker_options cfg));
     go_return (case e of
       Some err \<Rightarrow> Inl (''redis ping: '' @ error_text err)
     | None \<Rightarrow> Inr \<lparr>br_cfg = cfg\<rparr>)
   }"

definition EnsureConsumerGroup :: "world \<Rightarrow> goctx \<Rightarrow> string \<Rightarrow> string \<Rightarrow> string \<Rightarrow> goerr option go" where
  "EnsureConsumerGroup W ctx stream grp startID = do {
     err \<leftarrow> perform (w_err W) ctx
              (XGroupCreateMkStream stream grp (if startID = '''' then ''$'' else startID));
     go_return (case err of
       None \<Rightarrow> None
     | Some e \<Rightarrow> if error_text e \<noteq> ''BUSYGROUP Consumer Group name already exists'' then Some e else None)
   }"

text \<open>No message: empty stream key and message id.\<close>

definition no_message :: "string \<times> string \<times> stream_values" where
  "no_message = ('''', '''', [])"

definition read_group_reply ::
  "goerr + read_reply \<Rightarrow> goerr + (string \<times> string \<times> stream_values)" where
  "read_group_reply r =
     (case r of
        Inl err \<Rightarrow> if err = RedisNil then Inr no_message else Inl err
      | Inr streams \<Rightarrow>
          (case streams of
             [] \<Rightarrow> Inr no_message
           | s # _ \<Rightarrow>
               (case snd s of
                  [] \<Rightarrow> Inr no_message
                | m # _ \<Rightarrow> Inr (fst s, fst m, snd m))))"

definition ReadGroup ::
  "world \<Rightarrow> goctx \<Rightarrow> string \<Rightarrow> string \<Rightarrow> string \<Rightarrow> i64 \<Rightarrow> (goerr + (string \<times> string \<times> stream_values)) go" where
  "ReadGroup W ctx stream grp consumer blockMs = do {
     r \<leftarrow> perform (w_read W) ctx (XReadGroup grp consumer [stream, ''>''] 1 blockMs);
     go_return (read_group_reply r)
   }"

definition Ack :: "world \<Rightarrow> goctx \<Rightarrow> string \<Rightarrow> string \<Rightarrow> string list \<Rightarrow> goerr option go" where
  "Ack W ctx stream grp ids = perform (w_err W) ctx (XAck stream grp ids)"

text \<open>The last argument of \<open>XAdd\<close> is the approximate maximal length, 0 where it is not set.\<close>

definition AddToStream ::
  "world \<Rightarrow> Broker \<Rightarrow> goctx \<Rightarrow> string \<Rightarrow> (string \<times> string) list \<Rightarrow> (goerr + string) go" where
  "AddToStream W b ctx stream values =
     perform (w_str W) ctx
       (XAdd stream values
          (if 0 < sint (DispatcherStreamMaxLen (br_cfg b)) then DispatcherStreamMaxLen (br_cfg b) else 0))"

definition OutputStreamName :: "Broker \<Rightarrow> string \<Rightarrow> string" where
  "OutputStreamName b routingKey =
     (let rk = (if OverrideOutput (br_cfg b) \<and> OverrideRoutingKey (br_cfg b) \<noteq> ''''
                then OverrideRoutingKey (br_cfg b) else routingKey)
      in DispatcherOutputStreamPrefix (br_cfg b) @ rk)"

section \<open>Backend\<close>

definition BufferKeyPrefix :: string where "BufferKeyPrefix = ''PUBLISH_ENGINE::BUFFER::''"
definition EventStatusPrefix :: string where "EventStatusPrefix = ''EVENT::STATUS::''"
definition BufferTTL :: i64 where "BufferTTL = seconds 120"
definition EventStatusTTL :: i64 where "EventStatusTTL = seconds 120"

record BackendRedis =
  bk_cfg :: Config

definition backend_options :: "Config \<Rightarrow> RedisOptions" where
  "backend_options cfg =
     \<lparr>ro_Addr = BackendRedisAddr cfg, ro_Password = RedisPassword cfg, ro_DB = 0, ro_TLS = False\<rparr>"

definition NewBackendRedis :: "world \<Rightarrow> Config \<Rightarrow> (string + BackendRedis) go" where
  "NewBackendRedis W cfg = do {
     e \<leftarrow> perform (w_err W) (WithTimeout Background (seconds 5)) (Ping (backend_options cfg));
     go_return (case e of
       Some err \<Rightarrow> Inl (''backend redis ping: '' @ error_text err)
     | None \<Rightarrow> Inr \<lparr>bk_cfg = cfg\<rparr>)
   }"

definition marshal_error :: goerr where
  "marshal_error = GoErr ''json: unsupported value''"

definition StoreDataInRedis ::
  "world \<Rightarrow> goctx \<Rightarrow> string \<Rightarrow> string \<Rightarrow> OutgoingMessage \<Rightarrow> goerr option go" where
  "StoreDataInRedis W ctx routingKey eventName payload =
     (let key = BufferKeyPrefix @ routingKey in
      case marshal_OutgoingMessage payload of
        None \<Rightarrow> go_return (Some marshal_error)
      | Some payloadJSON \<Rightarrow>
          let field = (if eventName = '''' then ''payload'' else eventName)
          in perform (w_err W) ctx (PipelineExec [HSet key field payloadJSON, Expire key BufferTTL]))"

text \<open>\<open>json.Unmarshal\<close> into the anonymous struct with the one field \<open>total_messages\<close>.\<close>

definition unmarshal_total_messages :: "string \<Rightarrow> i64 option" where
  "unmarshal_total_messages s =
     Option.bind (json_parse s) (\<lambda>j.
       case j of
         JNull \<Rightarrow> Some 0
       | JObj kvs \<Rightarrow>
           dec_fields (\<lambda>k v n. if fold_name k = ''TOTAL_MESSAGES'' then dec_i64 v n else Some n) kvs 0
       | _ \<Rightarrow> None)"

definition buffered_status :: string where
  "buffered_status = ''BUFFERED_EVENT_IN_GO_DISPATCHER_TO_REDIS''"

definition IncrementAndCheckCompletion :: "world \<Rightarrow> goctx \<Rightarrow> string \<Rightarrow> goerr option go" where
  "IncrementAndCheckCompletion W ctx routingKey =
     (let key = BufferKeyPrefix @ routingKey in do {
        r \<leftarrow> perform (w_int W) ctx (HIncrBy key ''__processed_count__'' 1);
        case r of
          Inl err \<Rightarrow> go_return (Some err)
        | Inr n \<Rightarrow> do {
            m \<leftarrow> perform (w_str W) ctx (HGet key ''__meta__'');
            case m of
              Inl err \<Rightarrow> go_return (if err = RedisNil then None else Some err)
            | Inr meta \<Rightarrow>
                (case unmarshal_total_messages meta of
                   None \<Rightarrow> go_return None
                 | Some totalMessages \<Rightarrow>
                     if sint totalMessages \<le> sint n then
                       perform (w_err W) ctx
                         (RedisSet (EventStatusPrefix @ routingKey) buffered_status EventStatusTTL)
                     else go_return None)
          }
      })"

definition UpdateEventStatus :: "world \<Rightarrow> goctx \<Rightarrow> string \<Rightarrow> string \<Rightarrow> goerr option go" where
  "UpdateEventStatus W ctx routingKey status =
     perform (w_err W) ctx (RedisSet (EventStatusPrefix @ routingKey) status (seconds 20))"

text \<open>Closing the two connections.\<close>

definition Broker_Close :: "world \<Rightarrow> goerr option go" where
  "Broker_Close W = perform (w_err W) Background (CloseClient ''broker'')"

definition BackendRedis_Close :: "world \<Rightarrow> goerr option go" where
  "BackendRedis_Close W = perform (w_err W) Background (CloseClient ''backend'')"

section \<open>The entries delivered to a consumer\<close>

text \<open>
  The ids of the entries a trace \<open>es\<close> after history \<open>h\<close> has read, as the world answered; a reply without a
  stream key or id delivers nothing.
\<close>

fun delivered :: "world \<Rightarrow> hist \<Rightarrow> hist \<Rightarrow> string list" where
  "delivered W h [] = []"
| "delivered W h (e # es) =
     (case snd e of
        XReadGroup _ _ _ _ _ \<Rightarrow>
          (case read_group_reply (w_read W (h @ [e])) of
             Inl _ \<Rightarrow> []
           | Inr m \<Rightarrow> if fst m = '''' \<or> fst (snd m) = '''' then [] else [fst (snd m)])
      | _ \<Rightarrow> [])
     @ delivered W (h @ [e]) es"

lemma delivered_append: "delivered W h (xs @ ys) = delivered W h xs @ delivered W (h @ xs) ys"
  by (induction W h xs rule: delivered.induct) simp_all

lemma delivered_idle: "idle es \<Longrightarrow> delivered W h es = []"
  by (induction W h es rule: delivered.induct) (auto simp: idle_call_def split: call.splits)

lemma acks_idle: "idle es \<Longrightarrow> acks es = []"
  by (induction es) (auto simp: idle_call_def split: call.splits)

interpretation redis_log: delivery_log "delivered W" acks for W
  by unfold_locales (simp_all add: delivered_append delivered_idle acks_idle)

end
