(* ===== verification/Kafka_Client.thy ===== *)
theory Kafka_Client
  imports Delivery Config
begin

text \<open>
  \<open>internal/kafka/client.go\<close>: the client of the canonical topics and its consumer loop.  A loop that may
  run for ever takes the number of its iterations as fuel and returns \<open>None\<close> while it is still
  running.
\<close>

section \<open>The client\<close>

text \<open>The reader's configuration and the topics of the three writers, all on the same brokers.\<close>

record KafkaClient =
  kc_cfg :: Config
  kc_brokers :: "string list"
  kc_readerTopic :: string
  kc_readerGroup :: string
  kc_writerTopic :: string
  kc_dlqTopic :: string
  kc_fetcherTopic :: string

definition NewClient :: "Config \<Rightarrow> KafkaClient" where
  "NewClient cfg =
     (let brokers = map trim_space (split_on CHR '','' (trim_space (KafkaBrokers cfg)))
      in \<lparr>kc_cfg = cfg, kc_brokers = brokers,
          kc_readerTopic = KafkaTopicDispatcherRequests cfg,
          kc_readerGroup = KafkaConsumerGroupDispatcher cfg,
          kc_writerTopic = KafkaTopicDispatcherOutput cfg,
          kc_dlqTopic = KafkaTopicDispatcherRequests cfg @ ''.dlq'',
          kc_fetcherTopic = KafkaTopicCalcDataFetcher cfg\<rparr>)"

text \<open>\<open>Close\<close>: the reader and the three writers in turn, whatever each close answers.\<close>

definition Client_Close :: "world \<Rightarrow> goerr option go" where
  "Client_Close W = do {
     _ \<leftarrow> perform (w_err W) Background (CloseClient ''kafka reader'');
     _ \<leftarrow> perform (w_err W) Background (CloseClient ''kafka writer'');
     _ \<leftarrow> perform (w_err W) Background (CloseClient ''kafka dlq'');
     _ \<leftarrow> perform (w_err W) Background (CloseClient ''kafka fetcher'');
     go_return None
   }"

section \<open>Producing\<close>

definition data_fetcher_payload :: "EventData \<Rightarrow> goval" where
  "data_fetcher_payload ed =
     GMap (gmap_of
       [(''eventName'', GStr ''staci.calc.ods_data_fetcher''),
        (''eventData'', GMap (gmap_of
          [(''data'', GMap (gmap_of
             [(''exporter_id'', GStr (ed_ExporterID ed)),
              (''page_name'', GStr (ed_PageName ed)),
              (''name'', GStr ''export''),
              (''company_schema'', GStr (ed_CompanySchema ed)),
              (''filters'', ed_Filters ed),
              (''monitor_id'', GStr (ed_MonitorID ed))]))]))])"

definition SendDataFetcher :: "world \<Rightarrow> KafkaClient \<Rightarrow> goctx \<Rightarrow> IncomingMessage \<Rightarrow> goerr option go" where
  "SendDataFetcher W c ctx incoming =
     (case im_EventData incoming of
        None \<Rightarrow> go_return None
      | Some ed \<Rightarrow>
          (case marshal (data_fetcher_payload ed) of
             None \<Rightarrow> go_return (Some (GoErr ''json: unsupported value''))
           | Some body \<Rightarrow>
               let key = (if ed_ExporterID ed = '''' then ''export'' else ed_ExporterID ed)
               in perform (w_err W) ctx (KafkaWrite (kc_fetcherTopic c) key body)))"

definition ProduceOutput :: "world \<Rightarrow> KafkaClient \<Rightarrow> goctx \<Rightarrow> string \<Rightarrow> string \<Rightarrow> goerr option go" where
  "ProduceOutput W c ctx routingKey payload =
     perform (w_err W) ctx (KafkaWrite (kc_writerTopic c) routingKey payload)"

text \<open>The dead-letter value: the payload in an envelope with the reason, if there is one.\<close>

definition dead_letter_value :: "string \<Rightarrow> string \<Rightarrow> string" where
  "dead_letter_value payload reason =
     (if reason \<noteq> '''' then
        (case marshal (GMap (gmap_of [(''payload'', GStr payload), (''reason'', GStr reason)])) of
           Some b \<Rightarrow> b
         | None \<Rightarrow> payload)
      else payload)"

definition DeadLetter :: "world \<Rightarrow> KafkaClient \<Rightarrow> goctx \<Rightarrow> string \<Rightarrow> string \<Rightarrow> string \<Rightarrow> goerr option go" where
  "DeadLetter W c ctx key payload reason =
     perform (w_err W) ctx (KafkaWrite (kc_dlqTopic c) key (dead_letter_value payload reason))"

section \<open>The consumer loop\<close>

text \<open>
  The processing function gets the decoded message and returns \<open>(ack, reason)\<close>; it is
  \<open>Consumer.ProcessMessage\<close> in the program.
\<close>

type_synonym process_fun = "goctx \<Rightarrow> IncomingMessage \<Rightarrow> (bool \<times> string) go"

text \<open>What one iteration does with a fetched message: decode, process, dead-letter, commit.\<close>

definition kafka_handle :: "world \<Rightarrow> KafkaClient \<Rightarrow> process_fun \<Rightarrow> goctx \<Rightarrow> KafkaMessage \<Rightarrow> unit go" where
  "kafka_handle W c process ctx msg =
     (case unmarshal_IncomingMessage (w_float W) (km_Value msg) of
        None \<Rightarrow> do {
          _ \<leftarrow> perform (w_err W) ctx (KafkaCommit msg);
          go_return ()
        }
      | Some incoming \<Rightarrow> do {
          r \<leftarrow> process ctx incoming;
          _ \<leftarrow> (if \<not> fst r then DeadLetter W c ctx (km_Key msg) (km_Value msg) (snd r) else go_return None);
          _ \<leftarrow> perform (w_err W) ctx (KafkaCommit msg);
          go_return ()
        })"

text \<open>One iteration: \<open>Some r\<close> when \<open>RunConsumer\<close> returns the error \<open>r\<close>.\<close>

definition kafka_iteration :: "world \<Rightarrow> KafkaClient \<Rightarrow> process_fun \<Rightarrow> goctx \<Rightarrow> goerr option go" where
  "kafka_iteration W c process ctx = do {
     d \<leftarrow> perform (w_done W) ctx CtxPoll;
     case d of
       Some e \<Rightarrow> go_return (Some e)
     | None \<Rightarrow> do {
         r \<leftarrow> perform (w_fetch W) ctx KafkaFetch;
         case r of
           Inl err \<Rightarrow> perform (w_done W) ctx CtxPoll
         | Inr msg \<Rightarrow> do {
             _ \<leftarrow> kafka_handle W c process ctx msg;
             go_return None
           }
       }
   }"

definition RunConsumer ::
  "nat \<Rightarrow> world \<Rightarrow> KafkaClient \<Rightarrow> process_fun \<Rightarrow> goctx \<Rightarrow> goerr option go" where
  "RunConsumer n W c process ctx = repeat_go n (kafka_iteration W c process ctx)"

section \<open>Interfaces: the producers\<close>

definition kwrite_call :: "call \<Rightarrow> bool" where
  "kwrite_call c = (case c of KafkaWrite _ _ _ \<Rightarrow> True | _ \<Rightarrow> False)"

lemma kwrite_call_simps [simp]: "kwrite_call (KafkaWrite tp k v)"
  by (simp add: kwrite_call_def)

lemma kwrite_call_silent: "kwrite_call c \<Longrightarrow> silent_call c"
  by (auto simp: kwrite_call_def silent_call_def split: call.splits)

text \<open>
  \<open>CalcExportProducer\<close>: only Kafka writes, under the context of the request, and a nil error on a message
  with event data means exactly one write.
\<close>

locale export_producer =
  fixes send :: "goctx \<Rightarrow> IncomingMessage \<Rightarrow> goerr option go"
  assumes writes_only: "emits kwrite_call (send ctx m)"
    and scoped: "emits_ev (in_scope ctx) (send ctx m)"
    and success_one_write:
      "im_EventData m \<noteq> None \<Longrightarrow> result (send ctx m) h = None \<Longrightarrow> length (kwrites (trace (send ctx m) h)) = 1"
begin

lemma silent: "emits silent_call (send ctx m)"
  using writes_only kwrite_call_silent by (rule emits_mono)

end

interpretation fetcher: export_producer "SendDataFetcher W kc" for W kc
proof
  show "emits kwrite_call (SendDataFetcher W kc ctx m)" for ctx m
    unfolding SendDataFetcher_def Let_def by (intro emits_intro) simp
  show "emits_ev (in_scope ctx) (SendDataFetcher W kc ctx m)" for ctx m
    unfolding SendDataFetcher_def Let_def by (intro emits_intro) simp
  show "length (kwrites (trace (SendDataFetcher W kc ctx m) h)) = 1"
    if "im_EventData m \<noteq> None" "result (SendDataFetcher W kc ctx m) h = None" for m ctx h
    using that by (auto simp: SendDataFetcher_def split: option.splits)
qed

text \<open>\<open>KafkaOutputProducer\<close>: one write with the routing key as the key and the payload as the value.\<close>

locale output_producer =
  fixes produce :: "goctx \<Rightarrow> string \<Rightarrow> string \<Rightarrow> goerr option go" and topic :: string
  assumes produce_writes: "\<exists>r. run_state (produce ctx rk payload) h = (r, h @ [(ctx, KafkaWrite topic rk payload)])"
begin

lemma produce_trace: "trace (produce ctx rk payload) h = [(ctx, KafkaWrite topic rk payload)]"
  using produce_writes [of ctx rk payload h] by (auto simp: trace_def)

lemma produce_emits: "Q (ctx, KafkaWrite topic rk payload) \<Longrightarrow> emits_ev Q (produce ctx rk payload)"
  unfolding emits_ev_def
proof
  fix h
  assume Q: "Q (ctx, KafkaWrite topic rk payload)"
  obtain r where "run_state (produce ctx rk payload) h = (r, h @ [(ctx, KafkaWrite topic rk payload)])"
    using produce_writes by blast
  with Q show "\<exists>es. snd (run_state (produce ctx rk payload) h) = h @ es \<and> list_all Q es"
    by (intro exI [of _ "[(ctx, KafkaWrite topic rk payload)]"]) simp
qed

end

interpretation staci_output: output_producer "ProduceOutput W kc" "kc_writerTopic kc" for W kc
  by unfold_locales (simp add: ProduceOutput_def)

section \<open>One commit per fetched message\<close>

text \<open>The messages fetched during a trace \<open>es\<close> after history \<open>h\<close>, as the world answered.\<close>

fun fetched :: "world \<Rightarrow> hist \<Rightarrow> hist \<Rightarrow> KafkaMessage list" where
  "fetched W h [] = []"
| "fetched W h (e # es) =
     (if snd e = KafkaFetch then (case w_fetch W (h @ [e]) of Inl _ \<Rightarrow> [] | Inr m \<Rightarrow> [m]) else [])
     @ fetched W (h @ [e]) es"

lemma fetched_append: "fetched W h (xs @ ys) = fetched W h xs @ fetched W (h @ xs) ys"
  by (induction W h xs rule: fetched.induct) simp_all

lemma fetched_idle: "idle es \<Longrightarrow> fetched W h es = []"
  by (induction W h es rule: fetched.induct) (auto simp: idle_call_def)

lemma commits_idle: "idle es \<Longrightarrow> commits es = []"
  by (induction es) (auto simp: idle_call_def split: call.splits)

interpretation kafka_log: delivery_log "fetched W" commits for W
  by unfold_locales (simp_all add: fetched_append fetched_idle commits_idle)

text \<open>
  The processing function the loop relies on: it makes no commit, no fetch and no stream call of its
  own, works under the context it gets, and queues no marker ahead of its widgets.
\<close>

locale message_processor =
  fixes process :: process_fun
  assumes process_silent: "emits silent_call (process ctx m)"
    and process_scoped: "emits_ev (in_scope ctx) (process ctx m)"
    and process_covers: "covers (process ctx m)"
begin

lemma kafka_handle_run:
  "\<exists>es. run_state (kafka_handle W kc process ctx msg) h = ((), h @ es @ [(ctx, KafkaCommit msg)])
      \<and> idle es"
proof (cases "unmarshal_IncomingMessage (w_float W) (km_Value msg)")
  case None
  then show ?thesis by (intro exI [of _ "[]"]) (simp add: kafka_handle_def)
next
  case (Some incoming)
  obtain r es where es: "run_state (process ctx incoming) h = (r, h @ es)" "list_all (silent_call \<circ> snd) es"
    using process_silent by (rule emitsE)
  note quiet = silent_idle [OF es(2)]
  show ?thesis
  proof (cases "fst r")
    case True
    then show ?thesis using Some es quiet by (intro exI [of _ es]) (simp add: kafka_handle_def)
  next
    case False
    let ?dl = "(ctx, KafkaWrite (kc_dlqTopic kc) (km_Key msg) (dead_letter_value (km_Value msg) (snd r)))"
    show ?thesis using Some es quiet False
      by (intro exI [of _ "es @ [?dl]"]) (simp add: kafka_handle_def DeadLetter_def)
  qed
qed

text \<open>The dead letter of a rejected message is the last call before its commit.\<close>

lemma kafka_handle_rejected:
  assumes "unmarshal_IncomingMessage (w_float W) (km_Value msg) = Some incoming"
    and "\<not> fst (result (process ctx incoming) h)"
  shows "trace (kafka_handle W kc process ctx msg) h =
      trace (process ctx incoming) h
      @ [(ctx, KafkaWrite (kc_dlqTopic kc) (km_Key msg)
                 (dead_letter_value (km_Value msg) (snd (result (process ctx incoming) h)))),
         (ctx, KafkaCommit msg)]"
proof -
  obtain r es where es: "run_state (process ctx incoming) h = (r, h @ es)"
      "result (process ctx incoming) h = r" "trace (process ctx incoming) h = es"
    using process_silent by (rule emitsE)
  then show ?thesis using assms
    by (simp add: trace_def kafka_handle_def DeadLetter_def)
qed

lemma kafka_iteration_run:
  "\<exists>r es. run_state (kafka_iteration W kc process ctx) h = (r, h @ es) \<and> es \<noteq> []
     \<and> settles (fetched W) commits h es"
proof (cases "w_done W (h @ [(ctx, CtxPoll)])")
  case (Some e)
  then show ?thesis
    by (intro exI [of _ "Some e"] exI [of _ "[(ctx, CtxPoll)]"])
      (simp add: kafka_iteration_def kafka_log.settles_idle)
next
  case None
  let ?h2 = "h @ [(ctx, CtxPoll), (ctx, KafkaFetch)]"
  show ?thesis
  proof (cases "w_fetch W ?h2")
    case (Inl err)
    have "settles (fetched W) commits h ([(ctx, CtxPoll)] @ [(ctx, KafkaFetch)] @ [(ctx, CtxPoll)])"
      using Inl by (intro kafka_log.settles_append kafka_log.settles_idle kafka_log.settles_none) simp_all
    then show ?thesis using None Inl
      by (intro exI [of _ "w_done W (?h2 @ [(ctx, CtxPoll)])"]
          exI [of _ "[(ctx, CtxPoll), (ctx, KafkaFetch), (ctx, CtxPoll)]"])
        (simp add: kafka_iteration_def)
  next
    case (Inr msg)
    obtain es where es: "run_state (kafka_handle W kc process ctx msg) ?h2 = ((), ?h2 @ es @ [(ctx, KafkaCommit msg)])"
        "idle es"
      using kafka_handle_run [of W kc ctx msg ?h2] by blast
    have "settles (fetched W) commits h ([(ctx, CtxPoll)] @ (ctx, KafkaFetch) # es @ [(ctx, KafkaCommit msg)])"
      using es(2) Inr by (intro kafka_log.settles_one [where x = msg]) simp_all
    with es show ?thesis using None Inr
      by (intro exI [of _ None] exI [of _ "[(ctx, CtxPoll), (ctx, KafkaFetch)] @ es @ [(ctx, KafkaCommit msg)]"])
        (simp add: kafka_iteration_def)
  qed
qed

lemma RunConsumer_scoped: "emits_ev (in_scope ctx) (RunConsumer n W kc process ctx)"
  unfolding RunConsumer_def kafka_iteration_def kafka_handle_def DeadLetter_def
  by (intro emits_intro process_scoped) simp_all

lemma RunConsumer_covers: "covers (RunConsumer n W kc process ctx)"
  unfolding RunConsumer_def kafka_iteration_def kafka_handle_def DeadLetter_def
  by (intro covers_intro process_covers) (simp_all add: sends_none_def)

end

sublocale message_processor \<subseteq> loop: polling_loop W "kafka_iteration W kc process ctx"
  "\<lambda>h es. settles (fetched W) commits h es" for W kc ctx
proof
  show "\<exists>r es. run_state (kafka_iteration W kc process ctx) h = (r, h @ es) \<and> es \<noteq> []
      \<and> settles (fetched W) commits h es"
    for h by (rule kafka_iteration_run)
  show "result (kafka_iteration W kc process ctx) h \<noteq> None"
    if "\<And>h'. length h < length h' \<Longrightarrow> w_done W h' \<noteq> None" for h
    using that [of "h @ [(ctx, CtxPoll)]"] by (auto simp: kafka_iteration_def result_def)
  show "w_done W h' = Some e" if "run_state (kafka_iteration W kc process ctx) h = (Some e, h')" for h e h'
    using that by (auto simp: kafka_iteration_def split: option.splits sum.splits prod.splits)
qed (auto intro: kafka_log.settles_append kafka_log.settles_idle)

end
