(* ===== verification/Events.thy ===== *)
theory Events
  imports Models
begin

text \<open>
  \<open>internal/models/events.go\<close>: the accepted event names, the two page-name tables and the
  enrichment of the event data by event name.
\<close>

section \<open>Tables\<close>

definition AcceptedEventNames :: "string \<rightharpoonup> bool" where
  "AcceptedEventNames = map_of
    [(''fedi_listener_go_dispatcher'', True),
     (''interactions'', True),
     (''insights'', True),
     (''cdp_profile_interactions'', True),
     (''aggregate_dashboard_go_dispatcher'', True),
     (''custom_dashboard_go_dispatcher'', True),
     (''fedi_data'', True),
     (''alert_data'', True),
     (''chats_page_data'', True),
     (''chats_interactions'', True),
     (''survey_insights_go_dispatcher'', True),
     (''survey_individual_questions_insights_go_dispatcher'', True),
     (''benchmark_go_dispatcher'', True),
     (''fedi_private_data'', True),
     (''fedi_interactions'', True),
     (''fedi_private_interactions'', True),
     (''custom_projects'', True),
     (''explore_go_dispatcher'', True),
     (''engagements_go_dispatcher'', True),
     (''engagements_notes_go_dispatcher'', True),
     (''engagements_analytics_go_dispatcher'', True),
     (''engagements_single_interaction_dm_history'', True),
     (''single_post_go_dispatcher'', True),
     (''engagements_survey_feedback_go_dispatcher'', True),
     (''top_trends_go_dispatcher'', True),
     (''single_interaction_go_dispatcher'', True),
     (''csat_questions_responses_count'', True),
     (''csat_question_responses'', True),
     (''csat_user_responses'', True),
     (''calc_export'', True),
     (''unified_json'', True),
     (''qdtranscriber_go_dispatcher'', True),
     (''staci.fedi.dispatcher'', True),
     (''staci.calc.export_request'', True),
     (''staci.transcriber.dispatcher'', True)]"

text \<open>Indexing a \<open>map[string]bool\<close>: \<open>false\<close> where the key is missing.\<close>

definition accepted_event :: "string \<Rightarrow> bool" where
  "accepted_event n = (case AcceptedEventNames n of None \<Rightarrow> False | Some b \<Rightarrow> b)"

definition EngagementsPageNameMapping :: "string \<rightharpoonup> string" where
  "EngagementsPageNameMapping = map_of
    [(''engagements'', ''EngagementsProductPage''),
     (''engagements_profile_data'', ''EngagementsProfileDataPage''),
     (''engagements_logs_data'', ''EngagementsSlasPage''),
     (''engagements_notes'', ''EngagementsNotesPage''),
     (''engagements_analytics'', ''EngagementAnalyticsPage''),
     (''engagements_single_interaction_dm_history'', ''EngagementsSingleInteractionDMHistoryPage''),
     (''engagement_survey_feedback'', ''EngagementSurveyFeedbackPage'')]"

definition UnifiedJSONPageMapping :: "string \<rightharpoonup> string" where
  "UnifiedJSONPageMapping = map_of
    [(''account_performance_page'', ''UnifiedAccountPerformancePage''),
     (''account_content_page'', ''UnifiedAccountContentPage''),
     (''visual_content_page'', ''UnifiedVisualContentPage''),
     (''engagement_insights_page'', ''UnifiedEngagementInsightsPage''),
     (''customer_care_page'', ''UnifiedCustomerCarePerformancePage''),
     (''posts_page'', ''UnifiedPostPage''),
     (''engagements_page'', ''UnifiedPostPage''),
     (''questions_page'', ''UnifiedQuestionsPage''),
     (''authors_page'', ''UnifiedAuthorsPage''),
     (''profile_page'', ''UnifiedProfilePage''),
     (''dynamic_widgets_page'', ''UnifiedDynamicWidgetsPage''),
     (''benchmark_page'', ''UnifiedBenchmarkPage'')]"

section \<open>Enrichment\<close>

text \<open>
  The switch of \<open>EventToPageEnrichment\<close> on a non-nil pointer, then the function with its nil check.
  The three canonical Staci names have empty cases.
\<close>

definition enrich :: "string \<Rightarrow> EventData \<Rightarrow> EventData" where
  "enrich eventName e =
     (if eventName = ''interactions'' then
        e\<lparr>ed_PageName := ''ResearchInteractionsPage''\<rparr>
      else if eventName = ''insights'' then
        e\<lparr>ed_PageName := ''ResearchInsightsPage''\<rparr>
      else if eventName = ''chats_page_data'' then
        e\<lparr>ed_PageName := ''ResearchChatsPage''\<rparr>
      else if eventName = ''chats_interactions'' then
        e\<lparr>ed_PageName := ''ResearchChatsInteractionsPage''\<rparr>
      else if eventName = ''staci.fedi.dispatcher'' then e
      else if eventName = ''staci.calc.export_request'' then e
      else if eventName = ''staci.transcriber.dispatcher'' then e
      else if eventName = ''fedi_private_data'' then
        e\<lparr>ed_PageName := ''ResearchSingleDataSourceInsightsPage'', ed_DataSourceName := ''Fediprivate''\<rparr>
      else if eventName = ''fedi_private_interactions'' then
        e\<lparr>ed_PageName := ''ResearchSingleDataSourceInteractionsPage'', ed_DataSourceName := ''Fediprivate''\<rparr>
      else if eventName = ''aggregate_dashboard_go_dispatcher'' \<or> eventName = ''custom_dashboard_go_dispatcher'' then
        e\<lparr>ed_Product := ''Dashboards''\<rparr>
      else if eventName = ''cdp_profile_interactions'' then
        e\<lparr>ed_PageName := ''CDPProfileInteractionsPage''\<rparr>
      else if eventName = ''survey_insights_go_dispatcher'' then
        e\<lparr>ed_PageName := ''SurveyPage''\<rparr>
      else if eventName = ''survey_individual_questions_insights_go_dispatcher'' then
        e\<lparr>ed_PageName := ''SurveyIndividualQuestionsInsightsPage''\<rparr>
      else if eventName = ''engagements_notes_go_dispatcher'' then
        e\<lparr>ed_PageName := ''EngagementsNotesPage''\<rparr>
      else if eventName = ''engagements_analytics_go_dispatcher'' then
        e\<lparr>ed_PageName := ''EngagementAnalyticsPage''\<rparr>
      else if eventName = ''engagements_go_dispatcher'' then
        (if ed_PageName e \<noteq> '''' then
           (case EngagementsPageNameMapping (ed_PageName e) of
              Some mapped \<Rightarrow> e\<lparr>ed_PageName := mapped\<rparr>
            | None \<Rightarrow> e)
         else e\<lparr>ed_PageName := ''EngagementsProductPage''\<rparr>)
      else if eventName = ''engagements_single_interaction_dm_history'' then
        e\<lparr>ed_PageName := ''EngagementsSingleInteractionDMHistoryPage''\<rparr>
      else if eventName = ''engagements_survey_feedback_go_dispatcher'' then
        e\<lparr>ed_PageName := ''EngagementSurveyFeedbackPage''\<rparr>
      else if eventName = ''single_interaction_go_dispatcher'' then
        e\<lparr>ed_PageName := ''SingleInteractionPage''\<rparr>
      else if eventName = ''csat_questions_responses_count'' then
        e\<lparr>ed_PageName := ''FulfillmentQuestionsResponsesCountPage''\<rparr>
      else if eventName = ''csat_question_responses'' then
        e\<lparr>ed_PageName := ''FulfillmentQuestionResponsesPage''\<rparr>
      else if eventName = ''csat_user_responses'' then
        e\<lparr>ed_PageName := ''FulfillmentUserResponsesPage''\<rparr>
      else if eventName = ''unified_json'' then
        (if ed_PageName e \<noteq> '''' then
           (case UnifiedJSONPageMapping (ed_PageName e) of
              Some mapped \<Rightarrow> e\<lparr>ed_PageName := mapped\<rparr>
            | None \<Rightarrow> e)
         else e)
      else e)"

definition EventToPageEnrichment :: "string \<Rightarrow> EventData option \<Rightarrow> EventData option" where
  "EventToPageEnrichment eventName eventData =
     (case eventData of None \<Rightarrow> None | Some e \<Rightarrow> Some (enrich eventName e))"

section \<open>Properties\<close>

lemma map_of_list_all: "map_of xs k = Some v \<Longrightarrow> list_all P (map snd xs) \<Longrightarrow> P v"
  by (induction xs) (auto split: if_splits)

text \<open>No value of a page table is one of its keys, so mapping twice is mapping once.\<close>

definition table_once :: "(string \<rightharpoonup> string) \<Rightarrow> bool" where
  "table_once t \<longleftrightarrow> (\<forall>g p. t g = Some p \<longrightarrow> p \<noteq> '''' \<and> t p = None)"

lemma EngagementsPageNameMapping_once: "table_once EngagementsPageNameMapping"
  unfolding table_once_def EngagementsPageNameMapping_def
  by (intro allI impI, erule map_of_list_all) code_simp

lemma UnifiedJSONPageMapping_once: "table_once UnifiedJSONPageMapping"
  unfolding table_once_def UnifiedJSONPageMapping_def
  by (intro allI impI, erule map_of_list_all) code_simp

text \<open>Idempotent and framed updates, through the conditionals of the switch.\<close>

definition idem :: "('a \<Rightarrow> 'a) \<Rightarrow> bool" where
  "idem f \<longleftrightarrow> (\<forall>x. f (f x) = f x)"

lemma idem_if: "idem f \<Longrightarrow> idem g \<Longrightarrow> idem (\<lambda>e. if b then f e else g e)"
  by (simp add: idem_def)

lemma idem_table:
  assumes t: "table_once t" and u: "idem u"
    and empty: "\<And>e. ed_PageName e = '''' \<Longrightarrow> ed_PageName (u e) = '''' \<or> t (ed_PageName (u e)) = None"
  shows "idem (\<lambda>e. if ed_PageName e \<noteq> '''' then
      (case t (ed_PageName e) of Some p \<Rightarrow> e\<lparr>ed_PageName := p\<rparr> | None \<Rightarrow> e) else u e)"
  (is "idem ?f")
  unfolding idem_def
proof
  fix x
  show "?f (?f x) = ?f x"
  proof (cases "ed_PageName x = ''''")
    case True
    then show ?thesis using u empty [OF True] by (auto simp: idem_def)
  next
    case False
    then show ?thesis using t by (auto simp: table_once_def split: option.split)
  qed
qed

lemma idem_page [simp]:
  "idem (\<lambda>e. e)" "idem (\<lambda>e. e\<lparr>ed_PageName := p\<rparr>)" "idem (\<lambda>e. e\<lparr>ed_Product := p\<rparr>)"
  "idem (\<lambda>e. e\<lparr>ed_PageName := p, ed_DataSourceName := d\<rparr>)"
  by (simp_all add: idem_def)

definition page_framed :: "EventData \<Rightarrow> EventData \<Rightarrow> bool" where
  "page_framed e e' \<longleftrightarrow> (\<forall>p q s. e'\<lparr>ed_PageName := p, ed_Product := q, ed_DataSourceName := s\<rparr>
     = e\<lparr>ed_PageName := p, ed_Product := q, ed_DataSourceName := s\<rparr>)"

lemma page_framed_if: "page_framed e x \<Longrightarrow> page_framed e y \<Longrightarrow> page_framed e (if b then x else y)"
  by simp

lemma page_framed_case:
  "page_framed e x \<Longrightarrow> (\<And>v. page_framed e (f v)) \<Longrightarrow> page_framed e (case t of None \<Rightarrow> x | Some v \<Rightarrow> f v)"
  by (cases t) auto

lemma page_framed_updates [simp]:
  "page_framed e e" "page_framed e (e\<lparr>ed_PageName := p\<rparr>)" "page_framed e (e\<lparr>ed_Product := p\<rparr>)"
  "page_framed e (e\<lparr>ed_PageName := p, ed_DataSourceName := d\<rparr>)"
  by (simp_all add: page_framed_def)

lemma idem_enrich: "idem (enrich n)"
proof -
  have "table_once EngagementsPageNameMapping \<Longrightarrow> EngagementsPageNameMapping ''EngagementsProductPage'' = None"
    by (simp add: EngagementsPageNameMapping_def)
  then show ?thesis
    unfolding enrich_def [abs_def]
    by (intro idem_if idem_table EngagementsPageNameMapping_once UnifiedJSONPageMapping_once)
      (simp_all add: EngagementsPageNameMapping_once)
qed

text \<open>The widgets ride along.\<close>

lemma update_if: "(if b then x else y)\<lparr>ed_SelectedWidgets := w\<rparr> = (if b then x\<lparr>ed_SelectedWidgets := w\<rparr> else y\<lparr>ed_SelectedWidgets := w\<rparr>)"
  by simp

lemma update_case: "(case t of None \<Rightarrow> x | Some v \<Rightarrow> f v)\<lparr>ed_SelectedWidgets := w\<rparr>
    = (case t of None \<Rightarrow> x\<lparr>ed_SelectedWidgets := w\<rparr> | Some v \<Rightarrow> (f v)\<lparr>ed_SelectedWidgets := w\<rparr>)"
  by (cases t) simp_all

lemma enrich_widgets: "enrich n (e\<lparr>ed_SelectedWidgets := w\<rparr>) = (enrich n e)\<lparr>ed_SelectedWidgets := w\<rparr>"
  unfolding enrich_def update_if update_case
  by (intro if_cong refl) (simp_all split: option.split)

lemma page_framed_enrich: "page_framed e (enrich n e)"
  unfolding enrich_def by (intro page_framed_if page_framed_case page_framed_updates)

lemma page_framed_fields:
  assumes "page_framed e e'"
  shows "ed_SelectedWidgets e' = ed_SelectedWidgets e" "ed_StreamTech e' = ed_StreamTech e"
    "ed_RoutingKey e' = ed_RoutingKey e" "ed_QueueName e' = ed_QueueName e"
    "ed_PageAlertNotification e' = ed_PageAlertNotification e" "ed_RequestTimestamp e' = ed_RequestTimestamp e"
proof -
  have "e'\<lparr>ed_PageName := [], ed_Product := [], ed_DataSourceName := []\<rparr>
      = e\<lparr>ed_PageName := [], ed_Product := [], ed_DataSourceName := []\<rparr>" (is "?l = ?r")
    using assms by (simp add: page_framed_def)
  then have "f ?l = f ?r" for f by simp
  from this [of ed_SelectedWidgets] this [of ed_StreamTech] this [of ed_RoutingKey] this [of ed_QueueName]
    this [of ed_PageAlertNotification] this [of ed_RequestTimestamp]
  show "ed_SelectedWidgets e' = ed_SelectedWidgets e" "ed_StreamTech e' = ed_StreamTech e"
    "ed_RoutingKey e' = ed_RoutingKey e" "ed_QueueName e' = ed_QueueName e"
    "ed_PageAlertNotification e' = ed_PageAlertNotification e" "ed_RequestTimestamp e' = ed_RequestTimestamp e"
    by simp_all
qed

lemmas enrich_fields [simp] = page_framed_fields [OF page_framed_enrich]

text \<open>
  C34: Enrichment is idempotent: a message that is enriched, dead-lettered and consumed again gets the
  same page, product and data source.
\<close>

theorem enrichment_idempotent:
  "EventToPageEnrichment n (EventToPageEnrichment n d) = EventToPageEnrichment n d"
  using idem_enrich [of n] by (cases d) (simp_all add: EventToPageEnrichment_def idem_def)

text \<open>
  Enrichment touches nothing but the page name, the product and the data source name: routing, stream
  technology, filters, widgets and timestamps reach the strategy as they were sent.
\<close>

lemma enrichment_frame:
  "(enrich n e)\<lparr>ed_PageName := p, ed_Product := q, ed_DataSourceName := s\<rparr>
     = e\<lparr>ed_PageName := p, ed_Product := q, ed_DataSourceName := s\<rparr>"
  using page_framed_enrich by (simp add: page_framed_def)

end
