(* ===== verification/Consumer.thy ===== *)
theory Consumer
  imports Controller Redis_Clients Kafka_Client Events
begin

text \<open>
  \<open>internal/consumer/consumer.go\<close>: the processing of one message and the loop over the input stream.
  The event data of a message is mutated through its pointer, so \<open>ProcessMessage\<close> also returns the
  message as it leaves it: the dead letter of the Redis loop is made from that.
\<close>

section \<open>The consumer\<close>

text \<open>A \<open>CalcExportProducer\<close> is its one method.\<close>

type_synonym export_producer = "goctx \<Rightarrow> IncomingMessage \<Rightarrow> goerr option go"

record Consumer =
  co_cfg :: Config
  co_broker :: "Broker option"
  co_ctrl :: "strategy_fun Registry"
  co_calcExportProducer :: "export_producer option"

definition readBlockMs :: i64 where "readBlockMs = 2000"
definition senderQueueCap :: nat where "senderQueueCap = 1000"

definition NewConsumer :: "Config \<Rightarrow> Broker option \<Rightarrow> strategy_fun Registry \<Rightarrow> Consumer" where
  "NewConsumer cfg broker ctrl =
     \<lparr>co_cfg = cfg, co_broker = broker, co_ctrl = ctrl, co_calcExportProducer = None\<rparr>"

definition SetCalcExportProducer :: "Consumer \<Rightarrow> export_producer \<Rightarrow> Consumer" where
  "SetCalcExportProducer c p = c\<lparr>co_calcExportProducer := Some p\<rparr>"

section \<open>Processing one message\<close>

definition isExportRequest :: "string \<Rightarrow> EventData \<Rightarrow> bool" where
  "isExportRequest eventName ed \<longleftrightarrow>
     ed_ExportXLSX ed
     \<or> eventName = ''staci.calc.export_request''
     \<or> eventName = ''fedi_listener_go_dispatcher''
     \<or> eventName = ''calc_export''"

definition other_pipeline :: "EventData \<Rightarrow> bool" where
  "other_pipeline ed \<longleftrightarrow>
     ed_ExporterID ed \<noteq> '''' \<or> ed_JobID ed \<noteq> '''' \<or> ed_IsLiveDashboard ed
     \<or> ed_IsNewsletterReport ed \<or> ed_IsExportEngagements ed"

definition merge_widgets :: "IncomingMessage \<Rightarrow> EventData \<Rightarrow> EventData" where
  "merge_widgets incoming ed =
     (if im_SelectedWidgets incoming \<noteq> [] then
        ed\<lparr>ed_SelectedWidgets := ed_SelectedWidgets ed @ im_SelectedWidgets incoming\<rparr>
      else ed)"

text \<open>\<open>time.Now().Unix() - eventData.RequestTimestamp > limit\<close>, read only where the timestamp is positive.\<close>

definition older_than :: "world \<Rightarrow> EventData \<Rightarrow> i64 \<Rightarrow> bool go" where
  "older_than W ed limit =
     (if 0 < sint (ed_RequestTimestamp ed) then do {
        now \<leftarrow> perform (w_unix W) Background Now;
        go_return (sint limit < sint (now - ed_RequestTimestamp ed))
      } else go_return False)"

definition messageDispatcherTimeoutSec :: i64 where "messageDispatcherTimeoutSec = 7200"

definition export_event :: "string \<Rightarrow> EventData \<Rightarrow> bool" where
  "export_event eventName ed \<longleftrightarrow>
     (eventName = ''fedi_listener_go_dispatcher'' \<or> eventName = ''staci.fedi.dispatcher'') \<and> ed_ExportXLSX ed"

definition api_stream :: "EventData \<Rightarrow> bool" where
  "api_stream ed \<longleftrightarrow> ed_StreamTech ed = ''API'' \<and> ed_RoutingKey ed \<noteq> ''''"

definition completion_item :: "string \<Rightarrow> SenderQueueItem" where
  "completion_item routingKey =
     zero_SenderQueueItem\<lparr>sq_Data := Some (zero_SenderQueueItemData\<lparr>
       sd_CompletionMarker := True, sd_RoutingKey := routingKey\<rparr>)\<rparr>"

text \<open>From the per-message timeout on: event status, controller, completion marker.\<close>

definition run_page :: "world \<Rightarrow> Consumer \<Rightarrow> goctx \<Rightarrow> EventData \<Rightarrow> (bool \<times> string) go" where
  "run_page W c ctx ed =
     (let runCtx = WithTimeout ctx (EventTimeout (co_cfg c)) in do {
        _ \<leftarrow> (if api_stream ed
              then UpdateEventStatus W runCtx (ed_RoutingKey ed) ''PROCESSING_EVENT_IN_PUBLISHER_CONTROLLER''
              else go_return None);
        err \<leftarrow> Controller_Run W (co_ctrl c) runCtx (Some ed);
        case err of
          Some e \<Rightarrow> go_return (False, ''controller_error'')
        | None \<Rightarrow> do {
            _ \<leftarrow> (if api_stream ed then select_send W runCtx (completion_item (ed_RoutingKey ed))
                  else go_return None);
            go_return (True, '''')
          }
      })"

text \<open>From the staleness check on, with the event data the message is left with.\<close>

definition process_page ::
  "world \<Rightarrow> Consumer \<Rightarrow> goctx \<Rightarrow> string \<Rightarrow> EventData \<Rightarrow> ((bool \<times> string) \<times> EventData) go" where
  "process_page W c ctx eventName ed = do {
     stale \<leftarrow> older_than W ed (duration_seconds (EventTimeout (co_cfg c)));
     if stale then go_return ((False, ''stale_request''), ed)
     else do {
       timed_out \<leftarrow> (if export_event eventName ed then older_than W ed messageDispatcherTimeoutSec
                      else go_return False);
       if timed_out then go_return ((False, ''export_xlsx_timeout''), ed)
       else do {
         r \<leftarrow> run_page W c ctx (enrich eventName ed);
         go_return (r, enrich eventName ed)
       }
     }
   }"

definition ProcessMessage ::
  "world \<Rightarrow> Consumer \<Rightarrow> goctx \<Rightarrow> IncomingMessage \<Rightarrow> ((bool \<times> string) \<times> IncomingMessage) go" where
  "ProcessMessage W c ctx incoming =
     (case im_EventData incoming of
        None \<Rightarrow> go_return ((True, ''''), incoming)
      | Some eventData \<Rightarrow>
          if \<not> accepted_event (im_EventName incoming) then go_return ((True, ''''), incoming)
          else if ed_ExporterID eventData \<noteq> '''' \<and> co_calcExportProducer c \<noteq> None
                  \<and> isExportRequest (im_EventName incoming) eventData then do {
            err \<leftarrow> the (co_calcExportProducer c) ctx incoming;
            go_return ((case err of Some e \<Rightarrow> (False, ''export_send_failed'') | None \<Rightarrow> (True, '''')), incoming)
          }
          else if other_pipeline eventData then go_return ((True, ''''), incoming)
          else do {
            r \<leftarrow> process_page W c ctx (im_EventName incoming) (merge_widgets incoming eventData);
            go_return (fst r, incoming\<lparr>im_EventData := Some (snd r)\<rparr>)
          })"

section \<open>The Redis loop\<close>

definition stringFromMap :: "stream_values \<Rightarrow> string \<Rightarrow> string \<times> bool" where
  "stringFromMap m key =
     (case map_of m key of
        None \<Rightarrow> ('''', False)
      | Some v \<Rightarrow> (case v of GStr s \<Rightarrow> (s, True) | _ \<Rightarrow> ('''', False)))"

definition payload_of :: "stream_values \<Rightarrow> string" where
  "payload_of vals =
     (let payloadStr = fst (stringFromMap vals ''payload'')
      in if payloadStr = '''' then fst (stringFromMap vals ''body'') else payloadStr)"

text \<open>\<open>json.Marshal\<close> gives no bytes on an error, which the code ignores.\<close>

definition dead_letter_fields :: "string \<Rightarrow> IncomingMessage \<Rightarrow> string \<Rightarrow> (string \<times> string) list" where
  "dead_letter_fields messageID incoming reason =
     gmap_of
       ([(''payload'', case marshal_IncomingMessage incoming of None \<Rightarrow> '''' | Some p \<Rightarrow> p),
         (''eventName'', im_EventName incoming),
         (''reason'', reason),
         (''message_id'', messageID)]
        @ (case im_EventData incoming of None \<Rightarrow> [] | Some ed \<Rightarrow> [(''routing_key'', ed_RoutingKey ed)]))"

definition deadLetter ::
  "world \<Rightarrow> Consumer \<Rightarrow> Broker \<Rightarrow> goctx \<Rightarrow> string \<Rightarrow> string \<Rightarrow> string \<Rightarrow> IncomingMessage \<Rightarrow> string \<Rightarrow> unit go" where
  "deadLetter W c b ctx stream grp messageID incoming reason = do {
     _ \<leftarrow> AddToStream W b ctx (DispatcherDeadletterStream (co_cfg c)) (dead_letter_fields messageID incoming reason);
     _ \<leftarrow> Ack W ctx stream grp [messageID];
     go_return ()
   }"

text \<open>What one iteration does with a delivered entry.\<close>

definition handle_entry ::
  "world \<Rightarrow> Consumer \<Rightarrow> Broker \<Rightarrow> goctx \<Rightarrow> string \<Rightarrow> string \<Rightarrow> string \<Rightarrow> stream_values \<Rightarrow> unit go" where
  "handle_entry W c b ctx stream grp messageID vals =
     (if payload_of vals = '''' then do {
        _ \<leftarrow> Ack W ctx stream grp [messageID];
        go_return ()
      }
      else
        (case unmarshal_IncomingMessage (w_float W) (payload_of vals) of
           None \<Rightarrow> do {
             _ \<leftarrow> Ack W ctx stream grp [messageID];
             go_return ()
           }
         | Some incoming \<Rightarrow> do {
             r \<leftarrow> ProcessMessage W c ctx incoming;
             if fst (fst r) then do {
               _ \<leftarrow> Ack W ctx stream grp [messageID];
               go_return ()
             }
             else deadLetter W c b ctx stream grp messageID (snd r) (snd (fst r))
           }))"

text \<open>One iteration: \<open>Some e\<close> when \<open>Run\<close> returns the error \<open>e\<close>.\<close>

definition redis_iteration :: "world \<Rightarrow> Consumer \<Rightarrow> Broker \<Rightarrow> goctx \<Rightarrow> goerr option go" where
  "redis_iteration W c b ctx =
     (let stream = DispatcherInputStream (co_cfg c);
          grp = DispatcherConsumerGroup (co_cfg c)
      in do {
        d \<leftarrow> perform (w_done W) ctx CtxPoll;
        case d of
          Some e \<Rightarrow> go_return (Some e)
        | None \<Rightarrow> do {
            r \<leftarrow> ReadGroup W ctx stream grp (DispatcherConsumerName (co_cfg c)) (readBlockMs * nanosecond_per_ms);
            case r of
              Inl err \<Rightarrow> go_return None
            | Inr m \<Rightarrow>
                if fst m = '''' \<or> fst (snd m) = '''' then go_return None
                else do {
                  _ \<leftarrow> handle_entry W c b ctx stream grp (fst (snd m)) (snd (snd m));
                  go_return None
                }
          }
      })"

definition redis_loop :: "nat \<Rightarrow> world \<Rightarrow> Consumer \<Rightarrow> Broker \<Rightarrow> goctx \<Rightarrow> goerr option go" where
  "redis_loop n W c b ctx = repeat_go n (redis_iteration W c b ctx)"

text \<open>
  \<open>Run\<close> with fuel for \<open>n\<close> iterations: \<open>None\<close> is "still running", \<open>Some None\<close> the return of a nil error
  (no broker), \<open>Some (Some e)\<close> the return of the error \<open>e\<close>.
\<close>

definition Consumer_Run :: "nat \<Rightarrow> world \<Rightarrow> Consumer \<Rightarrow> goctx \<Rightarrow> goerr option option go" where
  "Consumer_Run n W c ctx =
     (case co_broker c of
        None \<Rightarrow> go_return (Some None)
      | Some b \<Rightarrow> do {
          e \<leftarrow> EnsureConsumerGroup W ctx (DispatcherInputStream (co_cfg c))
                 (DispatcherConsumerGroup (co_cfg c)) ''$'';
          case e of
            Some err \<Rightarrow> go_return (Some (Some err))
          | None \<Rightarrow> do {
              r \<leftarrow> redis_loop n W c b ctx;
              go_return (map_option Some r)
            }
        })"

section \<open>What processing a message touches\<close>

lemma older_than_silent [emits_intro]: "emits silent_call (older_than W ed limit)"
  unfolding older_than_def by (intro emits_intro) simp_all

locale consumer = page: controller W "co_ctrl c" for W :: world and c :: Consumer +
  assumes export_ok: "co_calcExportProducer c = Some p \<Longrightarrow> export_producer p"
begin

lemma run_page_silent [emits_intro]: "emits silent_call (run_page W c ctx ed)"
  unfolding run_page_def UpdateEventStatus_def Let_def
  by (intro emits_intro page.page.silent) simp_all

lemma process_page_silent [emits_intro]: "emits silent_call (process_page W c ctx n ed)"
  unfolding process_page_def by (intro emits_intro)

lemma export_silent: "co_calcExportProducer c \<noteq> None \<Longrightarrow> emits silent_call (the (co_calcExportProducer c) ctx m)"
  using export_ok export_producer.silent by fastforce

lemma ProcessMessage_silent: "emits silent_call (ProcessMessage W c ctx m)"
  unfolding ProcessMessage_def by (intro emits_intro export_silent) auto

text \<open>Every call of a message, of the loop and of \<open>Run\<close> is under the context they got.\<close>

lemma export_scoped:
  "co_calcExportProducer c \<noteq> None \<Longrightarrow> emits_ev (in_scope ctx) (the (co_calcExportProducer c) ctx m)"
  using export_ok export_producer.scoped by fastforce

lemma run_page_scoped: "emits_ev (in_scope ctx) (run_page W c ctx ed)"
  unfolding run_page_def UpdateEventStatus_def Let_def
  by (intro emits_intro in_scope_narrow [OF page.page.scoped]) simp_all

lemma ProcessMessage_scoped: "emits_ev (in_scope ctx) (ProcessMessage W c ctx m)"
  unfolding ProcessMessage_def process_page_def older_than_def
  by (intro emits_intro export_scoped run_page_scoped) auto

lemma redis_iteration_scoped: "emits_ev (in_scope ctx) (redis_iteration W c b ctx)"
  unfolding redis_iteration_def ReadGroup_def handle_entry_def deadLetter_def AddToStream_def Ack_def Let_def
  by (intro emits_intro ProcessMessage_scoped) simp_all

lemma Consumer_Run_scoped: "emits_ev (in_scope ctx) (Consumer_Run n W c ctx)"
  unfolding Consumer_Run_def EnsureConsumerGroup_def redis_loop_def
  by (intro emits_intro redis_iteration_scoped) simp_all

text \<open>A page queues its widgets, and a marker only after at least one of them.\<close>

lemma widget_for_widget_of: "widget_for ed i \<Longrightarrow> widget_of (ed_RoutingKey ed) i"
  by (auto simp: widget_for_def widget_of_def split: option.splits)

lemma page_widgets:
  "list_all (widget_of (ed_RoutingKey ed)) (sends (trace (Controller_Run W (co_ctrl c) ctx (Some ed)) h))"
  using page.page.items_routed widget_for_widget_of by (fastforce simp: list_all_iff)

lemma run_page_covers: "covers (run_page W c ctx ed)"
  unfolding covers_def
proof
  fix h
  let ?rc = "WithTimeout ctx (EventTimeout (co_cfg c))"
  let ?m = "completion_item (ed_RoutingKey ed)"
  let ?h1 = "if api_stream ed then h @ [(?rc, RedisSet (EventStatusPrefix @ ed_RoutingKey ed)
      ''PROCESSING_EVENT_IN_PUBLISHER_CONTROLLER'' (seconds 20))] else h"
  let ?ctrl = "Controller_Run W (co_ctrl c) ?rc (Some ed)"
  obtain r es where es: "run_state ?ctrl ?h1 = (r, ?h1 @ es)" "result ?ctrl ?h1 = r" "trace ?ctrl ?h1 = es"
    using page.page.silent by (rule emitsE)
  have ws: "list_all (widget_of (ed_RoutingKey ed)) (sends es)"
    using page_widgets [of ed ?rc ?h1] es(3) by simp
  then have "markers_covered (sends es)"
    by (intro markers_covered_widgets) (auto simp: list_all_iff)
  moreover have "marker_of (ed_RoutingKey ed) ?m"
    by (simp add: marker_of_def completion_item_def zero_SenderQueueItemData_def)
  then have "r = None \<Longrightarrow> markers_covered (sends es @ [?m])"
    using page.page.sends_on_success [of ?rc ed ?h1] es(2,3) by (intro markers_covered_page [OF ws]) simp_all
  ultimately show "\<exists>es. snd (run_state (run_page W c ctx ed) h) = h @ es \<and> markers_covered (sends es)"
    using es(1)
    by (cases r) (auto simp: run_page_def UpdateEventStatus_def run_select_send Let_def split: option.split)
qed

lemma ProcessMessage_covers: "covers (ProcessMessage W c ctx m)"
proof -
  have "emits sends_none (the (co_calcExportProducer c) ctx m)" if "co_calcExportProducer c \<noteq> None"
    using that export_ok export_producer.writes_only [of "the (co_calcExportProducer c)" ctx m]
    by (auto elim!: emits_mono simp: kwrite_call_def sends_none_def split: call.splits)
  then show ?thesis
    unfolding ProcessMessage_def process_page_def older_than_def
    by (intro covers_intro run_page_covers covers_sends_none) (simp_all add: sends_none_def)
qed

lemma Consumer_Run_covers: "covers (Consumer_Run n W c ctx)"
  unfolding Consumer_Run_def EnsureConsumerGroup_def redis_loop_def redis_iteration_def ReadGroup_def
    handle_entry_def deadLetter_def AddToStream_def Ack_def Let_def
  by (intro covers_intro ProcessMessage_covers) (simp_all add: sends_none_def)

text \<open>Every delivered entry is acknowledged once, by the last call made for it.\<close>

lemma handle_entry_run:
  "\<exists>es. run_state (handle_entry W c b ctx stream grp messageID vals) h
        = ((), h @ es @ [(ctx, XAck stream grp [messageID])])
      \<and> idle es"
proof (cases "payload_of vals = '''' \<or> unmarshal_IncomingMessage (w_float W) (payload_of vals) = None")
  case True
  then show ?thesis
    by (intro exI [of _ "[]"]) (auto simp: handle_entry_def Ack_def)
next
  case False
  then obtain m where m: "payload_of vals \<noteq> ''''" "unmarshal_IncomingMessage (w_float W) (payload_of vals) = Some m"
    by auto
  obtain r es where es: "run_state (ProcessMessage W c ctx m) h = (r, h @ es)" "list_all (silent_call \<circ> snd) es"
    using ProcessMessage_silent by (rule emitsE)
  note quiet = silent_idle [OF es(2)]
  show ?thesis
  proof (cases "fst (fst r)")
    case True
    then show ?thesis using m es quiet by (intro exI [of _ es]) (simp add: handle_entry_def Ack_def)
  next
    case False
    then show ?thesis using m es quiet
      by (intro exI [of _ "es @ [(ctx, XAdd (DispatcherDeadletterStream (co_cfg c))
              (dead_letter_fields messageID (snd r) (snd (fst r)))
              (if 0 < sint (DispatcherStreamMaxLen (br_cfg b)) then DispatcherStreamMaxLen (br_cfg b) else 0))]"])
        (simp add: handle_entry_def deadLetter_def AddToStream_def Ack_def)
  qed
qed

text \<open>The calls for a rejected message: its processing, the dead letter, the acknowledgement.\<close>

lemma handle_entry_rejected:
  assumes "payload_of vals \<noteq> ''''"
    and "unmarshal_IncomingMessage (w_float W) (payload_of vals) = Some m"
    and "result (ProcessMessage W c ctx m) h = ((False, reason), m')"
  shows "\<exists>maxlen. trace (handle_entry W c b ctx stream grp messageID vals) h =
      trace (ProcessMessage W c ctx m) h
      @ [(ctx, XAdd (DispatcherDeadletterStream (co_cfg c)) (dead_letter_fields messageID m' reason) maxlen),
         (ctx, XAck stream grp [messageID])]"
proof -
  obtain r es where "run_state (ProcessMessage W c ctx m) h = (r, h @ es)"
    using ProcessMessage_silent by (rule emitsE)
  then show ?thesis using assms
    by (simp add: trace_def result_def handle_entry_def deadLetter_def AddToStream_def Ack_def)
qed

lemma redis_iteration_run:
  "\<exists>r es. run_state (redis_iteration W c b ctx) h = (r, h @ es) \<and> es \<noteq> []
     \<and> settles (delivered W) acks h es"
proof (cases "w_done W (h @ [(ctx, CtxPoll)])")
  case (Some e)
  then show ?thesis
    by (intro exI [of _ "Some e"] exI [of _ "[(ctx, CtxPoll)]"])
      (simp add: redis_iteration_def redis_log.settles_idle)
next
  case None
  let ?stream = "DispatcherInputStream (co_cfg c)" and ?grp = "DispatcherConsumerGroup (co_cfg c)"
  let ?read = "XReadGroup ?grp (DispatcherConsumerName (co_cfg c)) [?stream, ''>''] 1 (readBlockMs * nanosecond_per_ms)"
  let ?es = "[(ctx, CtxPoll), (ctx, ?read)]"
  show ?thesis
  proof (cases "\<exists>m. read_group_reply (w_read W (h @ ?es)) = Inr m \<and> fst m \<noteq> '''' \<and> fst (snd m) \<noteq> ''''")
    case False
    then have "settles (delivered W) acks h ([(ctx, CtxPoll)] @ [(ctx, ?read)])"
      by (intro redis_log.settles_append redis_log.settles_idle redis_log.settles_none)
        (auto split: sum.splits)
    then show ?thesis using None False
      by (intro exI [of _ None] exI [of _ ?es])
        (auto simp: redis_iteration_def ReadGroup_def split: sum.splits)
  next
    case True
    then obtain m where m: "read_group_reply (w_read W (h @ ?es)) = Inr m" "fst m \<noteq> ''''" "fst (snd m) \<noteq> ''''"
      by blast
    obtain es where es: "run_state (handle_entry W c b ctx ?stream ?grp (fst (snd m)) (snd (snd m))) (h @ ?es)
          = ((), (h @ ?es) @ es @ [(ctx, XAck ?stream ?grp [fst (snd m)])])"
        "idle es"
      using handle_entry_run [of b ctx ?stream ?grp "fst (snd m)" "snd (snd m)" "h @ ?es"] by blast
    have "settles (delivered W) acks h ([(ctx, CtxPoll)] @ (ctx, ?read) # es @ [(ctx, XAck ?stream ?grp [fst (snd m)])])"
      using es(2) m by (intro redis_log.settles_one [where x = "fst (snd m)"]) simp_all
    with es show ?thesis using None m
      by (intro exI [of _ None] exI [of _ "?es @ es @ [(ctx, XAck ?stream ?grp [fst (snd m)])]"])
        (simp add: redis_iteration_def ReadGroup_def)
  qed
qed

end

sublocale consumer \<subseteq> loop: polling_loop W "redis_iteration W c b ctx"
  "\<lambda>h es. settles (delivered W) acks h es" for b ctx
proof
  show "\<exists>r es. run_state (redis_iteration W c b ctx) h = (r, h @ es) \<and> es \<noteq> []
      \<and> settles (delivered W) acks h es"
    for h by (rule redis_iteration_run)
  show "result (redis_iteration W c b ctx) h \<noteq> None"
    if "\<And>h'. length h < length h' \<Longrightarrow> w_done W h' \<noteq> None" for h
    using that [of "h @ [(ctx, CtxPoll)]"] by (auto simp: redis_iteration_def result_def)
  show "w_done W h' = Some e" if "run_state (redis_iteration W c b ctx) h = (Some e, h')" for h e h'
    using that by (auto simp: redis_iteration_def Let_def split: option.splits sum.splits prod.splits if_splits)
qed (auto intro: redis_log.settles_append redis_log.settles_idle)

context consumer
begin

text \<open>\<open>Run\<close> returns only with the error of its context or of the group it could not create.\<close>

lemma redis_loop_error: "result (redis_loop n W c b ctx) h = Some e \<Longrightarrow> w_done W (h @ trace (redis_loop n W c b ctx) h) = Some e"
  unfolding redis_loop_def by (rule loop.loop_error)

lemma Consumer_Run_returns:
  assumes "co_broker c = Some b" "result (Consumer_Run n W c ctx) h = Some r"
  shows "\<exists>e. r = Some e \<and> (w_done W (h @ trace (Consumer_Run n W c ctx) h) = Some e
    \<or> error_text e \<noteq> ''BUSYGROUP Consumer Group name already exists''
      \<and> w_err W (h @ [(ctx, XGroupCreateMkStream (DispatcherInputStream (co_cfg c))
           (DispatcherConsumerGroup (co_cfg c)) ''$'')]) = Some e)"
proof -
  let ?h1 = "h @ [(ctx, XGroupCreateMkStream (DispatcherInputStream (co_cfg c)) (DispatcherConsumerGroup (co_cfg c)) ''$'')]"
  obtain x es where l: "run_state (redis_loop n W c b ctx) ?h1 = (x, ?h1 @ es)"
      "result (redis_loop n W c b ctx) ?h1 = x" "trace (redis_loop n W c b ctx) ?h1 = es"
    using emits_repeat_go [OF redis_iteration_scoped] unfolding redis_loop_def by (rule emitsE)
  have "x = Some e \<Longrightarrow> w_done W (?h1 @ es) = Some e" for e
    using redis_loop_error [of n b ctx ?h1 e] l by simp
  then show ?thesis using assms l(1)
    by (auto simp: Consumer_Run_def EnsureConsumerGroup_def result_def trace_def split: option.splits if_splits)
qed

end

section \<open>The verdict on a message\<close>

text \<open>
  The specification of \<open>ProcessMessage\<close>: what happens to a message, as a function of the message and of
  the seconds the request is old at the two clock readings.
\<close>

datatype verdict = Skip | Export | Stale | ExportTimeout | Page

definition classify :: "bool \<Rightarrow> int \<Rightarrow> int \<Rightarrow> int \<Rightarrow> IncomingMessage \<Rightarrow> verdict" where
  "classify hasProducer timeout age1 age2 m =
     (case im_EventData m of
        None \<Rightarrow> Skip
      | Some ed \<Rightarrow>
          if \<not> accepted_event (im_EventName m) then Skip
          else if ed_ExporterID ed \<noteq> '''' \<and> hasProducer \<and> isExportRequest (im_EventName m) ed then Export
          else if other_pipeline ed then Skip
          else if 0 < sint (ed_RequestTimestamp ed) \<and> timeout < age1 then Stale
          else if 0 < sint (ed_RequestTimestamp ed) \<and> export_event (im_EventName m) ed \<and> 7200 < age2 then ExportTimeout
          else Page)"

text \<open>The event data the page runs on.\<close>

definition page_data :: "IncomingMessage \<Rightarrow> EventData \<Rightarrow> EventData" where
  "page_data m ed = enrich (im_EventName m) (merge_widgets m ed)"

definition msg_timestamp :: "IncomingMessage \<Rightarrow> i64" where
  "msg_timestamp m = (case im_EventData m of None \<Rightarrow> 0 | Some ed \<Rightarrow> ed_RequestTimestamp ed)"

definition clock1 :: "world \<Rightarrow> hist \<Rightarrow> i64" where
  "clock1 W h = w_unix W (h @ [(Background, Now)])"

definition clock2 :: "world \<Rightarrow> hist \<Rightarrow> i64" where
  "clock2 W h = w_unix W (h @ [(Background, Now), (Background, Now)])"

text \<open>The history at which the page runs: after no, one or two clock readings.\<close>

definition page_hist :: "IncomingMessage \<Rightarrow> hist \<Rightarrow> hist" where
  "page_hist m h =
     (case im_EventData m of
        None \<Rightarrow> h
      | Some ed \<Rightarrow>
          if sint (ed_RequestTimestamp ed) \<le> 0 then h
          else if export_event (im_EventName m) ed then h @ [(Background, Now), (Background, Now)]
          else h @ [(Background, Now)])"

definition verdict_outcome ::
  "world \<Rightarrow> Consumer \<Rightarrow> goctx \<Rightarrow> IncomingMessage \<Rightarrow> hist \<Rightarrow> verdict \<Rightarrow> bool \<times> string" where
  "verdict_outcome W c ctx m h v =
     (case v of
        Skip \<Rightarrow> (True, '''')
      | Export \<Rightarrow>
          (case result (the (co_calcExportProducer c) ctx m) h of
             None \<Rightarrow> (True, '''') | Some _ \<Rightarrow> (False, ''export_send_failed''))
      | Stale \<Rightarrow> (False, ''stale_request'')
      | ExportTimeout \<Rightarrow> (False, ''export_xlsx_timeout'')
      | Page \<Rightarrow> result (run_page W c ctx (page_data m (the (im_EventData m)))) (page_hist m h))"

lemma merge_widgets_simps [simp]:
  "ed_RequestTimestamp (merge_widgets m ed) = ed_RequestTimestamp ed"
  "export_event n (merge_widgets m ed) = export_event n ed"
  "ed_RoutingKey (merge_widgets m ed) = ed_RoutingKey ed"
  "ed_StreamTech (merge_widgets m ed) = ed_StreamTech ed"
  by (simp_all add: merge_widgets_def export_event_def)

lemma age_no_wrap:
  assumes "0 < sint ts" "0 \<le> sint now"
  shows "sint (now - ts :: i64) = sint now - sint ts"
  using assms sint_i64_bounds [of now] sint_i64_bounds [of ts] by (intro sint_minus_i64) auto

lemma run_older_than:
  "run_state (older_than W ed limit) h =
     (if 0 < sint (ed_RequestTimestamp ed)
      then (sint limit < sint (clock1 W h - ed_RequestTimestamp ed), h @ [(Background, Now)])
      else (False, h))"
  by (simp add: older_than_def clock1_def)

lemma sint_dispatcher_timeout [simp]: "sint messageDispatcherTimeoutSec = 7200"
  by (simp add: messageDispatcherTimeoutSec_def)

lemma clock1_again [simp]: "clock1 W (h @ [(Background, Now)]) = clock2 W h"
  by (simp add: clock1_def clock2_def)

lemma run_process_page:
  assumes "0 < sint (ed_RequestTimestamp ed) \<Longrightarrow> 0 \<le> sint (clock1 W h) \<and> 0 \<le> sint (clock2 W h)"
  shows "run_state (process_page W c ctx n ed) h =
     (let ts = sint (ed_RequestTimestamp ed); h1 = h @ [(Background, Now)]; h2 = h1 @ [(Background, Now)];
          hp = (if ts \<le> 0 then h else if export_event n ed then h2 else h1) in
      if 0 < ts \<and> sint (duration_seconds (EventTimeout (co_cfg c))) < sint (clock1 W h) - ts
      then (((False, ''stale_request''), ed), h1)
      else if 0 < ts \<and> export_event n ed \<and> 7200 < sint (clock2 W h) - ts
      then (((False, ''export_xlsx_timeout''), ed), h2)
      else case run_state (run_page W c ctx (enrich n ed)) hp of (r, h') \<Rightarrow> ((r, enrich n ed), h'))"
  using assms
  by (cases "0 < sint (ed_RequestTimestamp ed)")
    (auto simp: process_page_def run_older_than age_no_wrap Let_def split: prod.split)

text \<open>The code computes the verdict's outcome: every branch, with the ages as integers.\<close>

lemma ProcessMessage_verdict:
  assumes clock: "0 < sint (msg_timestamp m) \<Longrightarrow> 0 \<le> sint (clock1 W h) \<and> 0 \<le> sint (clock2 W h)"
  shows "fst (result (ProcessMessage W c ctx m) h) =
    verdict_outcome W c ctx m h
      (classify (co_calcExportProducer c \<noteq> None) (sint (duration_seconds (EventTimeout (co_cfg c))))
        (sint (clock1 W h) - sint (msg_timestamp m)) (sint (clock2 W h) - sint (msg_timestamp m)) m)"
proof (cases "im_EventData m")
  case None
  then show ?thesis by (simp add: ProcessMessage_def classify_def verdict_outcome_def)
next
  case (Some ed)
  consider "\<not> accepted_event (im_EventName m)"
    | "accepted_event (im_EventName m)" "ed_ExporterID ed \<noteq> ''''" "co_calcExportProducer c \<noteq> None"
        "isExportRequest (im_EventName m) ed"
    | "accepted_event (im_EventName m)"
        "\<not> (ed_ExporterID ed \<noteq> '''' \<and> co_calcExportProducer c \<noteq> None \<and> isExportRequest (im_EventName m) ed)"
    by blast
  then show ?thesis
  proof cases
    case 1
    with Some show ?thesis by (simp add: ProcessMessage_def classify_def verdict_outcome_def)
  next
    case 2
    with Some show ?thesis
      by (auto simp: ProcessMessage_def classify_def verdict_outcome_def result_def
          split: prod.splits option.splits)
  next
    case 3
    let ?md = "merge_widgets m ed"
    have pm: "ProcessMessage W c ctx m =
        (if other_pipeline ed then go_return ((True, ''''), m)
         else do { r \<leftarrow> process_page W c ctx (im_EventName m) ?md;
                   go_return (fst r, m\<lparr>im_EventData := Some (snd r)\<rparr>) })"
      using Some 3 by (auto simp: ProcessMessage_def)
    have run: "run_state (process_page W c ctx (im_EventName m) ?md) h =
     (let ts = sint (ed_RequestTimestamp ed); h1 = h @ [(Background, Now)]; h2 = h1 @ [(Background, Now)];
          hp = (if ts \<le> 0 then h else if export_event (im_EventName m) ed then h2 else h1) in
      if 0 < ts \<and> sint (duration_seconds (EventTimeout (co_cfg c))) < sint (clock1 W h) - ts
      then (((False, ''stale_request''), ?md), h1)
      else if 0 < ts \<and> export_event (im_EventName m) ed \<and> 7200 < sint (clock2 W h) - ts
      then (((False, ''export_xlsx_timeout''), ?md), h2)
      else case run_state (run_page W c ctx (enrich (im_EventName m) ?md)) hp of
             (r, h') \<Rightarrow> ((r, enrich (im_EventName m) ?md), h'))"
      using clock Some by (subst run_process_page) (simp_all add: msg_timestamp_def Let_def)
    have "classify (co_calcExportProducer c \<noteq> None) t a1 a2 m =
        (if other_pipeline ed then Skip
         else if 0 < sint (ed_RequestTimestamp ed) \<and> t < a1 then Stale
         else if 0 < sint (ed_RequestTimestamp ed) \<and> export_event (im_EventName m) ed \<and> 7200 < a2 then ExportTimeout
         else Page)" for t a1 a2
      using Some 3 by (auto simp: classify_def)
    then show ?thesis using Some
      by (simp add: pm run result_def verdict_outcome_def page_data_def page_hist_def msg_timestamp_def
          Let_def case_prod_beta)
  qed
qed

text \<open>Processing acknowledges exactly when it gives no reason, and the reasons are the four of the code.\<close>

definition dead_letter_reasons :: "string list" where
  "dead_letter_reasons = [''export_send_failed'', ''stale_request'', ''export_xlsx_timeout'', ''controller_error'']"

lemma result_bind_cases:
  "result (State_Monad.bind m f) h = result (f (result m h)) (snd (run_state m h))"
  by (simp add: result_def case_prod_beta)

lemma result_run_page:
  "result (run_page W c ctx ed) h \<in> {(True, ''''), (False, ''controller_error'')}"
  by (auto simp: run_page_def Let_def result_def split: prod.splits option.splits)

lemma result_process_page:
  "fst (result (process_page W c ctx n ed) h)
     \<in> {(True, ''''), (False, ''controller_error''), (False, ''stale_request''), (False, ''export_xlsx_timeout'')}"
  using result_run_page [of W c ctx "enrich n ed"]
  by (auto simp: process_page_def result_bind_cases split: if_splits)

lemma ProcessMessage_outcomes:
  "fst (result (ProcessMessage W c ctx m) h) \<in> insert (True, '''') (Pair False ` set dead_letter_reasons)"
  using result_process_page [of W c ctx "im_EventName m" _ h]
  by (auto simp: ProcessMessage_def result_bind_cases dead_letter_reasons_def split: option.splits)

end
