(* ===== verification/Worker.thy ===== *)
theory Worker
  imports Redis_Clients Kafka_Client
begin

text \<open>
  \<open>internal/dispatcher/worker.go\<close>: the worker that takes items from the sender queue and dispatches them to
  the live service, the Redis buffer, Kafka or a Redis output stream.

  \<open>sendSSEEvent\<close> reads \<open>msg.RoutingKey\<close>, a field \<open>OutgoingMessage\<close> does not declare (worker.go:124), so
  the expression has no meaning in the source; it is the parameter \<open>msgRoutingKey\<close> here.
\<close>

section \<open>The worker\<close>

text \<open>A \<open>KafkaOutputProducer\<close> is its one method.\<close>

type_synonym output_producer = "goctx \<Rightarrow> string \<Rightarrow> string \<Rightarrow> goerr option go"

record Worker =
  wk_cfg :: Config
  wk_broker :: "Broker option"
  wk_kafkaOut :: "output_producer option"

text \<open>A call through a nil broker panics.\<close>

datatype outcome = Returned | Panicked

definition NewWorker :: "Config \<Rightarrow> Broker option \<Rightarrow> Worker" where
  "NewWorker cfg broker = \<lparr>wk_cfg = cfg, wk_broker = broker, wk_kafkaOut = None\<rparr>"

definition SetKafkaOutput :: "Worker \<Rightarrow> output_producer \<Rightarrow> Worker" where
  "SetKafkaOutput w p = w\<lparr>wk_kafkaOut := Some p\<rparr>"

section \<open>Dispatching one item\<close>

definition sse_body :: "(OutgoingMessage \<Rightarrow> string) \<Rightarrow> OutgoingMessage \<Rightarrow> goval" where
  "sse_body msgRoutingKey msg =
     GMap (gmap_of
       ([(''eventName'', GStr (om_EventName msg)),
         (''eventData'', om_EventData msg),
         (''queue_name'', GStr (om_QueueName msg)),
         (''routing_key'', GStr (msgRoutingKey msg))]
        @ (if om_MonitorID msg \<noteq> '''' then [(''monitor_id'', GStr (om_MonitorID msg))] else [])
        @ (if om_DataSource msg \<noteq> '''' then [(''data_source'', GStr (om_DataSource msg))] else [])))"

definition sendSSEEvent :: "world \<Rightarrow> (OutgoingMessage \<Rightarrow> string) \<Rightarrow> Worker \<Rightarrow> goctx \<Rightarrow> OutgoingMessage \<Rightarrow> unit go" where
  "sendSSEEvent W msgRoutingKey w ctx msg =
     (let url = LiveServiceURL (wk_cfg w) @ ''/dispatcher/event'' in
      if LiveServiceURL (wk_cfg w) = '''' then go_return ()
      else
        let jsonBody = (case marshal (sse_body msgRoutingKey msg) of None \<Rightarrow> '''' | Some b \<Rightarrow> b) in do {
          err \<leftarrow> perform (w_err W) ctx (NewRequest url jsonBody);
          case err of
            Some e \<Rightarrow> go_return ()
          | None \<Rightarrow> do {
              _ \<leftarrow> perform (w_status W) ctx
                     (HttpDo url ''application/json'' jsonBody
                       (if AIAPIsTimeout (wk_cfg w) = 0 then seconds 60 else AIAPIsTimeout (wk_cfg w)));
              go_return ()
            }
        })"

definition dispatchToStream :: "world \<Rightarrow> Worker \<Rightarrow> goctx \<Rightarrow> string \<Rightarrow> OutgoingMessage \<Rightarrow> outcome go" where
  "dispatchToStream W w ctx routingKey msg =
     (case wk_broker w of
        None \<Rightarrow> go_return Panicked
      | Some b \<Rightarrow>
          (case marshal_OutgoingMessage msg of
             None \<Rightarrow> go_return Returned
           | Some payload \<Rightarrow> do {
               _ \<leftarrow> AddToStream W b ctx (OutputStreamName b routingKey)
                      (gmap_of [(''payload'', payload), (''eventName'', om_EventName msg),
                                (''routing_key'', routingKey)]);
               go_return Returned
             }))"

definition effective_routing_key :: "Worker \<Rightarrow> SenderQueueItemData \<Rightarrow> string" where
  "effective_routing_key w data =
     (if OverrideOutput (wk_cfg w) \<and> OverrideRoutingKey (wk_cfg w) \<noteq> ''''
      then OverrideRoutingKey (wk_cfg w) else sd_RoutingKey data)"

text \<open>From the message on: by stream technology, then Kafka, then the Redis stream.\<close>

definition dispatch_message ::
  "world \<Rightarrow> (OutgoingMessage \<Rightarrow> string) \<Rightarrow> Worker \<Rightarrow> goctx \<Rightarrow> string \<Rightarrow> OutgoingMessage \<Rightarrow> outcome go" where
  "dispatch_message W msgRoutingKey w ctx routingKey msg =
     (if om_StreamTech msg = ''SSE'' then do {
        _ \<leftarrow> sendSSEEvent W msgRoutingKey w ctx msg;
        go_return Returned
      }
      else if om_StreamTech msg = ''API'' then do {
        _ \<leftarrow> StoreDataInRedis W ctx routingKey (om_EventName msg) msg;
        go_return Returned
      }
      else if UseKafka (wk_cfg w) \<and> wk_kafkaOut w \<noteq> None then
        (case marshal_OutgoingMessage msg of
           None \<Rightarrow> go_return Returned
         | Some payload \<Rightarrow> do {
             _ \<leftarrow> the (wk_kafkaOut w) ctx routingKey payload;
             go_return Returned
           })
      else dispatchToStream W w ctx routingKey msg)"

definition handleItem ::
  "world \<Rightarrow> (OutgoingMessage \<Rightarrow> string) \<Rightarrow> Worker \<Rightarrow> goctx \<Rightarrow> SenderQueueItem option \<Rightarrow> outcome go" where
  "handleItem W msgRoutingKey w ctx item =
     (case item of
        None \<Rightarrow> go_return Returned
      | Some it \<Rightarrow>
          (case sq_Data it of
             None \<Rightarrow> go_return Returned
           | Some data \<Rightarrow>
               if sd_CompletionMarker data then do {
                 _ \<leftarrow> IncrementAndCheckCompletion W ctx (sd_RoutingKey data);
                 go_return Returned
               }
               else
                 (case sd_Message data of
                    None \<Rightarrow> go_return Returned
                  | Some msg \<Rightarrow>
                      dispatch_message W msgRoutingKey w ctx (effective_routing_key w data) msg)))"

section \<open>The loop\<close>

text \<open>Fuel for \<open>n\<close> iterations; \<open>None\<close> is "still running".\<close>

fun Worker_Run ::
  "nat \<Rightarrow> world \<Rightarrow> (OutgoingMessage \<Rightarrow> string) \<Rightarrow> Worker \<Rightarrow> goctx \<Rightarrow> outcome option go" where
  "Worker_Run 0 W msgRoutingKey w ctx = go_return None"
| "Worker_Run (Suc n) W msgRoutingKey w ctx = do {
     r \<leftarrow> perform (w_recv W) ctx ChanRecv;
     case r of
       RecvDone \<Rightarrow> go_return (Some Returned)
     | RecvClosed \<Rightarrow> go_return (Some Returned)
     | RecvItem item \<Rightarrow> do {
         o' \<leftarrow> handleItem W msgRoutingKey w ctx item;
         case o' of
           Panicked \<Rightarrow> go_return (Some Panicked)
         | Returned \<Rightarrow> Worker_Run n W msgRoutingKey w ctx
       }
   }"

section \<open>The message envelope\<close>

definition PrepareDataToFrontend ::
  "string \<Rightarrow> goval \<Rightarrow> string \<Rightarrow> string \<Rightarrow> EventData \<Rightarrow> Config option \<Rightarrow> OutgoingMessage" where
  "PrepareDataToFrontend eventName eventData routingKey queueName params cfg =
     (let msg = zero_OutgoingMessage\<lparr>
            om_EventName := eventName, om_EventData := eventData, om_QueueName := queueName,
            om_StreamTech := ed_StreamTech params, om_MonitorID := ed_MonitorID params,
            om_DataSource := ed_DataSource params, om_Language := ed_Language params\<rparr>
      in case cfg of
           None \<Rightarrow> msg
         | Some c \<Rightarrow> msg\<lparr>
             om_ProjectNameEN := WhitelabelProjectNameEN c,
             om_AIProductNameEN := WhitelabelAIProductNameEN c,
             om_ProjectNameAR := WhitelabelProjectNameAR c,
             om_AIProductNameAR := WhitelabelAIProductNameAR c,
             om_PoweredBy := WhitelabelPoweredBy c,
             om_LegalName := WhitelabelLegalName c,
             om_PoweredBySentence := WhitelabelPoweredBySentence c,
             om_DisclaimerAR := WhitelabelDisclaimerAR c,
             om_ContactEmail := WhitelabelContactEmail c,
             om_AIProductPPTLogo := WhitelabelAIProductPPTLogo c,
             om_AssumeResponsibility :=
               (if WhitelabelAssumeResponsibility c then Some (WhitelabelAssumeResponsibility c) else None)\<rparr>)"

section \<open>Where an item goes\<close>

text \<open>The specification of the dispatch: the one destination of an item, and the calls that reach it.\<close>

datatype destination = Dropped | LiveService string | Buffer string string string | Completion string
  | KafkaTopic string string | OutputStream string string string | Crash

definition message_destination :: "Worker \<Rightarrow> string \<Rightarrow> OutgoingMessage \<Rightarrow> destination" where
  "message_destination w rk msg =
     (if om_StreamTech msg = ''SSE'' then
        (if LiveServiceURL (wk_cfg w) = '''' then Dropped
         else LiveService (LiveServiceURL (wk_cfg w) @ ''/dispatcher/event''))
      else if om_StreamTech msg \<noteq> ''API'' \<and> \<not> (UseKafka (wk_cfg w) \<and> wk_kafkaOut w \<noteq> None)
              \<and> wk_broker w = None then Crash
      else
        (case marshal_OutgoingMessage msg of
           None \<Rightarrow> Dropped
         | Some payload \<Rightarrow>
             if om_StreamTech msg = ''API'' then
               Buffer (BufferKeyPrefix @ rk) (if om_EventName msg = '''' then ''payload'' else om_EventName msg) payload
             else if UseKafka (wk_cfg w) \<and> wk_kafkaOut w \<noteq> None then KafkaTopic rk payload
             else OutputStream (OutputStreamName (the (wk_broker w)) rk) rk payload))"

definition destination :: "Worker \<Rightarrow> SenderQueueItem option \<Rightarrow> destination" where
  "destination w item =
     (case Option.bind item sq_Data of
        None \<Rightarrow> Dropped
      | Some data \<Rightarrow>
          if sd_CompletionMarker data then Completion (sd_RoutingKey data)
          else (case sd_Message data of
                  None \<Rightarrow> Dropped
                | Some msg \<Rightarrow> message_destination w (effective_routing_key w data) msg))"

fun reaches :: "string \<Rightarrow> destination \<Rightarrow> call list \<Rightarrow> bool" where
  "reaches topic Dropped cs \<longleftrightarrow> cs = []"
| "reaches topic Crash cs \<longleftrightarrow> cs = []"
| "reaches topic (LiveService url) cs \<longleftrightarrow>
     (\<exists>body. cs = [NewRequest url body]
        \<or> (\<exists>timeout. timeout \<noteq> 0 \<and> cs = [NewRequest url body, HttpDo url ''application/json'' body timeout]))"
| "reaches topic (Buffer key field payload) cs \<longleftrightarrow>
     cs = [PipelineExec [HSet key field payload, Expire key BufferTTL]]"
| "reaches topic (Completion rk) cs \<longleftrightarrow>
     (let key = BufferKeyPrefix @ rk; incr = HIncrBy key ''__processed_count__'' 1; get = HGet key ''__meta__'' in
      cs = [incr] \<or> cs = [incr, get]
      \<or> cs = [incr, get, RedisSet (EventStatusPrefix @ rk) buffered_status EventStatusTTL])"
| "reaches topic (KafkaTopic rk payload) cs \<longleftrightarrow> cs = [KafkaWrite topic rk payload]"
| "reaches topic (OutputStream stream rk payload) cs \<longleftrightarrow>
     (\<exists>evname maxlen. cs = [XAdd stream
        (gmap_of [(''payload'', payload), (''eventName'', evname), (''routing_key'', rk)]) maxlen])"

lemma seconds_60_nonzero [simp]: "seconds 60 \<noteq> 0"
  by (simp add: seconds_def nanosecond_per_s_def)

lemma completion_reaches:
  "reaches topic (Completion rk) (map snd (trace (IncrementAndCheckCompletion W ctx rk) h))"
  by (auto simp: IncrementAndCheckCompletion_def trace_def Let_def split: sum.splits option.splits)

lemma completion_extends: "extends (IncrementAndCheckCompletion W ctx rk)"
  unfolding IncrementAndCheckCompletion_def Let_def by (intro emits_intro) auto

lemma sse_reaches:
  assumes "LiveServiceURL (wk_cfg w) \<noteq> ''''"
  shows "reaches topic (LiveService (LiveServiceURL (wk_cfg w) @ ''/dispatcher/event''))
           (map snd (trace (sendSSEEvent W rkf w ctx msg) h))"
  using assms by (auto simp: sendSSEEvent_def trace_def Let_def split: option.splits)

lemma sse_extends: "extends (sendSSEEvent W rkf w ctx msg)"
  unfolding sendSSEEvent_def Let_def by (intro emits_intro) auto

lemma backend_scoped:
  "emits_ev (in_scope ctx) (IncrementAndCheckCompletion W ctx rk)"
  "emits_ev (in_scope ctx) (StoreDataInRedis W ctx rk n msg)"
  unfolding IncrementAndCheckCompletion_def StoreDataInRedis_def Let_def by (intro emits_intro; simp)+

lemma sse_scoped: "emits_ev (in_scope ctx) (sendSSEEvent W rkf w ctx msg)"
  unfolding sendSSEEvent_def Let_def by (intro emits_intro) simp_all

lemma trace_then_return:
  "extends m \<Longrightarrow> trace (do { _ \<leftarrow> m; go_return x }) h = trace m h"
  "extends m \<Longrightarrow> result (do { _ \<leftarrow> m; go_return x }) h = x"
  by (simp_all add: trace_bind)

lemma store_extends: "extends (StoreDataInRedis W ctx rk n msg)"
  unfolding StoreDataInRedis_def Let_def by (intro emits_intro) auto

lemma store_trace:
  "trace (StoreDataInRedis W ctx rk n msg) h =
     (case marshal_OutgoingMessage msg of
        None \<Rightarrow> []
      | Some payload \<Rightarrow> [(ctx, PipelineExec [HSet (BufferKeyPrefix @ rk) (if n = '''' then ''payload'' else n) payload,
                              Expire (BufferKeyPrefix @ rk) BufferTTL])])"
  by (simp add: StoreDataInRedis_def split: option.split)

text \<open>The items a trace \<open>es\<close> after history \<open>h\<close> has received, as the world answered.\<close>

fun received :: "world \<Rightarrow> hist \<Rightarrow> hist \<Rightarrow> SenderQueueItem option list" where
  "received W h [] = []"
| "received W h (e # es) =
     (if snd e = ChanRecv then (case w_recv W (h @ [e]) of RecvItem item \<Rightarrow> [item] | _ \<Rightarrow> []) else [])
     @ received W (h @ [e]) es"

lemma received_append: "received W h (xs @ ys) = received W h xs @ received W (h @ xs) ys"
  by (induction W h xs rule: received.induct) simp_all

lemma reaches_no_recv: "reaches topic d cs \<Longrightarrow> list_all (\<lambda>c. c \<noteq> ChanRecv) cs"
  by (cases d) (auto simp: Let_def)

lemma received_quiet:
  assumes "list_all (\<lambda>c. c \<noteq> ChanRecv) (map snd es)"
  shows "received W h es = []" "filter (\<lambda>c. c \<noteq> ChanRecv) (map snd es) = map snd es"
  using assms by (induction es arbitrary: h) auto

locale worker =
  fixes W :: world and w :: Worker and topic :: string
  assumes kafkaOut_ok: "wk_kafkaOut w = Some p \<Longrightarrow> output_producer p topic"
begin

lemma kafkaOut_trace:
  "wk_kafkaOut w = Some p \<Longrightarrow> trace (p ctx rk payload) h = [(ctx, KafkaWrite topic rk payload)]"
  by (rule output_producer.produce_trace [OF kafkaOut_ok])

lemma kafkaOut_extends: "wk_kafkaOut w = Some p \<Longrightarrow> extends (p ctx rk payload)"
  by (rule output_producer.produce_emits [OF kafkaOut_ok]) auto

lemma dispatch_message_reaches:
  "reaches topic (message_destination w rk msg) (map snd (trace (dispatch_message W rkf w ctx rk msg) h))
   \<and> (result (dispatch_message W rkf w ctx rk msg) h = Panicked \<longleftrightarrow> message_destination w rk msg = Crash)"
proof (cases "om_StreamTech msg = ''SSE''")
  case True
  then have d: "dispatch_message W rkf w ctx rk msg =
      do { _ \<leftarrow> sendSSEEvent W rkf w ctx msg; go_return Returned }"
    by (simp add: dispatch_message_def)
  show ?thesis
  proof (cases "LiveServiceURL (wk_cfg w) = ''''")
    case True
    then show ?thesis using \<open>om_StreamTech msg = ''SSE''\<close>
      by (simp add: d message_destination_def trace_then_return sse_extends) (simp add: sendSSEEvent_def)
  next
    case False
    then show ?thesis using True sse_reaches [OF False]
      by (simp add: d message_destination_def trace_then_return sse_extends del: reaches.simps)
  qed
next
  case False
  consider "om_StreamTech msg = ''API''"
    | p where "om_StreamTech msg \<noteq> ''API''" "UseKafka (wk_cfg w)" "wk_kafkaOut w = Some p"
    | "om_StreamTech msg \<noteq> ''API''" "\<not> (UseKafka (wk_cfg w) \<and> wk_kafkaOut w \<noteq> None)"
    by blast
  then show ?thesis
  proof cases
    case 1
    then show ?thesis
      by (auto simp: dispatch_message_def message_destination_def trace_then_return store_extends store_trace
          split: option.splits)
  next
    case 2
    then show ?thesis using False
      by (auto simp: dispatch_message_def message_destination_def trace_then_return kafkaOut_trace
          kafkaOut_extends split: option.splits)
  next
    case 3
    then show ?thesis using False
      by (auto simp: dispatch_message_def message_destination_def dispatchToStream_def AddToStream_def
          trace_def result_def split: option.splits)
  qed
qed

lemma handleItem_reaches:
  "reaches topic (destination w item) (map snd (trace (handleItem W rkf w ctx item) h))
   \<and> (result (handleItem W rkf w ctx item) h = Panicked \<longleftrightarrow> destination w item = Crash)"
proof (cases "Option.bind item sq_Data")
  case None
  then show ?thesis by (auto simp: handleItem_def destination_def split: option.splits)
next
  case (Some data)
  then obtain it where it: "item = Some it" "sq_Data it = Some data"
    by (auto simp: bind_eq_Some_conv)
  show ?thesis
  proof (cases "sd_CompletionMarker data")
    case True
    then show ?thesis using it completion_reaches [of topic "sd_RoutingKey data" W ctx h]
      by (simp add: handleItem_def destination_def trace_then_return completion_extends del: reaches.simps)
  next
    case False
    then show ?thesis using it dispatch_message_reaches
      by (auto simp: handleItem_def destination_def split: option.splits)
  qed
qed

lemma dispatch_message_extends: "extends (dispatch_message W rkf w ctx rk msg)"
  unfolding dispatch_message_def dispatchToStream_def AddToStream_def
  by (intro emits_intro sse_extends store_extends) (auto intro: kafkaOut_extends)

lemma handleItem_extends: "extends (handleItem W rkf w ctx item)"
  unfolding handleItem_def by (intro emits_intro completion_extends dispatch_message_extends)

text \<open>Every call of the worker is under the context it got.\<close>

lemma handleItem_scoped: "emits_ev (in_scope ctx) (handleItem W rkf w ctx item)"
  unfolding handleItem_def dispatch_message_def dispatchToStream_def AddToStream_def
  by (intro emits_intro backend_scoped sse_scoped) (auto intro: output_producer.produce_emits [OF kafkaOut_ok])

lemma Worker_Run_scoped: "emits_ev (in_scope ctx) (Worker_Run n W rkf w ctx)"
proof (induction n)
  case (Suc n)
  have "emits_ev (in_scope ctx) (case r of RecvDone \<Rightarrow> go_return (Some Returned) | RecvClosed \<Rightarrow> go_return (Some Returned)
      | RecvItem item \<Rightarrow> do { o' \<leftarrow> handleItem W rkf w ctx item;
          case o' of Panicked \<Rightarrow> go_return (Some Panicked) | Returned \<Rightarrow> Worker_Run n W rkf w ctx })" for r
    using Suc by (cases r) (auto intro!: emits_bind handleItem_scoped split: outcome.split)
  then show ?case by (simp add: emits_bind emits_perform)
qed simp

text \<open>The loop dispatches every item it receives, once and in order.\<close>

lemma Worker_Run_dispatches:
  "\<exists>r es segs. run_state (Worker_Run n W rkf w ctx) h = (r, h @ es)
     \<and> filter (\<lambda>c. c \<noteq> ChanRecv) (map snd es) = concat segs
     \<and> list_all2 (\<lambda>item cs. reaches topic (destination w item) cs) (received W h es) segs"
proof (induction n arbitrary: h)
  case 0
  show ?case by (intro exI [of _ None] exI [of _ "[]"]) simp
next
  case (Suc n)
  let ?recv = "(ctx, ChanRecv)"
  let ?h1 = "h @ [?recv]"
  show ?case
  proof (cases "w_recv W ?h1")
    case (RecvItem item)
    obtain o' es where es: "run_state (handleItem W rkf w ctx item) ?h1 = (o', ?h1 @ es)"
        "trace (handleItem W rkf w ctx item) ?h1 = es"
      using handleItem_extends by (rule emitsE)
    have reach: "reaches topic (destination w item) (map snd es)"
      using handleItem_reaches [of item rkf ctx ?h1] es by simp
    note quiet = reaches_no_recv [OF reach]
    show ?thesis
    proof (cases o')
      case Panicked
      then show ?thesis using RecvItem es reach quiet
        by (intro exI [of _ "Some Panicked"] exI [of _ "?recv # es"] exI [of _ "[map snd es]"])
          (simp add: received_quiet)
    next
      case Returned
      obtain r es' segs where rest: "run_state (Worker_Run n W rkf w ctx) (?h1 @ es) = (r, (?h1 @ es) @ es')"
          "filter (\<lambda>c. c \<noteq> ChanRecv) (map snd es') = concat segs"
          "list_all2 (\<lambda>item cs. reaches topic (destination w item) cs) (received W (?h1 @ es) es') segs"
        using Suc by blast
      then show ?thesis using Returned RecvItem es reach quiet
        by (intro exI [of _ r] exI [of _ "?recv # es @ es'"] exI [of _ "map snd es # segs"])
          (simp add: received_quiet received_append)
    qed
  qed (auto intro!: exI [of _ "Some Returned"] exI [of _ "[?recv]"])
qed

end

lemma Worker_Run_no_panic:
  assumes "\<And>item h. result (handleItem W rkf w ctx item) h \<noteq> Panicked"
  shows "result (Worker_Run n W rkf w ctx) h \<noteq> Some Panicked"
proof (induction n arbitrary: h)
  case 0
  show ?case by simp
next
  case (Suc n)
  have "fst (run_state (handleItem W rkf w ctx item) h) = Returned" for item h
    using assms [of item h] by (cases "fst (run_state (handleItem W rkf w ctx item) h)") (simp_all add: result_def)
  then show ?case using Suc
    by (auto simp: result_def case_prod_beta split: recv.split outcome.split)
qed

end
