(* ===== verification/System.thy ===== *)
theory System
  imports Consumer Worker
begin

text \<open>
  \<open>cmd/consumer/main.go\<close>: the wiring of the components and the start of the process, up to the point where
  the two goroutines run.  The interfaces of the components are interpreted here on what the program
  puts behind them.
\<close>

section \<open>Wiring\<close>

definition main_consumer :: "world \<Rightarrow> Config \<Rightarrow> Broker option \<Rightarrow> KafkaClient option \<Rightarrow> Consumer" where
  "main_consumer W cfg broker kafka =
     (let cons = NewConsumer cfg broker (stub_registry (StubStrategy_CallPageData W))
      in case kafka of
           None \<Rightarrow> cons
         | Some kc \<Rightarrow> SetCalcExportProducer cons (SendDataFetcher W kc))"

definition main_worker :: "world \<Rightarrow> Config \<Rightarrow> Broker option \<Rightarrow> KafkaClient option \<Rightarrow> Worker" where
  "main_worker W cfg broker kafka =
     (let pubWorker = NewWorker cfg broker
      in case kafka of
           None \<Rightarrow> pubWorker
         | Some kc \<Rightarrow> SetKafkaOutput pubWorker (ProduceOutput W kc))"

text \<open>The process that runs after a successful start.\<close>

record Process =
  pr_cfg :: Config
  pr_broker :: "Broker option"
  pr_backend :: BackendRedis
  pr_kafka :: "KafkaClient option"

text \<open>\<open>Inl 1\<close> is \<open>os.Exit(1)\<close>.\<close>

definition start_broker :: "world \<Rightarrow> Config \<Rightarrow> (nat + Broker option) go" where
  "start_broker W cfg = do {
     r \<leftarrow> NewBroker W cfg;
     go_return (case r of
       Inr b \<Rightarrow> Inr (Some b)
     | Inl e \<Rightarrow> if \<not> UseKafka cfg then Inl 1 else Inr None)
   }"

definition main_start :: "world \<Rightarrow> (string \<Rightarrow> string) \<Rightarrow> (nat + Process) go" where
  "main_start W env =
     (let cfg = fst (Load env) in
      if snd (Load env) \<noteq> None then go_return (Inl 1)
      else do {
        rb \<leftarrow> start_broker W cfg;
        case rb of
          Inl n \<Rightarrow> go_return (Inl n)
        | Inr broker \<Rightarrow> do {
            r \<leftarrow> NewBackendRedis W cfg;
            go_return (case r of
              Inl e \<Rightarrow> Inl 1
            | Inr backend \<Rightarrow> Inr \<lparr>pr_cfg = cfg, pr_broker = broker, pr_backend = backend,
                pr_kafka = (if UseKafka cfg then Some (NewClient cfg) else None)\<rparr>)
          }
      })"

definition process_consumer :: "world \<Rightarrow> Process \<Rightarrow> Consumer" where
  "process_consumer W p = main_consumer W (pr_cfg p) (pr_broker p) (pr_kafka p)"

definition process_worker :: "world \<Rightarrow> Process \<Rightarrow> Worker" where
  "process_worker W p = main_worker W (pr_cfg p) (pr_broker p) (pr_kafka p)"

text \<open>The Kafka loop drops the message \<open>ProcessMessage\<close> has mutated.\<close>

definition kafka_process :: "world \<Rightarrow> Consumer \<Rightarrow> process_fun" where
  "kafka_process W c ctx m = do { r \<leftarrow> ProcessMessage W c ctx m; go_return (fst r) }"

text \<open>The consuming goroutine with fuel for \<open>n\<close> iterations.\<close>

definition main_consume :: "nat \<Rightarrow> world \<Rightarrow> Process \<Rightarrow> goctx \<Rightarrow> goerr option option go" where
  "main_consume n W p ctx =
     (case pr_kafka p of
        Some kc \<Rightarrow> do {
          r \<leftarrow> RunConsumer n W kc (kafka_process W (process_consumer W p)) ctx;
          go_return (map_option Some r)
        }
      | None \<Rightarrow> Consumer_Run n W (process_consumer W p) ctx)"

text \<open>
  What runs after the signal: the deferred closes, last deferred first.  The goroutines are only cancelled, not
  awaited.
\<close>

definition main_shutdown :: "world \<Rightarrow> Process \<Rightarrow> unit go" where
  "main_shutdown W p = do {
     _ \<leftarrow> (if pr_kafka p \<noteq> None then Client_Close W else go_return None);
     _ \<leftarrow> BackendRedis_Close W;
     _ \<leftarrow> (if pr_broker p \<noteq> None then Broker_Close W else go_return None);
     go_return ()
   }"

text \<open>
  The body of the consuming goroutine: an error that is not that of the context is logged, which \<open>True\<close> stands for.
\<close>

definition consume_goroutine :: "nat \<Rightarrow> world \<Rightarrow> Process \<Rightarrow> goctx \<Rightarrow> bool option go" where
  "consume_goroutine n W p ctx = do {
     r \<leftarrow> main_consume n W p ctx;
     case r of
       None \<Rightarrow> go_return None
     | Some err \<Rightarrow>
         (case err of
            None \<Rightarrow> go_return (Some False)
          | Some e \<Rightarrow> do {
              d \<leftarrow> perform (w_done W) ctx CtxPoll;
              go_return (Some (d = None))
            })
   }"

text \<open>The handler of the default logger.\<close>

datatype log_handler = JSONHandler | TextHandler

definition initLogger :: "Config \<Rightarrow> log_handler" where
  "initLogger cfg = (if LogFmt cfg then JSONHandler else TextHandler)"

section \<open>The interfaces on the program's components\<close>

lemma main_consumer_simps [simp]:
  "co_cfg (main_consumer W cfg b k) = cfg"
  "co_broker (main_consumer W cfg b k) = b"
  "co_ctrl (main_consumer W cfg b k) = stub_registry (StubStrategy_CallPageData W)"
  "co_calcExportProducer (main_consumer W cfg b k) = map_option (SendDataFetcher W) k"
  by (simp_all add: main_consumer_def NewConsumer_def SetCalcExportProducer_def split: option.split)

lemma main_worker_simps [simp]:
  "wk_cfg (main_worker W cfg b k) = cfg"
  "wk_broker (main_worker W cfg b k) = b"
  "wk_kafkaOut (main_worker W cfg b k) = map_option (ProduceOutput W) k"
  by (simp_all add: main_worker_def NewWorker_def SetKafkaOutput_def split: option.split)

interpretation main: consumer W "main_consumer W cfg b k" for W cfg b k
proof (rule consumer.intro)
  show "controller (co_ctrl (main_consumer W cfg b k))"
    using stubs.controller_axioms by simp
  show "consumer_axioms (main_consumer W cfg b k)"
    by (rule consumer_axioms.intro) (auto intro: fetcher.export_producer_axioms)
qed

text \<open>The topic matters only where there is a client.\<close>

definition output_topic :: "KafkaClient option \<Rightarrow> string" where
  "output_topic k = (case k of None \<Rightarrow> '''' | Some kc \<Rightarrow> kc_writerTopic kc)"

interpretation main_wk: worker W "main_worker W cfg b k" "output_topic k" for W cfg b k
  by (rule worker.intro) (auto simp: output_topic_def intro: staci_output.output_producer_axioms)

lemma kafka_process_silent: "emits silent_call (kafka_process W (main_consumer W cfg b k) ctx m)"
  unfolding kafka_process_def by (intro emits_intro main.ProcessMessage_silent)

lemma kafka_process_scoped: "emits_ev (in_scope ctx) (kafka_process W (main_consumer W cfg b k) ctx m)"
  unfolding kafka_process_def by (intro emits_intro main.ProcessMessage_scoped)

lemma kafka_process_covers: "covers (kafka_process W (main_consumer W cfg b k) ctx m)"
  unfolding kafka_process_def by (intro covers_intro main.ProcessMessage_covers)

interpretation main_proc: message_processor "kafka_process W (main_consumer W cfg b k)" for W cfg b k
  by unfold_locales (rule kafka_process_silent, rule kafka_process_scoped, rule kafka_process_covers)

text \<open>No marker overtakes its widgets in the queue, whichever loop fills it.\<close>

lemma main_consume_covers: "covers (main_consume n W p ctx)"
  unfolding main_consume_def process_consumer_def
  by (intro covers_intro main_proc.RunConsumer_covers main.Consumer_Run_covers)

text \<open>Both goroutines work under the context of the process, so cancelling it reaches every call.\<close>

lemma main_consume_scoped: "emits_ev (in_scope ctx) (main_consume n W p ctx)"
  unfolding main_consume_def process_consumer_def
  by (intro emits_intro main_proc.RunConsumer_scoped main.Consumer_Run_scoped)

lemma main_worker_scoped: "emits_ev (in_scope ctx) (Worker_Run n W rkf (process_worker W p) ctx)"
  unfolding process_worker_def by (rule main_wk.Worker_Run_scoped)

section \<open>Running a page\<close>

text \<open>The one item the controller queues for a request: the stub's widget or the placeholder.\<close>

definition stub_found :: "EventData \<Rightarrow> bool" where
  "stub_found ed \<longleftrightarrow>
     List.member stub_keys (strategyKey (ed_Product ed) (selected_page ed) (ed_PageAlertNotification ed))
     \<or> List.member stub_keys (selected_page ed)"

definition page_item :: "EventData \<Rightarrow> SenderQueueItem" where
  "page_item ed = (if stub_found ed then stub_item ed else placeholder_item ed (selected_page ed))"

lemma Controller_Run_stubs:
  "Controller_Run W (stub_registry (StubStrategy_CallPageData W)) ctx (Some ed) = select_send W ctx (page_item ed)"
  by (simp add: Controller_Run_def Get_stub_registry page_item_def stub_found_def StubStrategy_CallPageData_def)

text \<open>The calls and the result of a page, by the answers of the two selects.\<close>

lemma run_page_main:
  "run_state (run_page W (main_consumer W cfg b k) ctx ed) h =
     (let rc = WithTimeout ctx (EventTimeout cfg);
          h1 = (if api_stream ed
                then h @ [(rc, RedisSet (EventStatusPrefix @ ed_RoutingKey ed)
                                 ''PROCESSING_EVENT_IN_PUBLISHER_CONTROLLER'' (seconds 20))] else h);
          h2 = h1 @ [(rc, ChanSelect (page_item ed))];
          h3 = h2 @ [(rc, ChanSend (page_item ed))];
          marker = completion_item (ed_RoutingKey ed);
          h4 = h3 @ [(rc, ChanSelect marker)]
      in if w_send W h2 \<noteq> None then ((False, ''controller_error''), h2)
         else if \<not> api_stream ed then ((True, ''''), h3)
         else ((True, ''''), if w_send W h4 = None then h4 @ [(rc, ChanSend marker)] else h4))"
  by (auto simp: run_page_def Controller_Run_stubs run_select_send UpdateEventStatus_def split: option.split)

section \<open>Pages with and without a strategy\<close>

lemma stub_key_mem: "List.member stub_pages p \<Longrightarrow> List.member stub_keys p"
  by (simp add: stub_keys_def)

lemma stub_found_page:
  "ed_Product ed \<noteq> ''Alerts'' \<or> ed_PageAlertNotification ed = '''' \<Longrightarrow> List.member stub_pages (ed_PageName ed) \<Longrightarrow> stub_found ed"
  using stub_key_mem [of "ed_PageName ed"] stub_key_mem [of "''Default''"]
  by (auto simp: stub_found_def selected_page_def stub_pages_def)

text \<open>The events whose page the enrichment fixes.\<close>

definition fixed_pages :: "(string \<times> string) list" where
  "fixed_pages =
     [(''interactions'', ''ResearchInteractionsPage''), (''insights'', ''ResearchInsightsPage''),
      (''chats_page_data'', ''ResearchChatsPage''), (''chats_interactions'', ''ResearchChatsInteractionsPage''),
      (''fedi_private_data'', ''ResearchSingleDataSourceInsightsPage''),
      (''fedi_private_interactions'', ''ResearchSingleDataSourceInteractionsPage''),
      (''cdp_profile_interactions'', ''CDPProfileInteractionsPage''),
      (''survey_insights_go_dispatcher'', ''SurveyPage''),
      (''survey_individual_questions_insights_go_dispatcher'', ''SurveyIndividualQuestionsInsightsPage''),
      (''engagements_notes_go_dispatcher'', ''EngagementsNotesPage''),
      (''engagements_analytics_go_dispatcher'', ''EngagementAnalyticsPage''),
      (''engagements_single_interaction_dm_history'', ''EngagementsSingleInteractionDMHistoryPage''),
      (''engagements_survey_feedback_go_dispatcher'', ''EngagementSurveyFeedbackPage''),
      (''single_interaction_go_dispatcher'', ''SingleInteractionPage''),
      (''csat_questions_responses_count'', ''FulfillmentQuestionsResponsesCountPage''),
      (''csat_question_responses'', ''FulfillmentQuestionResponsesPage''),
      (''csat_user_responses'', ''FulfillmentUserResponsesPage'')]"

lemma enrich_fixed:
  "ed_PageName (enrich ''interactions'' ed) = ''ResearchInteractionsPage''" "ed_Product (enrich ''interactions'' ed) = ed_Product ed"
  "ed_PageName (enrich ''insights'' ed) = ''ResearchInsightsPage''" "ed_Product (enrich ''insights'' ed) = ed_Product ed"
  "ed_PageName (enrich ''chats_page_data'' ed) = ''ResearchChatsPage''" "ed_Product (enrich ''chats_page_data'' ed) = ed_Product ed"
  "ed_PageName (enrich ''chats_interactions'' ed) = ''ResearchChatsInteractionsPage''" "ed_Product (enrich ''chats_interactions'' ed) = ed_Product ed"
  "ed_PageName (enrich ''fedi_private_data'' ed) = ''ResearchSingleDataSourceInsightsPage''" "ed_Product (enrich ''fedi_private_data'' ed) = ed_Product ed"
  "ed_PageName (enrich ''fedi_private_interactions'' ed) = ''ResearchSingleDataSourceInteractionsPage''" "ed_Product (enrich ''fedi_private_interactions'' ed) = ed_Product ed"
  "ed_PageName (enrich ''cdp_profile_interactions'' ed) = ''CDPProfileInteractionsPage''" "ed_Product (enrich ''cdp_profile_interactions'' ed) = ed_Product ed"
  "ed_PageName (enrich ''survey_insights_go_dispatcher'' ed) = ''SurveyPage''" "ed_Product (enrich ''survey_insights_go_dispatcher'' ed) = ed_Product ed"
  "ed_PageName (enrich ''survey_individual_questions_insights_go_dispatcher'' ed) = ''SurveyIndividualQuestionsInsightsPage''" "ed_Product (enrich ''survey_individual_questions_insights_go_dispatcher'' ed) = ed_Product ed"
  "ed_PageName (enrich ''engagements_notes_go_dispatcher'' ed) = ''EngagementsNotesPage''" "ed_Product (enrich ''engagements_notes_go_dispatcher'' ed) = ed_Product ed"
  "ed_PageName (enrich ''engagements_analytics_go_dispatcher'' ed) = ''EngagementAnalyticsPage''" "ed_Product (enrich ''engagements_analytics_go_dispatcher'' ed) = ed_Product ed"
  "ed_PageName (enrich ''engagements_single_interaction_dm_history'' ed) = ''EngagementsSingleInteractionDMHistoryPage''" "ed_Product (enrich ''engagements_single_interaction_dm_history'' ed) = ed_Product ed"
  "ed_PageName (enrich ''engagements_survey_feedback_go_dispatcher'' ed) = ''EngagementSurveyFeedbackPage''" "ed_Product (enrich ''engagements_survey_feedback_go_dispatcher'' ed) = ed_Product ed"
  "ed_PageName (enrich ''single_interaction_go_dispatcher'' ed) = ''SingleInteractionPage''" "ed_Product (enrich ''single_interaction_go_dispatcher'' ed) = ed_Product ed"
  "ed_PageName (enrich ''csat_questions_responses_count'' ed) = ''FulfillmentQuestionsResponsesCountPage''" "ed_Product (enrich ''csat_questions_responses_count'' ed) = ed_Product ed"
  "ed_PageName (enrich ''csat_question_responses'' ed) = ''FulfillmentQuestionResponsesPage''" "ed_Product (enrich ''csat_question_responses'' ed) = ed_Product ed"
  "ed_PageName (enrich ''csat_user_responses'' ed) = ''FulfillmentUserResponsesPage''" "ed_Product (enrich ''csat_user_responses'' ed) = ed_Product ed"
  by (simp_all add: enrich_def)

lemma fixed_pages_enrich:
  "list_all (\<lambda>(n, p). ed_PageName (enrich n ed) = p \<and> ed_Product (enrich n ed) = ed_Product ed) fixed_pages"
  by (simp add: fixed_pages_def enrich_fixed)

lemma fixed_pages_stubs: "list_all (\<lambda>(n, p). List.member stub_pages p) fixed_pages"
  by code_simp

lemma list_all_mem: "list_all P xs \<Longrightarrow> x \<in> set xs \<Longrightarrow> P x"
  by (simp add: list_all_iff)

lemma fixed_event_found:
  assumes "List.member (map fst fixed_pages) n"
    and "ed_Product ed \<noteq> ''Alerts'' \<or> ed_PageAlertNotification ed = ''''"
  shows "stub_found (enrich n ed)"
proof -
  obtain p where "(n, p) \<in> set fixed_pages" using assms(1) by auto
  from list_all_mem [OF fixed_pages_enrich [of ed] this] list_all_mem [OF fixed_pages_stubs this]
  have "ed_PageName (enrich n ed) = p" "ed_Product (enrich n ed) = ed_Product ed" "List.member stub_pages p"
    by simp_all
  then show ?thesis using assms(2) by (intro stub_found_page) simp_all
qed

lemma no_stub_alert:
  assumes "ed_Product ed = ''Alerts''" "List.member stub_alerts (ed_PageAlertNotification ed)"
  shows "\<not> stub_found ed" "selected_page ed = ed_PageAlertNotification ed"
proof -
  have ne: "ed_PageAlertNotification ed \<noteq> ''''" using assms(2) by (auto simp: stub_alerts_def)
  then show page: "selected_page ed = ed_PageAlertNotification ed" using assms(1) by (simp add: selected_page_def)
  have "list_all (\<lambda>a. \<not> List.member stub_keys a) stub_alerts" by code_simp
  then have "\<not> List.member stub_keys (ed_PageAlertNotification ed)"
    by (rule list_all_mem) (use assms(2) in simp)
  then show "\<not> stub_found ed"
    using alert_key_unregistered [OF ne] page by (simp add: stub_found_def)
qed

section \<open>The started process\<close>

lemma main_start_Inr:
  assumes "result (main_start W env) h = Inr p"
  shows "pr_cfg p = load_config env \<and> validate (load_config env) = None
    \<and> (pr_kafka p = (if UseKafka (load_config env) then Some (NewClient (load_config env)) else None))
    \<and> (\<not> UseKafka (load_config env) \<longrightarrow> pr_broker p = Some \<lparr>br_cfg = load_config env\<rparr>)"
  using assms
  by (auto simp: main_start_def start_broker_def NewBroker_def NewBackendRedis_def result_def
      split: if_splits option.splits sum.splits)

lemma main_consume_returns:
  assumes "result (main_start W0 env) h0 = Inr p"
    and "result (main_consume n W p ctx) h = Some r"
  shows "\<exists>e. r = Some e \<and> (w_done W (h @ trace (main_consume n W p ctx) h) = Some e
    \<or> \<not> UseKafka (pr_cfg p) \<and> error_text e \<noteq> ''BUSYGROUP Consumer Group name already exists''
      \<and> w_err W (h @ [(ctx, XGroupCreateMkStream (DispatcherInputStream (pr_cfg p))
           (DispatcherConsumerGroup (pr_cfg p)) ''$'')]) = Some e)"
proof (cases "pr_kafka p")
  case (Some kc)
  let ?run = "RunConsumer n W kc (kafka_process W (process_consumer W p)) ctx"
  have run: "main_consume n W p ctx = do { r \<leftarrow> ?run; go_return (map_option Some r) }"
    using Some by (simp add: main_consume_def)
  have "emits_ev (in_scope ctx) ?run"
    unfolding process_consumer_def by (rule main_proc.RunConsumer_scoped)
  note same = trace_map [OF this, of "map_option Some" h]
  have "result ?run h = Some e \<Longrightarrow> w_done W (h @ trace ?run h) = Some e" for e
    unfolding process_consumer_def RunConsumer_def by (rule main_proc.loop.loop_error)
  then show ?thesis using assms(2) same unfolding run by auto
next
  case None
  then obtain b where "\<not> UseKafka (pr_cfg p)" "pr_broker p = Some b"
    using main_start_Inr [OF assms(1)] by (auto split: if_splits)
  then show ?thesis
    using main.Consumer_Run_returns [of W "pr_cfg p" "pr_broker p" "pr_kafka p" b n ctx h r] assms(2) None
    by (simp add: main_consume_def process_consumer_def)
qed

text \<open>Where a context that is done stays done, only a missing consumer group is ever reported.\<close>

lemma consume_goroutine_reports:
  assumes "result (main_start W0 env) h0 = Inr p"
    and stays: "\<And>h1 h2. w_done W h1 \<noteq> None \<Longrightarrow> w_done W (h1 @ h2) \<noteq> None"
    and "result (consume_goroutine n W p ctx) h = Some True"
  shows "\<not> UseKafka (pr_cfg p) \<and> w_err W (h @ [(ctx, XGroupCreateMkStream (DispatcherInputStream (pr_cfg p))
      (DispatcherConsumerGroup (pr_cfg p)) ''$'')]) \<noteq> None"
proof -
  obtain r es where run: "run_state (main_consume n W p ctx) h = (r, h @ es)"
      "result (main_consume n W p ctx) h = r" "trace (main_consume n W p ctx) h = es"
    using main_consume_scoped by (rule emitsE)
  from assms(3) run(1) obtain e where e: "r = Some (Some e)" "w_done W (h @ es @ [(ctx, CtxPoll)]) = None"
    by (auto simp: consume_goroutine_def result_def split: option.splits)
  then have "w_done W (h @ es) \<noteq> Some e"
    using stays [of "h @ es" "[(ctx, CtxPoll)]"] by auto
  then show ?thesis
    using main_consume_returns [OF assms(1), of n W ctx h "Some e"] run e(1) by auto
qed

lemma started_not_crash:
  assumes "result (main_start W env) h = Inr p"
  shows "destination (process_worker W p) item \<noteq> Crash"
  using main_start_Inr [OF assms]
  by (auto simp: destination_def message_destination_def process_worker_def split: option.splits if_splits)

text \<open>Every item of the consumer can be encoded.\<close>

lemma goval_json_GMap:
  "goval_json (GMap m) = map_option JObj (those (map (\<lambda>kv. map_option (Pair (fst kv)) (goval_json (snd kv))) m))"
  by simp

lemma marshal_stub: "\<exists>s. marshal_OutgoingMessage (zero_OutgoingMessage\<lparr>om_EventName := n,
    om_EventData := GMap (gmap_of [(''placeholder'', GBool True), (''page'', GStr g), (''routing_key'', GStr r)]),
    om_QueueName := q, om_StreamTech := t\<rparr>) = Some s"
  by (simp add: marshal_OutgoingMessage_def OutgoingMessage_json_def zero_OutgoingMessage_def gmap_of_def)

lemma marshal_placeholder: "\<exists>s. marshal_OutgoingMessage (zero_OutgoingMessage\<lparr>om_EventName := n,
    om_EventData := GMap (gmap_of [(''status'', GStr a), (''page'', GStr g)])\<rparr>) = Some s"
  by (simp add: marshal_OutgoingMessage_def OutgoingMessage_json_def zero_OutgoingMessage_def gmap_of_def)

end
