(* ===== verification/Sender_Queue.thy ===== *)
theory Sender_Queue
  imports System
begin

text \<open>
  The sender queue (\<open>senderCh\<close>, consumer.go:44): the buffered Go channel between the consuming goroutine and
  the worker, as a step relation over the interleavings of the two.  A send needs a free slot, a receive a
  queued item; a select may give up its send at any time, since its context may be done.  The section on the
  two goroutines ties the labels of a run to what the program's fragments send and receive.
\<close>

section \<open>A buffered channel\<close>

record 'a chan =
  ch_buf :: "'a list"
  ch_cap :: nat

definition make_chan :: "nat \<Rightarrow> 'a chan" where
  "make_chan n = \<lparr>ch_buf = [], ch_cap = n\<rparr>"

text \<open>\<open>None\<close>: the operation would block.\<close>

definition chan_send :: "'a \<Rightarrow> 'a chan \<Rightarrow> 'a chan option" where
  "chan_send x q = (if length (ch_buf q) < ch_cap q then Some (q\<lparr>ch_buf := ch_buf q @ [x]\<rparr>) else None)"

definition chan_recv :: "'a chan \<Rightarrow> ('a \<times> 'a chan) option" where
  "chan_recv q = (case ch_buf q of [] \<Rightarrow> None | x # xs \<Rightarrow> Some (x, q\<lparr>ch_buf := xs\<rparr>))"

section \<open>Interface: a bounded queue\<close>

locale bounded_queue =
  fixes items :: "'q \<Rightarrow> 'a list" and cap :: "'q \<Rightarrow> nat"
    and enq :: "'a \<Rightarrow> 'q \<Rightarrow> 'q option" and deq :: "'q \<Rightarrow> ('a \<times> 'q) option"
  assumes enq_iff: "enq x q \<noteq> None \<longleftrightarrow> length (items q) < cap q"
    and enq_items: "enq x q = Some q' \<Longrightarrow> items q' = items q @ [x] \<and> cap q' = cap q"
    and deq_iff: "deq q \<noteq> None \<longleftrightarrow> items q \<noteq> []"
    and deq_items: "deq q = Some (x, q') \<Longrightarrow> items q = x # items q' \<and> cap q' = cap q"
begin

lemma enq_bounded: "enq x q = Some q' \<Longrightarrow> length (items q') \<le> cap q'"
  using enq_iff [of x q] enq_items [of x q q'] by auto

lemma deq_bounded: "deq q = Some (x, q') \<Longrightarrow> length (items q) \<le> cap q \<Longrightarrow> length (items q') \<le> cap q'"
  using deq_items [of q x q'] by simp

text \<open>Unless the queue has no capacity at all, one of its two ends can move.\<close>

lemma not_stuck: "0 < cap q \<Longrightarrow> enq x q \<noteq> None \<or> deq q \<noteq> None"
  using enq_iff [of x q] deq_iff [of q] by auto

end

interpretation chan: bounded_queue ch_buf ch_cap chan_send chan_recv
  by unfold_locales (auto simp: chan_send_def chan_recv_def split: list.splits if_splits)

section \<open>Runs\<close>

datatype 'a queue_label = Sent 'a | Taken 'a | GaveUp 'a

inductive queue_step :: "'a chan \<Rightarrow> 'a queue_label \<Rightarrow> 'a chan \<Rightarrow> bool" where
  step_sent: "chan_send x q = Some q' \<Longrightarrow> queue_step q (Sent x) q'"
| step_taken: "chan_recv q = Some (x, q') \<Longrightarrow> queue_step q (Taken x) q'"
| step_gave_up: "queue_step q (GaveUp x) q"

inductive_cases queue_step_SentE [elim!]: "queue_step q (Sent x) q'"
inductive_cases queue_step_TakenE [elim!]: "queue_step q (Taken x) q'"
inductive_cases queue_step_GaveUpE [elim!]: "queue_step q (GaveUp x) q'"

inductive_simps queue_step_simps:
  "queue_step q (Sent x) q'" "queue_step q (Taken x) q'" "queue_step q (GaveUp x) q'"

text \<open>The steps from a state can be enumerated by evaluation.\<close>

code_pred queue_step .

inductive queue_run :: "'a chan \<Rightarrow> 'a queue_label list \<Rightarrow> 'a chan \<Rightarrow> bool" where
  run_Nil [intro!]: "queue_run q [] q"
| run_Cons: "queue_step q l q1 \<Longrightarrow> queue_run q1 ls q' \<Longrightarrow> queue_run q (l # ls) q'"

inductive_simps queue_run_simps [simp]: "queue_run q [] q'" "queue_run q (l # ls) q'"

definition sent :: "'a queue_label list \<Rightarrow> 'a list" where
  "sent ls = concat (map (\<lambda>l. case l of Sent x \<Rightarrow> [x] | _ \<Rightarrow> []) ls)"

definition taken :: "'a queue_label list \<Rightarrow> 'a list" where
  "taken ls = concat (map (\<lambda>l. case l of Taken x \<Rightarrow> [x] | _ \<Rightarrow> []) ls)"

lemma sent_taken_simps [simp]:
  "sent [] = []" "taken [] = []"
  "sent (Sent x # ls) = x # sent ls" "sent (Taken x # ls) = sent ls" "sent (GaveUp x # ls) = sent ls"
  "taken (Sent x # ls) = taken ls" "taken (Taken x # ls) = x # taken ls" "taken (GaveUp x # ls) = taken ls"
  by (simp_all add: sent_def taken_def)

text \<open>First in, first out, across any interleaving, and never more than the capacity in the queue.\<close>

lemma queue_step_fifo:
  assumes "queue_step q l q'"
  shows "ch_buf q @ sent [l] = taken [l] @ ch_buf q'" "ch_cap q' = ch_cap q"
    "length (ch_buf q) \<le> ch_cap q \<Longrightarrow> length (ch_buf q') \<le> ch_cap q'"
  using assms
  by (cases rule: queue_step.cases;
      force dest: chan.enq_items chan.deq_items chan.enq_bounded chan.deq_bounded)+

lemma sent_taken_Cons: "sent (l # ls) = sent [l] @ sent ls" "taken (l # ls) = taken [l] @ taken ls"
  by (simp_all add: sent_def taken_def)

lemma queue_run_fifo: "queue_run q ls q' \<Longrightarrow> ch_buf q @ sent ls = taken ls @ ch_buf q' \<and> ch_cap q' = ch_cap q"
proof (induction rule: queue_run.induct)
  case (run_Cons q l q1 ls q')
  have "ch_buf q @ sent (l # ls) = (ch_buf q @ sent [l]) @ sent ls" by (subst sent_taken_Cons) simp
  also have "\<dots> = taken (l # ls) @ ch_buf q'"
    using run_Cons queue_step_fifo(1) [OF run_Cons(1)] by (subst sent_taken_Cons) simp
  finally show ?case using run_Cons queue_step_fifo(2) by simp
qed simp

lemma queue_run_bounded:
  "queue_run q ls q' \<Longrightarrow> length (ch_buf q) \<le> ch_cap q \<Longrightarrow> length (ch_buf q') \<le> ch_cap q'"
  by (induction rule: queue_run.induct) (auto dest: queue_step_fifo(3))

lemma make_chan_run:
  assumes "queue_run (make_chan n) ls q"
  shows "sent ls = taken ls @ ch_buf q" "length (ch_buf q) \<le> n"
  using queue_run_fifo [OF assms] queue_run_bounded [OF assms] by (simp_all add: make_chan_def)

end
