(* ===== verification/Completion.thy ===== *)
theory Completion
  imports Sender_Queue
begin

text \<open>
  The completion protocol of the stream technology \<open>API\<close>, across consumer, queue, worker and Redis: the worker counts
  every marker in the buffer hash of its routing key and sets the event status to buffered when the counter has
  reached the total the frontend has left there.  Redis is not modelled; what it promises of the counter and of
  the total is a hypothesis of each lemma.
\<close>

section \<open>The calls of the protocol\<close>

definition counter_incr :: "string \<Rightarrow> call" where
  "counter_incr rk = HIncrBy (BufferKeyPrefix @ rk) ''__processed_count__'' 1"

definition meta_get :: "string \<Rightarrow> call" where
  "meta_get rk = HGet (BufferKeyPrefix @ rk) ''__meta__''"

definition status_set :: "string \<Rightarrow> call" where
  "status_set rk = RedisSet (EventStatusPrefix @ rk) buffered_status EventStatusTTL"

lemmas protocol_defs = counter_incr_def meta_get_def status_set_def

definition incrs :: "string \<Rightarrow> hist \<Rightarrow> nat" where
  "incrs rk es = length (filter (\<lambda>e. snd e = counter_incr rk) es)"

lemma incrs_simps [simp]:
  "incrs rk [] = 0" "incrs rk (xs @ ys) = incrs rk xs + incrs rk ys"
  "incrs rk (e # es) = (if snd e = counter_incr rk then 1 else 0) + incrs rk es"
  by (simp_all add: incrs_def)

lemma protocol_inj [simp]:
  "counter_incr rk = counter_incr rk' \<longleftrightarrow> rk = rk'" "status_set rk = status_set rk' \<longleftrightarrow> rk = rk'"
  "counter_incr rk \<noteq> ChanRecv" "status_set rk \<noteq> ChanRecv" "ChanRecv \<noteq> status_set rk"
  "ChanRecv \<noteq> counter_incr rk" "meta_get rk \<noteq> ChanRecv"
  "counter_incr rk \<noteq> status_set rk'" "status_set rk' \<noteq> counter_incr rk"
  "meta_get rk \<noteq> status_set rk'" "status_set rk' \<noteq> meta_get rk"
  "counter_incr rk \<noteq> meta_get rk'" "meta_get rk' \<noteq> counter_incr rk"
  by (simp_all add: protocol_defs)

text \<open>What counting a marker does, call by call.\<close>

lemma completion_trace:
  "trace (IncrementAndCheckCompletion W ctx rk) h =
     (ctx, counter_incr rk) #
     (case w_int W (h @ [(ctx, counter_incr rk)]) of
        Inl _ \<Rightarrow> []
      | Inr n \<Rightarrow> (ctx, meta_get rk) #
          (case w_str W (h @ [(ctx, counter_incr rk), (ctx, meta_get rk)]) of
             Inl _ \<Rightarrow> []
           | Inr meta \<Rightarrow>
               (case unmarshal_total_messages meta of
                  None \<Rightarrow> []
                | Some t \<Rightarrow> if sint t \<le> sint n then [(ctx, status_set rk)] else [])))"
  by (simp add: IncrementAndCheckCompletion_def trace_def protocol_defs Let_def
      split: sum.split option.split)

section \<open>One item\<close>

definition marks :: "string \<Rightarrow> SenderQueueItem option \<Rightarrow> bool" where
  "marks rk item = (case item of None \<Rightarrow> False | Some i \<Rightarrow> marker_of rk i)"

lemma marks_destination: "marks rk item \<longleftrightarrow> destination w item = Completion rk"
proof -
  have "message_destination w k m \<noteq> Completion rk" for k m
    by (auto simp: message_destination_def split: option.split)
  then show ?thesis
    by (cases item; auto simp: marks_def marker_of_def destination_def split: option.split)
qed

lemma handleItem_marker:
  "marks rk item \<Longrightarrow>
     trace (handleItem W rkf w ctx item) h = trace (IncrementAndCheckCompletion W ctx rk) h
   \<and> result (handleItem W rkf w ctx item) h = Returned"
  by (auto simp: marks_def marker_of_def handleItem_def trace_then_return completion_extends
      split: option.splits)

context worker
begin

text \<open>An item that is not a marker for the key makes no call of its protocol.\<close>

lemma handleItem_no_marker:
  assumes "\<not> marks rk item"
  shows "counter_incr rk \<notin> snd ` set (trace (handleItem W rkf w ctx item) h)"
    and "status_set rk \<notin> snd ` set (trace (handleItem W rkf w ctx item) h)"
proof -
  let ?cs = "map snd (trace (handleItem W rkf w ctx item) h)"
  have r: "reaches topic (destination w item) ?cs" using handleItem_reaches by blast
  have "destination w item \<noteq> Completion rk" using assms marks_destination by blast
  with r have "counter_incr rk \<notin> set ?cs \<and> status_set rk \<notin> set ?cs"
    by (cases "destination w item") (auto simp: protocol_defs Let_def)
  then show "counter_incr rk \<notin> snd ` set (trace (handleItem W rkf w ctx item) h)"
    "status_set rk \<notin> snd ` set (trace (handleItem W rkf w ctx item) h)" by simp_all
qed

lemma handleItem_incrs:
  "incrs rk (trace (handleItem W rkf w ctx item) h) = (if marks rk item then 1 else 0)"
proof (cases "marks rk item")
  case True
  then show ?thesis
    by (simp add: handleItem_marker completion_trace split: sum.split option.split)
next
  case False
  then show ?thesis
    using handleItem_no_marker(1) [of rk item rkf ctx h] by (force simp: incrs_def filter_empty_conv)
qed

text \<open>The status is set by the last of the three calls for a marker, when the counter has reached the total.\<close>

lemma handleItem_status:
  assumes "trace (handleItem W rkf w ctx item) h = pre @ (c, status_set rk) # suf"
  shows "marks rk item \<and> pre = [(ctx, counter_incr rk), (ctx, meta_get rk)] \<and> suf = []
    \<and> (\<exists>n meta t. w_int W (h @ [(ctx, counter_incr rk)]) = Inr n \<and> w_str W (h @ pre) = Inr meta
         \<and> unmarshal_total_messages meta = Some t \<and> sint t \<le> sint n)"
proof -
  have m: "marks rk item"
    using handleItem_no_marker(2) [of rk item rkf ctx h] assms by force
  then show ?thesis using assms
    by (auto simp: handleItem_marker completion_trace Cons_eq_append_conv
        split: sum.splits option.splits if_splits)
qed

section \<open>The worker loop\<close>

lemma Worker_Run_trace:
  "trace (Worker_Run (Suc n) W rkf w ctx) h =
     (ctx, ChanRecv) #
     (let h1 = h @ [(ctx, ChanRecv)] in
      case w_recv W h1 of
        RecvItem item \<Rightarrow>
          let es = trace (handleItem W rkf w ctx item) h1 in
          es @ (if result (handleItem W rkf w ctx item) h1 = Panicked then []
                else trace (Worker_Run n W rkf w ctx) (h1 @ es))
      | _ \<Rightarrow> [])"
proof (cases "w_recv W (h @ [(ctx, ChanRecv)])")
  case (RecvItem item)
  let ?h1 = "h @ [(ctx, ChanRecv)]"
  obtain o' es where es: "run_state (handleItem W rkf w ctx item) ?h1 = (o', ?h1 @ es)"
      "result (handleItem W rkf w ctx item) ?h1 = o'" "trace (handleItem W rkf w ctx item) ?h1 = es"
    using handleItem_extends by (rule emitsE)
  obtain r es' where "run_state (Worker_Run n W rkf w ctx) (?h1 @ es) = (r, (?h1 @ es) @ es')"
      "trace (Worker_Run n W rkf w ctx) (?h1 @ es) = es'"
    using emits_extends [OF Worker_Run_scoped] by (rule emitsE)
  with RecvItem es show ?thesis
    by (cases o') (simp_all, simp_all add: trace_def)
qed (simp_all add: trace_def)

declare Worker_Run.simps(2) [simp del]

text \<open>
  When the status is set, the item being handled is a marker, every item received before it has been dispatched,
  and the counter has been incremented once for each marker among them.
\<close>

lemma Worker_Run_status:
  assumes "trace (Worker_Run n W rkf w ctx) h = pre @ (c, status_set rk) # suf"
  shows "\<exists>pre0 items marker segs k meta t.
      pre = pre0 @ [(ctx, counter_incr rk), (ctx, meta_get rk)]
    \<and> received W h pre = items @ [marker] \<and> marks rk marker
    \<and> filter (\<lambda>c. c \<noteq> ChanRecv) (map snd pre0) = concat segs
    \<and> list_all2 (\<lambda>item cs. reaches topic (destination w item) cs) items segs
    \<and> incrs rk pre0 = length (filter (marks rk) items)
    \<and> w_int W (h @ pre0 @ [(ctx, counter_incr rk)]) = Inr k \<and> w_str W (h @ pre) = Inr meta
    \<and> unmarshal_total_messages meta = Some t \<and> sint t \<le> sint k"
  using assms
proof (induction n arbitrary: h pre)
  case (Suc n)
  let ?recv = "(ctx, ChanRecv)"
  let ?h1 = "h @ [?recv]"
  obtain pre' where pre: "pre = ?recv # pre'"
    using Suc.prems by (cases pre) (auto simp: Worker_Run_trace)
  obtain item where item: "w_recv W ?h1 = RecvItem item"
    using Suc.prems pre by (cases "w_recv W ?h1") (auto simp: Worker_Run_trace)
  let ?es = "trace (handleItem W rkf w ctx item) ?h1"
  let ?rest = "if result (handleItem W rkf w ctx item) ?h1 = Panicked then []
                else trace (Worker_Run n W rkf w ctx) (?h1 @ ?es)"
  have reach: "reaches topic (destination w item) (map snd ?es)"
    using handleItem_reaches [of item rkf ctx ?h1] by blast
  note quiet = received_quiet [OF reaches_no_recv [OF reach]]
  have "?es @ ?rest = pre' @ (c, status_set rk) # suf"
    using Suc.prems pre item by (simp add: Worker_Run_trace Let_def)
  then consider us where "?es = pre' @ (c, status_set rk) # us"
    | us where "pre' = ?es @ us" "?rest = us @ (c, status_set rk) # suf"
    by (fastforce simp: append_eq_append_conv2 Cons_eq_append_conv append_eq_Cons_conv)
  then show ?case
  proof cases
    case 1
    from handleItem_status [OF 1] obtain k meta t where
      p: "marks rk item" "pre' = [(ctx, counter_incr rk), (ctx, meta_get rk)]"
        "w_int W (?h1 @ [(ctx, counter_incr rk)]) = Inr k" "w_str W (?h1 @ pre') = Inr meta"
        "unmarshal_total_messages meta = Some t" "sint t \<le> sint k"
      by blast
    then show ?thesis using pre item
      by - (rule exI [of _ "[?recv]"], rule exI [of _ "[]"], rule exI [of _ item], rule exI [of _ "[]"],
          rule exI [of _ k], rule exI [of _ meta], rule exI [of _ t], simp)
  next
    case 2
    then have "trace (Worker_Run n W rkf w ctx) (?h1 @ ?es) = us @ (c, status_set rk) # suf"
      by (auto split: if_splits)
    from Suc.IH [OF this] obtain pre0 items marker segs k meta t where
      p: "us = pre0 @ [(ctx, counter_incr rk), (ctx, meta_get rk)]"
        "received W (?h1 @ ?es) us = items @ [marker]" "marks rk marker"
        "filter (\<lambda>c. c \<noteq> ChanRecv) (map snd pre0) = concat segs"
        "list_all2 (\<lambda>item cs. reaches topic (destination w item) cs) items segs"
        "incrs rk pre0 = length (filter (marks rk) items)"
        "w_int W ((?h1 @ ?es) @ pre0 @ [(ctx, counter_incr rk)]) = Inr k" "w_str W ((?h1 @ ?es) @ us) = Inr meta"
        "unmarshal_total_messages meta = Some t" "sint t \<le> sint k"
      by blast
    show ?thesis
      using p pre item reach 2(1) quiet handleItem_incrs [of rk rkf ctx item ?h1]
      by - (rule exI [of _ "?recv # ?es @ pre0"], rule exI [of _ "item # items"], rule exI [of _ marker],
          rule exI [of _ "map snd ?es # segs"], rule exI [of _ k], rule exI [of _ meta], rule exI [of _ t],
          simp add: received_append)
  qed
qed simp

text \<open>
  Where the counter counts and the total is there, the status is set once as many markers have been received as the
  total says.
\<close>

lemma Worker_Run_reaches_total:
  assumes counts: "\<And>h' c. w_int W (h' @ [(c, counter_incr rk)]) = Inr (of_nat (Suc (incrs rk h')))"
    and total_read: "\<And>h' c. \<exists>meta. w_str W (h' @ [(c, meta_get rk)]) = Inr meta
      \<and> unmarshal_total_messages meta = Some total_msgs"
  shows "int (incrs rk h) < sint total_msgs \<Longrightarrow>
    sint total_msgs \<le> int (incrs rk h + length (filter (marks rk) (received W h (trace (Worker_Run n W rkf w ctx) h)))) \<Longrightarrow>
    status_set rk \<in> snd ` set (trace (Worker_Run n W rkf w ctx) h)"
proof (induction n arbitrary: h)
  case (Suc n)
  let ?h1 = "h @ [(ctx, ChanRecv)]"
  show ?case
  proof (cases "w_recv W ?h1")
    case (RecvItem item)
    let ?es = "trace (handleItem W rkf w ctx item) ?h1"
    have reach: "reaches topic (destination w item) (map snd ?es)"
      using handleItem_reaches [of item rkf ctx ?h1] by blast
    note quiet = received_quiet [OF reaches_no_recv [OF reach]]
    note incrs = handleItem_incrs [of rk rkf ctx item ?h1]
    show ?thesis
    proof (cases "marks rk item \<and> int (Suc (incrs rk h)) = sint total_msgs")
      case True
      then have "(of_int (int (Suc (incrs rk h))) :: i64) = of_int (sint total_msgs)"
        by (simp only:)
      then have "of_nat (Suc (incrs rk h)) = total_msgs"
        by (simp only: of_int_of_nat_eq of_int_sint scast_id)
      then have "w_int W (?h1 @ [(ctx, counter_incr rk)]) = Inr total_msgs"
        using counts [of ?h1 ctx] by simp
      then have "status_set rk \<in> snd ` set ?es"
        using True total_read [of "?h1 @ [(ctx, counter_incr rk)]" ctx]
        by (auto simp: handleItem_marker completion_trace)
      then show ?thesis using RecvItem by (auto simp: Worker_Run_trace Let_def)
    next
      case False
      let ?h2 = "?h1 @ ?es"
      show ?thesis
      proof (cases "result (handleItem W rkf w ctx item) ?h1 = Panicked")
        case True
        then show ?thesis using Suc.prems False RecvItem quiet
          by (auto simp: Worker_Run_trace handleItem_marker split: if_splits)
      next
        case not_panicked: False
        have "int (incrs rk ?h2) < sint total_msgs"
          using False Suc.prems(1) incrs by (auto split: if_splits)
        moreover have "sint total_msgs
            \<le> int (incrs rk ?h2 + length (filter (marks rk) (received W ?h2 (trace (Worker_Run n W rkf w ctx) ?h2))))"
          using Suc.prems(2) RecvItem not_panicked quiet incrs
          by (simp add: Worker_Run_trace received_append Let_def split: if_splits)
        ultimately have "status_set rk \<in> snd ` set (trace (Worker_Run n W rkf w ctx) ?h2)"
          by (rule Suc.IH)
        then show ?thesis using RecvItem not_panicked by (auto simp: Worker_Run_trace Let_def)
      qed
    qed
  qed (use Suc.prems in \<open>simp_all add: Worker_Run_trace\<close>)
qed simp

end

end
