(* ===== verification/Json_Roundtrip.thy ===== *)
theory Json_Roundtrip
  imports Go_Values
begin

text \<open>
  Parsing undoes printing, for a tree whose numbers are number literals, nested at most 10000 deep: what is read
  back is the tree with every byte that is not part of valid UTF-8 replaced by U+FFFD (\<open>coerce_json\<close>), so
  \<open>json_parse (json_text v) = Some v\<close> where the strings are valid.
\<close>

section \<open>Strings\<close>

declare scan_string.simps(2) [simp del] utf8_len.simps(2) [simp del] quote_chars.simps(2) [simp del]
  unquote.simps(2) [simp del]

fun valid_utf8 :: "string \<Rightarrow> bool" where
  "valid_utf8 [] \<longleftrightarrow> True"
| "valid_utf8 (c # cs) \<longleftrightarrow> utf8_len (c # cs) \<noteq> 0 \<and> valid_utf8 (drop (utf8_len (c # cs) - 1) cs)"

text \<open>What the encoder makes of a string: the bytes outside valid UTF-8 are replaced.\<close>

fun coerce_utf8 :: "string \<Rightarrow> string" where
  "coerce_utf8 [] = []"
| "coerce_utf8 (c # cs) =
     (if utf8_len (c # cs) = 0 then replacement @ coerce_utf8 cs
      else take (utf8_len (c # cs)) (c # cs) @ coerce_utf8 (drop (utf8_len (c # cs) - 1) cs))"

declare coerce_utf8.simps(2) [simp del]

lemma byte_simps [simp]: "byte dquote = (34::nat)" "byte bslash = (92::nat)"
  by simp_all

lemma hex_val_hex_char [simp]: "n < 16 \<Longrightarrow> hex_val (hex_char n) = Some n"
  by (auto simp: hex_val_def hex_char_def is_digit_def)

definition plain :: "char \<Rightarrow> bool" where
  "plain c \<longleftrightarrow> c \<noteq> dquote \<and> c \<noteq> bslash \<and> (0x20::nat) \<le> byte c"

abbreviation prefix_scan :: "string \<Rightarrow> (string \<times> string) option \<Rightarrow> (string \<times> string) option" where
  "prefix_scan p x \<equiv> map_option (\<lambda>(a, r). (p @ a, r)) x"

lemma prefix_scan_twice [simp]: "prefix_scan p (prefix_scan q x) = prefix_scan (p @ q) x"
  by (cases x) auto

lemma scan_quote [simp]: "scan_string (dquote # r) = Some ([], r)"
  by (simp add: scan_string.simps(2))

lemma scan_plain: "list_all plain p \<Longrightarrow> scan_string (p @ r) = prefix_scan p (scan_string r)"
proof (induction p)
  case Nil
  then show ?case by (cases "scan_string r") auto
next
  case (Cons c p)
  then have "scan_string ((c # p) @ r) = prefix_scan [c] (scan_string (p @ r))"
    by (simp add: plain_def scan_string.simps(2))
  with Cons show ?case by (cases "scan_string r") auto
qed

lemma scan_u:
  assumes "list_all (\<lambda>h. hex_val h \<noteq> None) [a, b, c, d]"
  shows "scan_string (bslash # CHR ''u'' # a # b # c # d # r)
    = prefix_scan [bslash, CHR ''u'', a, b, c, d] (scan_string r)"
proof -
  have "\<not> simple_escape CHR ''u''" by (simp add: simple_escape_def)
  then show ?thesis using assms
    by (subst scan_string.simps(2)) (cases "scan_string r"; simp)
qed

lemma scan_escape:
  "simple_escape e \<Longrightarrow> scan_string (bslash # e # r) = prefix_scan [bslash, e] (scan_string r)"
  by (subst scan_string.simps(2)) (cases "scan_string r"; simp)

lemma hex_digits_simps [simp]:
  "hex_val CHR ''0'' = Some 0" "hex_val CHR ''2'' = Some 2" "hex_val CHR ''8'' = Some 8" "hex_val CHR ''9'' = Some 9"
  "hex_val CHR ''f'' = Some 15" "hex_val CHR ''d'' = Some 13"
  by (simp_all add: hex_val_def is_digit_def)

lemma quote_ascii_cases:
  assumes "byte c < (0x80::nat)"
  obtains (escape) e where "quote_ascii c = [bslash, e]" "simple_escape e" "unescape e = c" "e \<noteq> CHR ''u''"
  | (code) "quote_ascii c = [bslash, CHR ''u'', CHR ''0'', CHR ''0'', hex_char (byte c div 16), hex_char (byte c mod 16)]"
  | (literal) "quote_ascii c = [c]" "plain c"
proof -
  have same: "char_of (byte c :: nat) = c" by simp
  consider "c = dquote \<or> c = bslash" | "List.member [8, 12, 10, 13, 9] (byte c :: nat)"
    | "c \<noteq> dquote" "c \<noteq> bslash" "\<not> List.member [8, 12, 10, 13, 9] (byte c :: nat)"
    by blast
  then show thesis
  proof cases
    case 1
    then have "quote_ascii c = [bslash, c]" "simple_escape c" "unescape c = c" "c \<noteq> CHR ''u''"
      by (auto simp: quote_ascii_def simple_escape_def unescape_def)
    then show thesis by (rule escape)
  next
    case 2
    then have cs: "c = char_of (8::nat) \<or> c = char_of (12::nat) \<or> c = char_of (10::nat)
        \<or> c = char_of (13::nat) \<or> c = char_of (9::nat)"
      by (simp, metis same)
    have "\<exists>e. quote_ascii c = [bslash, e] \<and> simple_escape e \<and> unescape e = c \<and> e \<noteq> CHR ''u''"
      using cs
      by (elim disjE) (simp_all add: quote_ascii_def simple_escape_def unescape_def char_of_def bit_Suc_0_iff)
    then show thesis using escape by blast
  next
    case 3
    show thesis
    proof (cases "byte c < (0x20::nat) \<or> c = CHR ''<'' \<or> c = CHR ''>'' \<or> c = CHR ''&''")
      case True
      with 3 show thesis by (intro code) (auto simp: quote_ascii_def)
    next
      case False
      with 3 have "quote_ascii c = [c]" "plain c"
        by (auto simp: quote_ascii_def plain_def)
      then show thesis by (rule literal)
    qed
  qed
qed

lemma scan_quote_ascii:
  assumes "byte c < (0x80::nat)"
  shows "scan_string (quote_ascii c @ r) = prefix_scan (quote_ascii c) (scan_string r)"
  using assms
proof (cases rule: quote_ascii_cases)
  case (escape e)
  then show ?thesis by (simp add: scan_escape)
next
  case code
  have "byte c div 16 < (16::nat)" "byte c mod 16 < (16::nat)" using assms by auto
  with code show ?thesis
    using scan_u [of "CHR ''0''" "CHR ''0''" "hex_char (byte c div 16)" "hex_char (byte c mod 16)" r] by simp
next
  case literal
  then show ?thesis using scan_plain [of "[c]" r] by simp
qed

lemma cont_plain: "cont c \<Longrightarrow> plain c"
  by (auto simp: cont_def plain_def)

text \<open>A rune outside ASCII: a lead byte and continuation bytes, which alone determine its length.\<close>

lemma utf8_rune:
  assumes "(0x80::nat) \<le> byte c" "utf8_len (c # cs) \<noteq> 0"
  shows "\<exists>bs t. cs = bs @ t \<and> bs \<noteq> [] \<and> list_all cont bs \<and> (\<forall>t'. utf8_len (c # bs @ t') = Suc (length bs))"
proof -
  define n :: nat where "n = byte c"
  have len: "utf8_len (c # s) =
     (if 0xC2 \<le> n \<and> n \<le> 0xDF then (case s of b # _ \<Rightarrow> if cont b then 2 else 0 | _ \<Rightarrow> 0)
      else if 0xE0 \<le> n \<and> n \<le> 0xEF then
        (case s of b # c # _ \<Rightarrow>
           if cont b \<and> cont c \<and> (n = 0xE0 \<longrightarrow> 0xA0 \<le> byte b) \<and> (n = 0xED \<longrightarrow> byte b \<le> 0x9F)
           then 3 else 0 | _ \<Rightarrow> 0)
      else if 0xF0 \<le> n \<and> n \<le> 0xF4 then
        (case s of b # c # d # _ \<Rightarrow>
           if cont b \<and> cont c \<and> cont d \<and> (n = 0xF0 \<longrightarrow> 0x90 \<le> byte b) \<and> (n = 0xF4 \<longrightarrow> byte b \<le> 0x8F)
           then 4 else 0 | _ \<Rightarrow> 0)
      else 0)" for s
    unfolding n_def using assms(1) by (simp add: utf8_len.simps(2))
  consider "0xC2 \<le> n \<and> n \<le> 0xDF" | "0xE0 \<le> n \<and> n \<le> 0xEF" | "0xF0 \<le> n \<and> n \<le> 0xF4"
    using assms(2) by (auto simp: len split: if_splits)
  then show ?thesis
  proof cases
    case 1
    then obtain b t where "cs = [b] @ t" "cont b"
      using assms(2) by (auto simp: len split: list.splits if_splits)
    with 1 show ?thesis by (intro exI [of _ "[b]"] exI [of _ t]) (simp add: len)
  next
    case 2
    then obtain b d t where bd: "cs = [b, d] @ t" "cont b" "cont d"
        "n = 0xE0 \<longrightarrow> 0xA0 \<le> (byte b :: nat)" "n = 0xED \<longrightarrow> (byte b :: nat) \<le> 0x9F"
      using assms(2) by (auto simp: len split: list.splits if_splits)
    with 2 show ?thesis by (intro exI [of _ "[b, d]"] exI [of _ t]) (simp add: len)
  next
    case 3
    then obtain b d e t where bd: "cs = [b, d, e] @ t" "cont b" "cont d" "cont e"
        "n = 0xF0 \<longrightarrow> 0x90 \<le> (byte b :: nat)" "n = 0xF4 \<longrightarrow> (byte b :: nat) \<le> 0x8F"
      using assms(2) by (auto simp: len split: list.splits if_splits)
    with 3 show ?thesis by (intro exI [of _ "[b, d, e]"] exI [of _ t]) (simp add: len)
  qed
qed

lemma lead_plain: "(0x80::nat) \<le> byte c \<Longrightarrow> plain c"
  by (auto simp: plain_def)

lemma conts_plain: "list_all cont bs \<Longrightarrow> list_all plain bs"
  by (auto simp: list_all_iff cont_plain)

lemma quote_rune_scan:
  assumes "list_all plain p"
  shows "scan_string (quote_rune p @ r) = prefix_scan (quote_rune p) (scan_string r)"
  unfolding quote_rune_def
  using scan_plain [OF assms, of r] scan_u [of "CHR ''2''" "CHR ''0''" "CHR ''2''" _ r]
  by simp

text \<open>Quoting a string, one rune at a time.\<close>

lemma quote_chars_ascii: "byte c < (0x80::nat) \<Longrightarrow> quote_chars (c # cs) = quote_ascii c @ quote_chars cs"
  by (simp add: quote_chars.simps(2))

lemma quote_chars_invalid:
  "(0x80::nat) \<le> byte c \<Longrightarrow> utf8_len (c # cs) = 0 \<Longrightarrow>
   quote_chars (c # cs) = [bslash, CHR ''u'', CHR ''f'', CHR ''f'', CHR ''f'', CHR ''d''] @ quote_chars cs"
  by (simp add: quote_chars.simps(2))

lemma quote_chars_rune:
  assumes "(0x80::nat) \<le> byte c" "utf8_len (c # cs) \<noteq> 0"
  obtains bs t where "cs = bs @ t" "list_all cont bs" "\<And>t'. utf8_len (c # bs @ t') = Suc (length bs)"
    "quote_chars (c # cs) = quote_rune (c # bs) @ quote_chars t"
proof -
  obtain bs t where bs: "cs = bs @ t" "list_all cont bs" "\<forall>t'. utf8_len (c # bs @ t') = Suc (length bs)"
    using utf8_rune [OF assms] by blast
  have "quote_chars (c # cs) = quote_rune (c # bs) @ quote_chars t"
    using assms bs by (subst quote_chars.simps(2)) simp
  with bs that show thesis by blast
qed

lemma scan_quote_chars: "scan_string (quote_chars s @ dquote # r) = Some (quote_chars s, r)"
proof (induction s rule: length_induct)
  case (1 s)
  show ?case
  proof (cases s)
    case Nil
    then show ?thesis by simp
  next
    case (Cons c cs)
    consider "byte c < (0x80::nat)" | "(0x80::nat) \<le> byte c" "utf8_len (c # cs) = 0"
      | "(0x80::nat) \<le> byte c" "utf8_len (c # cs) \<noteq> 0"
      by linarith
    then show ?thesis
    proof cases
      case 1
      then show ?thesis using "1.IH" Cons by (simp add: scan_quote_ascii quote_chars_ascii)
    next
      case 2
      then show ?thesis
        using "1.IH" Cons scan_u [of "CHR ''f''" "CHR ''f''" "CHR ''f''" "CHR ''d''" "quote_chars cs @ dquote # r"]
        by (simp add: quote_chars_invalid)
    next
      case 3
      then obtain bs t where q: "cs = bs @ t" "list_all cont bs" "quote_chars (c # cs) = quote_rune (c # bs) @ quote_chars t"
        by (rule quote_chars_rune)
      have "list_all plain (c # bs)" using 3 q lead_plain conts_plain by simp
      then show ?thesis using "1.IH" Cons q
        by (simp add: quote_rune_scan)
    qed
  qed
qed

text \<open>Unquoting what was quoted.\<close>

lemma unquote_escape: "e \<noteq> CHR ''u'' \<Longrightarrow> unquote (bslash # e # r) = unescape e # unquote r"
  by (simp add: unquote.simps(2))

lemma unquote_u:
  assumes "hex4 [a, b, c, d] < 0xD800 \<or> 0xE000 \<le> hex4 [a, b, c, d]"
  shows "unquote (bslash # CHR ''u'' # a # b # c # d # r) = utf8_encode (hex4 [a, b, c, d]) @ unquote r"
proof -
  have "hex4 (a # b # c # d # r) = hex4 [a, b, c, d]" by (simp add: hex4_def)
  then show ?thesis using assms by (auto simp: unquote.simps(2))
qed

lemma unquote_ascii: "byte c < (0x80::nat) \<Longrightarrow> c \<noteq> bslash \<Longrightarrow> unquote (c # r) = c # unquote r"
  by (simp add: unquote.simps(2) utf8_len.simps(2))

lemma unquote_rune:
  assumes "(0x80::nat) \<le> byte c" "utf8_len (c # bs @ r) = Suc (length bs)"
  shows "unquote (c # bs @ r) = c # bs @ unquote r"
  using assms by (auto simp: unquote.simps(2))

lemma hex4_code: "hex4 [CHR ''0'', CHR ''0'', hex_char (n div 16), hex_char (n mod 16)] = n" if "n < 256"
  using that by (simp add: hex4_def)

lemma utf8_encode_ascii: "byte c < (0x80::nat) \<Longrightarrow> utf8_encode (byte c) = [c]"
  by (simp add: utf8_encode_def)

lemma unquote_quote_ascii:
  assumes "byte c < (0x80::nat)"
  shows "unquote (quote_ascii c @ r) = c # unquote r"
  using assms
proof (cases rule: quote_ascii_cases)
  case (escape e)
  then show ?thesis by (simp add: unquote_escape)
next
  case code
  then show ?thesis using assms hex4_code [of "byte c"]
    by (simp add: unquote_u utf8_encode_ascii)
next
  case literal
  then show ?thesis using assms by (simp add: unquote_ascii plain_def)
qed

lemma unquote_quote_rune:
  assumes "(0x80::nat) \<le> byte c" "utf8_len (c # bs @ r) = Suc (length bs)"
  shows "unquote (quote_rune (c # bs) @ r) = c # bs @ unquote r"
proof -
  have bytes: "map byte (c # bs) = (ns :: nat list) \<Longrightarrow> map char_of ns = c # bs" for ns
    by (auto simp: comp_def)
  have u: "unquote (bslash # CHR ''u'' # CHR ''2'' # CHR ''0'' # CHR ''2'' # CHR ''8'' # r)
        = map char_of [0xE2, 0x80, 0xA8 :: nat] @ unquote r"
    "unquote (bslash # CHR ''u'' # CHR ''2'' # CHR ''0'' # CHR ''2'' # CHR ''9'' # r)
        = map char_of [0xE2, 0x80, 0xA9 :: nat] @ unquote r"
    by (subst unquote_u; simp add: hex4_def utf8_encode_def)+
  consider "map byte (c # bs) = [0xE2, 0x80, 0xA8 :: nat]" | "map byte (c # bs) = [0xE2, 0x80, 0xA9 :: nat]"
    | "quote_rune (c # bs) = c # bs"
    unfolding quote_rune_def by metis
  then show ?thesis
  proof cases
    case 1
    then have "unquote (quote_rune (c # bs) @ r) = map char_of [0xE2, 0x80, 0xA8 :: nat] @ unquote r"
      unfolding quote_rune_def using u by simp
    with bytes [OF 1] show ?thesis by simp
  next
    case 2
    then have "unquote (quote_rune (c # bs) @ r) = map char_of [0xE2, 0x80, 0xA9 :: nat] @ unquote r"
      unfolding quote_rune_def using u by simp
    with bytes [OF 2] show ?thesis by simp
  next
    case 3
    then show ?thesis using unquote_rune [OF assms] by simp
  qed
qed

text \<open>Unquoting gives the string back up to the bytes that were replaced.\<close>

lemma coerce_ascii: "byte c < (0x80::nat) \<Longrightarrow> coerce_utf8 (c # cs) = c # coerce_utf8 cs"
  by (simp add: coerce_utf8.simps(2) utf8_len.simps(2))

lemma coerce_invalid: "utf8_len (c # cs) = 0 \<Longrightarrow> coerce_utf8 (c # cs) = replacement @ coerce_utf8 cs"
  by (simp add: coerce_utf8.simps(2))

lemma coerce_rune:
  "utf8_len (c # bs @ t) = Suc (length bs) \<Longrightarrow> coerce_utf8 (c # bs @ t) = c # bs @ coerce_utf8 t"
  by (simp add: coerce_utf8.simps(2))

lemma unquote_ufffd:
  "unquote (bslash # CHR ''u'' # CHR ''f'' # CHR ''f'' # CHR ''f'' # CHR ''d'' # r) = replacement @ unquote r"
  by (subst unquote_u; simp add: hex4_def hex_val_def is_digit_def replacement_def)

lemma unquote_quote_chars: "unquote (quote_chars s) = coerce_utf8 s"
proof (induction s rule: length_induct)
  case (1 s)
  show ?case
  proof (cases s)
    case Nil
    then show ?thesis by simp
  next
    case (Cons c cs)
    consider "byte c < (0x80::nat)" | "(0x80::nat) \<le> byte c" "utf8_len (c # cs) = 0"
      | "(0x80::nat) \<le> byte c" "utf8_len (c # cs) \<noteq> 0"
      by linarith
    then show ?thesis
    proof cases
      case 1
      then show ?thesis using "1.IH" Cons by (simp add: quote_chars_ascii unquote_quote_ascii coerce_ascii)
    next
      case 2
      then show ?thesis using "1.IH" Cons by (simp add: quote_chars_invalid unquote_ufffd coerce_invalid)
    next
      case 3
      then obtain bs t where q: "cs = bs @ t" "\<And>t'. utf8_len (c # bs @ t') = Suc (length bs)"
          "quote_chars (c # cs) = quote_rune (c # bs) @ quote_chars t"
        by (auto elim!: quote_chars_rune [of c cs])
      then show ?thesis using 3(1) "1.IH" Cons by (simp add: unquote_quote_rune coerce_rune)
    qed
  qed
qed

text \<open>Nothing is replaced exactly in the valid strings: a replacement is longer than the byte it stands for.\<close>

lemma length_coerce: "length s \<le> length (coerce_utf8 s)
  \<and> (length (coerce_utf8 s) = length s \<longleftrightarrow> valid_utf8 s) \<and> (valid_utf8 s \<longrightarrow> coerce_utf8 s = s)"
proof (induction s rule: length_induct)
  case (1 s)
  show ?case
  proof (cases s)
    case Nil
    then show ?thesis by simp
  next
    case (Cons c cs)
    consider "byte c < (0x80::nat)" | "utf8_len (c # cs) = 0"
      | "(0x80::nat) \<le> byte c" "utf8_len (c # cs) \<noteq> 0"
      by linarith
    then show ?thesis
    proof cases
      case 1
      then have "utf8_len (c # cs) = 1" by (simp add: utf8_len.simps(2))
      then show ?thesis using 1 "1.IH" Cons by (simp add: coerce_ascii)
    next
      case 2
      have "length replacement = 3" by (simp add: replacement_def utf8_encode_def)
      moreover have "length cs \<le> length (coerce_utf8 cs)" using "1.IH" Cons by simp
      ultimately show ?thesis using 2 Cons by (simp add: coerce_invalid)
    next
      case 3
      then obtain bs t where q: "cs = bs @ t" "\<And>t'. utf8_len (c # bs @ t') = Suc (length bs)"
        by (auto elim!: quote_chars_rune [of c cs])
      then have "length t < length s" using Cons by simp
      then have "length t \<le> length (coerce_utf8 t)" "length (coerce_utf8 t) = length t \<longleftrightarrow> valid_utf8 t"
        "valid_utf8 t \<longrightarrow> coerce_utf8 t = t"
        using "1.IH" by blast+
      then show ?thesis using Cons q by (simp add: coerce_rune)
    qed
  qed
qed

lemma coerce_utf8_iff: "coerce_utf8 s = s \<longleftrightarrow> valid_utf8 s"
  using length_coerce [of s] by auto

section \<open>Numbers\<close>

definition number_lit :: "string \<Rightarrow> bool" where
  "number_lit n \<longleftrightarrow> scan_number n = Some (n, [])"

text \<open>What may follow a value in the output of the encoder.\<close>

definition delim :: "string \<Rightarrow> bool" where
  "delim r \<longleftrightarrow> r = [] \<or> hd r = CHR '','' \<or> hd r = CHR '']'' \<or> hd r = CHR ''}''"

lemma delim_not_digit: "delim r \<Longrightarrow> takeWhile is_digit r = [] \<and> dropWhile is_digit r = r"
  by (cases r) (auto simp: delim_def is_digit_def)

lemma scan_digits_append: "delim r \<Longrightarrow> scan_digits (x @ r) = (fst (scan_digits x), snd (scan_digits x) @ r)"
  using delim_not_digit [of r]
  by (auto simp: scan_digits_def takeWhile_append dropWhile_append
      intro: takeWhile_eq_all_conv [THEN iffD2, symmetric])

lemma scan_int_append: "scan_int x = Some (i, y) \<Longrightarrow> delim r \<Longrightarrow> scan_int (x @ r) = Some (i, y @ r)"
  using scan_digits_append [of r x]
  by (cases x) (auto simp: scan_int_def split: if_splits)

lemma scan_frac_append: "scan_frac x = Some (i, y) \<Longrightarrow> delim r \<Longrightarrow> scan_frac (x @ r) = Some (i, y @ r)"
  using scan_digits_append [of r "tl x"]
  by (cases x; cases r) (auto simp: scan_frac_def delim_def split: if_splits)

lemma scan_exp_append: "scan_exp x = Some (i, y) \<Longrightarrow> delim r \<Longrightarrow> scan_exp (x @ r) = Some (i, y @ r)"
proof (cases x)
  case Nil
  then show "scan_exp x = Some (i, y) \<Longrightarrow> delim r \<Longrightarrow> scan_exp (x @ r) = Some (i, y @ r)"
    by (cases r) (auto simp: scan_exp_def delim_def)
next
  case (Cons c cs)
  show "scan_exp x = Some (i, y) \<Longrightarrow> delim r \<Longrightarrow> scan_exp (x @ r) = Some (i, y @ r)"
    using scan_digits_append [of r cs] scan_digits_append [of r "tl cs"] Cons
    by (cases cs) (auto simp: scan_exp_def scan_digits_def split: if_splits)
qed

lemma scan_number_append:
  assumes "scan_number x = Some (a, y)" "delim r"
  shows "scan_number (x @ r) = Some (a, y @ r)"
proof -
  define sg where "sg = (if x \<noteq> [] \<and> hd x = CHR ''-'' then take 1 x else [])"
  have "x \<noteq> []" using assms by (auto simp: scan_number_def scan_int_def)
  then have sg': "(if x @ r \<noteq> [] \<and> hd (x @ r) = CHR ''-'' then take 1 (x @ r) else []) = sg"
    "drop (length sg) (x @ r) = drop (length sg) x @ r"
    by (auto simp: sg_def neq_Nil_conv)
  obtain i r1 f r2 e where parts: "scan_int (drop (length sg) x) = Some (i, r1)" "scan_frac r1 = Some (f, r2)"
    "scan_exp r2 = Some (e, y)" "a = sg @ i @ f @ e"
    using assms(1) by (auto simp: scan_number_def sg_def [symmetric] split: option.splits)
  show ?thesis
    using parts scan_int_append [OF parts(1) assms(2)] scan_frac_append [OF parts(2) assms(2)]
      scan_exp_append [OF parts(3) assms(2)]
    unfolding scan_number_def by (simp only: Let_def sg') simp
qed

lemma number_lit_scan: "number_lit n \<Longrightarrow> delim r \<Longrightarrow> scan_number (n @ r) = Some (n, r)"
  using scan_number_append by (fastforce simp: number_lit_def)

lemma number_lit_head:
  assumes "number_lit n"
  obtains c cs where "n = c # cs" "c = CHR ''-'' \<or> is_digit c"
proof (cases n)
  case Nil
  then show ?thesis using assms by (simp add: number_lit_def scan_number_def scan_int_def)
next
  case (Cons c cs)
  have "is_digit CHR ''0''" by (simp add: is_digit_def)
  then have "c = CHR ''-'' \<or> is_digit c"
    using assms Cons by (auto simp: number_lit_def scan_number_def scan_int_def split: if_splits option.splits)
  with Cons that show ?thesis by blast
qed

lemma scan_number_digits:
  assumes "n \<noteq> []" "list_all is_digit n" "hd n = CHR ''0'' \<Longrightarrow> tl n = []"
  shows "scan_number n = Some (n, [])" "scan_number (CHR ''-'' # n) = Some (CHR ''-'' # n, [])"
proof -
  obtain c cs where n: "n = c # cs" "is_digit c" using assms by (cases n) auto
  have "c \<noteq> CHR ''-''" using n by auto
  have "scan_digits n = (n, [])"
    using assms(2) by (simp add: scan_digits_def takeWhile_eq_all_conv list_all_iff)
  then have "scan_int n = Some (n, [])" using n assms(3) by (auto simp: scan_int_def)
  with n \<open>c \<noteq> CHR ''-''\<close> show "scan_number n = Some (n, [])" "scan_number (CHR ''-'' # n) = Some (CHR ''-'' # n, [])"
    by (simp_all add: scan_number_def scan_frac_def scan_exp_def)
qed

lemma show_nat_one_zero: "hd (show_nat n) = CHR ''0'' \<Longrightarrow> tl (show_nat n) = []"
  using show_nat_hd_zero [of n] by (subst show_nat.simps) auto

lemma number_lit_show_i64 [simp]: "number_lit (show_i64 w)"
  using scan_number_digits [OF show_nat_nonempty show_nat_digits show_nat_one_zero]
  by (simp add: number_lit_def show_i64_def)

section \<open>Values\<close>

text \<open>The trees the decoder reads: within the nesting limit \<open>d\<close>, with number literals for numbers.\<close>

fun json_wf :: "nat \<Rightarrow> json \<Rightarrow> bool" where
  "json_wf d JNull \<longleftrightarrow> True"
| "json_wf d (JBool b) \<longleftrightarrow> True"
| "json_wf d (JNum n) \<longleftrightarrow> number_lit n"
| "json_wf d (JStr s) \<longleftrightarrow> True"
| "json_wf d (JArr js) \<longleftrightarrow> d \<noteq> 0 \<and> list_all (json_wf (d - 1)) js"
| "json_wf d (JObj kvs) \<longleftrightarrow> d \<noteq> 0 \<and> list_all (\<lambda>kv. json_wf (d - 1) (snd kv)) kvs"

fun coerce_json :: "json \<Rightarrow> json" where
  "coerce_json JNull = JNull"
| "coerce_json (JBool b) = JBool b"
| "coerce_json (JNum n) = JNum n"
| "coerce_json (JStr s) = JStr (coerce_utf8 s)"
| "coerce_json (JArr js) = JArr (map coerce_json js)"
| "coerce_json (JObj kvs) = JObj (map (\<lambda>kv. (coerce_utf8 (fst kv), coerce_json (snd kv))) kvs)"

text \<open>The trees that are read back unchanged.\<close>

fun json_ok :: "nat \<Rightarrow> json \<Rightarrow> bool" where
  "json_ok d JNull \<longleftrightarrow> True"
| "json_ok d (JBool b) \<longleftrightarrow> True"
| "json_ok d (JNum n) \<longleftrightarrow> number_lit n"
| "json_ok d (JStr s) \<longleftrightarrow> valid_utf8 s"
| "json_ok d (JArr js) \<longleftrightarrow> d \<noteq> 0 \<and> list_all (json_ok (d - 1)) js"
| "json_ok d (JObj kvs) \<longleftrightarrow> d \<noteq> 0 \<and> list_all (\<lambda>kv. valid_utf8 (fst kv) \<and> json_ok (d - 1) (snd kv)) kvs"

lemma json_ok_wf: "json_ok d v \<Longrightarrow> json_wf d v \<and> coerce_json v = v"
proof (induction v arbitrary: d)
  case (JArr js)
  then show ?case by (auto simp: list_all_iff intro!: map_idI)
next
  case (JObj kvs)
  have "json_wf (d - 1) (snd kv) \<and> (coerce_utf8 (fst kv), coerce_json (snd kv)) = kv" if "kv \<in> set kvs" for kv
    using JObj that by (cases kv) (fastforce simp: list_all_iff coerce_utf8_iff)
  then show ?case using JObj.prems by (auto simp: list_all_iff intro!: map_idI)
qed (simp_all add: coerce_utf8_iff)

definition closes :: "char \<Rightarrow> bool" where
  "closes c \<longleftrightarrow> c = CHR '']'' \<or> c = CHR ''}''"

lemma json_ws_simps [simp]: "\<not> json_ws dquote" "\<not> json_ws CHR ''[''" "\<not> json_ws CHR ''{''" "\<not> json_ws CHR '']''"
  "\<not> json_ws CHR ''}''" "\<not> json_ws CHR '',''" "\<not> json_ws CHR '':''" "\<not> json_ws CHR ''-''"
  "\<not> json_ws CHR ''n''" "\<not> json_ws CHR ''t''" "\<not> json_ws CHR ''f''"
  "is_digit c \<Longrightarrow> \<not> json_ws c"
  by (auto simp: json_ws_def is_digit_def)

lemma skip_ws_Cons [simp]: "\<not> json_ws c \<Longrightarrow> skip_ws (c # cs) = c # cs" "skip_ws [] = []"
  by (simp_all add: skip_ws_def)

lemma json_text_head:
  assumes "json_wf d v"
  obtains c cs where "json_text v = c # cs" "\<not> json_ws c" "\<not> closes c"
proof (cases v)
  case (JNum n)
  with assms obtain c cs where n: "n = c # cs" "c = CHR ''-'' \<or> is_digit c" by (auto elim: number_lit_head)
  then have "\<not> json_ws c" "\<not> closes c" by (auto simp: closes_def is_digit_def)
  with JNum n that show thesis by simp
next
  case (JBool b)
  then show thesis using that by (cases b) (auto simp: closes_def)
qed (auto simp: json_quote_def closes_def split: if_splits intro: that)

lemma skip_ws_json_text [simp]: "json_wf d v \<Longrightarrow> skip_ws (json_text v @ r) = json_text v @ r"
  by (erule json_text_head [of d v]) simp

lemma skip_ws_delim: "delim r \<Longrightarrow> skip_ws r = r"
  by (cases r) (auto simp: delim_def)

lemma delim_Cons [simp]: "delim (CHR '','' # r)" "delim (CHR '']'' # r)" "delim (CHR ''}'' # r)" "delim []"
  by (simp_all add: delim_def)

text \<open>Elements and members, given the claim for the values in them.\<close>

definition reads :: "nat \<Rightarrow> json \<Rightarrow> bool" where
  "reads d v \<longleftrightarrow> (\<forall>f r. length (json_text v) \<le> f \<longrightarrow> delim r \<longrightarrow> parse_value f d (json_text v @ r) = Some (coerce_json v, r))"

lemma readsD: "reads d v \<Longrightarrow> length (json_text v) \<le> f \<Longrightarrow> delim r \<Longrightarrow> parse_value f d (json_text v @ r) = Some (coerce_json v, r)"
  by (simp add: reads_def)

lemma parse_elems_text:
  assumes "list_all (\<lambda>j. json_wf d j \<and> reads d j) (j # js)"
    and "Suc (length (join_with '','' (map json_text (j # js)))) \<le> f"
  shows "parse_elems f d (join_with '','' (map json_text (j # js)) @ CHR '']'' # r) = Some (map coerce_json (j # js), r)"
  using assms
proof (induction js arbitrary: j f)
  case Nil
  then obtain f' where "f = Suc f'" "length (json_text j) \<le> f'" by (cases f) auto
  with Nil show ?case using readsD [of d j f' "CHR '']'' # r"] by simp
next
  case (Cons j' js)
  let ?rest = "join_with '','' (map json_text (j' # js)) @ CHR '']'' # r"
  have ok: "list_all (\<lambda>j. json_wf d j \<and> reads d j) (j' # js)" "json_wf d j'" using Cons.prems by simp_all
  have join: "join_with '','' (map json_text (j # j' # js)) = json_text j @ CHR '','' # join_with '','' (map json_text (j' # js))"
    by simp
  obtain f' where f: "f = Suc f'" "length (json_text j) \<le> f'"
      "Suc (length (join_with '','' (map json_text (j' # js)))) \<le> f'"
    using Cons.prems(2) unfolding join by (cases f) auto
  have "\<exists>x. ?rest = json_text j' @ x" by (cases js) auto
  with ok(2) have "skip_ws ?rest = ?rest" by auto
  then show ?case
    using f Cons.IH [OF ok(1) f(3)] readsD [of d j f' "CHR '','' # ?rest"] Cons.prems(1)
    unfolding join by simp
qed

definition member_text :: "string \<times> json \<Rightarrow> string" where
  "member_text kv = json_quote (fst kv) @ CHR '':'' # json_text (snd kv)"

definition member_ok :: "nat \<Rightarrow> string \<times> json \<Rightarrow> bool" where
  "member_ok d kv \<longleftrightarrow> json_wf d (snd kv) \<and> reads d (snd kv)"

definition coerce_member :: "string \<times> json \<Rightarrow> string \<times> json" where
  "coerce_member kv = (coerce_utf8 (fst kv), coerce_json (snd kv))"

lemma member_text_scan:
  "member_text kv @ r = dquote # quote_chars (fst kv) @ dquote # CHR '':'' # json_text (snd kv) @ r"
  by (simp add: member_text_def json_quote_def)

lemma parse_members_text:
  assumes "list_all (member_ok d) (m # ms)"
    and "Suc (length (join_with '','' (map member_text (m # ms)))) \<le> f"
  shows "parse_members f d (join_with '','' (map member_text (m # ms)) @ CHR ''}'' # r) = Some (map coerce_member (m # ms), r)"
  using assms
proof (induction ms arbitrary: m f)
  case Nil
  then obtain f' where f: "f = Suc f'" "length (json_text (snd m)) \<le> f'"
    by (cases f) (auto simp: member_text_def)
  with Nil show ?case using readsD [of d "snd m" f' "CHR ''}'' # r"] skip_ws_json_text [of d "snd m" "CHR ''}'' # r"]
    by (cases m) (simp add: member_text_scan member_ok_def coerce_member_def scan_quote_chars unquote_quote_chars)
next
  case (Cons m' ms)
  let ?rest = "join_with '','' (map member_text (m' # ms)) @ CHR ''}'' # r"
  have ok: "list_all (member_ok d) (m' # ms)" "member_ok d m" using Cons.prems by simp_all
  have join: "join_with '','' (map member_text (m # m' # ms)) = member_text m @ CHR '','' # join_with '','' (map member_text (m' # ms))"
    by simp
  obtain f' where f: "f = Suc f'" "length (json_text (snd m)) \<le> f'"
      "Suc (length (join_with '','' (map member_text (m' # ms)))) \<le> f'"
    using Cons.prems(2) unfolding join by (cases f) (auto simp: member_text_def)
  have "\<exists>x. ?rest = member_text m' @ x" by (cases ms) auto
  then have "skip_ws ?rest = ?rest" by (auto simp: member_text_scan)
  then show ?case
    using f ok(2) Cons.IH [OF ok(1) f(3)] readsD [of d "snd m" f' "CHR '','' # ?rest"]
      skip_ws_json_text [of d "snd m" "CHR '','' # ?rest"]
    unfolding join
    by (cases m) (simp add: member_text_scan member_ok_def coerce_member_def scan_quote_chars unquote_quote_chars)
qed

lemma reads_JNum:
  assumes "number_lit n"
  shows "reads d (JNum n)"
  unfolding reads_def
proof (intro allI impI)
  fix f r
  assume "length (json_text (JNum n)) \<le> f" "delim r"
  obtain c cs where n: "n = c # cs" "c = CHR ''-'' \<or> is_digit c" using assms by (rule number_lit_head)
  then have "c \<noteq> dquote" "c \<noteq> CHR ''[''" "c \<noteq> CHR ''{''" "c \<noteq> CHR ''n''" "c \<noteq> CHR ''t''" "c \<noteq> CHR ''f''"
    by (auto simp: is_digit_def)
  then show "parse_value f d (json_text (JNum n) @ r) = Some (coerce_json (JNum n), r)"
    using number_lit_scan [OF assms \<open>delim r\<close>] n \<open>length (json_text (JNum n)) \<le> f\<close> by (cases f) auto
qed

lemma reads_literal: "reads d JNull" "reads d (JBool b)"
  unfolding reads_def
  by (intro allI impI, rename_tac f r, case_tac f, simp, simp,
      intro allI impI, rename_tac f r, case_tac f, simp split: if_splits, simp)

lemma list_bracket_cases:
  assumes "length (a # s @ [b]) \<le> f"
  obtains f' where "f = Suc f'" "Suc (length s) \<le> f'"
  using assms by (cases f) auto

lemma reads_json: "json_wf d v \<Longrightarrow> reads d v"
proof (induction v arbitrary: d)
  case (JNum n)
  then show ?case by (simp add: reads_JNum)
next
  case (JStr s)
  show ?case unfolding reads_def
  proof (intro allI impI)
    fix f r
    assume "length (json_text (JStr s)) \<le> f"
    with JStr show "parse_value f d (json_text (JStr s) @ r) = Some (coerce_json (JStr s), r)"
      by (cases f) (simp_all add: json_quote_def scan_quote_chars unquote_quote_chars)
  qed
next
  case (JArr js)
  have ok: "list_all (\<lambda>j. json_wf (d - 1) j \<and> reads (d - 1) j) js" "d \<noteq> 0"
    using JArr by (auto simp: list_all_iff)
  show ?case unfolding reads_def
  proof (intro allI impI)
    fix f r
    assume "length (json_text (JArr js)) \<le> f"
    then obtain f' where f: "f = Suc f'" "Suc (length (join_with '','' (map json_text js))) \<le> f'"
      unfolding json_text.simps by (rule list_bracket_cases)
    show "parse_value f d (json_text (JArr js) @ r) = Some (coerce_json (JArr js), r)"
    proof (cases js)
      case Nil
      with f ok show ?thesis by simp
    next
      case (Cons j js')
      let ?body = "join_with '','' (map json_text js) @ CHR '']'' # r"
      have "json_wf (d - 1) j" using ok Cons by simp
      then obtain c cs where c: "json_text j = c # cs" "\<not> json_ws c" "\<not> closes c" by (rule json_text_head)
      have "\<exists>x. ?body = json_text j @ x" using Cons by (cases js') auto
      with c obtain y where y: "?body = c # y" by auto
      have "parse_elems f' (d - 1) ?body = Some (map coerce_json js, r)"
        using parse_elems_text [of "d - 1" j js' f' r] ok f(2) Cons by simp
      then show ?thesis using f(1) ok(2) c y by (simp add: closes_def)
    qed
  qed
next
  case (JObj kvs)
  have ok: "list_all (member_ok (d - 1)) kvs" "d \<noteq> 0"
    using JObj by (auto simp: list_all_iff member_ok_def)
  have texts: "json_text (JObj kvs) = CHR ''{'' # join_with '','' (map member_text kvs) @ ''}''"
    by (simp add: member_text_def [abs_def])
  show ?case unfolding reads_def
  proof (intro allI impI)
    fix f r
    assume "length (json_text (JObj kvs)) \<le> f"
    then obtain f' where f: "f = Suc f'" "Suc (length (join_with '','' (map member_text kvs))) \<le> f'"
      unfolding texts by (rule list_bracket_cases)
    show "parse_value f d (json_text (JObj kvs) @ r) = Some (coerce_json (JObj kvs), r)"
    proof (cases kvs)
      case Nil
      with f ok show ?thesis by simp
    next
      case (Cons m ms)
      let ?body = "join_with '','' (map member_text kvs) @ CHR ''}'' # r"
      have "\<exists>x. ?body = member_text m @ x" using Cons by (cases ms) auto
      then obtain y where y: "?body = dquote # y" by (auto simp: member_text_scan)
      have "parse_members f' (d - 1) ?body = Some (map coerce_member kvs, r)"
        using parse_members_text [of "d - 1" m ms f' r] ok f(2) Cons by simp
      then show ?thesis using f(1) ok(2) y unfolding texts by (simp add: coerce_member_def [abs_def])
    qed
  qed
qed (simp_all add: reads_literal)

text \<open>Parsing undoes printing.\<close>

lemma json_parse_coerced:
  assumes "json_wf max_nesting v"
  shows "json_parse (json_text v) = Some (coerce_json v)"
proof -
  have "skip_ws (json_text v) = json_text v"
    using skip_ws_json_text [OF assms, of "[]"] by simp
  then show ?thesis
    using readsD [OF reads_json [OF assms], of "Suc (length (json_text v))" "[]"]
    by (simp add: json_parse_def)
qed

lemma json_parse_text: "json_ok max_nesting v \<Longrightarrow> json_parse (json_text v) = Some v"
  using json_ok_wf json_parse_coerced by metis

end
