(* ===== verification/Message_Roundtrip.thy ===== *)
theory Message_Roundtrip
  imports Models Json_Roundtrip
begin

text \<open>
  \<open>json.Unmarshal\<close> undoes \<open>json.Marshal\<close> on an incoming message: what a dead letter or a replayed
  message carries is what the program had.  The conditions are those under which the encoder loses nothing:
  valid UTF-8 in every string, no dropped field, and values an earlier decoding can have produced.
\<close>

section \<open>The conditions\<close>

text \<open>An interface value whose JSON the decoder accepts at nesting depth \<open>d\<close>.\<close>

fun goval_ok :: "nat \<Rightarrow> goval \<Rightarrow> bool" where
  "goval_ok d GNil \<longleftrightarrow> True"
| "goval_ok d (GBool b) \<longleftrightarrow> True"
| "goval_ok d (GInt w) \<longleftrightarrow> True"
| "goval_ok d (GFloat t) \<longleftrightarrow> number_lit t"
| "goval_ok d (GStr s) \<longleftrightarrow> valid_utf8 s"
| "goval_ok d (GList vs) \<longleftrightarrow> d \<noteq> 0 \<and> list_all (goval_ok (d - 1)) vs"
| "goval_ok d (GMap m) \<longleftrightarrow> d \<noteq> 0 \<and> list_all (\<lambda>kv. valid_utf8 (fst kv) \<and> goval_ok (d - 1) (snd kv)) m"
| "goval_ok d GOther \<longleftrightarrow> True"

definition EventData_ok :: "(string \<Rightarrow> string option) \<Rightarrow> EventData \<Rightarrow> bool" where
  "EventData_ok fl e \<longleftrightarrow>
     list_all valid_utf8
       [ed_QueueName e, ed_RoutingKey e, ed_PageName e, ed_CompanySchema e, ed_MonitorID e, ed_StartDate e,
        ed_EndDate e, ed_Language e, ed_DataSource e, ed_DataSourceName e, ed_StreamTech e, ed_CompanyID e,
        ed_Product e, ed_PageAlertNotification e, ed_ExporterID e, ed_JobID e]
     \<and> list_all valid_utf8 (ed_SelectedWidgets e)
     \<and> decoded fl (ed_Filters e) \<and> goval_ok (max_nesting - 2) (ed_Filters e)
     \<and> decoded fl (ed_Metrics e) \<and> goval_ok (max_nesting - 2) (ed_Metrics e)
     \<and> ed_Extra e = []"

definition IncomingMessage_ok :: "(string \<Rightarrow> string option) \<Rightarrow> IncomingMessage \<Rightarrow> bool" where
  "IncomingMessage_ok fl m \<longleftrightarrow>
     valid_utf8 (im_EventName m) \<and> list_all valid_utf8 (im_SelectedWidgets m)
     \<and> (case im_EventData m of None \<Rightarrow> True | Some e \<Rightarrow> EventData_ok fl e)"

section \<open>The text is read back as the tree\<close>

lemma those_list_all: "those (map f xs) = Some ys \<Longrightarrow> (\<And>x y. x \<in> set xs \<Longrightarrow> f x = Some y \<Longrightarrow> P y) \<Longrightarrow> list_all P ys"
proof (induction xs arbitrary: ys)
  case Nil
  then show ?case by simp
next
  case (Cons x xs)
  then obtain z zs where z: "f x = Some z" "those (map f xs) = Some zs" "ys = z # zs"
    by (auto split: option.splits)
  have "list_all P zs" using z(2) by (rule Cons.IH) (auto intro: Cons.prems(2))
  with z Cons.prems(2) [of x z] show ?case by simp
qed

lemma goval_json_ok: "goval_ok d v \<Longrightarrow> goval_json v = Some j \<Longrightarrow> json_ok d j"
proof (induction v arbitrary: d j)
  case (GList vs)
  then obtain js where js: "those (map goval_json vs) = Some js" "j = JArr js" by auto
  have "list_all (json_ok (d - 1)) js"
    using GList by (intro those_list_all [OF js(1)]) (auto simp: list_all_iff)
  then show ?case using GList.prems(1) js by simp
next
  case (GMap m)
  obtain js where js: "those (map (\<lambda>kv. map_option (Pair (fst kv)) (goval_json (snd kv))) m) = Some js" "j = JObj js"
    using GMap.prems by auto
  have "list_all (\<lambda>kv. valid_utf8 (fst kv) \<and> json_ok (d - 1) (snd kv)) js"
  proof (rule those_list_all [OF js(1)])
    fix kv y
    assume "kv \<in> set m" "map_option (Pair (fst kv)) (goval_json (snd kv)) = Some y"
    moreover have "snd kv \<in> Basic_BNFs.snds kv" by (cases kv) simp
    ultimately show "valid_utf8 (fst y) \<and> json_ok (d - 1) (snd y)"
      using GMap.IH [of kv "snd kv" "d - 1"] GMap.prems(1) by (fastforce simp: list_all_iff)
  qed
  then show ?case using GMap.prems(1) js by simp
qed auto

definition member_json_ok :: "nat \<Rightarrow> string \<times> json \<Rightarrow> bool" where
  "member_json_ok d kv \<longleftrightarrow> valid_utf8 (fst kv) \<and> json_ok d (snd kv)"

lemma json_ok_JObj: "json_ok d (JObj kvs) \<longleftrightarrow> d \<noteq> 0 \<and> list_all (member_json_ok (d - 1)) kvs"
  by (simp add: member_json_ok_def [abs_def])

lemma members_ok [intro]:
  "valid_utf8 k \<Longrightarrow> valid_utf8 s \<Longrightarrow> list_all (member_json_ok d) (m_str k s)"
  "valid_utf8 k \<Longrightarrow> list_all (member_json_ok d) (m_i64 k n)"
  "valid_utf8 k \<Longrightarrow> list_all (member_json_ok d) (m_bool k b)"
  "valid_utf8 k \<Longrightarrow> json_ok d j \<Longrightarrow> list_all (member_json_ok d) (m_val k v j)"
  "valid_utf8 k \<Longrightarrow> d \<noteq> 0 \<Longrightarrow> list_all valid_utf8 ss \<Longrightarrow> list_all (member_json_ok d) (m_strs k ss)"
  by (auto simp: member_json_ok_def m_str_def m_i64_def m_bool_def m_val_def m_strs_def list_all_iff)

lemma valid_utf8_ascii: "list_all (\<lambda>c. byte c < (0x80::nat)) s \<Longrightarrow> valid_utf8 s"
  by (induction s) (simp_all add: utf8_len.simps(2))

lemma EventData_json_ok:
  assumes "EventData_ok fl e" "EventData_json e = Some j"
  shows "json_ok (max_nesting - 1) j"
proof -
  obtain jF jM where j: "goval_json (ed_Filters e) = Some jF" "goval_json (ed_Metrics e) = Some jM"
      "j = JObj (EventData_members e jF jM)"
    using assms(2) by (auto simp: EventData_json_def split: option.splits)
  have ok: "json_ok (max_nesting - 2) jF" "json_ok (max_nesting - 2) jM"
    using assms(1) j goval_json_ok by (auto simp: EventData_ok_def)
  have d: "max_nesting - 1 - 1 = max_nesting - 2" "max_nesting - 1 \<noteq> 0" "max_nesting - 2 \<noteq> 0"
    by (simp_all add: max_nesting_def)
  have strs: "list_all valid_utf8 [ed_QueueName e, ed_RoutingKey e]" "list_all valid_utf8 (ed_SelectedWidgets e)"
    using assms(1) by (simp_all add: EventData_ok_def)
  have "list_all (member_json_ok (max_nesting - 2)) (EventData_members e jF jM)"
    unfolding EventData_members_def list_all_append
    using assms(1) ok d(3)
    by (intro conjI members_ok) (simp_all add: EventData_ok_def valid_utf8_ascii member_json_ok_def)
  with j d show ?thesis by (simp add: json_ok_JObj del: json_ok.simps)
qed

lemma IncomingMessage_json_ok:
  assumes "IncomingMessage_ok fl m" "IncomingMessage_json m = Some j"
  shows "json_ok max_nesting j"
proof -
  obtain je where je: "(case im_EventData m of None \<Rightarrow> Some JNull | Some e \<Rightarrow> EventData_json e) = Some je"
      "j = JObj ([(''eventName'', JStr (im_EventName m)), (''eventData'', je)] @ m_strs ''selected_widgets'' (im_SelectedWidgets m))"
    using assms(2) by (auto simp: IncomingMessage_json_def)
  have "json_ok (max_nesting - 1) je"
    using je(1) assms(1) EventData_json_ok by (auto simp: IncomingMessage_ok_def split: option.splits)
  moreover have "max_nesting \<noteq> 0" "max_nesting - 1 \<noteq> 0" by (simp_all add: max_nesting_def)
  moreover have "list_all (member_json_ok (max_nesting - 1)) (m_strs ''selected_widgets'' (im_SelectedWidgets m))"
    using assms(1) by (intro members_ok) (simp_all add: IncomingMessage_ok_def valid_utf8_ascii max_nesting_def)
  ultimately show ?thesis
    using assms(1) je(2) by (simp add: json_ok_JObj member_json_ok_def IncomingMessage_ok_def valid_utf8_ascii
        del: json_ok.simps(6))
qed

section \<open>The tree is decoded into the struct\<close>

text \<open>The member names, folded once.\<close>

lemma fold_names:
  "fold_name ''eventName'' = ''EVENTNAME''"
  "fold_name ''eventData'' = ''EVENTDATA''"
  "fold_name ''queue_name'' = ''QUEUE_NAME''"
  "fold_name ''routing_key'' = ''ROUTING_KEY''"
  "fold_name ''request_timestamp'' = ''REQUEST_TIMESTAMP''"
  "fold_name ''page_name'' = ''PAGE_NAME''"
  "fold_name ''company_schema'' = ''COMPANY_SCHEMA''"
  "fold_name ''monitor_id'' = ''MONITOR_ID''"
  "fold_name ''start_date'' = ''START_DATE''"
  "fold_name ''end_date'' = ''END_DATE''"
  "fold_name ''filters'' = ''FILTERS''"
  "fold_name ''language'' = ''LANGUAGE''"
  "fold_name ''data_source'' = ''DATA_SOURCE''"
  "fold_name ''data_source_name'' = ''DATA_SOURCE_NAME''"
  "fold_name ''metrics'' = ''METRICS''"
  "fold_name ''selected_widgets'' = ''SELECTED_WIDGETS''"
  "fold_name ''stream_tech'' = ''STREAM_TECH''"
  "fold_name ''company_id'' = ''COMPANY_ID''"
  "fold_name ''product'' = ''PRODUCT''"
  "fold_name ''page_alert_notification'' = ''PAGE_ALERT_NOTIFICATION''"
  "fold_name ''export_xlsx'' = ''EXPORT_XLSX''"
  "fold_name ''exporter_id'' = ''EXPORTER_ID''"
  "fold_name ''job_id'' = ''JOB_ID''"
  "fold_name ''is_live_dashboard'' = ''IS_LIVE_DASHBOARD''"
  "fold_name ''is_newsletter_report'' = ''IS_NEWSLETTER_REPORT''"
  "fold_name ''is_export_engagements'' = ''IS_EXPORT_ENGAGEMENTS''"
  by code_simp+

text \<open>One member of \<open>eventData\<close>: a field that still has its zero value gets the value it was written from.\<close>

lemma dec_EventData_member:
  "set_EventData fl ''queue_name'' (JStr s) x = Some (x\<lparr>ed_QueueName := s\<rparr>)"
  "set_EventData fl ''routing_key'' (JStr s) x = Some (x\<lparr>ed_RoutingKey := s\<rparr>)"
  "ed_RequestTimestamp x = 0 \<Longrightarrow>
     dec_fields (set_EventData fl) (m_i64 ''request_timestamp'' n) x = Some (x\<lparr>ed_RequestTimestamp := n\<rparr>)"
  "ed_PageName x = '''' \<Longrightarrow>
     dec_fields (set_EventData fl) (m_str ''page_name'' s) x = Some (x\<lparr>ed_PageName := s\<rparr>)"
  "ed_CompanySchema x = '''' \<Longrightarrow>
     dec_fields (set_EventData fl) (m_str ''company_schema'' s) x = Some (x\<lparr>ed_CompanySchema := s\<rparr>)"
  "ed_MonitorID x = '''' \<Longrightarrow>
     dec_fields (set_EventData fl) (m_str ''monitor_id'' s) x = Some (x\<lparr>ed_MonitorID := s\<rparr>)"
  "ed_StartDate x = '''' \<Longrightarrow>
     dec_fields (set_EventData fl) (m_str ''start_date'' s) x = Some (x\<lparr>ed_StartDate := s\<rparr>)"
  "ed_EndDate x = '''' \<Longrightarrow>
     dec_fields (set_EventData fl) (m_str ''end_date'' s) x = Some (x\<lparr>ed_EndDate := s\<rparr>)"
  "ed_Filters x = GNil \<Longrightarrow> json_goval fl j = Some g \<Longrightarrow>
     dec_fields (set_EventData fl) (m_val ''filters'' g j) x = Some (x\<lparr>ed_Filters := g\<rparr>)"
  "ed_Language x = '''' \<Longrightarrow>
     dec_fields (set_EventData fl) (m_str ''language'' s) x = Some (x\<lparr>ed_Language := s\<rparr>)"
  "ed_DataSource x = '''' \<Longrightarrow>
     dec_fields (set_EventData fl) (m_str ''data_source'' s) x = Some (x\<lparr>ed_DataSource := s\<rparr>)"
  "ed_DataSourceName x = '''' \<Longrightarrow>
     dec_fields (set_EventData fl) (m_str ''data_source_name'' s) x = Some (x\<lparr>ed_DataSourceName := s\<rparr>)"
  "ed_Metrics x = GNil \<Longrightarrow> json_goval fl j = Some g \<Longrightarrow>
     dec_fields (set_EventData fl) (m_val ''metrics'' g j) x = Some (x\<lparr>ed_Metrics := g\<rparr>)"
  "ed_SelectedWidgets x = [] \<Longrightarrow>
     dec_fields (set_EventData fl) (m_strs ''selected_widgets'' ss) x = Some (x\<lparr>ed_SelectedWidgets := ss\<rparr>)"
  "ed_StreamTech x = '''' \<Longrightarrow>
     dec_fields (set_EventData fl) (m_str ''stream_tech'' s) x = Some (x\<lparr>ed_StreamTech := s\<rparr>)"
  "ed_CompanyID x = '''' \<Longrightarrow>
     dec_fields (set_EventData fl) (m_str ''company_id'' s) x = Some (x\<lparr>ed_CompanyID := s\<rparr>)"
  "ed_Product x = '''' \<Longrightarrow>
     dec_fields (set_EventData fl) (m_str ''product'' s) x = Some (x\<lparr>ed_Product := s\<rparr>)"
  "ed_PageAlertNotification x = '''' \<Longrightarrow>
     dec_fields (set_EventData fl) (m_str ''page_alert_notification'' s) x = Some (x\<lparr>ed_PageAlertNotification := s\<rparr>)"
  "ed_ExportXLSX x = False \<Longrightarrow>
     dec_fields (set_EventData fl) (m_bool ''export_xlsx'' b) x = Some (x\<lparr>ed_ExportXLSX := b\<rparr>)"
  "ed_ExporterID x = '''' \<Longrightarrow>
     dec_fields (set_EventData fl) (m_str ''exporter_id'' s) x = Some (x\<lparr>ed_ExporterID := s\<rparr>)"
  "ed_JobID x = '''' \<Longrightarrow>
     dec_fields (set_EventData fl) (m_str ''job_id'' s) x = Some (x\<lparr>ed_JobID := s\<rparr>)"
  "ed_IsLiveDashboard x = False \<Longrightarrow>
     dec_fields (set_EventData fl) (m_bool ''is_live_dashboard'' b) x = Some (x\<lparr>ed_IsLiveDashboard := b\<rparr>)"
  "ed_IsNewsletterReport x = False \<Longrightarrow>
     dec_fields (set_EventData fl) (m_bool ''is_newsletter_report'' b) x = Some (x\<lparr>ed_IsNewsletterReport := b\<rparr>)"
  "ed_IsExportEngagements x = False \<Longrightarrow>
     dec_fields (set_EventData fl) (m_bool ''is_export_engagements'' b) x = Some (x\<lparr>ed_IsExportEngagements := b\<rparr>)"
  by (cases x; simp add: m_str_def m_i64_def m_bool_def m_strs_def m_val_def set_EventData_def fold_names
      del: fold_name.simps)+

lemma dec_EventData_members:
  assumes "json_goval fl jF = Some (ed_Filters e)" "json_goval fl jM = Some (ed_Metrics e)" "ed_Extra e = []"
  shows "dec_fields (set_EventData fl) (EventData_members e jF jM) zero_EventData = Some e"
  using assms
  by (cases e) (simp add: EventData_members_def dec_fields_append dec_EventData_member zero_EventData_def)

lemma dec_EventData_json:
  assumes "EventData_ok fl e" "EventData_json e = Some j"
  shows "dec_EventData fl j None = Some (Some e)"
proof -
  obtain jF jM where j: "goval_json (ed_Filters e) = Some jF" "goval_json (ed_Metrics e) = Some jM"
      "j = JObj (EventData_members e jF jM)"
    using assms(2) by (auto simp: EventData_json_def split: option.splits)
  have "json_goval fl jF = Some (ed_Filters e)" "json_goval fl jM = Some (ed_Metrics e)"
    using assms(1) j goval_json_roundtrip [of fl "ed_Filters e"] goval_json_roundtrip [of fl "ed_Metrics e"]
    by (auto simp: EventData_ok_def)
  then show ?thesis using assms(1) j by (simp add: dec_EventData_def dec_EventData_members EventData_ok_def)
qed

lemma dec_IncomingMessage_json:
  assumes "IncomingMessage_ok fl m" "IncomingMessage_json m = Some j"
  shows "dec_IncomingMessage fl j = Some m"
proof (cases m)
  case (fields n ed ws)
  obtain je where je: "(case ed of None \<Rightarrow> Some JNull | Some e \<Rightarrow> EventData_json e) = Some je"
      "j = JObj ([(''eventName'', JStr n), (''eventData'', je)] @ m_strs ''selected_widgets'' ws)"
    using assms(2) fields by (auto simp: IncomingMessage_json_def)
  have "dec_EventData fl je None = Some ed"
    using je(1) assms(1) fields dec_EventData_json
    by (cases ed) (auto simp: IncomingMessage_ok_def dec_EventData_def)
  then show ?thesis using je(2) fields
    by (simp add: dec_IncomingMessage_def set_IncomingMessage_def zero_IncomingMessage_def m_strs_def fold_names
        del: fold_name.simps)
qed

text \<open>Every message that satisfies the conditions can be encoded.\<close>

lemma IncomingMessage_json_Some:
  assumes "IncomingMessage_ok fl m"
  shows "\<exists>j. IncomingMessage_json m = Some j"
proof (cases "im_EventData m")
  case None
  then show ?thesis by (simp add: IncomingMessage_json_def)
next
  case (Some e)
  then have "decoded fl (ed_Filters e)" "decoded fl (ed_Metrics e)"
    using assms by (simp_all add: IncomingMessage_ok_def EventData_ok_def)
  then obtain jF jM where "goval_json (ed_Filters e) = Some jF" "goval_json (ed_Metrics e) = Some jM"
    using goval_json_roundtrip by blast
  then show ?thesis using Some by (simp add: IncomingMessage_json_def EventData_json_def)
qed

lemma unmarshal_marshal_IncomingMessage:
  assumes "IncomingMessage_ok fl m"
  shows "Option.bind (marshal_IncomingMessage m) (unmarshal_IncomingMessage fl) = Some m"
proof -
  obtain j where j: "IncomingMessage_json m = Some j" using IncomingMessage_json_Some [OF assms] ..
  have "json_parse (json_text j) = Some j"
    using IncomingMessage_json_ok [OF assms j] by (rule json_parse_text)
  then show ?thesis using j dec_IncomingMessage_json [OF assms j]
    by (simp add: marshal_IncomingMessage_def unmarshal_IncomingMessage_def)
qed

section \<open>Property\<close>

text \<open>
  C20: A message survives its JSON text: \<open>json.Unmarshal\<close> gives back the message \<open>json.Marshal\<close> was given,
  through quoting, escapes, \<open>omitempty\<close> and the decoder's folding of member names.
\<close>

theorem message_roundtrip:
  assumes "IncomingMessage_ok fl m"
  shows "\<exists>text. marshal_IncomingMessage m = Some text \<and> unmarshal_IncomingMessage fl text = Some m"
  using unmarshal_marshal_IncomingMessage [OF assms] by (auto simp: bind_eq_Some_conv)

theorem message_roundtrip_witness:
  "\<exists>text. marshal_IncomingMessage \<lparr>im_EventName = ''insights'', im_EventData = Some (zero_EventData\<lparr>
       ed_RoutingKey := ''a<b'', ed_Filters := GMap [(''from'', GFloat ''1.5''), (''tags'', GList [GStr ''x'', GNil])]\<rparr>),
       im_SelectedWidgets = [''Reach'']\<rparr> = Some text
     \<and> unmarshal_IncomingMessage Some text = Some \<lparr>im_EventName = ''insights'', im_EventData = Some (zero_EventData\<lparr>
       ed_RoutingKey := ''a<b'', ed_Filters := GMap [(''from'', GFloat ''1.5''), (''tags'', GList [GStr ''x'', GNil])]\<rparr>),
       im_SelectedWidgets = [''Reach'']\<rparr>"
proof (rule message_roundtrip)
  have "number_lit ''1.5''" by code_simp
  then show "IncomingMessage_ok Some \<lparr>im_EventName = ''insights'', im_EventData = Some (zero_EventData\<lparr>
       ed_RoutingKey := ''a<b'', ed_Filters := GMap [(''from'', GFloat ''1.5''), (''tags'', GList [GStr ''x'', GNil])]\<rparr>),
       im_SelectedWidgets = [''Reach'']\<rparr>"
    by (simp add: IncomingMessage_ok_def EventData_ok_def go_eval valid_utf8_ascii max_nesting_def)
qed


end
