(* ===== verification/Replay.thy ===== *)
theory Replay
  imports Consumer Message_Roundtrip
begin

text \<open>
  What a dead letter carries, and what happens when it is consumed again.  The Redis dead letter holds the message
  as processing left it, with the widgets of the top level already merged into the event data and the page
  already enriched; the Kafka dead letter holds the bytes it was received with, those outside valid UTF-8 replaced, in
  an envelope.
\<close>

section \<open>The dead letters are read back\<close>

text \<open>An entry of a stream as the client returns it: every value is a string.\<close>

definition stream_entry :: "(string \<times> string) list \<Rightarrow> stream_values" where
  "stream_entry fs = map (\<lambda>kv. (fst kv, GStr (snd kv))) fs"

lemma stringFromMap_entry:
  "stringFromMap (stream_entry fs) k = (case map_of fs k of None \<Rightarrow> ('''', False) | Some s \<Rightarrow> (s, True))"
proof -
  have "map_of (stream_entry fs) k = map_option GStr (map_of fs k)"
    unfolding stream_entry_def by (induction fs) auto
  then show ?thesis by (simp add: stringFromMap_def split: option.split)
qed

lemma dead_letter_payload:
  "map_of (dead_letter_fields messageID m reason) ''payload''
     = Some (case marshal_IncomingMessage m of None \<Rightarrow> '''' | Some p \<Rightarrow> p)"
  by (simp add: dead_letter_fields_def map_of_gmap_of split: option.split)

lemma json_text_JObj_nonempty: "json_text (JObj kvs) \<noteq> ''''"
  by simp

lemma marshal_nonempty: "marshal_IncomingMessage m = Some p \<Longrightarrow> p \<noteq> ''''"
  by (auto simp: marshal_IncomingMessage_def IncomingMessage_json_def json_text_JObj_nonempty simp del: json_text.simps)

lemma payload_read_back:
  assumes "IncomingMessage_ok fl m"
  shows "unmarshal_IncomingMessage fl (payload_of (stream_entry (dead_letter_fields messageID m reason))) = Some m"
proof -
  obtain p where p: "marshal_IncomingMessage m = Some p" "unmarshal_IncomingMessage fl p = Some m"
    using unmarshal_marshal_IncomingMessage [OF assms] by (auto simp: bind_eq_Some_conv)
  have "payload_of (stream_entry (dead_letter_fields messageID m reason)) = p"
    using marshal_nonempty [OF p(1)] p(1)
    by (simp add: payload_of_def stringFromMap_entry dead_letter_payload)
  with p(2) show ?thesis by simp
qed

text \<open>
  C21: A message in the dead-letter stream can be consumed again: the entry's payload is decoded to exactly the
  message as processing left it.
\<close>

theorem dead_letter_replayable:
  assumes "IncomingMessage_ok fl m"
  shows "unmarshal_IncomingMessage fl (payload_of (stream_entry (dead_letter_fields messageID m reason))) = Some m"
  using assms by (rule payload_read_back)

text \<open>A message that meets the conditions.\<close>

definition sample_message :: IncomingMessage where
  "sample_message = \<lparr>im_EventName = ''interactions'', im_EventData = Some (zero_EventData\<lparr>
      ed_RoutingKey := ''user-7'', ed_RequestTimestamp := 900, ed_StreamTech := ''API''\<rparr>),
     im_SelectedWidgets = [''Reach'']\<rparr>"

lemma sample_message_ok: "IncomingMessage_ok fl sample_message"
  by (simp add: IncomingMessage_ok_def sample_message_def EventData_ok_def zero_EventData_def valid_utf8_ascii)

theorem dead_letter_replayable_witness:
  "unmarshal_IncomingMessage Some
     (payload_of (stream_entry (dead_letter_fields ''1-0'' sample_message ''stale_request''))) = Some sample_message"
  by (rule dead_letter_replayable [OF sample_message_ok])

text \<open>The envelope is read back with every byte outside valid UTF-8 replaced.\<close>

lemma envelope_parses:
  assumes "reason \<noteq> ''''"
  shows "json_parse (dead_letter_value payload reason)
    = Some (JObj [(''payload'', JStr (coerce_utf8 payload)), (''reason'', JStr (coerce_utf8 reason))])"
proof -
  let ?v = "JObj [(''payload'', JStr payload), (''reason'', JStr reason)]"
  have sorted: "gmap_of [(''payload'', GStr payload), (''reason'', GStr reason)]
      = [(''payload'', GStr payload), (''reason'', GStr reason)]"
    by (simp add: gmap_of_def)
  have "dead_letter_value payload reason = json_text ?v"
    using assms by (simp add: dead_letter_value_def marshal_def sorted)
  moreover have "json_wf max_nesting ?v" by (simp add: max_nesting_def)
  moreover have "coerce_utf8 ''payload'' = ''payload''" "coerce_utf8 ''reason'' = ''reason''"
    by (simp_all add: coerce_utf8_iff valid_utf8_ascii)
  ultimately show ?thesis using json_parse_coerced [of ?v] by (simp del: json_text.simps)
qed

lemma coerce_reason: "List.member dead_letter_reasons reason \<Longrightarrow> reason \<noteq> '''' \<and> coerce_utf8 reason = reason"
  by (auto simp: dead_letter_reasons_def coerce_utf8_iff valid_utf8_ascii)

text \<open>
  C22: The Kafka dead letter of a payload is the payload itself where there is no reason, and otherwise a JSON object
  with the payload and the reason in which every byte outside valid UTF-8 is replaced by U+FFFD: the bytes of a
  payload are kept exactly when they are valid UTF-8.
\<close>

theorem kafka_envelope:
  "(if reason = '''' then dead_letter_value payload reason = payload
    else json_parse (dead_letter_value payload reason)
      = Some (JObj [(''payload'', JStr (coerce_utf8 payload)), (''reason'', JStr (coerce_utf8 reason))]))
   \<and> (coerce_utf8 payload = payload \<longleftrightarrow> valid_utf8 payload)"
  using envelope_parses [of reason payload] by (simp add: coerce_utf8_iff dead_letter_value_def)

text \<open>A payload that is decoded and whose dead letter is not what was received.\<close>

definition bad_payload :: string where
  "bad_payload = [CHR ''{'', dquote] @ ''eventName'' @ [dquote, CHR '':'', dquote, CHR 0xFF, dquote, CHR ''}'']"

lemma envelope_changes_bytes:
  "unmarshal_IncomingMessage fl bad_payload \<noteq> None" "coerce_utf8 bad_payload \<noteq> bad_payload"
proof -
  have "json_parse bad_payload = Some (JObj [(''eventName'', JStr replacement)])"
    unfolding bad_payload_def
    by (simp add: json_parse_def scan_string.simps(2) unquote.simps(2) utf8_len.simps(2) closes_def max_nesting_def)
  then show "unmarshal_IncomingMessage fl bad_payload \<noteq> None"
    by (simp add: unmarshal_IncomingMessage_def dec_IncomingMessage_def set_IncomingMessage_def fold_names)
  have "\<not> valid_utf8 bad_payload"
    by (simp add: bad_payload_def utf8_len.simps(2))
  then show "coerce_utf8 bad_payload \<noteq> bad_payload" by (simp add: coerce_utf8_iff)
qed

section \<open>Consuming a dead letter again\<close>

text \<open>A message the controller failed on is left enriched, with the widgets of the top level merged in.\<close>

lemma ProcessMessage_left:
  assumes "result (ProcessMessage W c ctx m) h = ((False, ''controller_error''), m')" "im_EventData m = Some ed"
  shows "m' = m\<lparr>im_EventData := Some (page_data m ed)\<rparr>"
proof -
  have "(ack, ''controller_error'') = fst r \<Longrightarrow> snd r = page_data m ed"
    if "r = result (process_page W c ctx (im_EventName m) (merge_widgets m ed)) h" for r ack
    using that by (auto simp: process_page_def result_bind_cases page_data_def split: if_splits)
  then show ?thesis
    using assms by (auto simp: ProcessMessage_def result_bind_cases split: if_splits option.splits)
qed

lemma page_data_again:
  assumes "im_EventName m' = im_EventName m" "im_SelectedWidgets m' = im_SelectedWidgets m"
  shows "page_data m' (page_data m ed) =
    (page_data m ed)\<lparr>ed_SelectedWidgets := ed_SelectedWidgets ed @ im_SelectedWidgets m @ im_SelectedWidgets m\<rparr>"
proof -
  have twice: "enrich n (enrich n e) = enrich n e" for n e using idem_enrich by (simp add: idem_def)
  have merge: "merge_widgets m e = e\<lparr>ed_SelectedWidgets := ed_SelectedWidgets e @ im_SelectedWidgets m\<rparr>" for m e
    by (simp add: merge_widgets_def)
  show ?thesis using assms by (simp add: page_data_def merge enrich_widgets twice)
qed

end
