(* ===== verification/Examples.thy ===== *)
theory Examples
  imports Completion Replay
begin

text \<open>
  Concrete worlds, configurations and messages, and what the program does with them: the inputs at which the
  properties are applied.
\<close>

section \<open>Worlds\<close>

text \<open>Every call succeeds, every select sends, the clock shows 1000.\<close>

definition calm :: world where
  "calm = \<lparr>w_unix = \<lambda>_. 1000, w_done = \<lambda>_. None, w_err = \<lambda>_. None, w_int = \<lambda>_. Inr 1,
    w_str = \<lambda>_. Inr '''', w_read = \<lambda>_. Inr [], w_send = \<lambda>_. None, w_recv = \<lambda>_. RecvDone,
    w_fetch = \<lambda>_. Inl RedisNil, w_status = \<lambda>_. Inr 200, w_float = Some\<rparr>"

lemma calm_simps [simp]:
  "w_unix calm h = 1000" "w_done calm h = None" "w_err calm h = None" "w_int calm h = Inr 1"
  "w_str calm h = Inr ''''" "w_read calm h = Inr []" "w_send calm h = None" "w_float calm = Some"
  by (simp_all add: calm_def)

text \<open>The context of every message ends before its first select.\<close>

definition closed_world :: world where
  "closed_world = calm\<lparr>w_send := \<lambda>_. Some CtxDeadline\<rparr>"

abbreviation sample_consumer :: "world \<Rightarrow> Consumer" where
  "sample_consumer W \<equiv> main_consumer W (load_config (\<lambda>_. '''')) None None"

definition sample_data :: EventData where
  "sample_data = the (im_EventData sample_message)"

lemma default_timeout: "sint (duration_seconds (EventTimeout (load_config (\<lambda>_. '''')))) = 3600"
proof -
  have "EventTimeout (load_config (\<lambda>_. '''')) = 3600 * nanosecond_per_s"
    by (simp add: load_config_simps parseInt64_def parse_i64_def)
  then show ?thesis using duration_seconds_of_seconds [of 3600] by simp
qed

lemma accepted_interactions: "accepted_event ''interactions''"
  by code_simp

lemma sample_rejected:
  "result (ProcessMessage closed_world (sample_consumer closed_world) Background sample_message) h
     = ((False, ''controller_error''),
        sample_message\<lparr>im_EventData := Some (page_data sample_message sample_data)\<rparr>)"
proof -
  have acc: "accepted_event ''interactions''" by code_simp
  have "result (run_page closed_world (sample_consumer closed_world) ctx ed) h = (False, ''controller_error'')" for ctx ed h
    by (simp add: result_def run_page_main closed_world_def)
  moreover have "sint (clock1 closed_world h) = 1000" by (simp add: clock1_def closed_world_def)
  ultimately show ?thesis
    using acc default_timeout
    by (simp add: ProcessMessage_def result_bind_cases process_page_def run_older_than result_def
        page_data_def sample_message_def sample_data_def go_eval other_pipeline_def merge_widgets_def
        export_event_def closed_world_def clock1_def case_prod_beta)
qed

definition kafka_env :: "string \<Rightarrow> string" where
  "kafka_env key = (if key = ''KAFKA_BOOTSTRAP_SERVERS'' then ''kafka:9092'' else '''')"

definition kafka_proc :: Process where
  "kafka_proc = \<lparr>pr_cfg = load_config kafka_env, pr_broker = Some \<lparr>br_cfg = load_config kafka_env\<rparr>,
     pr_backend = \<lparr>bk_cfg = load_config kafka_env\<rparr>, pr_kafka = Some (NewClient (load_config kafka_env))\<rparr>"

lemma kafka_proc_starts: "result (main_start calm kafka_env) [] = Inr kafka_proc"
proof -
  have "validate (load_config kafka_env) = None" "UseKafka (load_config kafka_env)"
    by (simp_all add: validate_def UseKafka_def load_config_simps kafka_env_def)
  then show ?thesis
    by (simp add: main_start_def start_broker_def NewBroker_def NewBackendRedis_def result_def kafka_proc_def)
qed

definition api_request :: EventData where
  "api_request = zero_EventData\<lparr>ed_StreamTech := ''API'', ed_RoutingKey := ''user-7'',
     ed_PageName := ''ResearchInteractionsPage''\<rparr>"

lemma api_request_api: "api_stream api_request"
  by (simp add: api_request_def api_stream_def go_eval)

definition export_message :: IncomingMessage where
  "export_message = \<lparr>im_EventName = ''calc_export'',
     im_EventData = Some (zero_EventData\<lparr>ed_ExporterID := ''ex-1''\<rparr>), im_SelectedWidgets = []\<rparr>"

definition timed_export :: IncomingMessage where
  "timed_export = \<lparr>im_EventName = ''fedi_listener_go_dispatcher'',
     im_EventData = Some (zero_EventData\<lparr>ed_ExportXLSX := True, ed_RequestTimestamp := 1\<rparr>), im_SelectedWidgets = []\<rparr>"

text \<open>One Kafka message for the consumer, and the widget it queues for the worker.\<close>

definition demo_data :: EventData where
  "demo_data = page_data sample_message sample_data"

definition demo_message :: KafkaMessage where
  "demo_message = \<lparr>km_Partition = 0, km_Offset = 0, km_Key = ''user-7'',
     km_Value = the (marshal_IncomingMessage sample_message)\<rparr>"

definition demo_world :: world where
  "demo_world = calm\<lparr>w_fetch := \<lambda>_. Inr demo_message, w_recv := \<lambda>_. RecvItem (Some (page_item demo_data))\<rparr>"

lemma demo_world_simps [simp]:
  "w_unix demo_world h = 1000" "w_done demo_world h = None" "w_send demo_world h = None"
  "w_fetch demo_world h = Inr demo_message" "w_recv demo_world h = RecvItem (Some (page_item demo_data))"
  "w_int demo_world h = Inr 1" "w_str demo_world h = Inr []" "w_err demo_world h = None" "w_float demo_world = Some"
  by (simp_all add: demo_world_def)

lemma demo_unmarshal: "unmarshal_IncomingMessage fl (km_Value demo_message) = Some sample_message"
  using unmarshal_marshal_IncomingMessage [OF sample_message_ok, of fl]
  by (auto simp: demo_message_def bind_eq_Some_conv)

lemma demo_process:
  "run_state (ProcessMessage demo_world (main_consumer demo_world (load_config kafka_env) b k) ctx sample_message) h =
     (case run_state (run_page demo_world (main_consumer demo_world (load_config kafka_env) b k) ctx demo_data)
        (h @ [(Background, Now)]) of
        (r, h') \<Rightarrow> ((r, sample_message\<lparr>im_EventData := Some demo_data\<rparr>), h'))"
proof -
  have "accepted_event ''interactions''" by code_simp
  moreover have "EventTimeout (load_config kafka_env) = 3600 * nanosecond_per_s"
    by (simp add: load_config_simps kafka_env_def parseInt64_def parse_i64_def)
  then have "sint (duration_seconds (EventTimeout (load_config kafka_env))) = 3600"
    using duration_seconds_of_seconds [of 3600] by simp
  ultimately show ?thesis
    by (simp add: ProcessMessage_def process_page_def run_older_than demo_data_def
        page_data_def sample_message_def sample_data_def go_eval other_pipeline_def merge_widgets_def
        export_event_def clock1_def case_prod_beta)
qed

lemma demo_api: "api_stream demo_data"
  by (simp add: demo_data_def page_data_def sample_data_def sample_message_def merge_widgets_def enrich_def
      go_eval api_stream_def)

lemma demo_consume:
  "sends (trace (main_consume 1 demo_world kafka_proc Background) [])
     = [page_item demo_data, completion_item (ed_RoutingKey demo_data)]"
proof -
  show ?thesis
    using demo_api
    by (simp add: main_consume_def kafka_proc_def RunConsumer_def kafka_iteration_def kafka_handle_def demo_unmarshal
        kafka_process_def process_consumer_def demo_process run_page_main trace_def)
qed

lemma demo_stub: "page_item demo_data = stub_item demo_data"
proof -
  have "stub_found (enrich ''interactions'' (merge_widgets sample_message sample_data))"
    by (rule fixed_event_found)
      (simp_all add: fixed_pages_def merge_widgets_def sample_data_def sample_message_def go_eval)
  then show ?thesis by (simp add: page_item_def demo_data_def page_data_def sample_message_def)
qed

lemma demo_worker:
  "received demo_world [] (trace (Worker_Run 1 demo_world rkf (process_worker demo_world kafka_proc) ctx) [])
     = [Some (page_item demo_data)]"
  using demo_api
  by (simp add: trace_def demo_stub handleItem_def stub_item_def go_eval dispatch_message_def
      StoreDataInRedis_def api_stream_def Worker_Run.simps(2) split: option.split)

lemma sint_Suc_le: "sint (1 + of_nat n :: i64) \<le> int n + 1"
proof -
  have "sint (of_nat (Suc n) :: i64) \<le> int (Suc n)"
    by (simp only: signed_of_nat) (simp add: signed_take_bit_int_less_eq_self_iff)
  then show ?thesis by simp
qed

text \<open>The worker receives the widget and the marker, with a counter that counts and a total of one.\<close>

definition demo_key :: string where
  "demo_key = ed_RoutingKey demo_data"

definition one_message :: string where
  "one_message = [CHR ''{'', dquote] @ ''total_messages'' @ [dquote, CHR '':'', CHR ''1'', CHR ''}'']"

lemma one_message_total: "unmarshal_total_messages one_message = Some 1"
  by code_simp

definition buffer_world :: world where
  "buffer_world = demo_world\<lparr>
     w_recv := \<lambda>h. RecvItem (Some (if length (filter (\<lambda>e. snd e = ChanRecv) h) = 1 then page_item demo_data
                                     else completion_item demo_key)),
     w_int := \<lambda>h. Inr (of_nat (incrs demo_key h)), w_str := \<lambda>_. Inr one_message\<rparr>"

lemma buffer_world_simps [simp]:
  "w_recv buffer_world h = RecvItem (Some (if length (filter (\<lambda>e. snd e = ChanRecv) h) = 1 then page_item demo_data
     else completion_item demo_key))"
  "w_int buffer_world h = Inr (of_nat (incrs demo_key h))" "w_str buffer_world h = Inr one_message"
  by (simp_all add: buffer_world_def)

lemma demo_marks [simp]: "marks rk (Some (completion_item rk))" "marker_of rk (completion_item rk)"
  "\<not> marks rk (Some (page_item demo_data))" "\<not> marker_of rk (page_item demo_data)"
  by (simp_all add: marks_def marker_of_def completion_item_def demo_stub stub_item_def go_eval)

lemma buffer_widget:
  "\<exists>cmds. run_state (handleItem buffer_world rkf (process_worker W kafka_proc) ctx (Some (page_item demo_data))) h
     = (Returned, h @ [(ctx, PipelineExec cmds)])"
proof -
  define msg where "msg = the (sd_Message (the (sq_Data (stub_item demo_data))))"
  have "\<exists>payload. marshal_OutgoingMessage msg = Some payload"
    using marshal_stub by (simp add: msg_def stub_item_def)
  then obtain payload where "marshal_OutgoingMessage msg = Some payload"
    by blast
  moreover have "sq_Data (stub_item demo_data) = Some (zero_SenderQueueItemData\<lparr>sd_Message := Some msg,
      sd_RoutingKey := demo_key\<rparr>)"
    by (simp add: stub_item_def msg_def demo_key_def)
  moreover have "om_StreamTech msg = ''API''"
    using demo_api by (simp add: msg_def stub_item_def api_stream_def)
  ultimately show ?thesis
    by (simp add: demo_stub handleItem_def dispatch_message_def StoreDataInRedis_def zero_SenderQueueItemData_def Let_def)
qed

lemma buffer_run:
  "\<exists>cmds. trace (Worker_Run 2 buffer_world rkf (process_worker buffer_world kafka_proc) ctx) [] =
     [(ctx, ChanRecv), (ctx, PipelineExec cmds), (ctx, ChanRecv), (ctx, counter_incr demo_key),
      (ctx, meta_get demo_key), (ctx, status_set demo_key)]"
proof -
  let ?w = "process_worker buffer_world kafka_proc"
  note unfold = main_wk.Worker_Run_trace [where W = buffer_world and cfg = "pr_cfg kafka_proc"
      and b = "pr_broker kafka_proc" and k = "pr_kafka kafka_proc", folded process_worker_def]
  obtain cmds where "run_state (handleItem buffer_world rkf ?w ctx (Some (page_item demo_data))) [(ctx, ChanRecv)]
      = (Returned, [(ctx, ChanRecv), (ctx, PipelineExec cmds)])"
    using buffer_widget [of rkf buffer_world ctx "[(ctx, ChanRecv)]"] by auto
  then have "trace (handleItem buffer_world rkf ?w ctx (Some (page_item demo_data))) [(ctx, ChanRecv)] = [(ctx, PipelineExec cmds)]"
    "result (handleItem buffer_world rkf ?w ctx (Some (page_item demo_data))) [(ctx, ChanRecv)] = Returned"
    by (simp_all add: trace_def result_def)
  then show ?thesis
    by (intro exI [of _ cmds])
      (simp add: numeral_2_eq_2 unfold handleItem_marker [OF demo_marks(1)] completion_trace one_message_total protocol_defs)
qed

lemma buffer_received:
  "received buffer_world [] [(ctx, ChanRecv), (ctx, PipelineExec cmds), (ctx, ChanRecv), (ctx, counter_incr demo_key),
      (ctx, meta_get demo_key), (ctx, status_set demo_key)]
    = [Some (page_item demo_data), Some (completion_item demo_key)]"
  by (simp add: protocol_defs)

end
