(* ===== verification/Spec2Isabelle.thy ===== *)
theory Spec2Isabelle
  imports Http_Server Store Telemetry Examples
begin

text \<open>
  \<^bold>\<open>go-dispatcher\<close>, the event dispatcher of \<open>src/\<close>: requests for dashboard pages arrive on a Redis stream or a
  Kafka topic; a strategy chosen by product and page produces widget messages; a worker sends them to a Redis
  stream, a Kafka topic, a Redis hash that the frontend polls, or a live service.

  \<^bold>\<open>The parts and how they interact.\<close>  \<open>cmd/consumer/main.go\<close> starts two goroutines.  The consuming one is
  \<open>Consumer.Run\<close> (Redis) or \<open>Client.RunConsumer\<close> (Kafka); both call \<open>Consumer.ProcessMessage\<close>, which checks the
  message, enriches its page, and calls \<open>Controller.Run\<close>; the strategy the registry gives pushes items on
  the sender queue, a buffered channel.  The other goroutine, \<open>Worker.Run\<close>, takes items from the queue and
  dispatches each to one destination.  \<open>cmd/server/main.go\<close> is a separate health server.

  \<^bold>\<open>The model.\<close>  Every call on something outside the repository (Redis, Kafka, HTTP, the clock, a context, a
  channel operation) is an event of a history; a fragment of the program is a function of the state monad over
  the history, and the answers are functions of the history (\<open>world\<close> in \<open>Services\<close>), so that every service may
  keep any state and fail at any point.  A trace is therefore both the effects and their order.  Integers are
  \<open>64 word\<close>, strings are byte strings, nil-able pointers are options, errors are values.  Each goroutine runs
  against a history and a world of its own: what the others make of its calls in a concurrent run is one choice of
  answers, so a theorem for all worlds covers every interleaving, and the queue's runs tie the two together.

  \<^item> \<open>Dispatcher_Prelude\<close>: bytes, \<open>int64\<close> parsing and printing, durations, \<open>strings.*\<close>.
  \<^item> \<open>Go_Json\<close>, \<open>Go_Values\<close>: what the program uses of \<open>encoding/json\<close>: scanner, string quoting, parser, interface
    values; \<open>Json_Roundtrip\<close>: parsing undoes printing, up to the bytes outside valid UTF-8, which the encoder
    replaces (\<open>coerce_utf8\<close>).
  \<^item> \<open>Models\<close> (\<open>internal/models/message.go\<close>): the structs, their encoding and decoding by tag;
    \<open>Message_Roundtrip\<close>: decoding undoes encoding.
  \<^item> \<open>Config\<close> (\<open>internal/config\<close>): \<open>Load\<close> from an environment, validation, addresses, the event timeout.
  \<^item> \<open>Events\<close> (\<open>internal/models/events.go\<close>): accepted events, page tables, enrichment.
  \<^item> \<open>Services\<close>: the boundary of the program, contexts in the order of their derivation, traces, and the loop
    that polls a context.
  \<^item> \<open>Delivery\<close>: what the consumer loops owe, as predicates on traces: one message in flight, no marker ahead of
    its widgets.
  \<^item> \<open>Controller\<close> (\<open>internal/controller\<close>, \<open>internal/strategies\<close>): registry, controller, stub strategies.
  \<^item> \<open>Redis_Clients\<close> (\<open>internal/redis\<close>), \<open>Kafka_Client\<close> (\<open>internal/kafka\<close>): the operations on the brokers and
    the Kafka loop.
  \<^item> \<open>Consumer\<close> (\<open>internal/consumer\<close>): \<open>ProcessMessage\<close>, its specification \<open>classify\<close>, and the Redis loop.
  \<^item> \<open>Worker\<close> (\<open>internal/dispatcher\<close>): the dispatch, its specification \<open>destination\<close>, and the worker loop.
  \<^item> \<open>System\<close> (\<open>cmd/consumer\<close>): start, wiring, shutdown; every interface is interpreted on what the program puts
    behind it.  \<open>Sender_Queue\<close>: the channel between the goroutines as a step relation.  \<open>Completion\<close>: the
    protocol of the stream technology API across consumer, queue, worker and Redis.
  \<^item> \<open>Replay\<close>: dead letters that are consumed again.  \<open>Http_Server\<close> (\<open>internal/server\<close>, \<open>cmd/server\<close>),
    \<open>Store\<close> (\<open>internal/store\<close>), \<open>Telemetry\<close> (\<open>internal/telemetry\<close>).  \<open>Examples\<close>: the concrete inputs of the witnesses.

  \<^bold>\<open>Interfaces.\<close>  \<open>polling_loop\<close> (what a loop body owes), \<open>delivery_log\<close> (arrivals and settlements in a trace),
  \<open>widget_source\<close> and \<open>controller\<close> (a strategy queues at least one item on success and only items of the
  request), \<open>export_producer\<close>, \<open>output_producer\<close>, \<open>message_processor\<close>, \<open>consumer\<close>, \<open>worker\<close>, \<open>bounded_queue\<close>.  Each is interpreted on the program's own
  components, and the properties below rest on the facts of those interpretations.

  \<^bold>\<open>What is shown.\<close>  Delivery: exactly the delivered entries are acknowledged (C1), exactly the fetched messages are
  committed (C8), with at most one open wherever the process stops (C14); a rejected message is dead-lettered right
  before (C2, C9), what is queued is dispatched once, in order and to its one destination (C3, C6, C7), and the two
  loops treat the same bytes alike (C11).  Completion: no marker overtakes its widgets (C15), the buffered status means
  that the widgets have been dispatched (C4) and is reached (C16, C26).  Processing refines its specification (C5)
  on every branch (C17, C23 to C25, C33, C37).  Stopping: once they have started, the loops end with their context and
  with nothing else (C10, C12), and every call is under it (C13).  Start (C18, C19), JSON and dead-letter round trips
  (C20 to C22), enrichment (C34), configuration (C35, C36), registry (C38), stores and server (C39, C40).  Several
  theorems state what the code does where that is not what it means to do: C22, C27 to C31, C33, C37 and the lemmas
  \<open>redis_tls_ignored\<close>, \<open>engagements_pages_unserved\<close>, \<open>separator_collision\<close> and \<open>envelope_changes_bytes\<close>.

  \<^bold>\<open>Fuel and bounds.\<close>  The three loops take a number of iterations as fuel and return \<open>None\<close> while still running;
  the theorems about them hold for every amount of fuel, and C10 shows how much is enough once the context is
  done.  The JSON parser's fuel is the length of its text plus one, which suffices by the round trip; its nesting
  limit is the decoder's 10000.  The sender queue holds 1000 items.

  \<^bold>\<open>Assumptions.\<close>  \<open>int\<close> has 64 bits.  \<open>Duration.Seconds\<close> is exact, as it is for whole seconds
  (of a wrapped timeout C37 uses the sign only).  The conversion
  of a JSON number to a \<open>float64\<close> and back to text is the parameter \<open>w_float\<close>.  \<open>msg.RoutingKey\<close>
  (worker.go:124) names a field that does not exist; it is a parameter of the worker.  \<open>MaxLenApprox\<close>
  (broker.go:84), which version 9 of the client does not seem to have, is taken as the approximate MAXLEN it stands for.
  Request paths of the health server have only characters that URLs never escape (\<open>url_plain\<close>).  C4 and C16 assume what Redis
  documents of HINCRBY and HGET, as hypotheses on the world's answers for the counter and the total of one key.

  \<^bold>\<open>Not modelled.\<close>  The log lines (only whether a goroutine reports its end), the wait for a signal, the registry's
  lock (registration precedes the goroutines), the batching options of the Kafka writers, and the client
  libraries themselves, whose answers are the world's.
\<close>

section \<open>The Redis loop\<close>

text \<open>
  C1: However long the loop runs and whatever Redis, the strategies and the clock do, the consumer
  acknowledges exactly the entries it was delivered, each once and in the order of delivery.
\<close>

theorem redis_loop_acks_delivered:
  "acks (trace (redis_loop n W (main_consumer W cfg b0 k) b ctx) h)
     = delivered W h (trace (redis_loop n W (main_consumer W cfg b0 k) b ctx) h)"
  unfolding redis_loop_def by (rule settlesD(1) [OF main.loop.loop_good, symmetric])

text \<open>
  C2: A rejected message is written to the dead-letter stream, with the reason and the id of its entry, after
  its processing and before its acknowledgement, and nothing comes between.
\<close>

theorem rejected_message_dead_lettered_then_acked:
  assumes "payload_of vals \<noteq> ''''"
    and "unmarshal_IncomingMessage (w_float W) (payload_of vals) = Some m"
    and "result (ProcessMessage W (main_consumer W cfg b0 k) ctx m) h = ((False, reason), m')"
  shows "\<exists>maxlen fields.
      trace (handle_entry W (main_consumer W cfg b0 k) b ctx stream grp messageID vals) h =
        trace (ProcessMessage W (main_consumer W cfg b0 k) ctx m) h
        @ [(ctx, XAdd (DispatcherDeadletterStream cfg) fields maxlen), (ctx, XAck stream grp [messageID])]
      \<and> map_of fields ''reason'' = Some reason \<and> map_of fields ''message_id'' = Some messageID
      \<and> map_of fields ''eventName'' = Some (im_EventName m')
      \<and> map_of fields ''routing_key'' = map_option ed_RoutingKey (im_EventData m')"
proof -
  have "map_of (dead_letter_fields messageID m' reason) ''reason'' = Some reason"
    "map_of (dead_letter_fields messageID m' reason) ''message_id'' = Some messageID"
    "map_of (dead_letter_fields messageID m' reason) ''eventName'' = Some (im_EventName m')"
    "map_of (dead_letter_fields messageID m' reason) ''routing_key'' = map_option ed_RoutingKey (im_EventData m')"
    by (simp_all add: dead_letter_fields_def map_of_gmap_of split: option.split)
  then show ?thesis
    using main.handle_entry_rejected [OF assms, of b stream grp messageID] by auto
qed

theorem rejected_message_dead_lettered_then_acked_witness:
  "\<exists>maxlen fields. trace (handle_entry closed_world (sample_consumer closed_world) \<lparr>br_cfg = load_config (\<lambda>_. '''')\<rparr>
      Background ''in'' ''grp'' ''1-0'' [(''payload'', GStr (the (marshal_IncomingMessage sample_message)))]) [] =
        trace (ProcessMessage closed_world (sample_consumer closed_world) Background sample_message) []
        @ [(Background, XAdd '''' fields maxlen), (Background, XAck ''in'' ''grp'' [''1-0''])]
      \<and> map_of fields ''reason'' = Some ''controller_error''"
proof -
  let ?vals = "[(''payload'', GStr (the (marshal_IncomingMessage sample_message)))]"
  obtain p where p: "marshal_IncomingMessage sample_message = Some p" "unmarshal_IncomingMessage Some p = Some sample_message"
    using unmarshal_marshal_IncomingMessage [OF sample_message_ok, of Some] by (auto simp: bind_eq_Some_conv)
  then have "payload_of ?vals = p" using marshal_nonempty [OF p(1)] by (simp add: payload_of_def stringFromMap_def)
  moreover have "p \<noteq> ''''" using p(1) by (rule marshal_nonempty)
  ultimately show ?thesis
    using rejected_message_dead_lettered_then_acked [of ?vals closed_world sample_message "load_config (\<lambda>_. '''')" None None
        Background "[]" "''controller_error''" _ "\<lparr>br_cfg = load_config (\<lambda>_. '''')\<rparr>" "''in''" "''grp''" "''1-0''"]
      p(2) sample_rejected [of "[]"]
    by (auto simp: closed_world_def load_config_simps)
qed

text \<open>
  C10: Once the context stays done, the Redis loop returns: the length of the history at which it is done for good
  is enough fuel.
\<close>

theorem redis_loop_stops:
  assumes "\<And>h'. N \<le> length h' \<Longrightarrow> w_done W h' \<noteq> None"
  shows "result (redis_loop (Suc N) W (main_consumer W cfg b0 k) b ctx) h \<noteq> None"
  unfolding redis_loop_def by (rule main.loop.loop_returns [OF assms _]) (assumption, rule le_add2)

theorem redis_loop_stops_witness:
  "result (redis_loop 3 (calm\<lparr>w_done := \<lambda>h. if 2 \<le> length h then Some CtxCanceled else None\<rparr>)
     (main_consumer (calm\<lparr>w_done := \<lambda>h. if 2 \<le> length h then Some CtxCanceled else None\<rparr>)
       (load_config (\<lambda>_. '''')) None None) \<lparr>br_cfg = load_config (\<lambda>_. '''')\<rparr> Background) [] \<noteq> None"
  using redis_loop_stops [of 2 "calm\<lparr>w_done := \<lambda>h. if 2 \<le> length h then Some CtxCanceled else None\<rparr>"]
  by (simp add: numeral_3_eq_3)

section \<open>The Kafka loop\<close>

text \<open>
  C8: The Kafka loop commits exactly the messages it fetched, each once and in order, whatever their
  payload and whatever becomes of their processing.
\<close>

theorem kafka_loop_commits_fetched:
  "commits (trace (RunConsumer n W kc (kafka_process W (main_consumer W cfg b k)) ctx) h)
     = fetched W h (trace (RunConsumer n W kc (kafka_process W (main_consumer W cfg b k)) ctx) h)"
  unfolding RunConsumer_def by (rule settlesD(1) [OF main_proc.loop.loop_good, symmetric])

text \<open>
  C9: A message the processing rejects is written to the dead-letter topic after its processing and right before its
  commit; what is written is an object with the reason and with the bytes of the message, those outside valid UTF-8
  replaced by U+FFFD.
\<close>

theorem kafka_rejected_dead_lettered_then_committed:
  assumes "unmarshal_IncomingMessage (w_float W) (km_Value msg) = Some m"
    and "result (kafka_process W (main_consumer W cfg b k) ctx m) h = (False, reason)"
  shows "trace (kafka_handle W (NewClient cfg) (kafka_process W (main_consumer W cfg b k)) ctx msg) h =
      trace (kafka_process W (main_consumer W cfg b k) ctx m) h
      @ [(ctx, KafkaWrite (KafkaTopicDispatcherRequests cfg @ ''.dlq'') (km_Key msg)
                 (dead_letter_value (km_Value msg) reason)),
         (ctx, KafkaCommit msg)]
    \<and> json_parse (dead_letter_value (km_Value msg) reason)
        = Some (JObj [(''payload'', JStr (coerce_utf8 (km_Value msg))), (''reason'', JStr reason)])"
proof
  have "fst (result (ProcessMessage W (main_consumer W cfg b k) ctx m) h) = (False, reason)"
    using assms(2) by (simp add: kafka_process_def result_bind_cases)
  then have "List.member dead_letter_reasons reason"
    using ProcessMessage_outcomes [of W "main_consumer W cfg b k" ctx m h] by auto
  from coerce_reason [OF this]
  show "json_parse (dead_letter_value (km_Value msg) reason)
      = Some (JObj [(''payload'', JStr (coerce_utf8 (km_Value msg))), (''reason'', JStr reason)])"
    using envelope_parses [of reason "km_Value msg"] by simp
qed (use main_proc.kafka_handle_rejected [OF assms(1), of W cfg b k ctx h "NewClient cfg"] assms(2) in
  \<open>simp add: NewClient_def\<close>)

theorem kafka_rejected_dead_lettered_then_committed_witness:
  "\<exists>msg letter. trace (kafka_handle closed_world (NewClient (load_config (\<lambda>_. '''')))
        (kafka_process closed_world (sample_consumer closed_world)) Background msg) [] =
      trace (kafka_process closed_world (sample_consumer closed_world) Background sample_message) []
      @ [(Background, KafkaWrite ''staci.dispatcher.requests.dlq'' (km_Key msg) letter),
         (Background, KafkaCommit msg)]
    \<and> json_parse letter
        = Some (JObj [(''payload'', JStr (coerce_utf8 (km_Value msg))), (''reason'', JStr ''controller_error'')])"
proof -
  obtain p where p: "unmarshal_IncomingMessage Some p = Some sample_message"
    using unmarshal_marshal_IncomingMessage [OF sample_message_ok, of Some] by (auto simp: bind_eq_Some_conv)
  let ?msg = "\<lparr>km_Partition = 0, km_Offset = 0, km_Key = '''', km_Value = p\<rparr>"
  have "result (kafka_process closed_world (sample_consumer closed_world) Background sample_message) []
      = (False, ''controller_error'')"
    by (simp add: kafka_process_def result_bind_cases sample_rejected)
  with p show ?thesis
    using kafka_rejected_dead_lettered_then_committed [of closed_world ?msg
        sample_message "load_config (\<lambda>_. '''')" None None Background "[]" "''controller_error''"]
    by (intro exI [of _ ?msg] exI [of _ "dead_letter_value p ''controller_error''"])
      (simp add: closed_world_def load_config_simps getEnv_def)
qed

section \<open>Both loops\<close>

text \<open>
  C14: Wherever a consuming loop is stopped, after any number of its calls, the messages it has settled are those it has
  taken, in order, but for at most the last one: a crash leaves no more than one message open, and none is acknowledged
  or committed without having been taken.
\<close>

theorem crash_leaves_one_unsettled:
  "\<exists>redis_waiting kafka_waiting.
     (let es = take i (trace (redis_loop n W (main_consumer W cfg b0 k) b ctx) h)
      in delivered W h es = acks es @ redis_waiting \<and> length redis_waiting \<le> 1)
   \<and> (let es = take i (trace (RunConsumer n W kc (kafka_process W (main_consumer W cfg b0 k)) ctx) h)
      in fetched W h es = commits es @ kafka_waiting \<and> length kafka_waiting \<le> 1)"
  unfolding redis_loop_def RunConsumer_def Let_def ex_simps
  by (rule conjI; rule settlesD(2); rule main.loop.loop_good main_proc.loop.loop_good)

text \<open>
  C15: At every moment, and for every routing key, the consuming goroutine has queued at least as many widgets as
  completion markers: no marker overtakes the widgets it stands for.
\<close>

theorem markers_never_overtake_widgets:
  "markers_of rk (sends (take i (trace (main_consume n W p ctx) h)))
     \<le> widgets_of rk (sends (take i (trace (main_consume n W p ctx) h)))"
proof -
  have "prefix (sends (take i es)) (sends es)" for es
    by (metis append_take_drop_id hist_append(3) prefixI)
  then show ?thesis
    using markers_covered_prefix [OF covers_trace [OF main_consume_covers]] by blast
qed

text \<open>
  C11: The two consumers agree: for the same message bytes after the same calls, the Redis loop and the Kafka loop make
  the same processing calls, dead-letter in the same cases with the same reason, and then acknowledge or commit.
\<close>

theorem loops_agree:
  "let cons = main_consumer W cfg b0 k;
       processed = (case unmarshal_IncomingMessage (w_float W) (payload_of vals) of
                      None \<Rightarrow> [] | Some m \<Rightarrow> trace (ProcessMessage W cons ctx m) h)
   in \<exists>redis_letter kafka_letter.
      trace (handle_entry W cons b ctx stream grp messageID vals) h
        = processed @ redis_letter @ [(ctx, XAck stream grp [messageID])]
    \<and> trace (kafka_handle W (NewClient cfg) (kafka_process W cons) ctx (msg\<lparr>km_Value := payload_of vals\<rparr>)) h
        = processed @ kafka_letter @ [(ctx, KafkaCommit (msg\<lparr>km_Value := payload_of vals\<rparr>))]
    \<and> (redis_letter = [] \<and> kafka_letter = []
       \<or> (\<exists>fields maxlen reason. reason \<noteq> '''' \<and> map_of fields ''reason'' = Some reason
          \<and> redis_letter = [(ctx, XAdd (DispatcherDeadletterStream cfg) fields maxlen)]
          \<and> kafka_letter = [(ctx, KafkaWrite (KafkaTopicDispatcherRequests cfg @ ''.dlq'') (km_Key msg)
                                    (dead_letter_value (payload_of vals) reason))]))"
proof (cases "unmarshal_IncomingMessage (w_float W) (payload_of vals)")
  case None
  then show ?thesis by (simp add: handle_entry_def kafka_handle_def Ack_def trace_def)
next
  case (Some m)
  let ?cons = "main_consumer W cfg b0 k" and ?msg = "msg\<lparr>km_Value := payload_of vals\<rparr>"
  have nonempty: "payload_of vals \<noteq> ''''"
    using Some by (auto simp: unmarshal_IncomingMessage_def json_parse_def)
  obtain v m' es where run: "run_state (ProcessMessage W ?cons ctx m) h = ((v, m'), h @ es)"
      "result (ProcessMessage W ?cons ctx m) h = (v, m')" "trace (ProcessMessage W ?cons ctx m) h = es"
    using main.ProcessMessage_silent by (metis emitsE surj_pair)
  have k: "result (kafka_process W ?cons ctx m) h = v" "trace (kafka_process W ?cons ctx m) h = es"
    using run by (simp_all add: kafka_process_def trace_def result_def)
  show ?thesis
  proof (cases "fst v")
    case True
    then show ?thesis using Some nonempty run(1)
      by (simp add: handle_entry_def kafka_handle_def kafka_process_def Ack_def trace_def)
  next
    case False
    then obtain reason where v: "v = (False, reason)" "reason \<noteq> ''''"
      using ProcessMessage_outcomes [of W ?cons ctx m h] run(2) by (auto simp: dead_letter_reasons_def)
    have "map_of (dead_letter_fields messageID m' reason) ''reason'' = Some reason"
      by (simp add: dead_letter_fields_def map_of_gmap_of split: option.split)
    then show ?thesis
      using main.handle_entry_rejected [OF nonempty Some run(2) [unfolded v], of b stream grp messageID]
        main_proc.kafka_handle_rejected [of W ?msg m W cfg b0 k ctx h "NewClient cfg"] Some k v run(3)
      by (auto simp: NewClient_def)
  qed
qed

text \<open>
  C12: A started process stops consuming only with an error: the one its context was done with when it was last polled,
  or, on Redis, the one with which its consumer group could not be created.  A failed read, fetch or decoding never stops it.
\<close>

theorem consuming_ends_with_context:
  assumes "result (main_start W0 env) h0 = Inr p"
    and "result (main_consume n W p ctx) h = Some r"
  shows "\<exists>e. r = Some e \<and> (w_done W (h @ trace (main_consume n W p ctx) h) = Some e
    \<or> \<not> UseKafka (pr_cfg p) \<and> error_text e \<noteq> ''BUSYGROUP Consumer Group name already exists''
      \<and> w_err W (h @ [(ctx, XGroupCreateMkStream (DispatcherInputStream (pr_cfg p))
           (DispatcherConsumerGroup (pr_cfg p)) ''$'')]) = Some e)"
  using assms by (rule main_consume_returns)

theorem consuming_ends_with_context_witness:
  "\<exists>e. result (main_consume 1 (calm\<lparr>w_done := \<lambda>_. Some CtxCanceled\<rparr>) kafka_proc Background) [] = Some (Some e)
     \<and> e = CtxCanceled"
proof -
  have "result (main_consume 1 (calm\<lparr>w_done := \<lambda>_. Some CtxCanceled\<rparr>) kafka_proc Background) [] = Some (Some CtxCanceled)"
    by (simp add: main_consume_def kafka_proc_def RunConsumer_def kafka_iteration_def result_def)
  with consuming_ends_with_context [OF kafka_proc_starts this] show ?thesis by auto
qed

text \<open>
  C13: Both goroutines work under the context of the process: every call either makes is under a context derived from
  it, so that cancelling it reaches them all; reading the clock takes no context.
\<close>

theorem cancellation_reaches_every_call:
  "list_all (in_scope ctx) (trace (main_consume n W p ctx) h)
   \<and> list_all (in_scope ctx) (trace (Worker_Run n W rkf (process_worker W p) ctx) h)"
  using emits_trace [OF main_consume_scoped] emits_trace [OF main_worker_scoped] by blast

section \<open>Processing a message\<close>

text \<open>
  C5: The code computes the verdict of the specification: it skips, exports, rejects as stale, rejects an
  old export or runs the page exactly as \<open>classify\<close> says, with the age of the request as an integer.
\<close>

theorem ProcessMessage_implements_verdict:
  assumes "0 < sint (msg_timestamp m) \<Longrightarrow> 0 \<le> sint (clock1 W h) \<and> 0 \<le> sint (clock2 W h)"
  shows "fst (result (ProcessMessage W c ctx m) h) =
    verdict_outcome W c ctx m h
      (classify (co_calcExportProducer c \<noteq> None) (sint (duration_seconds (EventTimeout (co_cfg c))))
        (sint (clock1 W h) - sint (msg_timestamp m)) (sint (clock2 W h) - sint (msg_timestamp m)) m)"
  using assms by (rule ProcessMessage_verdict)

theorem ProcessMessage_implements_verdict_witness:
  "fst (result (ProcessMessage calm (sample_consumer calm) Background sample_message) []) = (True, '''')"
proof -
  have v: "classify False 3600 100 100 sample_message = Page"
    using accepted_interactions
    by (simp add: classify_def sample_message_def zero_EventData_def other_pipeline_def export_event_def)
  have "fst (result (ProcessMessage calm (sample_consumer calm) Background sample_message) []) =
      verdict_outcome calm (sample_consumer calm) Background sample_message [] (classify False 3600 100 100 sample_message)"
    by (subst ProcessMessage_implements_verdict)
      (simp_all add: clock1_def clock2_def default_timeout msg_timestamp_def sample_message_def zero_EventData_def)
  then show ?thesis unfolding v
    by (simp add: verdict_outcome_def result_def run_page_main)
qed

text \<open>
  C25: A message is either acknowledged with no reason or rejected with one of the four reasons of the code.
\<close>

theorem ProcessMessage_outcome:
  "fst (result (ProcessMessage W c ctx m) h) = (True, '''')
   \<or> (\<exists>reason. List.member dead_letter_reasons reason
        \<and> fst (result (ProcessMessage W c ctx m) h) = (False, reason))"
  using ProcessMessage_outcomes [of W c ctx m h] by auto

section \<open>Running a page\<close>

text \<open>
  C17: A page makes exactly these calls: for an API request it sets the event status; it selects on the sender queue for
  its one item and, when that is queued and the request is an API request, for its completion marker.  It is
  acknowledged exactly when the item is queued, whatever becomes of the marker.
\<close>

theorem page_sends:
  "let rc = WithTimeout ctx (EventTimeout cfg);
       item = page_item ed; marker = completion_item (ed_RoutingKey ed);
       status = (if api_stream ed then [(rc, RedisSet (EventStatusPrefix @ ed_RoutingKey ed)
                   ''PROCESSING_EVENT_IN_PUBLISHER_CONTROLLER'' (seconds 20))] else []);
       queued = (w_send W (h @ status @ [(rc, ChanSelect item)]) = None);
       item_calls = status @ [(rc, ChanSelect item), (rc, ChanSend item)];
       marked = (w_send W (h @ item_calls @ [(rc, ChanSelect marker)]) = None);
       page = run_page W (main_consumer W cfg b k) ctx ed
   in result page h = (if queued then (True, '''') else (False, ''controller_error''))
    \<and> trace page h =
        (if \<not> queued then status @ [(rc, ChanSelect item)]
         else if \<not> api_stream ed then item_calls
         else item_calls @ [(rc, ChanSelect marker)] @ (if marked then [(rc, ChanSend marker)] else []))
    \<and> sends (trace page h) =
        (if \<not> queued then [] else if api_stream ed \<and> marked then [item, marker] else [item])"
  by (simp add: Let_def result_def trace_def run_page_main)



text \<open>
  C24: A message the program is not meant to process is acknowledged without any call on a service and without a
  change to the message.
\<close>

theorem skipped_message_untouched:
  assumes "classify (co_calcExportProducer c \<noteq> None) t a1 a2 m = Skip"
  shows "run_state (ProcessMessage W c ctx m) h = (((True, ''''), m), h)"
  using assms
  by (auto simp: classify_def ProcessMessage_def split: option.splits if_splits)

theorem skipped_message_untouched_witness:
  "run_state (ProcessMessage calm (main_consumer calm (load_config (\<lambda>_. '''')) None None) Background
      zero_IncomingMessage) [] = (((True, ''''), zero_IncomingMessage), [])"
  by (rule skipped_message_untouched [of _ 0 0 0]) (simp add: classify_def zero_IncomingMessage_def)

text \<open>
  C23: An export request makes exactly one Kafka write, keyed by its exporter, and is acknowledged exactly when
  the write succeeded; filters that cannot be encoded reject it before any write.
\<close>

theorem export_request_one_write:
  assumes "im_EventData m = Some ed" "accepted_event (im_EventName m)" "ed_ExporterID ed \<noteq> ''''"
    and "isExportRequest (im_EventName m) ed"
  shows "run_state (ProcessMessage W (main_consumer W cfg b (Some kc)) ctx m) h =
    (case marshal (data_fetcher_payload ed) of
       None \<Rightarrow> (((False, ''export_send_failed''), m), h)
     | Some body \<Rightarrow>
         let h' = h @ [(ctx, KafkaWrite (kc_fetcherTopic kc) (ed_ExporterID ed) body)] in
         ((if w_err W h' = None then (True, '''') else (False, ''export_send_failed''), m), h'))"
  using assms
  by (auto simp: ProcessMessage_def SendDataFetcher_def split: option.split)

theorem export_request_one_write_witness:
  "\<exists>body. run_state (ProcessMessage calm
       (main_consumer calm (load_config (\<lambda>_. '''')) None (Some (NewClient (load_config (\<lambda>_. ''''))))) Background export_message) []
     = (((True, ''''), export_message), [(Background, KafkaWrite ''staci.calc.data_fetcher'' ''ex-1'' body)])"
proof -
  let ?ed = "zero_EventData\<lparr>ed_ExporterID := ''ex-1''\<rparr>"
  have "\<exists>body. marshal (data_fetcher_payload ?ed) = Some body"
    by (simp add: data_fetcher_payload_def gmap_of_def marshal_def zero_EventData_def)
  moreover have "kc_fetcherTopic (NewClient (load_config (\<lambda>_. ''''))) = ''staci.calc.data_fetcher''"
    by (simp add: NewClient_def load_config_def getEnv_def)
  moreover have "accepted_event ''calc_export''" by code_simp
  ultimately show ?thesis
    by (subst export_request_one_write [of _ ?ed])
      (auto simp: export_message_def isExportRequest_def zero_EventData_def)
qed

text \<open>
  C33: With an event timeout of at most the two hours of the export check, a request is never rejected as an export
  that timed out, unless the clock moves between the two readings: the staleness check comes first.
\<close>

theorem export_timeout_unreachable:
  assumes "sint (duration_seconds (EventTimeout (co_cfg c))) \<le> 7200" "clock2 W h = clock1 W h"
    and "0 < sint (msg_timestamp m) \<Longrightarrow> 0 \<le> sint (clock1 W h)"
  shows "fst (result (ProcessMessage W c ctx m) h) \<noteq> (False, ''export_xlsx_timeout'')"
proof -
  let ?a = "sint (clock1 W h) - sint (msg_timestamp m)"
  let ?v = "classify (co_calcExportProducer c \<noteq> None) (sint (duration_seconds (EventTimeout (co_cfg c)))) ?a ?a m"
  have "fst (result (ProcessMessage W c ctx m) h) = verdict_outcome W c ctx m h ?v"
    using ProcessMessage_verdict [of m W h c ctx] assms(2,3) by simp
  moreover have "?v \<noteq> ExportTimeout"
    using assms(1) by (auto simp: classify_def split: option.splits if_splits)
  moreover have "verdict_outcome W c ctx m h v \<noteq> (False, ''export_xlsx_timeout'')" if "v \<noteq> ExportTimeout" for v
    using that result_run_page [of W c ctx "page_data m (the (im_EventData m))" "page_hist m h"]
    by (auto simp: verdict_outcome_def split: verdict.split option.split)
  ultimately show ?thesis by simp
qed

theorem export_timeout_unreachable_witness:
  "fst (result (ProcessMessage calm (main_consumer calm (load_config (\<lambda>_. '''')) None None) Background timed_export) [])
     \<noteq> (False, ''export_xlsx_timeout'')"
proof (rule export_timeout_unreachable)
  show "sint (duration_seconds (EventTimeout (co_cfg (main_consumer calm (load_config (\<lambda>_. '''')) None None)))) \<le> 7200"
    by (simp add: default_timeout)
qed (simp_all add: clock1_def clock2_def)

text \<open>
  C37: With an event timeout of 9223372037 to 18446744073 seconds, whose nanoseconds wrap around to a negative
  duration, every message that runs a page is rejected as stale as soon as the clock shows more than its timestamp.
\<close>

theorem wrapped_timeout_rejects:
  assumes "env ''APP_GO_DISPATCHER_EVENT_TIMEOUT'' = show_i64 n"
    and "9223372037 \<le> sint n" "sint n \<le> 18446744073"
    and "im_EventData m = Some ed" "accepted_event (im_EventName m)" "\<not> other_pipeline ed"
    and "k = None \<or> ed_ExporterID ed = '''' \<or> \<not> isExportRequest (im_EventName m) ed"
    and "0 < sint (ed_RequestTimestamp ed)" "sint (ed_RequestTimestamp ed) < sint (clock1 W h)"
  shows "run_state (ProcessMessage W (main_consumer W (fst (Load env)) b k) ctx m) h
    = (((False, ''stale_request''), m\<lparr>im_EventData := Some (merge_widgets m ed)\<rparr>), h @ [(Background, Now)])"
proof -
  let ?c = "main_consumer W (fst (Load env)) b k"
  have "sint (EventTimeout (load_config env)) < 0"
    using event_timeout_wraps [of env n, OF assms(1-3)] assms(3) by simp
  then have "sint (duration_seconds (EventTimeout (co_cfg ?c))) \<le> 0"
    by (simp add: duration_seconds_negative)
  moreover have "sint (clock1 W h - ed_RequestTimestamp ed) = sint (clock1 W h) - sint (ed_RequestTimestamp ed)"
    using assms(8,9) by (intro age_no_wrap) simp_all
  ultimately have "run_state (process_page W ?c ctx (im_EventName m) (merge_widgets m ed)) h
      = (((False, ''stale_request''), merge_widgets m ed), h @ [(Background, Now)])"
    using assms(8,9) by (simp add: process_page_def run_older_than)
  then show ?thesis using assms(4-7) by (auto simp: ProcessMessage_def)
qed

theorem wrapped_timeout_rejects_witness:
  "fst (result (ProcessMessage calm (main_consumer calm (fst (Load (\<lambda>_. show_i64 9223372037))) None None) Background
      sample_message) []) = (False, ''stale_request'')"
  by (subst result_def, subst wrapped_timeout_rejects [of "\<lambda>_. show_i64 9223372037" 9223372037 _ sample_data])
    (simp_all add: accepted_interactions sample_data_def sample_message_def zero_EventData_def other_pipeline_def clock1_def)

section \<open>Dispatching\<close>

text \<open>
  C6: Every item the worker handles makes exactly the calls of its one destination, and the worker panics only
  where the destination is a Redis stream and there is no broker.
\<close>

theorem handleItem_implements_destination:
  "reaches (output_topic k) (destination (main_worker W cfg b k) item)
      (map snd (trace (handleItem W rkf (main_worker W cfg b k) ctx item) h))
   \<and> (result (handleItem W rkf (main_worker W cfg b k) ctx item) h = Panicked
        \<longleftrightarrow> destination (main_worker W cfg b k) item = Crash)"
  by (rule main_wk.handleItem_reaches)

text \<open>
  C7: The worker loop dispatches every item it receives, once and in the order of receipt: apart from the receives,
  its calls are the calls of the items' destinations, one segment per item.
\<close>

theorem worker_dispatches_each_item:
  "\<exists>segs. filter (\<lambda>c. c \<noteq> ChanRecv) (map snd (trace (Worker_Run n W rkf (main_worker W cfg b k) ctx) h)) = concat segs
     \<and> list_all2 (\<lambda>item cs. reaches (output_topic k) (destination (main_worker W cfg b k) item) cs)
         (received W h (trace (Worker_Run n W rkf (main_worker W cfg b k) ctx) h)) segs"
  using main_wk.Worker_Run_dispatches [of n W rkf cfg b k ctx h] by (auto simp: trace_def)

text \<open>C18: The worker of a process that started never panics, whatever items reach it and in whatever environment.\<close>

theorem started_worker_never_panics:
  assumes "result (main_start W env) h = Inr p"
  shows "result (Worker_Run n W rkf (process_worker W p) ctx) h' \<noteq> Some Panicked"
proof (rule Worker_Run_no_panic)
  show "result (handleItem W rkf (process_worker W p) ctx item) h \<noteq> Panicked" for item h
    using main_wk.handleItem_reaches [of "pr_kafka p" W "pr_cfg p" "pr_broker p" item rkf ctx h]
      started_not_crash [OF assms, of item]
    by (simp add: process_worker_def)
qed

theorem started_worker_never_panics_witness:
  "result (Worker_Run 5 calm om_QueueName (process_worker calm kafka_proc) Background) [] \<noteq> Some Panicked"
  by (rule started_worker_never_panics [OF kafka_proc_starts])

text \<open>
  C27: The worker stores the widget of an API request whose page has a strategy in the buffer hash of the effective
  routing key, under its event name, and counts the completion marker in the buffer hash of the request's own routing
  key; the two hashes are the same exactly when no other routing key overrides the output.
\<close>

theorem api_request_hashes:
  assumes "api_stream ed" "stub_found ed"
  shows "let rk = (if OverrideOutput cfg \<and> OverrideRoutingKey cfg \<noteq> '''' then OverrideRoutingKey cfg else ed_RoutingKey ed);
       wk = main_worker W cfg b k; marker = completion_item (ed_RoutingKey ed)
   in (\<exists>payload.
        marshal_OutgoingMessage (the (sd_Message (the (sq_Data (page_item ed))))) = Some payload
      \<and> map snd (trace (handleItem W rkf wk ctx (Some (page_item ed))) h)
          = [PipelineExec [HSet (BufferKeyPrefix @ rk) (stub_event_name ed) payload, Expire (BufferKeyPrefix @ rk) BufferTTL]])
    \<and> take 1 (map snd (trace (handleItem W rkf wk ctx (Some marker)) h'))
          = [HIncrBy (BufferKeyPrefix @ ed_RoutingKey ed) ''__processed_count__'' 1]
    \<and> (BufferKeyPrefix @ rk = BufferKeyPrefix @ ed_RoutingKey ed
        \<longleftrightarrow> \<not> (OverrideOutput cfg \<and> OverrideRoutingKey cfg \<noteq> '''' \<and> OverrideRoutingKey cfg \<noteq> ed_RoutingKey ed))"
proof -
  let ?rk = "if OverrideOutput cfg \<and> OverrideRoutingKey cfg \<noteq> '''' then OverrideRoutingKey cfg else ed_RoutingKey ed"
  let ?wk = "main_worker W cfg b k" and ?marker = "completion_item (ed_RoutingKey ed)"
  have "\<exists>payload. marshal_OutgoingMessage (the (sd_Message (the (sq_Data (stub_item ed))))) = Some payload"
    using marshal_stub by (simp add: stub_item_def)
  then obtain payload where payload:
    "marshal_OutgoingMessage (the (sd_Message (the (sq_Data (stub_item ed))))) = Some payload" by blast
  moreover have "stub_event_name ed \<noteq> ''''" by (simp add: stub_event_name_def)
  ultimately have "destination ?wk (Some (page_item ed)) = Buffer (BufferKeyPrefix @ ?rk) (stub_event_name ed) payload"
    using assms
    by (simp add: page_item_def stub_item_def destination_def message_destination_def
        zero_SenderQueueItemData_def zero_OutgoingMessage_def api_stream_def effective_routing_key_def)
  then have widget: "map snd (trace (handleItem W rkf ?wk ctx (Some (page_item ed))) h)
      = [PipelineExec [HSet (BufferKeyPrefix @ ?rk) (stub_event_name ed) payload, Expire (BufferKeyPrefix @ ?rk) BufferTTL]]"
    using main_wk.handleItem_reaches [of k W cfg b "Some (page_item ed)" rkf ctx h] by simp
  have "destination ?wk (Some ?marker) = Completion (ed_RoutingKey ed)"
    by (simp add: completion_item_def destination_def zero_SenderQueueItemData_def)
  then have "take 1 (map snd (trace (handleItem W rkf ?wk ctx (Some ?marker)) h'))
      = [HIncrBy (BufferKeyPrefix @ ed_RoutingKey ed) ''__processed_count__'' 1]"
    using main_wk.handleItem_reaches [of k W cfg b "Some ?marker" rkf ctx h'] by (auto simp: Let_def)
  then show ?thesis using widget payload assms(2) by (auto simp: Let_def page_item_def)
qed

theorem api_request_hashes_witness:
  "\<exists>payload. map snd (trace (handleItem calm om_QueueName (main_worker calm (load_config (\<lambda>_. '''')) None None) Background
        (Some (page_item api_request))) [])
      = [PipelineExec [HSet (BufferKeyPrefix @ ''user-7'') ''ResearchInteractionsPage__stub'' payload,
           Expire (BufferKeyPrefix @ ''user-7'') BufferTTL]]"
proof -
  have "stub_found api_request"
    by (rule stub_found_page) (simp_all add: api_request_def zero_EventData_def stub_pages_def)
  moreover have "OverrideRoutingKey (load_config (\<lambda>_. '''')) = ''''" by (simp add: load_config_def)
  moreover have "stub_event_name api_request = ''ResearchInteractionsPage__stub''" "ed_RoutingKey api_request = ''user-7''"
    by (simp_all add: api_request_def zero_EventData_def stub_event_name_def)
  ultimately show ?thesis
    using api_request_hashes [OF api_request_api, of "load_config (\<lambda>_. '''')" calm None None om_QueueName Background "[]" "[]"]
    by (auto simp: Let_def)
qed

text \<open>
  C31: The placeholder of a request without a strategy carries no stream technology: it is never buffered and
  never sent to the live service, also where the request asked for that.
\<close>

theorem placeholder_ignores_stream_tech:
  "destination (main_worker W cfg b k) (Some (placeholder_item ed g)) =
     (let rk = (if OverrideOutput cfg \<and> OverrideRoutingKey cfg \<noteq> '''' then OverrideRoutingKey cfg else ed_RoutingKey ed);
          payload = the (marshal_OutgoingMessage (the (sd_Message (the (sq_Data (placeholder_item ed g))))))
      in if UseKafka cfg \<and> k \<noteq> None then KafkaTopic rk payload
         else case b of None \<Rightarrow> Crash | Some br \<Rightarrow> OutputStream (OutputStreamName br rk) rk payload)"
proof -
  obtain payload where "marshal_OutgoingMessage (zero_OutgoingMessage\<lparr>om_EventName := ''Dispatcher__Placeholder'',
      om_EventData := GMap (gmap_of [(''status'', GStr ''no_strategy''), (''page'', GStr g)])\<rparr>) = Some payload"
    using marshal_placeholder by blast
  then show ?thesis
    by (auto simp: placeholder_item_def destination_def message_destination_def effective_routing_key_def
        zero_SenderQueueItemData_def zero_OutgoingMessage_def)
qed

text \<open>
  No widget of the program overwrites a field the backend reserves: the event name under which it is buffered is
  neither the counter nor the metadata field, and never empty.
\<close>

lemma buffered_field_not_reserved:
  "\<not> List.member [''__processed_count__'', ''__meta__'', ''''] (stub_event_name ed)"
proof -
  have "last (stub_event_name ed) = CHR ''b'' \<or> last (stub_event_name ed) = CHR ''t''"
    by (simp add: stub_event_name_def)
  moreover have "stub_event_name ed \<noteq> []" by (simp add: stub_event_name_def)
  ultimately show ?thesis by auto
qed

text \<open>
  C26: Counting a completion marker sets the status to buffered exactly when the counter was incremented, the
  metadata was read and decoded, and its total has been reached.
\<close>

theorem completion_status_iff:
  "(\<exists>c. List.member (map snd (trace (IncrementAndCheckCompletion W ctx rk) h)) (RedisSet (EventStatusPrefix @ rk) buffered_status c))
   \<longleftrightarrow>
   (let h1 = h @ [(ctx, HIncrBy (BufferKeyPrefix @ rk) ''__processed_count__'' 1)];
        h2 = h1 @ [(ctx, HGet (BufferKeyPrefix @ rk) ''__meta__'')]
    in \<exists>n meta total_msgs. w_int W h1 = Inr n \<and> w_str W h2 = Inr meta
         \<and> unmarshal_total_messages meta = Some total_msgs \<and> sint total_msgs \<le> sint n)"
  by (auto simp: IncrementAndCheckCompletion_def trace_def split: sum.splits option.splits)

section \<open>Strategies\<close>

text \<open>
  C32: Every event whose page the enrichment fixes is served by a strategy and not by the placeholder, whatever else
  the request says, unless it is an alert.
\<close>

theorem fixed_page_events_served:
  assumes "List.member (map fst fixed_pages) n"
    and "ed_Product ed \<noteq> ''Alerts'' \<or> ed_PageAlertNotification ed = ''''"
  shows "Controller_Run W (stub_registry (StubStrategy_CallPageData W)) ctx (Some (enrich n ed))
    = select_send W ctx (stub_item (enrich n ed))"
  using fixed_event_found [OF assms] by (simp add: Controller_Run_stubs page_item_def)

theorem fixed_page_events_served_witness:
  "Controller_Run calm (stub_registry (StubStrategy_CallPageData calm)) Background (Some (enrich ''interactions'' api_request))
    = select_send calm Background (stub_item (enrich ''interactions'' api_request))"
  by (rule fixed_page_events_served) (simp_all add: fixed_pages_def api_request_def zero_EventData_def)

text \<open>
  C29: An alert never reaches the strategy registered for it: the registration has no alert notification in its
  key, the lookup always has one, and the fallback has neither product nor alert.
\<close>

theorem alerts_unserved:
  assumes "ed_Product ed = ''Alerts''" "List.member stub_alerts (ed_PageAlertNotification ed)"
  shows "strategies (stub_registry (StubStrategy_CallPageData W))
      (strategyKey ''Alerts'' (ed_PageAlertNotification ed) '''') = Some (StubStrategy_CallPageData W)
    \<and> Controller_Run W (stub_registry (StubStrategy_CallPageData W)) ctx (Some ed)
      = select_send W ctx (placeholder_item ed (ed_PageAlertNotification ed))"
proof
  have "List.member stub_keys (''Alerts|'' @ ed_PageAlertNotification ed)"
    using assms(2) by (simp add: stub_keys_def)
  then show "strategies (stub_registry (StubStrategy_CallPageData W))
      (strategyKey ''Alerts'' (ed_PageAlertNotification ed) '''') = Some (StubStrategy_CallPageData W)"
    by (simp add: strategies_stub_registry strategyKey_def)
  show "Controller_Run W (stub_registry (StubStrategy_CallPageData W)) ctx (Some ed)
      = select_send W ctx (placeholder_item ed (ed_PageAlertNotification ed))"
    using no_stub_alert [OF assms] by (simp add: Controller_Run_stubs page_item_def)
qed

theorem alerts_unserved_witness:
  "Controller_Run calm (stub_registry (StubStrategy_CallPageData calm)) Background
      (Some (zero_EventData\<lparr>ed_Product := ''Alerts'', ed_PageAlertNotification := ''TrendingAlert''\<rparr>))
    = select_send calm Background (placeholder_item
        (zero_EventData\<lparr>ed_Product := ''Alerts'', ed_PageAlertNotification := ''TrendingAlert''\<rparr>) ''TrendingAlert'')"
  using alerts_unserved [of "zero_EventData\<lparr>ed_Product := ''Alerts'', ed_PageAlertNotification := ''TrendingAlert''\<rparr>" calm Background]
  by (simp add: stub_alerts_def zero_EventData_def)

text \<open>
  Two of the pages the engagements mapping leads to have no strategy: their requests end in the placeholder.
\<close>

lemma engagements_pages_unserved:
  assumes "ed_Product ed = ''''" "ed_PageAlertNotification ed = ''''"
    and "List.member [''engagements_profile_data'', ''engagements_logs_data''] (ed_PageName ed)"
  shows "\<exists>page. EngagementsPageNameMapping (ed_PageName ed) = Some page
    \<and> page_item (enrich ''engagements_go_dispatcher'' ed)
      = placeholder_item (enrich ''engagements_go_dispatcher'' ed) page"
proof -
  have pages: "EngagementsPageNameMapping ''engagements_profile_data'' = Some ''EngagementsProfileDataPage''"
    "EngagementsPageNameMapping ''engagements_logs_data'' = Some ''EngagementsSlasPage''"
    by (simp_all add: EngagementsPageNameMapping_def)
  have enr: "enrich ''engagements_go_dispatcher'' ed = ed\<lparr>ed_PageName := p\<rparr>"
    if "EngagementsPageNameMapping (ed_PageName ed) = Some p" for p
    using that assms(3) by (auto simp: enrich_def)
  have none: "\<not> List.member stub_keys ''EngagementsProfileDataPage''" "\<not> List.member stub_keys ''EngagementsSlasPage''"
    by code_simp+
  consider "ed_PageName ed = ''engagements_profile_data''" | "ed_PageName ed = ''engagements_logs_data''"
    using assms(3) by auto
  then show ?thesis
  proof cases
    case 1
    then show ?thesis using enr pages(1) none(1) assms(1,2)
      by (simp add: page_item_def stub_found_def selected_page_def)
  next
    case 2
    then show ?thesis using enr pages(2) none(2) assms(1,2)
      by (simp add: page_item_def stub_found_def selected_page_def)
  qed
qed

lemma engagements_pages_unserved_witness:
  "page_item (enrich ''engagements_go_dispatcher'' (zero_EventData\<lparr>ed_PageName := ''engagements_logs_data''\<rparr>))
    = placeholder_item (enrich ''engagements_go_dispatcher'' (zero_EventData\<lparr>ed_PageName := ''engagements_logs_data''\<rparr>))
        ''EngagementsSlasPage''"
  using engagements_pages_unserved [of "zero_EventData\<lparr>ed_PageName := ''engagements_logs_data''\<rparr>"]
  by (simp add: zero_EventData_def EngagementsPageNameMapping_def)

section \<open>Start\<close>

text \<open>
  C19: The consumer process starts exactly when its configuration is complete, the backend answers its ping and,
  without Kafka, so does the broker; with Kafka a broker that does not answer is left out.  In every other
  case it exits with code 1.
\<close>

theorem main_start_spec:
  "result (main_start W env) h =
     (let cfg = load_config env;
          c5 = WithTimeout Background (seconds 5);
          h1 = h @ [(c5, Ping (broker_options cfg))];
          h2 = h1 @ [(c5, Ping (backend_options cfg))]
      in if validate cfg = None \<and> w_err W h2 = None \<and> (UseKafka cfg \<or> w_err W h1 = None)
         then Inr \<lparr>pr_cfg = cfg, pr_broker = (if w_err W h1 = None then Some \<lparr>br_cfg = cfg\<rparr> else None),
                pr_backend = \<lparr>bk_cfg = cfg\<rparr>, pr_kafka = (if UseKafka cfg then Some (NewClient cfg) else None)\<rparr>
         else Inl 1)"
  by (auto simp: main_start_def start_broker_def NewBroker_def NewBackendRedis_def result_def split: option.split)

text \<open>The TLS flag of the Redis connection has no effect: with and without it the options are those without TLS.\<close>

lemma redis_tls_ignored:
  "broker_options (cfg\<lparr>RedisTLS := tls\<rparr>) = broker_options (cfg\<lparr>RedisTLS := False\<rparr>)
   \<and> \<not> ro_TLS (broker_options cfg) \<and> \<not> ro_TLS (backend_options cfg)"
  by (simp add: broker_options_def backend_options_def RedisAddr_def)

section \<open>Replaying a dead letter\<close>

text \<open>
  C28: A message that is dead-lettered because its controller failed can be consumed again from the dead-letter stream,
  and then runs the same page with the same data, but with the widgets of its top level twice.
\<close>

theorem replay_duplicates_widgets:
  assumes "result (ProcessMessage W c ctx m) h = ((False, ''controller_error''), m')"
    and "im_EventData m = Some ed" "IncomingMessage_ok fl m'"
  shows "\<exists>m2 ed2. unmarshal_IncomingMessage fl (payload_of (stream_entry (dead_letter_fields messageID m' reason))) = Some m2
    \<and> im_EventName m2 = im_EventName m \<and> im_EventData m2 = Some ed2
    \<and> page_data m2 ed2 = (page_data m ed)\<lparr>ed_SelectedWidgets :=
        ed_SelectedWidgets ed @ im_SelectedWidgets m @ im_SelectedWidgets m\<rparr>"
  using payload_read_back [OF assms(3), of messageID reason] ProcessMessage_left [OF assms(1,2)]
    page_data_again [of m' m ed] by simp

theorem replay_duplicates_widgets_witness:
  "\<exists>m2 ed2. unmarshal_IncomingMessage Some (payload_of (stream_entry (dead_letter_fields ''1-0''
        (sample_message\<lparr>im_EventData := Some (page_data sample_message sample_data)\<rparr>) ''controller_error''))) = Some m2
    \<and> im_EventData m2 = Some ed2 \<and> ed_SelectedWidgets (page_data m2 ed2) = [''Reach'', ''Reach'']"
proof -
  let ?left = "sample_message\<lparr>im_EventData := Some (page_data sample_message sample_data)\<rparr>"
  have "IncomingMessage_ok Some ?left"
    by (simp add: IncomingMessage_ok_def EventData_ok_def sample_message_def sample_data_def page_data_def enrich_def
        merge_widgets_def zero_EventData_def valid_utf8_ascii)
  from replay_duplicates_widgets [OF sample_rejected [of "[]"] _ this, of sample_data "''1-0''" "''controller_error''"]
  show ?thesis by (auto simp: sample_data_def sample_message_def zero_EventData_def)
qed

section \<open>From the stream to the services\<close>

text \<open>
  C3: End to end: let the consuming goroutine have made the calls \<open>tc\<close> and the worker the calls \<open>tw\<close>, and let the
  sends of \<open>tc\<close> and the receives of \<open>tw\<close> be those of one run of the sender queue.  Then the worker has dispatched,
  each to its destination and in order, a prefix of the items the consumer queued, and at most 1000 items wait.
\<close>

theorem queued_items_dispatched_in_order:
  assumes "queue_run (make_chan senderQueueCap) ls q"
    and "sent ls = sends (trace (main_consume n Wc p ctx) hc)"
    and "map Some (taken ls) = received W h (trace (Worker_Run m W rkf (process_worker W p) ctx) h)"
  shows "\<exists>segs waiting.
      sends (trace (main_consume n Wc p ctx) hc) = taken ls @ waiting \<and> length waiting \<le> 1000
    \<and> filter (\<lambda>c. c \<noteq> ChanRecv) (map snd (trace (Worker_Run m W rkf (process_worker W p) ctx) h)) = concat segs
    \<and> list_all2 (\<lambda>item cs. reaches (output_topic (pr_kafka p)) (destination (process_worker W p) (Some item)) cs)
        (taken ls) segs"
proof -
  obtain r es segs where w: "run_state (Worker_Run m W rkf (process_worker W p) ctx) h = (r, h @ es)"
      "filter (\<lambda>c. c \<noteq> ChanRecv) (map snd es) = concat segs"
      "list_all2 (\<lambda>item cs. reaches (output_topic (pr_kafka p)) (destination (process_worker W p) item) cs)
         (received W h es) segs"
    using main_wk.Worker_Run_dispatches [of m W rkf "pr_cfg p" "pr_broker p" "pr_kafka p" ctx h]
    unfolding process_worker_def by blast
  have tw: "trace (Worker_Run m W rkf (process_worker W p) ctx) h = es" using w(1) by (simp add: trace_def)
  then have recv: "received W h es = map Some (taken ls)" using assms(3) by simp
  have "list_all2 (\<lambda>item cs. reaches (output_topic (pr_kafka p)) (destination (process_worker W p) (Some item)) cs) (taken ls) segs"
    using w(3) unfolding recv by (simp add: list_all2_map1)
  moreover have "sends (trace (main_consume n Wc p ctx) hc) = taken ls @ ch_buf q" "length (ch_buf q) \<le> 1000"
    using make_chan_run [OF assms(1)] assms(2) by (simp_all add: senderQueueCap_def)
  ultimately show ?thesis using w(2) tw by blast
qed

theorem queued_items_dispatched_in_order_witness:
  "\<exists>segs. filter (\<lambda>c. c \<noteq> ChanRecv) (map snd (trace (Worker_Run 1 demo_world om_QueueName
        (process_worker demo_world kafka_proc) Background) [])) = concat segs
    \<and> list_all2 (\<lambda>item cs. reaches (output_topic (pr_kafka kafka_proc))
          (destination (process_worker demo_world kafka_proc) (Some item)) cs) [page_item demo_data] segs"
proof -
  let ?ls = "[Sent (page_item demo_data), Sent (completion_item (ed_RoutingKey demo_data)), Taken (page_item demo_data)]"
  let ?q = "\<lparr>ch_buf = [completion_item (ed_RoutingKey demo_data)], ch_cap = senderQueueCap\<rparr>"
  have "queue_run (make_chan senderQueueCap) ?ls ?q"
    by (simp add: make_chan_def queue_step_simps chan_send_def chan_recv_def senderQueueCap_def)
  moreover have "sent ?ls = sends (trace (main_consume 1 demo_world kafka_proc Background) [])"
    by (subst demo_consume) simp
  moreover have "map Some (taken ?ls) =
      received demo_world [] (trace (Worker_Run 1 demo_world om_QueueName (process_worker demo_world kafka_proc) Background) [])"
    by (subst demo_worker) simp
  ultimately have "\<exists>segs waiting. sends (trace (main_consume 1 demo_world kafka_proc Background) []) = taken ?ls @ waiting
      \<and> length waiting \<le> 1000
      \<and> filter (\<lambda>c. c \<noteq> ChanRecv) (map snd (trace (Worker_Run 1 demo_world om_QueueName
          (process_worker demo_world kafka_proc) Background) [])) = concat segs
      \<and> list_all2 (\<lambda>item cs. reaches (output_topic (pr_kafka kafka_proc))
            (destination (process_worker demo_world kafka_proc) (Some item)) cs) (taken ?ls) segs"
    by (rule queued_items_dispatched_in_order)
  moreover have "taken ?ls = [page_item demo_data]" by simp
  ultimately show ?thesis by metis
qed

section \<open>The completion protocol\<close>

text \<open>
  C4: The contract of the stream technology API, end to end.  Let the goroutines run as in C3, let the counter of a
  routing key never show more than the increments made, and let every total that is read be at least \<open>N\<close>.  Then, when
  the worker sets the status of the key to buffered, at least \<open>N\<close> widgets for it have been dispatched, not
  counting what increments made before the worker's run stood for.
\<close>

theorem buffered_status_after_widgets:
  assumes "queue_run (make_chan senderQueueCap) ls q"
    and "sent ls = sends (trace (main_consume n Wc p ctx) hc)"
    and "map Some (taken ls) = received W h (trace (Worker_Run m W rkf (process_worker W p) ctx) h)"
    and counter: "\<And>h' c k. w_int W (h' @ [(c, counter_incr rk)]) = Inr k \<Longrightarrow> sint k \<le> int (incrs rk h') + 1"
    and total: "\<And>h' c meta t. w_str W (h' @ [(c, meta_get rk)]) = Inr meta \<Longrightarrow>
      unmarshal_total_messages meta = Some t \<Longrightarrow> N \<le> sint t"
    and status: "trace (Worker_Run m W rkf (process_worker W p) ctx) h = pre @ (c, status_set rk) # suf"
  shows "\<exists>items marker segs. received W h pre = map Some items @ [Some marker] \<and> marker_of rk marker
    \<and> filter (\<lambda>c. c \<noteq> ChanRecv) (map snd pre) = concat segs @ [counter_incr rk, meta_get rk]
    \<and> list_all2 (\<lambda>item cs. reaches (output_topic (pr_kafka p)) (destination (process_worker W p) (Some item)) cs)
        items segs
    \<and> N \<le> int (incrs rk h + widgets_of rk items)"
proof -
  obtain pre0 its mk segs k meta t where pre: "pre = pre0 @ [(ctx, counter_incr rk), (ctx, meta_get rk)]"
      "received W h pre = its @ [mk]" "marks rk mk"
      "filter (\<lambda>c. c \<noteq> ChanRecv) (map snd pre0) = concat segs"
      "list_all2 (\<lambda>item cs. reaches (output_topic (pr_kafka p)) (destination (process_worker W p) item) cs) its segs"
      "incrs rk pre0 = length (filter (marks rk) its)"
    and ans: "w_int W (h @ pre0 @ [(ctx, counter_incr rk)]) = Inr k" "w_str W (h @ pre) = Inr meta"
      "unmarshal_total_messages meta = Some t" "sint t \<le> sint k"
    using main_wk.Worker_Run_status [of m W rkf "pr_cfg p" "pr_broker p" "pr_kafka p" ctx h pre c rk suf] status
    unfolding process_worker_def by blast
  have "prefix (its @ [mk]) (map Some (taken ls))"
    using pre(2) assms(3) status by (simp add: received_append prefix_def)
  then have "its @ [mk] = map Some (take (length (its @ [mk])) (taken ls))"
    by (metis append_eq_conv_conj prefixE take_map)
  then obtain ps where ps: "its @ [mk] = map Some ps" "prefix ps (taken ls)"
    using take_is_prefix by metis
  then obtain items marker where it: "ps = items @ [marker]" "its = map Some items" "mk = Some marker"
    by (auto simp: append_eq_map_conv)
  have m: "marker_of rk marker" using pre(3) it by (simp add: marks_def)
  have "prefix (items @ [marker]) (sends (trace (main_consume n Wc p ctx) hc))"
    using ps it make_chan_run(1) [OF assms(1)] assms(2) by (metis prefix_order.trans prefixI)
  then have "markers_of rk (items @ [marker]) \<le> widgets_of rk (items @ [marker])"
    by (rule markers_covered_prefix [OF covers_trace [OF main_consume_covers]])
  then have "Suc (markers_of rk items) \<le> widgets_of rk items"
    using m marker_not_widget [OF m, of rk] by simp
  moreover have "incrs rk pre0 = markers_of rk items"
    using pre(6) it(2) by (simp add: markers_of_def filter_map comp_def marks_def)
  moreover have "N \<le> sint t" "sint k \<le> int (incrs rk (h @ pre0)) + 1"
    using total [of "h @ pre0 @ [(ctx, counter_incr rk)]" ctx meta t] counter [of "h @ pre0" ctx k] ans pre(1)
    by simp_all
  ultimately have "N \<le> int (incrs rk h + widgets_of rk items)" using ans(4) by simp
  then show ?thesis
    using pre it m by (intro exI [of _ items] exI [of _ marker] exI [of _ segs]) (simp add: list_all2_map1)
qed

theorem buffered_status_after_widgets_witness:
  "\<exists>items. map Some items @ [Some (completion_item demo_key)] = [Some (page_item demo_data), Some (completion_item demo_key)]
     \<and> 1 \<le> widgets_of demo_key items"
proof -
  let ?ls = "[Sent (page_item demo_data), Sent (completion_item demo_key),
      Taken (page_item demo_data), Taken (completion_item demo_key)]"
  obtain cmds where t: "trace (Worker_Run 2 buffer_world om_QueueName (process_worker buffer_world kafka_proc) Background) [] =
     [(Background, ChanRecv), (Background, PipelineExec cmds), (Background, ChanRecv), (Background, counter_incr demo_key),
      (Background, meta_get demo_key), (Background, status_set demo_key)]"
    using buffer_run by blast
  have q: "queue_run (make_chan senderQueueCap) ?ls \<lparr>ch_buf = [], ch_cap = senderQueueCap\<rparr>"
    by (simp add: make_chan_def queue_step_simps chan_send_def chan_recv_def senderQueueCap_def)
  have s: "sent ?ls = sends (trace (main_consume 1 demo_world kafka_proc Background) [])"
    by (subst demo_consume) (simp add: demo_key_def)
  have r: "map Some (taken ?ls) = received buffer_world []
      (trace (Worker_Run 2 buffer_world om_QueueName (process_worker buffer_world kafka_proc) Background) [])"
    unfolding t buffer_received by simp
  let ?pre = "[(Background, ChanRecv), (Background, PipelineExec cmds), (Background, ChanRecv),
      (Background, counter_incr demo_key), (Background, meta_get demo_key)]"
  have "received buffer_world [] ?pre = [Some (page_item demo_data), Some (completion_item demo_key)]"
    by (simp add: protocol_defs)
  moreover have "\<exists>items marker segs. received buffer_world [] ?pre = map Some items @ [Some marker] \<and> marker_of demo_key marker
    \<and> filter (\<lambda>c. c \<noteq> ChanRecv) (map snd ?pre) = concat segs @ [counter_incr demo_key, meta_get demo_key]
    \<and> list_all2 (\<lambda>item cs. reaches (output_topic (pr_kafka kafka_proc))
        (destination (process_worker buffer_world kafka_proc) (Some item)) cs) items segs
    \<and> 1 \<le> int (incrs demo_key [] + widgets_of demo_key items)"
  proof (rule buffered_status_after_widgets [OF q s r])
    show "trace (Worker_Run 2 buffer_world om_QueueName (process_worker buffer_world kafka_proc) Background) []
        = ?pre @ (Background, status_set demo_key) # []"
      unfolding t by simp
  qed (auto simp: one_message_total sint_Suc_le)
  ultimately show ?thesis by fastforce
qed

text \<open>
  C16: The status is reached.  If the counter of a routing key counts, the total is there, and the worker has received as
  many markers for the key as are missing to the total, it has set the status to buffered.
\<close>

theorem buffered_status_reached:
  assumes counts: "\<And>h' c. w_int W (h' @ [(c, counter_incr rk)]) = Inr (of_nat (Suc (incrs rk h')))"
    and total: "\<And>h' c. \<exists>meta. w_str W (h' @ [(c, meta_get rk)]) = Inr meta
      \<and> unmarshal_total_messages meta = Some total_msgs"
    and missing: "int (incrs rk h) < sint total_msgs"
    and enough: "sint total_msgs \<le> int (incrs rk h + length (filter (marks rk)
      (received W h (trace (Worker_Run m W rkf (main_worker W cfg b k) ctx) h))))"
  shows "status_set rk \<in> snd ` set (trace (Worker_Run m W rkf (main_worker W cfg b k) ctx) h)"
  by (rule main_wk.Worker_Run_reaches_total [OF counts total missing enough])

theorem buffered_status_reached_witness:
  "status_set demo_key \<in> snd ` set (trace (Worker_Run 2 buffer_world om_QueueName
     (main_worker buffer_world (pr_cfg kafka_proc) (pr_broker kafka_proc) (pr_kafka kafka_proc)) Background) [])"
proof (rule buffered_status_reached)
  obtain cmds where t: "trace (Worker_Run 2 buffer_world om_QueueName (process_worker buffer_world kafka_proc) Background) [] =
     [(Background, ChanRecv), (Background, PipelineExec cmds), (Background, ChanRecv), (Background, counter_incr demo_key),
      (Background, meta_get demo_key), (Background, status_set demo_key)]"
    using buffer_run by blast
  show "sint 1 \<le> int (incrs demo_key [] + length (filter (marks demo_key) (received buffer_world []
      (trace (Worker_Run 2 buffer_world om_QueueName
        (main_worker buffer_world (pr_cfg kafka_proc) (pr_broker kafka_proc) (pr_kafka kafka_proc)) Background) []))))"
    unfolding t [unfolded process_worker_def] buffer_received by simp
qed (simp_all add: one_message_total)

text \<open>
  The sender queue never blocks both of its ends: at any point of any run the consumer can send or the worker
  can receive.
\<close>

lemma sender_queue_not_stuck:
  assumes "queue_run (make_chan senderQueueCap) ls q"
  shows "\<exists>l q'. queue_step q l q' \<and> (sent [l] = [item] \<or> taken [l] \<noteq> [])"
proof -
  have "0 < ch_cap q" using queue_run_fifo [OF assms] by (simp add: make_chan_def senderQueueCap_def)
  then have "chan_send item q \<noteq> None \<or> chan_recv q \<noteq> None" by (rule chan.not_stuck)
  then show ?thesis
  proof
    assume "chan_send item q \<noteq> None"
    then obtain q' where "queue_step q (Sent item) q'" by (auto intro: step_sent)
    then show ?thesis by (intro exI [of _ "Sent item"] exI [of _ q']) simp
  next
    assume "chan_recv q \<noteq> None"
    then obtain x q' where "queue_step q (Taken x) q'" by (auto intro: step_taken)
    then show ?thesis by (intro exI [of _ "Taken x"] exI [of _ q']) simp
  qed
qed

lemma sender_queue_not_stuck_witness:
  "\<exists>l q'. queue_step (make_chan senderQueueCap) l q' \<and> (sent [l] = [completion_item ''user-7''] \<or> taken [l] \<noteq> [])"
  by (rule sender_queue_not_stuck [of "[]"]) auto

end
